(* ===== verification/Prelude.thy ===== *)
theory Prelude
  imports Main "HOL-Library.Word" "HOL-Library.Sublist"
begin

text \<open>
  Vocabulary shared by all components: the collections of rewrite and
  introduction rules the component proofs draw on, names for the C types of
  the source and the generic facts on lists and options that the components
  share.
\<close>

named_theorems emits_intros
  \<open>rules that bound the events a program fragment can emit\<close>

named_theorems io_simps
  \<open>unfolding of the IO combinators\<close>

type_synonym fd = int
type_synonym path = string
type_synonym int32 = "32 word"
type_synonym uint32 = "32 word"
type_synonym uint64 = "64 word"

subsection \<open>Constants of the C headers\<close>

abbreviation (input) PATH_MAX :: nat where "PATH_MAX \<equiv> 4096"
abbreviation (input) NVC_ARG_MAX :: nat where "NVC_ARG_MAX \<equiv> 256"
abbreviation (input) MAXSYMLINKS :: nat where "MAXSYMLINKS \<equiv> 20"

abbreviation (input) EPERM :: nat where "EPERM \<equiv> 1"
abbreviation (input) ENOENT :: nat where "ENOENT \<equiv> 2"
abbreviation (input) EIO :: nat where "EIO \<equiv> 5"
abbreviation (input) ENOMEM :: nat where "ENOMEM \<equiv> 12"
abbreviation (input) EEXIST :: nat where "EEXIST \<equiv> 17"
abbreviation (input) ENOTDIR :: nat where "ENOTDIR \<equiv> 20"
abbreviation (input) EINVAL :: nat where "EINVAL \<equiv> 22"
abbreviation (input) ERANGE :: nat where "ERANGE \<equiv> 34"
abbreviation (input) ENAMETOOLONG :: nat where "ENAMETOOLONG \<equiv> 36"
abbreviation (input) ENOTEMPTY :: nat where "ENOTEMPTY \<equiv> 39"
abbreviation (input) ELOOP :: nat where "ELOOP \<equiv> 40"
abbreviation (input) ELIBACC :: nat where "ELIBACC \<equiv> 79"

subsection \<open>Lists\<close>

text \<open>The first index at which a predicate holds, if any.\<close>

fun find_index_of :: "('a \<Rightarrow> bool) \<Rightarrow> 'a list \<Rightarrow> nat option" where
  "find_index_of P [] = None"
| "find_index_of P (x # xs) =
     (if P x then Some 0 else map_option Suc (find_index_of P xs))"

lemma takeWhile_dropWhile_Cons:
  "dropWhile P xs = y # ys \<Longrightarrow> xs = takeWhile P xs @ y # ys"
  by (metis takeWhile_dropWhile_id)

lemma dropWhile_Cons_head:
  "dropWhile P xs = y # ys \<Longrightarrow> \<not> P y"
  using hd_dropWhile[of P xs] by auto

lemma dropWhile_Cons_length [simp]:
  "dropWhile P xs = y # ys \<Longrightarrow> length ys < length xs"
  using takeWhile_dropWhile_Cons[of P xs y ys]
  by (metis add.commute add_Suc_right length_append length_Cons less_add_Suc1)

lemma find_index_of_None:
  "find_index_of P xs = None \<longleftrightarrow> (\<forall>x \<in> set xs. \<not> P x)"
  by (induction xs) auto

lemma find_index_of_Some:
  "find_index_of P xs = Some i \<Longrightarrow>
     i < length xs \<and> P (xs ! i) \<and> (\<forall>j < i. \<not> P (xs ! j))"
proof (induction xs arbitrary: i)
  case (Cons x xs)
  show ?case
  proof (cases "P x")
    case False
    then obtain k where k: "find_index_of P xs = Some k" "i = Suc k"
      using Cons.prems by auto
    with Cons.IH[OF k(1)] False show ?thesis
      by (auto simp: nth_Cons split: nat.splits)
  qed (use Cons.prems in auto)
qed simp

end
