(* ===== verification/CString.thy ===== *)
theory CString
  imports Prelude
begin

text \<open>
  The part of the C string library the sources use.  A C string is a list of
  non-null characters; the functions that return a pointer into their argument
  return the suffix the pointer denotes.  Characters are classified as in the
  C locale.
\<close>

subsection \<open>Characters\<close>

definition ord :: "char \<Rightarrow> nat" where
  "ord c = of_char c"

definition isdigit :: "char \<Rightarrow> bool" where
  "isdigit c \<longleftrightarrow> 48 \<le> ord c \<and> ord c \<le> 57"

definition isspace :: "char \<Rightarrow> bool" where
  "isspace c \<longleftrightarrow> ord c = 32 \<or> (9 \<le> ord c \<and> ord c \<le> 13)"

definition digit_val :: "char \<Rightarrow> nat" where
  "digit_val c = ord c - 48"

definition digit_char :: "nat \<Rightarrow> char" where
  "digit_char d = char_of (48 + d)"

definition tolower :: "char \<Rightarrow> char" where
  "tolower c = (if 65 \<le> ord c \<and> ord c \<le> 90 then char_of (ord c + 32) else c)"

lemma digit_char_digit:
  assumes "d < 10"
  shows "isdigit (digit_char d)" "digit_val (digit_char d) = d"
  using assms by (simp_all add: isdigit_def digit_val_def digit_char_def ord_def)

lemma isdigit_not_space: "isdigit c \<Longrightarrow> \<not> isspace c"
  by (simp add: isdigit_def isspace_def)

lemma digit_val_less: "isdigit c \<Longrightarrow> digit_val c < 10"
  by (auto simp: isdigit_def digit_val_def)

lemma digit_char_val: "isdigit c \<Longrightarrow> digit_char (digit_val c) = c"
  by (simp add: isdigit_def digit_val_def digit_char_def ord_def)

lemma char_eq_ord: "c = d \<longleftrightarrow> ord c = ord d"
  by (simp add: ord_def)

lemma isdigit_chars: "isdigit c \<longleftrightarrow> c \<in> set ''0123456789''"
proof -
  have "isdigit c \<longleftrightarrow> ord c \<in> {48, 49, 50, 51, 52, 53, 54, 55, 56, 57}"
    by (simp add: isdigit_def) presburger
  also have "\<dots> \<longleftrightarrow> ord c \<in> ord ` set ''0123456789''"
    by (simp add: ord_def)
  also have "\<dots> \<longleftrightarrow> c \<in> set ''0123456789''"
    by (rule inj_image_mem_iff) (auto simp: inj_def char_eq_ord)
  finally show ?thesis .
qed

subsection \<open>Searching and splitting\<close>

text \<open>strsep: the token up to the first delimiter and what follows it.\<close>

definition strsep :: "string \<Rightarrow> string \<Rightarrow> string \<times> string option" where
  "strsep delim s =
     (takeWhile (\<lambda>c. c \<notin> set delim) s,
      (case dropWhile (\<lambda>c. c \<notin> set delim) s of [] \<Rightarrow> None | _ # r \<Rightarrow> Some r))"

lemma strsep_shorter: "strsep d s = (tok, Some r) \<Longrightarrow> length r < length s"
  by (auto simp: strsep_def split: list.splits)

lemma strsep_single: "set s \<inter> set d = {} \<Longrightarrow> strsep d s = (s, None)"
proof -
  assume "set s \<inter> set d = {}"
  then have "dropWhile (\<lambda>c. c \<notin> set d) s = []" "takeWhile (\<lambda>c. c \<notin> set d) s = s"
    by (auto simp: takeWhile_eq_all_conv)
  then show ?thesis by (simp only: strsep_def list.case)
qed

lemma strsep_token: "set t \<inter> set d = {} \<Longrightarrow> c \<in> set d \<Longrightarrow> strsep d (t @ c # s) = (t, Some s)"
  unfolding strsep_def by (simp add: disjoint_iff)

text \<open>The tokens a loop \<open>while ((t = strsep(&ptr, delim)) != NULL)\<close> sees.\<close>

function tokens :: "string \<Rightarrow> string \<Rightarrow> string list" where
  "tokens delim s =
     (case strsep delim s of
        (t, None) \<Rightarrow> [t]
      | (t, Some r) \<Rightarrow> t # tokens delim r)"
  by pat_completeness auto
termination
  by (relation "measure (\<lambda>(d, s). length s)") (auto dest: strsep_shorter [OF sym])

declare tokens.simps [simp del]

lemma tokens_unfold:
  "tokens d s =
     takeWhile (\<lambda>c. c \<notin> set d) s #
     (case dropWhile (\<lambda>c. c \<notin> set d) s of [] \<Rightarrow> [] | _ # r \<Rightarrow> tokens d r)"
  by (subst tokens.simps)
     (simp add: strsep_def split: list.splits del: dropWhile_eq_Nil_conv)

lemma tokens_Nil [simp]: "tokens d [] = [[]]"
  by (simp add: tokens_unfold)

lemma tokens_not_Nil [simp]: "tokens d s \<noteq> []" "[] \<noteq> tokens d s"
  by (subst tokens_unfold, simp)+

lemma tokens_Cons [simp]:
  "tokens d (c # s) =
     (if c \<in> set d then [] # tokens d s
      else case tokens d s of [] \<Rightarrow> [[c]] | t # ts \<Rightarrow> (c # t) # ts)"
proof -
  have "tokens d s = takeWhile (\<lambda>c. c \<notin> set d) s #
     (case dropWhile (\<lambda>c. c \<notin> set d) s of [] \<Rightarrow> [] | _ # r \<Rightarrow> tokens d r)"
    by (rule tokens_unfold)
  then show ?thesis
    by (subst tokens_unfold) simp
qed

lemma tokens_append:
  "c \<in> set d \<Longrightarrow> tokens d (a @ c # b) = tokens d a @ tokens d b"
  by (induction a) (auto split: list.splits)

lemma tokens_no_delim: "t \<in> set (tokens d s) \<Longrightarrow> set t \<inter> set d = {}"
  by (induction s arbitrary: t) (force split: if_splits list.splits)+

lemma tokens_chars: "t \<in> set (tokens d s) \<Longrightarrow> set t \<subseteq> set s"
  by (induction s arbitrary: t) (force split: if_splits list.splits)+

lemma tokens_single [simp]: "set t \<inter> set d = {} \<Longrightarrow> tokens d t = [t]"
  by (induction t) auto

lemma tokens_append_delim:
  "set t \<inter> set d = {} \<Longrightarrow> c \<in> set d \<Longrightarrow> tokens d (t @ c # s) = t # tokens d s"
  by (simp add: tokens_append)

lemma tokens_strsep: "strsep d s = (f, ptr) \<Longrightarrow>
     tokens d s = f # (case ptr of None \<Rightarrow> [] | Some r \<Rightarrow> tokens d r)"
  by (subst tokens.simps) (auto split: option.splits)

lemma strsep_length: "strsep d s = (f, ptr) \<Longrightarrow>
     length s = length f + (case ptr of None \<Rightarrow> 0 | Some r \<Rightarrow> Suc (length r))"
proof -
  assume a: "strsep d s = (f, ptr)"
  have "length s = length (takeWhile (\<lambda>c. c \<notin> set d) s) + length (dropWhile (\<lambda>c. c \<notin> set d) s)"
    by (metis length_append takeWhile_dropWhile_id)
  with a show ?thesis by (auto simp: strsep_def split: list.splits)
qed

lemma all_tokens:
  "(\<forall>t \<in> set (tokens d v). \<forall>c \<in> set t. P c) \<longleftrightarrow> (\<forall>c \<in> set v. c \<in> set d \<or> P c)"
proof (induction v)
  case (Cons c v)
  then show ?case by (cases "tokens d v") auto
qed simp

text \<open>strchr and strrchr, as the text before the character and the text after it.\<close>

fun strchr :: "string \<Rightarrow> char \<Rightarrow> (string \<times> string) option" where
  "strchr [] c = None"
| "strchr (x # s) c =
     (if x = c then Some ([], s)
      else map_option (\<lambda>(a, b). (x # a, b)) (strchr s c))"

definition strrchr :: "string \<Rightarrow> char \<Rightarrow> (string \<times> string) option" where
  "strrchr s c = map_option (\<lambda>(a, b). (rev b, rev a)) (strchr (rev s) c)"

lemma strchr_Some:
  "strchr s c = Some (a, b) \<longleftrightarrow> s = a @ c # b \<and> c \<notin> set a"
proof (induction s arbitrary: a)
  case (Cons x s)
  then show ?case by (cases a) auto
qed simp

lemma strchr_None: "strchr s c = None \<longleftrightarrow> c \<notin> set s"
  by (induction s) auto

lemma strrchr_Some:
  "strrchr s c = Some (a, b) \<longleftrightarrow> s = a @ c # b \<and> c \<notin> set b"
proof -
  have "strrchr s c = Some (a, b) \<longleftrightarrow> strchr (rev s) c = Some (rev b, rev a)"
    by (auto simp: strrchr_def)
  also have "\<dots> \<longleftrightarrow> s = a @ c # b \<and> c \<notin> set b"
    by (simp add: strchr_Some rev_swap)
  finally show ?thesis .
qed

lemma strrchr_None: "strrchr s c = None \<longleftrightarrow> c \<notin> set s"
  by (simp add: strrchr_def strchr_None)

text \<open>strstr: the text before the first occurrence and the text from it on.\<close>

fun strstr :: "string \<Rightarrow> string \<Rightarrow> (string \<times> string) option" where
  "strstr [] k = (if k = [] then Some ([], []) else None)"
| "strstr (x # s) k =
     (if prefix k (x # s) then Some ([], x # s)
      else map_option (\<lambda>(a, b). (x # a, b)) (strstr s k))"

lemma strstr_Some:
  "strstr s k = Some (a, b) \<Longrightarrow> s = a @ b \<and> prefix k b"
  by (induction s arbitrary: a) (auto split: if_splits)

lemma strstr_None:
  "strstr s k = None \<longleftrightarrow> \<not> sublist k s"
  by (induction s) (auto simp: sublist_Cons_right)

text \<open>strncmp on a prefix: equality of the first n characters.\<close>

definition strncmp_eq :: "string \<Rightarrow> string \<Rightarrow> nat \<Rightarrow> bool" where
  "strncmp_eq a b n \<longleftrightarrow> take n a = take n b"

subsection \<open>Numbers\<close>

text \<open>The value of a digit string in base 10.\<close>

fun digits_val :: "nat \<Rightarrow> string \<Rightarrow> nat" where
  "digits_val acc [] = acc"
| "digits_val acc (c # s) = digits_val (10 * acc + digit_val c) s"

text \<open>Decimal printing, as \<open>%d\<close> and \<open>%u\<close> do.\<close>

fun dec :: "nat \<Rightarrow> string" where
  "dec n = (if n < 10 then [digit_char n] else dec (n div 10) @ [digit_char (n mod 10)])"

declare dec.simps [simp del]

definition dec_int :: "int \<Rightarrow> string" where
  "dec_int i = (if i < 0 then CHR ''-'' # dec (nat (- i)) else dec (nat i))"

lemma digits_val_append:
  "digits_val acc (s @ t) = digits_val (digits_val acc s) t"
  by (induction s arbitrary: acc) auto

lemma dec_digits: "list_all isdigit (dec n)"
  by (induction n rule: dec.induct)
     (subst dec.simps, auto simp: digit_char_digit)

lemma dec_not_Nil [simp]: "dec n \<noteq> []"
  by (subst dec.simps) simp

lemma digits_val_dec: "digits_val 0 (dec n) = n"
proof (induction n rule: dec.induct)
  case (1 n)
  then show ?case
    by (subst dec.simps) (auto simp: digits_val_append digit_char_digit)
qed

lemma dec_inj: "dec m = dec n \<Longrightarrow> m = n"
  by (metis digits_val_dec)

text \<open>
  The common part of strtoimax and strtoumax in base 10: leading white space,
  an optional sign, digits.  None when there is no digit (the end pointer is
  then the start of the string), otherwise the sign, the magnitude and the
  rest of the text.
\<close>

definition scan_sign :: "string \<Rightarrow> bool \<times> string" where
  "scan_sign s =
     (case s of
        c # r \<Rightarrow> if c = CHR ''-'' then (True, r)
                 else if c = CHR ''+'' then (False, r) else (False, s)
      | [] \<Rightarrow> (False, s))"

definition scan_num :: "string \<Rightarrow> (bool \<times> nat \<times> string) option" where
  "scan_num s =
     (let (neg, t) = scan_sign (dropWhile isspace s);
          ds = takeWhile isdigit t
      in if ds = [] then None
         else Some (neg, digits_val 0 ds, dropWhile isdigit t))"

definition strtoimax :: "string \<Rightarrow> (int \<times> string) option" where
  "strtoimax s =
     (case scan_num s of
        None \<Rightarrow> None
      | Some (neg, m, r) \<Rightarrow>
          let v = (if neg then - int m else int m)
          in Some (max (- (2 ^ 63)) (min (2 ^ 63 - 1) v), r))"

definition strtoumax :: "string \<Rightarrow> (nat \<times> string) option" where
  "strtoumax s =
     (case scan_num s of
        None \<Rightarrow> None
      | Some (neg, m, r) \<Rightarrow>
          Some (if m \<ge> 2 ^ 64 then 2 ^ 64 - 1
                else if neg then (2 ^ 64 - m) mod 2 ^ 64 else m, r))"

lemma scan_num_shorter: "scan_num s = Some (neg, m, r) \<Longrightarrow> length r < length s"
proof -
  assume a: "scan_num s = Some (neg, m, r)"
  define t where "t = snd (scan_sign (dropWhile isspace s))"
  have t: "length t \<le> length s"
    using length_dropWhile_le[of isspace s]
    by (auto simp: t_def scan_sign_def split: list.splits)
  have "takeWhile isdigit t \<noteq> []" "r = dropWhile isdigit t"
    using a by (auto simp: scan_num_def t_def Let_def split: prod.splits if_splits)
  then have "length r < length t"
    by (metis length_append length_greater_0_conv less_add_same_cancel2 takeWhile_dropWhile_id)
  with t show ?thesis by simp
qed

lemma scan_num_dec:
  assumes "\<not> (\<exists>c r'. r = c # r' \<and> isdigit c)"
  shows "scan_num (dec n @ r) = Some (False, n, r)"
proof -
  obtain c s where c: "dec n = c # s" by (cases "dec n") auto
  have d: "isdigit c" "list_all isdigit s"
    using dec_digits[of n] c by auto
  have tw: "takeWhile isdigit (dec n @ r) = dec n" "dropWhile isdigit (dec n @ r) = r"
    using dec_digits[of n] assms
    by (cases r; auto simp: takeWhile_append dropWhile_append list_all_iff)+
  have sg: "c \<noteq> CHR ''-''" "c \<noteq> CHR ''+''"
    using d(1) by (auto simp: isdigit_def ord_def)
  have "scan_sign (dropWhile isspace (dec n @ r)) = (False, dec n @ r)"
    using d(1) sg by (simp add: c isdigit_not_space scan_sign_def)
  then show ?thesis
    by (simp add: scan_num_def tw digits_val_dec)
qed

lemma scan_num_dec_Nil [simp]: "scan_num (dec n) = Some (False, n, [])"
  using scan_num_dec[of "[]" n] by simp

lemma strtoumax_dec: "n < 2 ^ 64 \<Longrightarrow> strtoumax (dec n) = Some (n, [])"
  by (simp add: strtoumax_def)

end
