(* ===== verification/Sys.thy ===== *)
theory Sys
  imports CString
begin

text \<open>
  The boundary of the program.  Every call to the kernel, to the C library or
  to a linked library that has an effect, or whose answer is not determined by
  its arguments, is a \<open>call\<close>; it is answered by an environment \<open>os\<close> that is a
  parameter of the model, may answer anything, and sees the whole history of
  calls and answers.  A program fragment is a function of the environment and
  of the history that returns its result and the calls it made, in order, with
  the answers it got: theorems about fragments hold for every environment.

  \<open>error\<close> is \<open>struct error\<close> of error_generic.h and \<open>error_vset\<close>, \<open>error_set\<close>,
  \<open>error_setx\<close> the functions of error_generic.c; a fragment that reports an
  error and returns -1 or NULL is a fragment that returns the left summand.
\<close>

unbundle bit_operations_syntax

subsection \<open>Calls, answers, histories\<close>

record stat =
  st_mode :: "32 word"
  st_size :: nat
  st_rdev :: "64 word"
  st_uid :: "32 word"
  st_gid :: "32 word"

text \<open>The two capability sets a libcap state holds that the sources use.\<close>

datatype cap_flag = CAP_EFFECTIVE | CAP_PERMITTED | CAP_INHERITABLE | CAP_AMBIENT

record cap_state =
  cap_effective :: "nat list"
  cap_permitted :: "nat list"
  cap_inheritable :: "nat list"

text \<open>Calls by family; the names without the family are the ones the models use.\<close>

datatype fs_call =
    sc_alloc
  | sc_open path nat
  | sc_open_mode path nat "32 word"
  | sc_openat fd path nat
  | sc_close fd
  | sc_stat path
  | sc_lstat path
  | sc_fstat fd
  | sc_access path
  | sc_faccessat fd path
  | sc_mmap fd nat
  | sc_munmap path

datatype dir_call =
    sc_mkdir path "32 word"
  | sc_symlink string path
  | sc_mknod path "32 word" "64 word"
  | sc_unlink path
  | sc_rmdir path
  | sc_write fd string
  | sc_readlinkat fd path
  | sc_nftw path
  | sc_fopen path
  | sc_getlines fd
  | sc_fclose fd
  | sc_fprintf fd string
  | sc_readdir path
  | sc_glob path
  | sc_umask "32 word"
  | sc_read fd nat
  | sc_lseek fd nat
  | sc_chmod path "32 word"
  | sc_chown path "32 word" "32 word"
  | sc_remove path

datatype cred_call =
    sc_geteuid
  | sc_getegid
  | sc_setfsuid "32 word"
  | sc_setfsgid "32 word"
  | sc_getgroups_count
  | sc_getgroups
  | sc_setgroups "32 word list"
  | sc_setregid "32 word"
  | sc_setreuid "32 word"
  | sc_getpwnam string
  | sc_getpwuid "32 word"
  | sc_getgrnam string
  | sc_no_new_privs

datatype cap_call =
    sc_capbset_read nat
  | sc_capbset_drop nat
  | sc_cap_ambient_clear
  | sc_cap_ambient_raise nat
  | sc_cap_get_proc
  | sc_cap_set_proc cap_state
  | sc_cap_dup cap_state
  | sc_cap_clear_flag cap_state cap_flag
  | sc_cap_set_flag cap_state cap_flag "nat list" bool
  | sc_cap_get_flag cap_state nat cap_flag

datatype ns_call =
    sc_setns fd nat
  | sc_chroot path
  | sc_chdir path
  | sc_fchdir fd
  | sc_pivot_root path path
  | sc_mount "string option" path "string option" "64 word" "string option"
  | sc_umount2 path nat
  | sc_statvfs path

datatype proc_call =
    sc_fork
  | sc_waitpid int
  | sc_kill int nat
  | sc_exec fd "string list" "string list"
  | sc_setrlimit nat
  | sc_seccomp nat
  | sc_prctl nat nat
  | sc_pipe
  | sc_dup2 fd fd
  | sc_socketpair
  | sc_dlopen string
  | sc_dlclose string
  | sc_lib string "int list" "string list"
  | sc_getppid
  | sc_uname
  | sc_puts string

datatype call =
    FS fs_call
  | DirOp dir_call
  | Cred cred_call
  | Cap cap_call
  | NS ns_call
  | Proc proc_call

abbreviation "C_alloc \<equiv> FS sc_alloc"
abbreviation "C_open a b \<equiv> FS (sc_open a b)"
abbreviation "C_open_mode a b c \<equiv> FS (sc_open_mode a b c)"
abbreviation "C_openat a b c \<equiv> FS (sc_openat a b c)"
abbreviation "C_close a \<equiv> FS (sc_close a)"
abbreviation "C_stat a \<equiv> FS (sc_stat a)"
abbreviation "C_lstat a \<equiv> FS (sc_lstat a)"
abbreviation "C_fstat a \<equiv> FS (sc_fstat a)"
abbreviation "C_access a \<equiv> FS (sc_access a)"
abbreviation "C_faccessat a b \<equiv> FS (sc_faccessat a b)"
abbreviation "C_mmap a b \<equiv> FS (sc_mmap a b)"
abbreviation "C_munmap a \<equiv> FS (sc_munmap a)"
abbreviation "C_mkdir a b \<equiv> DirOp (sc_mkdir a b)"
abbreviation "C_symlink a b \<equiv> DirOp (sc_symlink a b)"
abbreviation "C_mknod a b c \<equiv> DirOp (sc_mknod a b c)"
abbreviation "C_unlink a \<equiv> DirOp (sc_unlink a)"
abbreviation "C_rmdir a \<equiv> DirOp (sc_rmdir a)"
abbreviation "C_write a b \<equiv> DirOp (sc_write a b)"
abbreviation "C_readlinkat a b \<equiv> DirOp (sc_readlinkat a b)"
abbreviation "C_nftw a \<equiv> DirOp (sc_nftw a)"
abbreviation "C_fopen a \<equiv> DirOp (sc_fopen a)"
abbreviation "C_getlines a \<equiv> DirOp (sc_getlines a)"
abbreviation "C_fclose a \<equiv> DirOp (sc_fclose a)"
abbreviation "C_fprintf a b \<equiv> DirOp (sc_fprintf a b)"
abbreviation "C_readdir a \<equiv> DirOp (sc_readdir a)"
abbreviation "C_glob a \<equiv> DirOp (sc_glob a)"
abbreviation "C_umask a \<equiv> DirOp (sc_umask a)"
abbreviation "C_read a b \<equiv> DirOp (sc_read a b)"
abbreviation "C_lseek a b \<equiv> DirOp (sc_lseek a b)"
abbreviation "C_chmod a b \<equiv> DirOp (sc_chmod a b)"
abbreviation "C_chown a b c \<equiv> DirOp (sc_chown a b c)"
abbreviation "C_remove a \<equiv> DirOp (sc_remove a)"
abbreviation "C_geteuid \<equiv> Cred sc_geteuid"
abbreviation "C_getegid \<equiv> Cred sc_getegid"
abbreviation "C_setfsuid a \<equiv> Cred (sc_setfsuid a)"
abbreviation "C_setfsgid a \<equiv> Cred (sc_setfsgid a)"
abbreviation "C_getgroups_count \<equiv> Cred sc_getgroups_count"
abbreviation "C_getgroups \<equiv> Cred sc_getgroups"
abbreviation "C_setgroups a \<equiv> Cred (sc_setgroups a)"
abbreviation "C_setregid a \<equiv> Cred (sc_setregid a)"
abbreviation "C_setreuid a \<equiv> Cred (sc_setreuid a)"
abbreviation "C_getpwnam a \<equiv> Cred (sc_getpwnam a)"
abbreviation "C_getpwuid a \<equiv> Cred (sc_getpwuid a)"
abbreviation "C_getgrnam a \<equiv> Cred (sc_getgrnam a)"
abbreviation "C_no_new_privs \<equiv> Cred sc_no_new_privs"
abbreviation "C_capbset_read a \<equiv> Cap (sc_capbset_read a)"
abbreviation "C_capbset_drop a \<equiv> Cap (sc_capbset_drop a)"
abbreviation "C_cap_ambient_clear \<equiv> Cap sc_cap_ambient_clear"
abbreviation "C_cap_ambient_raise a \<equiv> Cap (sc_cap_ambient_raise a)"
abbreviation "C_cap_get_proc \<equiv> Cap sc_cap_get_proc"
abbreviation "C_cap_dup a \<equiv> Cap (sc_cap_dup a)"
abbreviation "C_cap_clear_flag a b \<equiv> Cap (sc_cap_clear_flag a b)"
abbreviation "C_cap_set_flag a b c d \<equiv> Cap (sc_cap_set_flag a b c d)"
abbreviation "C_cap_get_flag a b c \<equiv> Cap (sc_cap_get_flag a b c)"
abbreviation "C_cap_set_proc a \<equiv> Cap (sc_cap_set_proc a)"
abbreviation "C_setns a b \<equiv> NS (sc_setns a b)"
abbreviation "C_chroot a \<equiv> NS (sc_chroot a)"
abbreviation "C_chdir a \<equiv> NS (sc_chdir a)"
abbreviation "C_fchdir a \<equiv> NS (sc_fchdir a)"
abbreviation "C_pivot_root a b \<equiv> NS (sc_pivot_root a b)"
abbreviation "C_mount a b c d e \<equiv> NS (sc_mount a b c d e)"
abbreviation "C_umount2 a b \<equiv> NS (sc_umount2 a b)"
abbreviation "C_statvfs a \<equiv> NS (sc_statvfs a)"
abbreviation "C_fork \<equiv> Proc sc_fork"
abbreviation "C_waitpid a \<equiv> Proc (sc_waitpid a)"
abbreviation "C_kill a b \<equiv> Proc (sc_kill a b)"
abbreviation "C_exec a b c \<equiv> Proc (sc_exec a b c)"
abbreviation "C_setrlimit a \<equiv> Proc (sc_setrlimit a)"
abbreviation "C_seccomp a \<equiv> Proc (sc_seccomp a)"
abbreviation "C_prctl a b \<equiv> Proc (sc_prctl a b)"
abbreviation "C_pipe \<equiv> Proc sc_pipe"
abbreviation "C_dup2 a b \<equiv> Proc (sc_dup2 a b)"
abbreviation "C_socketpair \<equiv> Proc sc_socketpair"
abbreviation "C_dlopen a \<equiv> Proc (sc_dlopen a)"
abbreviation "C_dlclose a \<equiv> Proc (sc_dlclose a)"
abbreviation "C_lib a b c \<equiv> Proc (sc_lib a b c)"
abbreviation "C_getppid \<equiv> Proc sc_getppid"
abbreviation "C_uname \<equiv> Proc sc_uname"
abbreviation "C_puts a \<equiv> Proc (sc_puts a)"

text \<open>What nftw reports of a file: its kind and its size.\<close>

datatype ftw_flag = FTW_F | FTW_DP | FTW_SL | FTW_NS | FTW_DNR

text \<open>
  The outcome of a remote procedure call or of a call into the Go library: no
  reply (with the status of the transport), an error code with a message, or
  result values.
\<close>

datatype reply = NoReply nat | Fault int string | Value "int list" "string list"

datatype ans =
    Failed nat
  | Done
  | RInt int
  | RStr string
  | RStrs "string list"
  | RStat stat
  | RCap cap_state
  | RIds "32 word list"
  | RTree "(path \<times> ftw_flag \<times> nat) list"
  | RReply reply

type_synonym event = "call \<times> ans"
type_synonym trace = "event list"

text \<open>
  The environment: one answer function per type of answer (a descriptor, a
  process or a count is a non-negative integer on success), the value errno
  holds when no failing call has just set it, and the message catalogues of
  the C library and of the linked libraries.
\<close>

record os =
  os_unit :: "trace \<Rightarrow> call \<Rightarrow> nat + unit"
  os_int :: "trace \<Rightarrow> call \<Rightarrow> nat + nat"
  os_id :: "trace \<Rightarrow> call \<Rightarrow> 32 word"
  os_str :: "trace \<Rightarrow> call \<Rightarrow> nat + string"
  os_strs :: "trace \<Rightarrow> call \<Rightarrow> nat + string list"
  os_stat :: "trace \<Rightarrow> call \<Rightarrow> nat + stat"
  os_cap :: "trace \<Rightarrow> call \<Rightarrow> nat + cap_state"
  os_tree :: "trace \<Rightarrow> call \<Rightarrow> nat + (path \<times> ftw_flag \<times> nat) list"
  os_passwd :: "trace \<Rightarrow> call \<Rightarrow> (32 word \<times> 32 word) option"
  os_reply :: "trace \<Rightarrow> call \<Rightarrow> reply"
  os_group :: "trace \<Rightarrow> call \<Rightarrow> 32 word option"
  os_errno :: "trace \<Rightarrow> nat"
  os_strerror :: "nat \<Rightarrow> string"
  os_libmsg :: "trace \<Rightarrow> int \<Rightarrow> string option"

type_synonym 'a io = "os \<Rightarrow> trace \<Rightarrow> 'a \<times> trace"

subsection \<open>struct error\<close>

record error =
  err_code :: int
  err_msg :: "string option"

definition str_lower :: "string \<Rightarrow> string" where
  "str_lower s = map tolower s"

definition error_reset :: "error \<Rightarrow> error" where
  "error_reset err = err\<lparr>err_msg := None, err_code := 0\<rparr>"

definition error_vset :: "int \<Rightarrow> string option \<Rightarrow> string \<Rightarrow> error" where
  "error_vset errcode errmsg text =
     (case errmsg of
        None \<Rightarrow> \<lparr>err_code = errcode, err_msg = Some text\<rparr>
      | Some m \<Rightarrow>
          let full = takeWhile (\<lambda>c. c \<noteq> CHR 0x0A) (text @ '': '' @ m)
          in \<lparr>err_code = errcode,
              err_msg = Some (case strrchr full CHR '':'' of
                                None \<Rightarrow> full
                              | Some (a, b) \<Rightarrow> a @ CHR '':'' # str_lower b)\<rparr>)"

definition error_set :: "(nat \<Rightarrow> string) \<Rightarrow> nat \<Rightarrow> string \<Rightarrow> error" where
  "error_set strerror errno text = error_vset (int errno) (Some (strerror errno)) text"

definition error_setx :: "string \<Rightarrow> error" where
  "error_setx text = error_vset (-1) None text"

lemma err_code_set [simp]: "err_code (error_set f n text) = int n" "err_code (error_setx text) = -1"
  by (simp_all add: error_set_def error_setx_def error_vset_def Let_def)

type_synonym 'a res = "error + 'a"
type_synonym 'a ioE = "'a res io"

subsection \<open>Combinators\<close>

definition ret :: "'a \<Rightarrow> 'a io" where
  "ret x = (\<lambda>os tr. (x, []))"

definition bindS :: "'a io \<Rightarrow> ('a \<Rightarrow> 'b io) \<Rightarrow> 'b io" where
  "bindS m f = (\<lambda>os tr.
     let (x, es) = m os tr; (y, es') = f x os (tr @ es) in (y, es @ es'))"

definition okay :: "'a \<Rightarrow> ('e + 'a) io" where
  "okay x = ret (Inr x)"

definition raise :: "'e \<Rightarrow> ('e + 'a) io" where
  "raise e = ret (Inl e)"

text \<open>Sequencing with an early return on failure.\<close>

definition bindE :: "('e + 'a) io \<Rightarrow> ('a \<Rightarrow> ('e + 'b) io) \<Rightarrow> ('e + 'b) io" where
  "bindE m f = bindS m (\<lambda>r. case r of Inl e \<Rightarrow> raise e | Inr x \<Rightarrow> f x)"

text \<open>Cleanup on the failure path only, and cleanup on both paths.\<close>

definition onfail :: "('e + 'a) io \<Rightarrow> 'b io \<Rightarrow> ('e + 'a) io" where
  "onfail m clean = bindS m (\<lambda>r. case r of
     Inl e \<Rightarrow> bindS clean (\<lambda>_. ret (Inl e)) | Inr x \<Rightarrow> ret (Inr x))"

definition lastly :: "'a io \<Rightarrow> 'b io \<Rightarrow> 'a io" where
  "lastly m clean = bindS m (\<lambda>r. bindS clean (\<lambda>_. ret r))"

definition get_errno :: "nat io" where
  "get_errno = (\<lambda>os tr. (os_errno os tr, []))"

text \<open>\<open>error_set\<close> on the value of errno, \<open>error_setx\<close>.\<close>

definition fail_errno :: "nat \<Rightarrow> string \<Rightarrow> 'a ioE" where
  "fail_errno e text = (\<lambda>os tr. (Inl (error_set (os_strerror os) e text), []))"

definition failx :: "string \<Rightarrow> 'a ioE" where
  "failx text = raise (error_setx text)"

text \<open>A library call whose failure is turned into an error with a message.\<close>

definition or_set :: "(nat + 'a) io \<Rightarrow> string \<Rightarrow> 'a ioE" where
  "or_set m text = bindS m (\<lambda>r. case r of Inl e \<Rightarrow> fail_errno e text | Inr x \<Rightarrow> okay x)"

subsection \<open>Making a call\<close>

definition answer :: "('a \<Rightarrow> ans) \<Rightarrow> nat + 'a \<Rightarrow> ans" where
  "answer f r = (case r of Inl e \<Rightarrow> Failed e | Inr x \<Rightarrow> f x)"

definition call_unit :: "call \<Rightarrow> (nat + unit) io" where
  "call_unit c = (\<lambda>os tr. let r = os_unit os tr c in (r, [(c, answer (\<lambda>_. Done) r)]))"

definition call_int :: "call \<Rightarrow> (nat + int) io" where
  "call_int c = (\<lambda>os tr. let r = map_sum id int (os_int os tr c) in (r, [(c, answer RInt r)]))"

definition call_id :: "call \<Rightarrow> 32 word io" where
  "call_id c = (\<lambda>os tr. let r = os_id os tr c in (r, [(c, RInt (uint r))]))"

definition call_str :: "call \<Rightarrow> (nat + string) io" where
  "call_str c = (\<lambda>os tr. let r = os_str os tr c in (r, [(c, answer RStr r)]))"

definition call_strs :: "call \<Rightarrow> (nat + string list) io" where
  "call_strs c = (\<lambda>os tr. let r = os_strs os tr c in (r, [(c, answer RStrs r)]))"

definition call_stat :: "call \<Rightarrow> (nat + stat) io" where
  "call_stat c = (\<lambda>os tr. let r = os_stat os tr c in (r, [(c, answer RStat r)]))"

definition call_cap :: "call \<Rightarrow> (nat + cap_state) io" where
  "call_cap c = (\<lambda>os tr. let r = os_cap os tr c in (r, [(c, answer RCap r)]))"

definition call_tree :: "call \<Rightarrow> (nat + (path \<times> ftw_flag \<times> nat) list) io" where
  "call_tree c = (\<lambda>os tr. let r = os_tree os tr c in (r, [(c, answer RTree r)]))"

text \<open>Lookups in the user and group databases: uid and gid, gid.\<close>

definition call_passwd :: "call \<Rightarrow> (32 word \<times> 32 word) option io" where
  "call_passwd c = (\<lambda>os tr. let r = os_passwd os tr c
     in (r, [(c, case r of None \<Rightarrow> Failed ENOENT | Some (u, g) \<Rightarrow> RIds [u, g])]))"

definition call_group :: "call \<Rightarrow> 32 word option io" where
  "call_group c = (\<lambda>os tr. let r = os_group os tr c
     in (r, [(c, case r of None \<Rightarrow> Failed ENOENT | Some g \<Rightarrow> RIds [g])]))"

definition call_reply :: "call \<Rightarrow> reply io" where
  "call_reply c = (\<lambda>os tr. let r = os_reply os tr c in (r, [(c, RReply r)]))"

text \<open>A call whose outcome the sources ignore.\<close>

definition call_void :: "call \<Rightarrow> unit io" where
  "call_void c = bindS (call_unit c) (\<lambda>_. ret ())"

lemmas call_defs = call_unit_def call_int_def call_id_def call_str_def
  call_strs_def call_stat_def call_cap_def call_tree_def call_passwd_def call_group_def
  call_reply_def

subsection \<open>Unfolding a run\<close>

lemma ret_run [simp]: "ret x os tr = (x, [])"
  by (simp add: ret_def)

lemma okay_run [simp]: "okay x os tr = (Inr x, [])"
  by (simp add: okay_def)

lemma raise_run [simp]: "raise e os tr = (Inl e, [])"
  by (simp add: raise_def)

lemma fail_errno_run [simp]:
  "fail_errno e text os tr = (Inl (error_set (os_strerror os) e text), [])"
  by (simp add: fail_errno_def)

lemma failx_run [simp]: "failx text os tr = (Inl (error_setx text), [])"
  by (simp add: failx_def)

lemma get_errno_run [simp]: "get_errno os tr = (os_errno os tr, [])"
  by (simp add: get_errno_def)

lemma bindS_eq:
  "bindS m f os tr = (y, es) \<longleftrightarrow>
     (\<exists>x es1 es2. m os tr = (x, es1) \<and> f x os (tr @ es1) = (y, es2) \<and> es = es1 @ es2)"
  by (auto simp: bindS_def split: prod.splits)

lemma bindE_okay: "bindE (okay x) f = f x"
  by (rule ext)+ (simp add: bindE_def bindS_def)

lemma bindE_assoc: "bindE (bindE m f) g = bindE m (\<lambda>x. bindE (f x) g)"
  by (rule ext)+ (auto simp: bindE_def bindS_def split: sum.splits prod.splits)

lemma bindE_Inr:
  "bindE m f os tr = (Inr y, es) \<longleftrightarrow>
     (\<exists>x es1 es2. m os tr = (Inr x, es1) \<and> f x os (tr @ es1) = (Inr y, es2) \<and> es = es1 @ es2)"
  by (cases "m os tr"; cases "fst (m os tr)") (auto simp: bindE_def bindS_eq)

lemma bindE_Inl:
  "bindE m f os tr = (Inl e, es) \<longleftrightarrow>
     m os tr = (Inl e, es) \<or>
     (\<exists>x es1 es2. m os tr = (Inr x, es1) \<and> f x os (tr @ es1) = (Inl e, es2) \<and> es = es1 @ es2)"
  by (cases "m os tr"; cases "fst (m os tr)") (auto simp: bindE_def bindS_eq)

lemma onfail_Inr:
  "onfail m c os tr = (Inr y, es) \<longleftrightarrow> m os tr = (Inr y, es)"
  by (cases "m os tr"; cases "fst (m os tr)") (auto simp: onfail_def bindS_eq)

lemma onfail_Inl:
  "onfail m c os tr = (Inl e, es) \<longleftrightarrow>
     (\<exists>es1 x es2. m os tr = (Inl e, es1) \<and> c os (tr @ es1) = (x, es2) \<and> es = es1 @ es2)"
  by (cases "m os tr"; cases "fst (m os tr)") (auto simp: onfail_def bindS_eq)

lemma lastly_eq:
  "lastly m c os tr = (y, es) \<longleftrightarrow>
     (\<exists>es1 x es2. m os tr = (y, es1) \<and> c os (tr @ es1) = (x, es2) \<and> es = es1 @ es2)"
  by (auto simp: lastly_def bindS_eq)

lemma or_set_Inr:
  "or_set m text os tr = (Inr y, es) \<longleftrightarrow> m os tr = (Inr y, es)"
  by (cases "m os tr"; cases "fst (m os tr)") (auto simp: or_set_def bindS_eq)

lemma or_set_Inl:
  "or_set m text os tr = (Inl e, es) \<longleftrightarrow>
     (\<exists>n. m os tr = (Inl n, es) \<and> e = error_set (os_strerror os) n text)"
  by (cases "m os tr"; cases "fst (m os tr)") (auto simp: or_set_def bindS_eq)

lemma call_unit_eq:
  "call_unit c os tr = (r, es) \<longleftrightarrow> os_unit os tr c = r \<and> es = [(c, answer (\<lambda>_. Done) r)]"
  by (auto simp: call_unit_def Let_def)

lemma call_int_eq:
  "call_int c os tr = (r, es) \<longleftrightarrow>
     map_sum id int (os_int os tr c) = r \<and> es = [(c, answer RInt r)]"
  by (auto simp: call_int_def Let_def)

lemma call_id_eq:
  "call_id c os tr = (r, es) \<longleftrightarrow> os_id os tr c = r \<and> es = [(c, RInt (uint r))]"
  by (auto simp: call_id_def Let_def)

lemma call_str_eq:
  "call_str c os tr = (r, es) \<longleftrightarrow> os_str os tr c = r \<and> es = [(c, answer RStr r)]"
  by (auto simp: call_str_def Let_def)

lemma call_strs_eq:
  "call_strs c os tr = (r, es) \<longleftrightarrow> os_strs os tr c = r \<and> es = [(c, answer RStrs r)]"
  by (auto simp: call_strs_def Let_def)

lemma call_stat_eq:
  "call_stat c os tr = (r, es) \<longleftrightarrow> os_stat os tr c = r \<and> es = [(c, answer RStat r)]"
  by (auto simp: call_stat_def Let_def)

lemma call_cap_eq:
  "call_cap c os tr = (r, es) \<longleftrightarrow> os_cap os tr c = r \<and> es = [(c, answer RCap r)]"
  by (auto simp: call_cap_def Let_def)

lemma call_tree_eq:
  "call_tree c os tr = (r, es) \<longleftrightarrow> os_tree os tr c = r \<and> es = [(c, answer RTree r)]"
  by (auto simp: call_tree_def Let_def)

lemma call_passwd_eq:
  "call_passwd c os tr = (r, es) \<longleftrightarrow> os_passwd os tr c = r \<and>
     es = [(c, case r of None \<Rightarrow> Failed ENOENT | Some (u, g) \<Rightarrow> RIds [u, g])]"
  by (auto simp: call_passwd_def Let_def)

lemma call_group_eq:
  "call_group c os tr = (r, es) \<longleftrightarrow> os_group os tr c = r \<and>
     es = [(c, case r of None \<Rightarrow> Failed ENOENT | Some g \<Rightarrow> RIds [g])]"
  by (auto simp: call_group_def Let_def)

lemma call_reply_eq:
  "call_reply c os tr = (r, es) \<longleftrightarrow> os_reply os tr c = r \<and> es = [(c, RReply r)]"
  by (auto simp: call_reply_def Let_def)

lemma call_void_eq:
  "call_void c os tr = (r, es) \<longleftrightarrow> es = [(c, answer (\<lambda>_. Done) (os_unit os tr c))]"
  by (auto simp: call_void_def bindS_eq call_unit_eq)

lemmas run_simps =
  bindS_eq bindE_Inr bindE_Inl onfail_Inr onfail_Inl lastly_eq or_set_Inr or_set_Inl
  call_unit_eq call_int_eq call_id_eq call_str_eq call_strs_eq call_stat_eq call_cap_eq
  call_void_eq call_tree_eq call_passwd_eq call_group_eq call_reply_eq

lemma answer_simps [simp]:
  "answer f (Inl e) = Failed e" "answer f (Inr x) = f x"
  by (simp_all add: answer_def)

subsection \<open>Bounding the events of a fragment\<close>

text \<open>Every call the fragment makes, in any environment, satisfies \<open>P\<close>.\<close>

definition emits :: "(event \<Rightarrow> bool) \<Rightarrow> 'a io \<Rightarrow> bool" where
  "emits P m \<longleftrightarrow> (\<forall>os tr. list_all P (snd (m os tr)))"

lemma emitsD: "emits P m \<Longrightarrow> m os tr = (r, es) \<Longrightarrow> e \<in> set es \<Longrightarrow> P e"
  unfolding emits_def by (metis list_all_iff snd_conv)

lemma emits_events: "emits P m \<Longrightarrow> m os tr = (r, es) \<Longrightarrow> \<forall>e \<in> set es. P e"
  by (auto dest: emitsD)

lemma emits_ret [emits_intros]: "emits P (ret x)"
  by (simp add: emits_def)

lemma emits_pure [simp, emits_intros]: "emits P (\<lambda>os tr. (f os tr, []))"
  by (simp add: emits_def)

lemma emits_okay [emits_intros]: "emits P (okay x)"
  by (simp add: emits_def)

lemma emits_raise [emits_intros]: "emits P (raise e)"
  by (simp add: emits_def)

lemma emits_fail_errno [emits_intros]: "emits P (fail_errno e t)"
  by (simp add: emits_def)

lemma emits_failx [emits_intros]: "emits P (failx t)"
  by (simp add: emits_def)

lemma emits_get_errno [emits_intros]: "emits P get_errno"
  by (simp add: emits_def)

lemma emits_bindS [emits_intros]:
  "emits P m \<Longrightarrow> (\<And>x. emits P (f x)) \<Longrightarrow> emits P (bindS m f)"
  by (simp add: emits_def bindS_def split: prod.splits) (metis snd_conv)

lemma emits_bindE [emits_intros]:
  "emits P m \<Longrightarrow> (\<And>x. emits P (f x)) \<Longrightarrow> emits P (bindE m f)"
  unfolding bindE_def
  by (rule emits_bindS) (auto split: sum.split intro: emits_raise)

lemma emits_onfail [emits_intros]:
  "emits P m \<Longrightarrow> emits P c \<Longrightarrow> emits P (onfail m c)"
  unfolding onfail_def
  by (rule emits_bindS) (auto split: sum.split intro: emits_ret emits_bindS)

lemma emits_lastly [emits_intros]:
  "emits P m \<Longrightarrow> emits P c \<Longrightarrow> emits P (lastly m c)"
  unfolding lastly_def by (intro emits_intros)

lemma emits_or_set [emits_intros]: "emits P m \<Longrightarrow> emits P (or_set m t)"
  unfolding or_set_def
  by (rule emits_bindS) (auto split: sum.split intro: emits_fail_errno emits_okay)

lemma emits_if [emits_intros]:
  "(b \<Longrightarrow> emits P m) \<Longrightarrow> (\<not> b \<Longrightarrow> emits P m') \<Longrightarrow> emits P (if b then m else m')"
  by simp

lemma emits_case_sum [emits_intros]:
  "(\<And>e. r = Inl e \<Longrightarrow> emits P (f e)) \<Longrightarrow> (\<And>x. r = Inr x \<Longrightarrow> emits P (g x))
    \<Longrightarrow> emits P (case r of Inl e \<Rightarrow> f e | Inr x \<Rightarrow> g x)"
  by (cases r) auto

lemma emits_case_option [emits_intros]:
  "(r = None \<Longrightarrow> emits P m) \<Longrightarrow> (\<And>x. r = Some x \<Longrightarrow> emits P (g x))
    \<Longrightarrow> emits P (case r of None \<Rightarrow> m | Some x \<Rightarrow> g x)"
  by (cases r) auto

lemma emits_case_prod [emits_intros]:
  "(\<And>a b. r = (a, b) \<Longrightarrow> emits P (f a b)) \<Longrightarrow> emits P (case r of (a, b) \<Rightarrow> f a b)"
  by (cases r) auto

lemma emits_Let [emits_intros]: "(\<And>x. x = v \<Longrightarrow> emits P (f x)) \<Longrightarrow> emits P (let x = v in f x)"
  by simp

lemma emits_case_list [emits_intros]:
  "(r = [] \<Longrightarrow> emits P m) \<Longrightarrow> (\<And>x xs. r = x # xs \<Longrightarrow> emits P (g x xs))
    \<Longrightarrow> emits P (case r of [] \<Rightarrow> m | x # xs \<Rightarrow> g x xs)"
  by (cases r) auto

lemma emits_call [emits_intros]:
  "(\<And>a. P (c, a)) \<Longrightarrow> emits P (call_unit c)"
  "(\<And>a. P (c, a)) \<Longrightarrow> emits P (call_int c)"
  "(\<And>a. P (c, a)) \<Longrightarrow> emits P (call_id c)"
  "(\<And>a. P (c, a)) \<Longrightarrow> emits P (call_str c)"
  "(\<And>a. P (c, a)) \<Longrightarrow> emits P (call_strs c)"
  "(\<And>a. P (c, a)) \<Longrightarrow> emits P (call_stat c)"
  "(\<And>a. P (c, a)) \<Longrightarrow> emits P (call_cap c)"
  "(\<And>a. P (c, a)) \<Longrightarrow> emits P (call_tree c)"
  "(\<And>a. P (c, a)) \<Longrightarrow> emits P (call_passwd c)"
  "(\<And>a. P (c, a)) \<Longrightarrow> emits P (call_group c)"
  "(\<And>a. P (c, a)) \<Longrightarrow> emits P (call_reply c)"
  "(\<And>a. P (c, a)) \<Longrightarrow> emits P (call_void c)"
  by (simp_all add: emits_def call_defs call_void_def bindS_def Let_def)

lemma no_events:
  assumes "\<And>P. emits P m" and "m os tr = (r, es)"
  shows "es = []"
  using emitsD[OF assms(1)[of "\<lambda>_. False"] assms(2)] by (cases es) auto

lemma emits_weaken: "emits P m \<Longrightarrow> (\<And>e. P e \<Longrightarrow> Q e) \<Longrightarrow> emits Q m"
  by (auto simp: emits_def list_all_iff)

subsection \<open>A concrete environment\<close>

text \<open>
  An environment in which every call succeeds, nothing is a symbolic link and
  every file is an empty directory: concrete runs are evaluated in it and in
  its variations.
\<close>

definition calm :: os where
  "calm = \<lparr>
     os_unit = (\<lambda>tr c. Inr ()),
     os_int = (\<lambda>tr c. Inr (3 + length tr)),
     os_id = (\<lambda>tr c. 0),
     os_str = (\<lambda>tr c. Inl EINVAL),
     os_strs = (\<lambda>tr c. Inr []),
     os_stat = (\<lambda>tr c. Inr \<lparr>st_mode = 16877, st_size = 0, st_rdev = 0, st_uid = 0, st_gid = 0\<rparr>),
     os_cap = (\<lambda>tr c. Inr \<lparr>cap_effective = [], cap_permitted = [], cap_inheritable = []\<rparr>),
     os_tree = (\<lambda>tr c. Inr []),
     os_passwd = (\<lambda>tr c. Some (1000, 1000)),
     os_reply = (\<lambda>tr c. Value [0] [[]]),
     os_group = (\<lambda>tr c. Some 1000),
     os_errno = (\<lambda>tr. EIO),
     os_strerror = (\<lambda>n. ''Error''),
     os_libmsg = (\<lambda>tr n. None)\<rparr>"

lemma calm_answers [simp]:
  "os_unit calm tr c = Inr ()" "os_int calm tr c = Inr (3 + length tr)" "os_id calm tr c = 0"
  "os_str calm tr c = Inl EINVAL" "os_strs calm tr c = Inr []"
  "os_stat calm tr c = Inr \<lparr>st_mode = 16877, st_size = 0, st_rdev = 0, st_uid = 0, st_gid = 0\<rparr>"
  "os_cap calm tr c = Inr \<lparr>cap_effective = [], cap_permitted = [], cap_inheritable = []\<rparr>"
  "os_tree calm tr c = Inr []" "os_passwd calm tr c = Some (1000, 1000)"
  "os_group calm tr c = Some 1000" "os_reply calm tr c = Value [0] [[]]" "os_errno calm tr = EIO" "os_strerror calm n = ''Error''"
  "os_libmsg calm tr n' = None"
  by (simp_all add: calm_def)

text \<open>Evaluation of a run in a concrete environment.\<close>

lemmas eval_simps = bindS_def bindE_def onfail_def lastly_def or_set_def call_defs call_void_def

end
