(* ===== verification/XFuncs.thy ===== *)
theory XFuncs
  imports Sys
begin

text \<open>
  xfuncs.h: the wrappers that turn the failure of a library call into a
  \<open>struct error\<close>, and the flag and mode constants of the C headers.
\<close>

unbundle bit_operations_syntax

subsection \<open>Header constants\<close>

abbreviation (input) O_RDONLY :: nat where "O_RDONLY \<equiv> 0"
abbreviation (input) O_WRONLY :: nat where "O_WRONLY \<equiv> 1"
abbreviation (input) O_CREAT :: nat where "O_CREAT \<equiv> 64"
abbreviation (input) O_TRUNC :: nat where "O_TRUNC \<equiv> 512"
abbreviation (input) O_DIRECTORY :: nat where "O_DIRECTORY \<equiv> 65536"
abbreviation (input) O_NOFOLLOW :: nat where "O_NOFOLLOW \<equiv> 131072"
abbreviation (input) O_CLOEXEC :: nat where "O_CLOEXEC \<equiv> 524288"
abbreviation (input) O_PATH :: nat where "O_PATH \<equiv> 2097152"

text \<open>File types: S_IFMT is 0170000, S_IFDIR 040000, S_IFREG 0100000, S_IFLNK 0120000,
  S_IFCHR 020000.\<close>

abbreviation (input) S_IFMT :: "32 word" where "S_IFMT \<equiv> 61440"
abbreviation (input) S_IFDIR :: "32 word" where "S_IFDIR \<equiv> 16384"
abbreviation (input) S_IFREG :: "32 word" where "S_IFREG \<equiv> 32768"
abbreviation (input) S_IFLNK :: "32 word" where "S_IFLNK \<equiv> 40960"
abbreviation (input) S_IFCHR :: "32 word" where "S_IFCHR \<equiv> 8192"

definition S_ISDIR :: "32 word \<Rightarrow> bool" where "S_ISDIR m \<longleftrightarrow> m AND S_IFMT = S_IFDIR"
definition S_ISREG :: "32 word \<Rightarrow> bool" where "S_ISREG m \<longleftrightarrow> m AND S_IFMT = S_IFREG"
definition S_ISLNK :: "32 word \<Rightarrow> bool" where "S_ISLNK m \<longleftrightarrow> m AND S_IFMT = S_IFLNK"

text \<open>utils.h: MODE_DIR, MODE_REG, MODE_LNK.\<close>

definition MODE_DIR :: "32 word \<Rightarrow> 32 word" where "MODE_DIR m = m OR S_IFDIR"
definition MODE_REG :: "32 word \<Rightarrow> 32 word" where "MODE_REG m = m OR S_IFREG"
definition MODE_LNK :: "32 word \<Rightarrow> 32 word" where "MODE_LNK m = m OR S_IFLNK"

subsection \<open>Wrappers\<close>

definition xclose :: "fd \<Rightarrow> unit io" where
  "xclose fd = (if fd < 0 then ret () else call_void (C_close fd))"

definition xopen :: "path \<Rightarrow> nat \<Rightarrow> fd ioE" where
  "xopen p flags = or_set (call_int (C_open p flags)) (''open failed: '' @ p)"

definition xcalloc :: "unit ioE" where
  "xcalloc = or_set (call_unit C_alloc) ''memory allocation failed''"

definition xstat :: "path \<Rightarrow> stat ioE" where
  "xstat p = or_set (call_stat (C_stat p)) (''stat failed: '' @ p)"

definition xlstat :: "path \<Rightarrow> stat ioE" where
  "xlstat p = or_set (call_stat (C_lstat p)) (''stat failed: '' @ p)"

definition xfopen :: "path \<Rightarrow> fd ioE" where
  "xfopen p = or_set (call_int (C_fopen p)) (''open failed: '' @ p)"

definition xstrdup :: "string \<Rightarrow> string ioE" where
  "xstrdup s = bindE (or_set (call_unit C_alloc) ''memory allocation failed'') (\<lambda>_. okay s)"

text \<open>The text is the formatted string.\<close>

definition xasprintf :: "string \<Rightarrow> string ioE" where
  "xasprintf text = bindE (or_set (call_unit C_alloc) ''memory allocation failed'') (\<lambda>_. okay text)"

definition xsnprintf :: "nat \<Rightarrow> string \<Rightarrow> string ioE" where
  "xsnprintf cap text =
     (if length text \<ge> cap then failx ''string formatting failed'' else okay text)"

definition xmount ::
  "string option \<Rightarrow> path \<Rightarrow> string option \<Rightarrow> 64 word \<Rightarrow> string option \<Rightarrow> unit ioE" where
  "xmount source target fstype flags data =
     or_set (call_unit (C_mount source target fstype flags data))
       (''mount operation failed: '' @
          (case source of
             Some s \<Rightarrow> if take 1 s = ''/'' then s else target
           | None \<Rightarrow> target))"

text \<open>GLOB_NOMATCH is the empty list; any other failure carries errno.\<close>

definition xglob :: "string \<Rightarrow> string list ioE" where
  "xglob pattern = bindS (call_strs (C_glob pattern)) (\<lambda>r.
     case r of
       Inr ps \<Rightarrow> okay ps
     | Inl e \<Rightarrow> if e \<noteq> ENOENT then fail_errno e (''glob search failed: '' @ pattern)
               else okay [])"

text \<open>dlopen and dlclose; the message is dlerror's.\<close>

definition error_set_dl :: "string option \<Rightarrow> string \<Rightarrow> error" where
  "error_set_dl dlerror text = error_vset (int ELIBACC) dlerror text"

definition xdlopen :: "string \<Rightarrow> unit ioE" where
  "xdlopen filename =
     bindS (call_unit (C_dlopen filename)) (\<lambda>r os tr. case r of
       Inr _ \<Rightarrow> (Inr (), [])
     | Inl _ \<Rightarrow> (Inl (error_set_dl (os_libmsg os tr (int ELIBACC)) ''load library failed''), []))"

definition xdlclose :: "string option \<Rightarrow> unit ioE" where
  "xdlclose handle =
     (case handle of
        None \<Rightarrow> okay ()
      | Some h \<Rightarrow>
          bindS (call_unit (C_dlclose h)) (\<lambda>r os tr. case r of
            Inr _ \<Rightarrow> (Inr (), [])
          | Inl _ \<Rightarrow> (Inl (error_set_dl (os_libmsg os tr (int ELIBACC)) ''unload library failed''), [])))"

text \<open>
  The end of the process: nothing that the model of a caller does after this
  value is executed.
\<close>

definition exited :: "nat \<Rightarrow> error" where
  "exited status = \<lparr>err_code = - 256 - int status, err_msg = None\<rparr>"

text \<open>The end of the process by a signal: a failed assertion, a division by zero.\<close>

definition killed :: "nat \<Rightarrow> error" where
  "killed sig = \<lparr>err_code = - 512 - int sig, err_msg = None\<rparr>"

subsection \<open>Runs of the wrappers\<close>

lemma xopen_Inr:
  "xopen p f os tr = (Inr fd, es) \<longleftrightarrow>
     (\<exists>n. os_int os tr (C_open p f) = Inr n \<and> fd = int n) \<and> es = [(C_open p f, RInt fd)]"
  by (cases "os_int os tr (C_open p f)") (auto simp: xopen_def run_simps)

lemma xopen_Inl:
  "xopen p f os tr = (Inl e, es) \<longleftrightarrow>
     (\<exists>n. os_int os tr (C_open p f) = Inl n \<and> es = [(C_open p f, Failed n)] \<and>
          e = error_set (os_strerror os) n (''open failed: '' @ p))"
  by (cases "os_int os tr (C_open p f)") (auto simp: xopen_def run_simps)

lemma xclose_run:
  "xclose fd os tr = (r, es) \<longleftrightarrow>
     es = (if fd < 0 then [] else [(C_close fd, answer (\<lambda>_. Done) (os_unit os tr (C_close fd)))])"
  by (auto simp: xclose_def run_simps)

lemma xstrdup_Inr:
  "xstrdup s os tr = (Inr t, es) \<longleftrightarrow>
     t = s \<and> os_unit os tr C_alloc = Inr () \<and> es = [(C_alloc, Done)]"
  by (auto simp: xstrdup_def run_simps)

lemma xasprintf_Inr:
  "xasprintf s os tr = (Inr t, es) \<longleftrightarrow>
     t = s \<and> os_unit os tr C_alloc = Inr () \<and> es = [(C_alloc, Done)]"
  by (auto simp: xasprintf_def run_simps)

lemma xcalloc_Inr:
  "xcalloc os tr = (Inr u, es) \<longleftrightarrow> os_unit os tr C_alloc = Inr () \<and> es = [(C_alloc, Done)]"
  by (auto simp: xcalloc_def run_simps)

lemma xmount_Inr:
  "xmount s t f fl d os tr = (Inr u, es) \<longleftrightarrow>
     os_unit os tr (C_mount s t f fl d) = Inr () \<and> es = [(C_mount s t f fl d, Done)]"
  by (auto simp: xmount_def run_simps)

lemmas xfuncs_defs = xclose_def xopen_def xcalloc_def xstat_def xlstat_def xfopen_def
  xstrdup_def xasprintf_def xsnprintf_def xmount_def xglob_def

lemma emits_xclose [emits_intros]: "(\<And>a. P (C_close fd, a)) \<Longrightarrow> emits P (xclose fd)"
  unfolding xclose_def by (intro emits_intros)

lemma emits_xopen [emits_intros]: "(\<And>a. P (C_open p f, a)) \<Longrightarrow> emits P (xopen p f)"
  unfolding xopen_def by (intro emits_intros)

lemma emits_xcalloc [emits_intros]: "(\<And>a. P (C_alloc, a)) \<Longrightarrow> emits P xcalloc"
  unfolding xcalloc_def by (intro emits_intros)

lemma emits_xstat [emits_intros]: "(\<And>a. P (C_stat p, a)) \<Longrightarrow> emits P (xstat p)"
  unfolding xstat_def by (intro emits_intros)

lemma emits_xlstat [emits_intros]: "(\<And>a. P (C_lstat p, a)) \<Longrightarrow> emits P (xlstat p)"
  unfolding xlstat_def by (intro emits_intros)

lemma emits_xfopen [emits_intros]: "(\<And>a. P (C_fopen p, a)) \<Longrightarrow> emits P (xfopen p)"
  unfolding xfopen_def by (intro emits_intros)

lemma emits_xstrdup [emits_intros]: "(\<And>a. P (C_alloc, a)) \<Longrightarrow> emits P (xstrdup s)"
  unfolding xstrdup_def by (intro emits_intros)

lemma emits_xasprintf [emits_intros]: "(\<And>a. P (C_alloc, a)) \<Longrightarrow> emits P (xasprintf s)"
  unfolding xasprintf_def by (intro emits_intros)

lemma emits_xsnprintf [emits_intros]: "emits P (xsnprintf n s)"
  unfolding xsnprintf_def by (intro emits_intros)

lemma emits_xmount [emits_intros]:
  "(\<And>a. P (C_mount s t f fl d, a)) \<Longrightarrow> emits P (xmount s t f fl d)"
  unfolding xmount_def by (intro emits_intros)

lemma emits_xglob [emits_intros]: "(\<And>a. P (C_glob p, a)) \<Longrightarrow> emits P (xglob p)"
  unfolding xglob_def by (intro emits_intros)

end
