(* ===== verification/StrUtils.thy ===== *)
theory StrUtils
  imports XFuncs
begin

text \<open>
  utils.c, the str_ and array_ families: comparison and matching of strings,
  parsing of process, user and group identifiers, and the operations on
  arrays of strings.  An array slot that may hold NULL is an option.
\<close>

subsection \<open>Strings\<close>

definition str_equal :: "string \<Rightarrow> string \<Rightarrow> bool" where
  "str_equal s1 s2 \<longleftrightarrow> s1 = s2"

definition str_case_equal :: "string \<Rightarrow> string \<Rightarrow> bool" where
  "str_case_equal s1 s2 \<longleftrightarrow> map tolower s1 = map tolower s2"

definition str_has_prefix :: "string \<Rightarrow> string \<Rightarrow> bool" where
  "str_has_prefix str pre \<longleftrightarrow> strncmp_eq str pre (length pre)"

definition str_has_suffix :: "string \<Rightarrow> string \<Rightarrow> bool" where
  "str_has_suffix str suf \<longleftrightarrow>
     (if length str \<ge> length suf then str_equal (drop (length str - length suf) str) suf
      else False)"

definition str_empty :: "string option \<Rightarrow> bool" where
  "str_empty s \<longleftrightarrow> (case s of None \<Rightarrow> False | Some t \<Rightarrow> t = [])"

fun str_array_match_prefix :: "string \<Rightarrow> string list \<Rightarrow> bool" where
  "str_array_match_prefix str [] = False"
| "str_array_match_prefix str (a # arr) =
     (if str_has_prefix str a then True else str_array_match_prefix str arr)"

fun str_array_match :: "string \<Rightarrow> string list \<Rightarrow> bool" where
  "str_array_match str [] = False"
| "str_array_match str (a # arr) =
     (if str_equal str a then True else str_array_match str arr)"

text \<open>\<open>*s1\<close> is None when the pointer is NULL.\<close>

definition str_join :: "string option \<Rightarrow> string \<Rightarrow> string \<Rightarrow> string ioE" where
  "str_join s1 s2 sep =
     bindE (or_set (call_unit C_alloc) ''memory allocation failed'') (\<lambda>_.
       okay (case s1 of
               None \<Rightarrow> s2
             | Some b \<Rightarrow> (if b \<noteq> [] then b @ sep else b) @ s2))"

definition extract_path :: "string \<Rightarrow> string \<Rightarrow> string option" where
  "extract_path src_path keyword =
     (case strstr src_path keyword of
        None \<Rightarrow> None
      | Some (before, at) \<Rightarrow> Some (take (length before + length keyword) src_path))"

lemma str_has_prefix_iff [simp]: "str_has_prefix s p \<longleftrightarrow> prefix p s"
  by (auto simp: str_has_prefix_def strncmp_eq_def prefix_def)
     (metis append_take_drop_id)

lemma str_has_suffix_iff: "str_has_suffix s p \<longleftrightarrow> suffix p s"
  by (auto simp: str_has_suffix_def str_equal_def suffix_def)
     (metis append_take_drop_id)

lemma str_array_match_iff: "str_array_match s arr \<longleftrightarrow> s \<in> set arr"
  by (induction arr) (auto simp: str_equal_def)

lemma str_array_match_prefix_iff:
  "str_array_match_prefix s arr \<longleftrightarrow> (\<exists>a \<in> set arr. prefix a s)"
  by (induction arr) auto

subsection \<open>Identifiers\<close>

definition str_to_pid :: "string \<Rightarrow> int ioE" where
  "str_to_pid str =
     (case strtoimax str of
        None \<Rightarrow> fail_errno EINVAL ''parse pid failed''
      | Some (n, rest) \<Rightarrow>
          if rest \<noteq> [] then fail_errno EINVAL ''parse pid failed''
          else if n = - (2 ^ 63) \<or> n = 2 ^ 63 - 1 \<or> n \<noteq> sint (word_of_int n :: int32)
          then fail_errno ERANGE ''parse pid failed''
          else okay n)"

text \<open>The second half of str_to_ugid: the group part, once the uid is known.\<close>

definition str_to_gid ::
  "string option \<Rightarrow> (uint32 \<times> uint32) option \<Rightarrow> uint32 \<Rightarrow> (uint32 \<times> uint32) ioE" where
  "str_to_gid str passwd uid =
     (if str = None \<or> str = Some [] then
        (case passwd of
           Some (_, pw_gid) \<Rightarrow> okay (uid, pw_gid)
         | None \<Rightarrow>
             bindS (call_passwd (C_getpwuid uid)) (\<lambda>r. case r of
               None \<Rightarrow> fail_errno ENOENT ''parse user/group failed''
             | Some (_, pw_gid) \<Rightarrow> okay (uid, pw_gid)))
      else
        (case strtoumax (the str) of
           Some (n, rest) \<Rightarrow>
             if rest \<noteq> [] then fail_errno EINVAL ''parse user/group failed''
             else if n = 2 ^ 64 - 1 \<or> n \<noteq> unat (word_of_nat n :: uint32)
             then fail_errno ERANGE ''parse user/group failed''
             else okay (uid, word_of_nat n)
         | None \<Rightarrow>
             bindS (call_group (C_getgrnam (the str))) (\<lambda>r. case r of
               None \<Rightarrow> fail_errno ENOENT ''parse user/group failed''
             | Some gr_gid \<Rightarrow> okay (uid, gr_gid))))"

definition str_to_ugid :: "string \<Rightarrow> (uint32 \<times> uint32) ioE" where
  "str_to_ugid str =
     (case strtoumax str of
        Some (n, ptr) \<Rightarrow>
          if ptr \<noteq> [] \<and> hd ptr \<noteq> CHR '':'' then fail_errno EINVAL ''parse user/group failed''
          else if n = 2 ^ 64 - 1 \<or> n \<noteq> unat (word_of_nat n :: uint32)
          then fail_errno ERANGE ''parse user/group failed''
          else str_to_gid (Some (if ptr \<noteq> [] then tl ptr else ptr)) None (word_of_nat n)
      | None \<Rightarrow>
          let (name, ptr) = (case strchr str CHR '':'' of
                               None \<Rightarrow> (str, None)
                             | Some (a, b) \<Rightarrow> (a, Some b))
          in bindS (call_passwd (C_getpwnam name)) (\<lambda>r. case r of
               None \<Rightarrow> fail_errno ENOENT ''parse user/group failed''
             | Some pw \<Rightarrow> str_to_gid ptr (Some pw) (fst pw)))"

subsection \<open>Namespaces\<close>

definition ns_enter_at :: "fd \<Rightarrow> nat \<Rightarrow> unit ioE" where
  "ns_enter_at fd nstype = or_set (call_unit (C_setns fd nstype)) ''namespace association failed''"

definition ns_enter :: "path \<Rightarrow> nat \<Rightarrow> unit ioE" where
  "ns_enter p nstype =
     bindE (xopen p O_RDONLY) (\<lambda>fd.
       lastly (or_set (call_unit (C_setns fd nstype)) (''namespace association failed: '' @ p))
         (call_void (C_close fd)))"

subsection \<open>Arrays\<close>

definition array_new :: "nat \<Rightarrow> string option list ioE" where
  "array_new n = bindE xcalloc (\<lambda>_. okay (replicate n None))"

text \<open>array_append writes \<open>arr\<close> at index \<open>i\<close> and returns the index after it.\<close>

definition array_append :: "'a list \<Rightarrow> nat \<Rightarrow> 'a list \<Rightarrow> 'a list \<times> nat" where
  "array_append dst i arr =
     (take i dst @ arr @ drop (i + length arr) dst, i + length arr)"

definition array_copy :: "string list \<Rightarrow> string option list ioE" where
  "array_copy arr = bindE (array_new (length arr)) (\<lambda>dst.
     okay (fst (array_append dst 0 (map Some arr))))"

text \<open>
  array_pack: \<open>ptr\<close> walks the array, \<open>sz\<close> is both the new size and the index
  \<open>arr\<close> points at; a non-null slot is swapped with the slot at \<open>sz\<close>.
\<close>

fun array_pack_loop :: "nat \<Rightarrow> nat \<Rightarrow> nat \<Rightarrow> 'a option list \<Rightarrow> 'a option list \<times> nat" where
  "array_pack_loop 0 ptr sz a = (a, sz)"
| "array_pack_loop (Suc k) ptr sz a =
     (if a ! ptr \<noteq> None
      then array_pack_loop k (Suc ptr) (Suc sz) (a[sz := a ! ptr, ptr := a ! sz])
      else array_pack_loop k (Suc ptr) sz a)"

definition array_pack :: "'a option list \<Rightarrow> 'a option list \<times> nat" where
  "array_pack arr = array_pack_loop (length arr) 0 0 arr"

text \<open>array_size counts the slots before the NULL that ends the array.\<close>

fun array_size :: "'a option list \<Rightarrow> nat" where
  "array_size [] = 0"
| "array_size (None # arr) = 0"
| "array_size (Some x # arr) = Suc (array_size arr)"

lemma replicate_shift: "replicate n x @ x # xs = x # replicate n x @ xs"
  by (induction n) auto

text \<open>The loop has packed a prefix: values, then empty slots, then the rest.\<close>

lemma array_pack_loop_state:
  "array_pack_loop (length rest) (length xs + n) (length xs)
     (map Some xs @ replicate n None @ rest) =
   (map Some (xs @ map the (filter (\<lambda>x. x \<noteq> None) rest)) @
      replicate (n + length (filter (\<lambda>x. x = None) rest)) None,
    length xs + length (filter (\<lambda>x. x \<noteq> None) rest))"
proof (induction rest arbitrary: xs n)
  case (Cons r rest)
  let ?a = "map Some xs @ replicate n None @ r # rest"
  have at: "?a ! (length xs + n) = r"
    by (simp add: nth_append)
  show ?case
  proof (cases r)
    case None
    with Cons.IH[of xs "Suc n"] at show ?thesis
      by (simp add: replicate_shift)
  next
    case (Some v)
    have "?a[length xs := r, length xs + n := ?a ! length xs] =
      map Some (xs @ [v]) @ replicate n None @ rest"
    proof (cases n)
      case 0
      then show ?thesis by (simp add: Some list_update_append nth_append)
    next
      case (Suc m)
      then show ?thesis
        by (simp add: Some list_update_append nth_append replicate_shift)
    qed
    with Cons.IH[of "xs @ [v]" n] Some at show ?thesis
      by simp
  qed
qed simp

lemma length_array_pack_loop [simp]:
  "length (fst (array_pack_loop k ptr sz a)) = length a"
  by (induction k arbitrary: ptr sz a) auto

lemma filter_Some_the:
  "map (Some \<circ> the) (filter (\<lambda>x. \<exists>y. x = Some y) arr) = filter (\<lambda>x. \<exists>y. x = Some y) arr"
  by (induction arr) auto

lemma sint_int32_range:
  "n = sint (word_of_int n :: int32) \<longleftrightarrow> - (2 ^ 31) \<le> n \<and> n < 2 ^ 31"
  using signed_take_bit_int_eq_self_iff[of 31 n] by (simp add: signed_of_int eq_commute)

subsection \<open>Properties\<close>

text \<open>Array_pack moves the non-null slots to the front of the array, in their original
  order, leaves the null slots behind them and sets the size to the number of non-null slots.\<close>

theorem array_pack_stable:
  "array_pack arr =
     (filter (\<lambda>x. x \<noteq> None) arr @ replicate (length (filter (\<lambda>x. x = None) arr)) None,
      length (filter (\<lambda>x. x \<noteq> None) arr))"
  using array_pack_loop_state[of arr "[]" 0]
  by (simp add: array_pack_def filter_Some_the)

text \<open>Str_to_pid accepts exactly the texts that are a decimal number (optional white space
  and sign) followed by nothing, whose value fits a 32-bit pid_t, and returns that value; it
  makes no system call.\<close>

theorem str_to_pid_accepts:
  "str_to_pid str os tr = (Inr n, es) \<longleftrightarrow>
     es = [] \<and> (\<exists>neg m. scan_num str = Some (neg, m, []) \<and>
       n = (if neg then - int m else int m) \<and> - (2 ^ 31) \<le> n \<and> n < 2 ^ 31)"
  by (auto simp: str_to_pid_def strtoimax_def sint_int32_range Let_def min_def max_def
      split: option.splits if_splits)

text \<open>For 32-bit numbers, str_to_ugid reads back the "uid:gid" notation as printed in
  decimal, without consulting the user and group databases.\<close>

theorem str_to_ugid_numeric:
  assumes "u < 2 ^ 32" "g < 2 ^ 32"
  shows "str_to_ugid (dec u @ '':'' @ dec g) os tr = (Inr (word_of_nat u, word_of_nat g), [])"
proof -
  have "strtoumax (dec u @ CHR '':'' # dec g) = Some (u, CHR '':'' # dec g)"
    using assms(1) scan_num_dec[of "CHR '':'' # dec g" u]
    by (simp add: strtoumax_def isdigit_def ord_def)
  moreover have "strtoumax (dec g) = Some (g, [])"
    using assms(2) by (simp add: strtoumax_dec)
  ultimately show ?thesis
    using assms by (simp add: str_to_ugid_def str_to_gid_def unsigned_of_nat take_bit_nat_eq_self)
qed

theorem str_to_ugid_numeric_witness:
  "str_to_ugid (dec 1000 @ '':'' @ dec 44) calm [] = (Inr (1000, 44), [])"
  using str_to_ugid_numeric[of 1000 44 calm "[]"] by simp

end
