(* ===== verification/Monitor.thy ===== *)
theory Monitor
  imports XFuncs
begin

text \<open>
  Reasoning about the order of calls.  A monitor is a deterministic automaton
  that reads events and may reject; \<open>safe \<delta> s m Q\<close> says that in every
  environment and after every history the calls of \<open>m\<close> are accepted from state
  \<open>s\<close>, and that \<open>Q\<close> holds of the result and of the state reached.  The rules
  follow the combinators, so a fragment is proved safe from the safety of the
  fragments it calls.
\<close>

fun accepts :: "('s \<Rightarrow> event \<Rightarrow> 's option) \<Rightarrow> 's \<Rightarrow> trace \<Rightarrow> 's option" where
  "accepts \<delta> s [] = Some s"
| "accepts \<delta> s (e # es) = (case \<delta> s e of None \<Rightarrow> None | Some s' \<Rightarrow> accepts \<delta> s' es)"

definition safe :: "('s \<Rightarrow> event \<Rightarrow> 's option) \<Rightarrow> 's \<Rightarrow> 'a io \<Rightarrow> ('a \<Rightarrow> 's \<Rightarrow> bool) \<Rightarrow> bool" where
  "safe \<delta> s m Q \<longleftrightarrow>
     (\<forall>os tr. \<exists>s'. accepts \<delta> s (snd (m os tr)) = Some s' \<and> Q (fst (m os tr)) s')"

lemma accepts_append [simp]:
  "accepts \<delta> s (es @ es') =
     (case accepts \<delta> s es of None \<Rightarrow> None | Some s' \<Rightarrow> accepts \<delta> s' es')"
  by (induction es arbitrary: s) (auto split: option.splits)

lemma safeD:
  "safe \<delta> s m Q \<Longrightarrow> m os tr = (r, es) \<Longrightarrow> \<exists>s'. accepts \<delta> s es = Some s' \<and> Q r s'"
  unfolding safe_def by (metis fst_conv snd_conv)

lemma safe_conseq:
  "safe \<delta> s m Q \<Longrightarrow> (\<And>r s'. Q r s' \<Longrightarrow> R r s') \<Longrightarrow> safe \<delta> s m R"
  unfolding safe_def by meson

named_theorems safe_intros \<open>rules of the monitor calculus\<close>

lemma safe_ret [safe_intros]: "Q x s \<Longrightarrow> safe \<delta> s (ret x) Q"
  by (simp add: safe_def)

lemma safe_okay [safe_intros]: "Q (Inr x) s \<Longrightarrow> safe \<delta> s (okay x) Q"
  by (simp add: safe_def)

lemma safe_raise [safe_intros]: "Q (Inl e) s \<Longrightarrow> safe \<delta> s (raise e) Q"
  by (simp add: safe_def)

lemma safe_fail_errno [safe_intros]: "(\<And>e. Q (Inl e) s) \<Longrightarrow> safe \<delta> s (fail_errno n t) Q"
  by (simp add: safe_def)

lemma safe_failx [safe_intros]: "(\<And>e. Q (Inl e) s) \<Longrightarrow> safe \<delta> s (failx t) Q"
  by (simp add: safe_def)

lemma safe_get_errno [safe_intros]: "(\<And>n. Q n s) \<Longrightarrow> safe \<delta> s get_errno Q"
  by (simp add: safe_def)

lemma safe_bindS [safe_intros]:
  assumes "safe \<delta> s m (\<lambda>x s'. safe \<delta> s' (f x) Q)"
  shows "safe \<delta> s (bindS m f) Q"
  unfolding safe_def
proof (intro allI)
  fix os tr
  obtain x es where m: "m os tr = (x, es)" by fastforce
  obtain y es' where f: "f x os (tr @ es) = (y, es')" by fastforce
  from safeD[OF assms m] obtain s' where s': "accepts \<delta> s es = Some s'" "safe \<delta> s' (f x) Q"
    by blast
  from safeD[OF s'(2) f] s'(1)
  show "\<exists>s'. accepts \<delta> s (snd (bindS m f os tr)) = Some s' \<and> Q (fst (bindS m f os tr)) s'"
    by (auto simp: bindS_def m f)
qed

lemma safe_bindE [safe_intros]:
  assumes "safe \<delta> s m (\<lambda>r s'. case r of Inl e \<Rightarrow> Q (Inl e) s' | Inr x \<Rightarrow> safe \<delta> s' (f x) Q)"
  shows "safe \<delta> s (bindE m f) Q"
  unfolding bindE_def
  by (rule safe_bindS, rule safe_conseq[OF assms])
     (auto split: sum.splits intro: safe_raise)

lemma safe_onfail [safe_intros]:
  assumes "safe \<delta> s m (\<lambda>r s'. case r of
     Inl e \<Rightarrow> safe \<delta> s' c (\<lambda>_ s''. Q (Inl e) s'') | Inr x \<Rightarrow> Q (Inr x) s')"
  shows "safe \<delta> s (onfail m c) Q"
  unfolding onfail_def
  by (rule safe_bindS, rule safe_conseq[OF assms])
     (auto split: sum.splits intro!: safe_ret safe_bindS elim: safe_conseq)

lemma safe_lastly [safe_intros]:
  assumes "safe \<delta> s m (\<lambda>r s'. safe \<delta> s' c (\<lambda>_ s''. Q r s''))"
  shows "safe \<delta> s (lastly m c) Q"
  unfolding lastly_def
  by (rule safe_bindS, rule safe_conseq[OF assms])
     (auto intro!: safe_bindS safe_ret elim: safe_conseq)

lemma safe_or_set [safe_intros]:
  assumes "safe \<delta> s m (\<lambda>r s'. case r of Inl n \<Rightarrow> \<forall>e. Q (Inl e) s' | Inr x \<Rightarrow> Q (Inr x) s')"
  shows "safe \<delta> s (or_set m t) Q"
  unfolding or_set_def
  by (rule safe_bindS, rule safe_conseq[OF assms])
     (auto split: sum.splits intro: safe_fail_errno safe_okay)

lemma safe_if [safe_intros]:
  "(b \<Longrightarrow> safe \<delta> s m Q) \<Longrightarrow> (\<not> b \<Longrightarrow> safe \<delta> s m' Q) \<Longrightarrow> safe \<delta> s (if b then m else m') Q"
  by simp

lemma safe_case_sum [safe_intros]:
  "(\<And>e. r = Inl e \<Longrightarrow> safe \<delta> s (f e) Q) \<Longrightarrow> (\<And>x. r = Inr x \<Longrightarrow> safe \<delta> s (g x) Q)
    \<Longrightarrow> safe \<delta> s (case r of Inl e \<Rightarrow> f e | Inr x \<Rightarrow> g x) Q"
  by (cases r) auto

lemma safe_case_option [safe_intros]:
  "(r = None \<Longrightarrow> safe \<delta> s m Q) \<Longrightarrow> (\<And>x. r = Some x \<Longrightarrow> safe \<delta> s (g x) Q)
    \<Longrightarrow> safe \<delta> s (case r of None \<Rightarrow> m | Some x \<Rightarrow> g x) Q"
  by (cases r) auto

lemma safe_case_prod [safe_intros]:
  "(\<And>a b. r = (a, b) \<Longrightarrow> safe \<delta> s (f a b) Q) \<Longrightarrow> safe \<delta> s (case r of (a, b) \<Rightarrow> f a b) Q"
  by (cases r) auto

lemma safe_case_list [safe_intros]:
  "(r = [] \<Longrightarrow> safe \<delta> s m Q) \<Longrightarrow> (\<And>x xs. r = x # xs \<Longrightarrow> safe \<delta> s (g x xs) Q)
    \<Longrightarrow> safe \<delta> s (case r of [] \<Rightarrow> m | x # xs \<Rightarrow> g x xs) Q"
  by (cases r) auto

lemma safe_Let [safe_intros]:
  "(\<And>x. x = v \<Longrightarrow> safe \<delta> s (f x) Q) \<Longrightarrow> safe \<delta> s (let x = v in f x) Q"
  by simp

text \<open>A call: the monitor accepts the event for every answer.\<close>

lemma safe_call [safe_intros]:
  "(\<And>r. \<exists>s'. \<delta> s (c, answer (\<lambda>_. Done) r) = Some s' \<and> Q r s') \<Longrightarrow> safe \<delta> s (call_unit c) Q"
  "(\<And>r. \<exists>s'. \<delta> s (c, RInt (uint r)) = Some s' \<and> Q2 r s') \<Longrightarrow> safe \<delta> s (call_id c) Q2"
  "(\<And>r. \<exists>s'. \<delta> s (c, answer RStr r) = Some s' \<and> Q3 r s') \<Longrightarrow> safe \<delta> s (call_str c) Q3"
  "(\<And>r. \<exists>s'. \<delta> s (c, answer RStrs r) = Some s' \<and> Q4 r s') \<Longrightarrow> safe \<delta> s (call_strs c) Q4"
  "(\<And>r. \<exists>s'. \<delta> s (c, answer RStat r) = Some s' \<and> Q5 r s') \<Longrightarrow> safe \<delta> s (call_stat c) Q5"
  "(\<And>r. \<exists>s'. \<delta> s (c, answer RCap r) = Some s' \<and> Q6 r s') \<Longrightarrow> safe \<delta> s (call_cap c) Q6"
  "(\<And>r. \<exists>s'. \<delta> s (c, answer RTree r) = Some s' \<and> Qt r s') \<Longrightarrow> safe \<delta> s (call_tree c) Qt"
  "(\<And>r. \<exists>s'. \<delta> s (c, RReply r) = Some s' \<and> Qr r s') \<Longrightarrow> safe \<delta> s (call_reply c) Qr"
  "(\<And>a. \<exists>s'. \<delta> s (c, a) = Some s' \<and> Q7 () s') \<Longrightarrow> safe \<delta> s (call_void c) Q7"
  by (auto simp: safe_def call_defs call_void_def bindS_def Let_def split: option.splits)
     (metis not_None_eq option.inject)+

lemma safe_call_int [safe_intros]:
  assumes "\<And>e. \<exists>s'. \<delta> s (c, Failed e) = Some s' \<and> Q (Inl e) s'"
    and "\<And>n. 0 \<le> n \<Longrightarrow> \<exists>s'. \<delta> s (c, RInt n) = Some s' \<and> Q (Inr n) s'"
  shows "safe \<delta> s (call_int c) Q"
  unfolding safe_def
proof (intro allI)
  fix os tr
  show "\<exists>s'. accepts \<delta> s (snd (call_int c os tr)) = Some s' \<and> Q (fst (call_int c os tr)) s'"
    using assms(1)[of "projl (os_int os tr c)"] assms(2)[of "int (projr (os_int os tr c))"]
    by (cases "os_int os tr c") (auto simp: call_int_def)
qed

text \<open>A fragment whose events the monitor ignores leaves the state alone.\<close>

lemma accepts_ignored:
  "list_all (\<lambda>e. \<delta> s e = Some s) es \<Longrightarrow> accepts \<delta> s es = Some s"
  by (induction es) auto

lemma safe_ignored:
  "emits (\<lambda>e. \<delta> s e = Some s) m \<Longrightarrow> (\<And>r. Q r s) \<Longrightarrow> safe \<delta> s m Q"
  unfolding safe_def emits_def by (metis accepts_ignored)

text \<open>A call the monitor ignores.\<close>

lemma safe_skip:
  assumes "\<And>a. \<delta> s (c, a) = Some s"
  shows "(\<And>r. Q r s) \<Longrightarrow> safe \<delta> s (call_unit c) Q"
    "(\<And>r. Q1 r s) \<Longrightarrow> safe \<delta> s (call_int c) Q1"
    "(\<And>r. Q2 r s) \<Longrightarrow> safe \<delta> s (call_id c) Q2"
    "(\<And>r. Q3 r s) \<Longrightarrow> safe \<delta> s (call_str c) Q3"
    "(\<And>r. Q4 r s) \<Longrightarrow> safe \<delta> s (call_strs c) Q4"
    "(\<And>r. Q5 r s) \<Longrightarrow> safe \<delta> s (call_stat c) Q5"
    "(\<And>r. Q6 r s) \<Longrightarrow> safe \<delta> s (call_cap c) Q6"
    "(\<And>r. Qt r s) \<Longrightarrow> safe \<delta> s (call_tree c) Qt"
    "(\<And>r. Q7 r s) \<Longrightarrow> safe \<delta> s (call_passwd c) Q7"
    "(\<And>r. Q8 r s) \<Longrightarrow> safe \<delta> s (call_group c) Q8"
    "(\<And>r. Qr r s) \<Longrightarrow> safe \<delta> s (call_reply c) Qr"
    "(\<And>r. Q9 r s) \<Longrightarrow> safe \<delta> s (call_void c) Q9"
  by (rule safe_ignored; (rule emits_intros)?; simp add: assms)+

lemma safe_io_pure:
  assumes "\<And>P. emits P m" and "\<And>r os tr. m os tr = (r, []) \<Longrightarrow> Q r s"
  shows "safe \<delta> s m Q"
  unfolding safe_def
proof (intro allI)
  fix os tr
  obtain r es where r: "m os tr = (r, es)" by fastforce
  with no_events[OF assms(1) this] assms(2)
  show "\<exists>s'. accepts \<delta> s (snd (m os tr)) = Some s' \<and> Q (fst (m os tr)) s'"
    by auto
qed

text \<open>A step of a monitor that counts only when the call succeeds.\<close>

definition advance :: "bool \<Rightarrow> ans \<Rightarrow> 's \<Rightarrow> 's \<Rightarrow> 's option" where
  "advance ok a s s' = (if ok then Some (if a = Done then s' else s) else None)"

subsection \<open>File descriptors\<close>

text \<open>
  The monitor of file descriptors: its state is the list of the descriptors
  the fragment has opened and not closed; closing any other is rejected.
\<close>

definition fd_step :: "fd list \<Rightarrow> event \<Rightarrow> fd list option" where
  "fd_step s = (\<lambda>(c, a).
     case c of
       FS (sc_open p fl) \<Rightarrow> (case a of RInt fd \<Rightarrow> Some (fd # s) | _ \<Rightarrow> Some s)
     | FS (sc_open_mode p fl m) \<Rightarrow> (case a of RInt fd \<Rightarrow> Some (fd # s) | _ \<Rightarrow> Some s)
     | FS (sc_openat d p fl) \<Rightarrow> (case a of RInt fd \<Rightarrow> Some (fd # s) | _ \<Rightarrow> Some s)
     | DirOp (sc_fopen p) \<Rightarrow> (case a of RInt fd \<Rightarrow> Some (fd # s) | _ \<Rightarrow> Some s)
     | FS (sc_close fd) \<Rightarrow> if fd \<in> set s then Some (remove1 fd s) else None
     | DirOp (sc_fclose fd) \<Rightarrow> if fd \<in> set s then Some (remove1 fd s) else None
     | _ \<Rightarrow> Some s)"

subsection \<open>Forward evaluation of a run\<close>

lemma bindS_run: "m os tr = (x, es) \<Longrightarrow> bindS m f os tr = apsnd ((@) es) (f x os (tr @ es))"
  by (auto simp: bindS_def split: prod.splits)

lemma bindE_run_Inr:
  "m os tr = (Inr x, es) \<Longrightarrow> bindE m f os tr = apsnd ((@) es) (f x os (tr @ es))"
  by (simp add: bindE_def bindS_run)

lemma bindE_run_Inl: "m os tr = (Inl e, es) \<Longrightarrow> bindE m f os tr = (Inl e, es)"
  by (simp add: bindE_def bindS_run)

lemma apsnd_Nil_append [simp]: "apsnd ((@) []) p = p"
  by (cases p) simp

text \<open>The result of a run, when the events do not matter.\<close>

lemma fst_bindS: "fst (bindS m f os tr) = fst (f (fst (m os tr)) os (tr @ snd (m os tr)))"
  by (simp add: bindS_def split: prod.splits)

lemma fst_bindE:
  "fst (bindE m f os tr) = (case fst (m os tr) of Inl e \<Rightarrow> Inl e
     | Inr x \<Rightarrow> fst (f x os (tr @ snd (m os tr))))"
  by (simp add: bindE_def fst_bindS split: sum.splits)

lemma fst_or_set: "fst (or_set m t os tr) =
   (case fst (m os tr) of Inl n \<Rightarrow> Inl (error_set (os_strerror os) n t) | Inr x \<Rightarrow> Inr x)"
  by (simp add: or_set_def fst_bindS split: sum.splits)

subsection \<open>The results of a fragment\<close>

text \<open>Every result the fragment can have, in any environment, satisfies \<open>Q\<close>.\<close>

definition gives :: "'a io \<Rightarrow> ('a \<Rightarrow> bool) \<Rightarrow> bool" where
  "gives m Q \<longleftrightarrow> (\<forall>os tr. Q (fst (m os tr)))"

named_theorems gives_intros \<open>rules for the results of a fragment\<close>

lemma givesD: "gives m Q \<Longrightarrow> m os tr = (r, es) \<Longrightarrow> Q r"
  unfolding gives_def by (metis fst_conv)

lemma gives_conseq: "gives m Q \<Longrightarrow> (\<And>r. Q r \<Longrightarrow> R r) \<Longrightarrow> gives m R"
  by (simp add: gives_def)

lemma gives_any: "(\<And>r. Q r) \<Longrightarrow> gives m Q"
  by (simp add: gives_def)

lemma gives_ret [gives_intros]: "Q x \<Longrightarrow> gives (ret x) Q"
  by (simp add: gives_def)

lemma gives_okay [gives_intros]: "Q (Inr x) \<Longrightarrow> gives (okay x) Q"
  by (simp add: gives_def)

lemma gives_raise [gives_intros]: "Q (Inl e) \<Longrightarrow> gives (raise e) Q"
  by (simp add: gives_def)

lemma gives_bindS: "gives m R \<Longrightarrow> (\<And>x. R x \<Longrightarrow> gives (f x) Q) \<Longrightarrow> gives (bindS m f) Q"
  by (simp add: gives_def fst_bindS)

lemma gives_after [gives_intros]: "(\<And>x. gives (f x) Q) \<Longrightarrow> gives (bindS m f) Q"
  by (rule gives_bindS[OF gives_any[of "\<lambda>_. True"]]) simp_all

lemma gives_bindE:
  "gives m (\<lambda>r. case r of Inl e \<Rightarrow> Q (Inl e) | Inr x \<Rightarrow> R x) \<Longrightarrow> (\<And>x. R x \<Longrightarrow> gives (f x) Q) \<Longrightarrow> gives (bindE m f) Q"
  by (force simp: gives_def fst_bindE split: sum.splits)

lemma gives_if [gives_intros]:
  "(b \<Longrightarrow> gives m Q) \<Longrightarrow> (\<not> b \<Longrightarrow> gives m' Q) \<Longrightarrow> gives (if b then m else m') Q"
  by simp

lemma gives_case_option [gives_intros]:
  "(r = None \<Longrightarrow> gives m Q) \<Longrightarrow> (\<And>x. r = Some x \<Longrightarrow> gives (g x) Q) \<Longrightarrow>
   gives (case r of None \<Rightarrow> m | Some x \<Rightarrow> g x) Q"
  by (cases r) auto

lemma gives_case_sum [gives_intros]:
  "(\<And>e. r = Inl e \<Longrightarrow> gives (f e) Q) \<Longrightarrow> (\<And>x. r = Inr x \<Longrightarrow> gives (g x) Q) \<Longrightarrow>
   gives (case r of Inl e \<Rightarrow> f e | Inr x \<Rightarrow> g x) Q"
  by (cases r) auto

lemma gives_case_prod [gives_intros]:
  "(\<And>a b. r = (a, b) \<Longrightarrow> gives (f a b) Q) \<Longrightarrow> gives (case r of (a, b) \<Rightarrow> f a b) Q"
  by (cases r) auto

lemma gives_Let [gives_intros]: "(\<And>x. x = v \<Longrightarrow> gives (f x) Q) \<Longrightarrow> gives (let x = v in f x) Q"
  by simp

end
