(* ===== verification/NvcTypes.thy ===== *)
theory NvcTypes
  imports StrUtils Monitor
begin

text \<open>
  The structures of nvc.h and nvc_internal.h shared by the library and the
  command line, the device numbers of the C library, the scanf conversions
  the sources use and the contract of bounded collections.
\<close>

unbundle bit_operations_syntax

subsection \<open>Device numbers\<close>

text \<open>makedev, major and minor of the GNU C library on a 64-bit dev_t.\<close>

definition makedev :: "uint32 \<Rightarrow> uint32 \<Rightarrow> uint64" where
  "makedev maj mn =
     push_bit 8 (ucast (maj AND 0xfff) :: uint64) OR
     push_bit 32 (ucast (maj AND NOT 0xfff) :: uint64) OR
     (ucast (mn AND 0xff) :: uint64) OR
     push_bit 12 (ucast (mn AND NOT 0xff) :: uint64)"

definition major :: "uint64 \<Rightarrow> uint32" where
  "major dev = ucast (drop_bit 8 dev AND 0xfff) OR ucast (drop_bit 32 dev AND NOT 0xfff)"

definition minor :: "uint64 \<Rightarrow> uint32" where
  "minor dev = ucast (dev AND 0xff) OR ucast (drop_bit 12 dev AND NOT 0xff)"

lemma dev_masks:
  "(0xfff :: uint32) = mask 12" "(0xff :: uint32) = mask 8"
  "(0xfff :: uint64) = mask 12" "(0xff :: uint64) = mask 8"
  by (simp_all add: mask_eq_exp_minus_1)

lemma uint64_bit: "bit (w :: uint64) n \<Longrightarrow> n < 64"
  using bit_imp_le_length[of w n] by simp

lemma uint32_bit: "bit (w :: uint32) n \<Longrightarrow> n < 32"
  using bit_imp_le_length[of w n] by simp

lemmas bit_rules = bit_or_iff bit_and_iff bit_not_iff bit_push_bit_iff bit_drop_bit_eq
  bit_unsigned_iff bit_mask_iff possible_bit_def comp_apply

lemma major_makedev: "major (makedev maj mn) = maj"
  unfolding major_def makedev_def dev_masks
  by (rule bit_word_eqI, simp only: bit_rules len_of_numeral_defs) (auto dest: uint32_bit)
lemma minor_makedev: "minor (makedev maj mn) = mn"
  unfolding minor_def makedev_def dev_masks
  by (rule bit_word_eqI, simp only: bit_rules len_of_numeral_defs) (auto dest: uint32_bit)

subsection \<open>Structures\<close>

record nvc_device_node =
  node_path :: path
  node_id :: uint64

text \<open>The parent of a MIG device is the index of its GPU in the device information.\<close>

record nvc_mig_device =
  mig_parent :: nat
  mig_uuid :: string
  mig_gi :: nat
  mig_ci :: nat
  gi_caps_path :: path
  ci_caps_path :: path

record nvc_device =
  dev_model :: string
  dev_uuid :: string
  dev_busid :: string
  dev_arch :: string
  dev_brand :: string
  dev_node :: nvc_device_node
  mig_capable :: bool
  mig_caps_path :: path
  mig_devices :: "nvc_mig_device list"

record nvc_device_info =
  gpus :: "nvc_device list"

record nvc_driver_info =
  nvrm_version :: "string option"
  cuda_version :: "string option"
  drv_bins :: "path list"
  drv_libs :: "path list"
  drv_libs32 :: "path list"
  drv_ipcs :: "path list"
  drv_devs :: "nvc_device_node list"
  drv_firmwares :: "path list"

record nvc_config =
  cfg_root :: "path option"
  cfg_ldcache :: "path option"
  cfg_uid :: uint32
  cfg_gid :: uint32

record nvc_container_config =
  cc_pid :: int
  cc_rootfs :: path
  cc_bins_dir :: "path option"
  cc_libs_dir :: "path option"
  cc_libs32_dir :: "path option"
  cc_dris_dir :: "path option"
  cc_cudart_dir :: "path option"
  cc_ldconfig :: "path option"

text \<open>dxcore.h: the adapters of the Windows subsystem layer.\<close>

record dxcore_adapter =
  hAdapter :: uint32
  wddmVersion :: uint32
  driver_store_path :: path
  driver_store_components :: "string list"

record dxcore_context =
  dx_initialized :: bool
  dx_adapters :: "dxcore_adapter list"

text \<open>\<open>mnt_ns\<close> is the descriptor of the namespace the library returns to.\<close>

record nvc_context =
  ctx_initialized :: bool
  ctx_root :: path
  ctx_ldcache :: path
  ctx_uid :: uint32
  ctx_gid :: uint32
  ctx_mnt_ns :: fd
  ctx_no_pivot :: bool
  ctx_dxcore :: dxcore_context

text \<open>The container, with the configuration the library copied into it.\<close>

record nvc_container =
  cnt_flags :: int32
  cnt_pid :: int
  cnt_rootfs :: path
  cnt_bins_dir :: path
  cnt_libs_dir :: path
  cnt_libs32_dir :: path
  cnt_dris_dir :: path
  cnt_cudart_dir :: path
  cnt_ldconfig :: path
  cnt_uid :: uint32
  cnt_gid :: uint32
  cnt_mnt_ns :: path
  cnt_dev_cg_version :: int
  cnt_dev_cg :: path
  cnt_libs :: "path list"

subsection \<open>Capabilities of each phase\<close>

text \<open>The numbers are those of linux/capability.h.\<close>

datatype nvc_phase =
  NVC_INIT | NVC_INIT_KMODS | NVC_SHUTDOWN | NVC_CONTAINER | NVC_INFO | NVC_MOUNT | NVC_LDCACHE

definition pcaps :: "nat list" where
  "pcaps = [0, 1, 2, 3, 5, 27, 12, 6, 8, 7, 21, 18, 19]"

fun ecaps :: "nvc_phase \<Rightarrow> nat list" where
  "ecaps NVC_INIT = [5, 7, 6, 18]"
| "ecaps NVC_INIT_KMODS = [5, 7, 6, 18, 0, 3, 27, 8]"
| "ecaps NVC_SHUTDOWN = [5]"
| "ecaps NVC_CONTAINER = [5, 2, 19]"
| "ecaps NVC_INFO = [5]"
| "ecaps NVC_MOUNT = [5, 12, 7, 6, 18, 21, 2, 19, 1]"
| "ecaps NVC_LDCACHE = [5, 7, 6, 18, 21, 2, 19, 8]"

definition bcaps :: "nat list" where
  "bcaps = [1, 16]"

lemma ecaps_permitted: "set (ecaps ph) \<subseteq> set pcaps"
  by (cases ph) (auto simp: pcaps_def)

subsection \<open>Argument checks\<close>

definition validate_context :: "nvc_context option \<Rightarrow> nvc_context ioE" where
  "validate_context ctx =
     (case ctx of
        None \<Rightarrow> raise \<lparr>err_code = 0, err_msg = None\<rparr>
      | Some c \<Rightarrow> if \<not> ctx_initialized c then failx ''context uninitialized'' else okay c)"

definition validate_args :: "bool \<Rightarrow> unit ioE" where
  "validate_args predicate = (if \<not> predicate then failx ''invalid argument'' else okay ())"

definition flag_set :: "int32 \<Rightarrow> int32 \<Rightarrow> bool" where
  "flag_set flags opt \<longleftrightarrow> flags AND opt \<noteq> 0"

lemma emits_validate [emits_intros]: "emits P (validate_context c)" "emits P (validate_args b)"
  unfolding validate_context_def validate_args_def by (intro emits_intros)+

subsection \<open>scanf\<close>

definition isxdigit :: "char \<Rightarrow> bool" where
  "isxdigit c \<longleftrightarrow> isdigit c \<or> (97 \<le> ord c \<and> ord c \<le> 102) \<or> (65 \<le> ord c \<and> ord c \<le> 70)"

definition xdigit_val :: "char \<Rightarrow> nat" where
  "xdigit_val c = (if isdigit c then ord c - 48 else if ord c \<ge> 97 then ord c - 87 else ord c - 55)"

fun hex_val :: "nat \<Rightarrow> string \<Rightarrow> nat" where
  "hex_val acc [] = acc"
| "hex_val acc (c # s) = hex_val (16 * acc + xdigit_val c) s"

text \<open>The value an unsigned int receives: strtoul saturates, then the low 32 bits are kept.\<close>

definition to_uint32 :: "bool \<Rightarrow> nat \<Rightarrow> uint32" where
  "to_uint32 neg m =
     word_of_nat (if m \<ge> 2 ^ 64 then 2 ^ 64 - 1 else if neg then (2 ^ 64 - m) mod 2 ^ 64 else m)"

text \<open>\<open>%x\<close> with a field width: the value and the rest of the input.\<close>

definition scan_hex :: "nat \<Rightarrow> string \<Rightarrow> (uint32 \<times> string) option" where
  "scan_hex width s =
     (let t = dropWhile isspace s;
          (neg, t1) = scan_sign (take width t);
          w1 = width - (length (take width t) - length t1);
          (zero, t2, w2) =
            (if w1 > 1 \<and> take 1 t1 = ''0'' \<and> (take 1 (tl t1) = ''x'' \<or> take 1 (tl t1) = ''X'')
             then (True, drop 2 t1, w1 - 2) else (False, t1, w1));
          ds = takeWhile isxdigit (take w2 t2)
      in if ds = [] \<and> \<not> zero then None
         else Some (to_uint32 neg (hex_val 0 ds),
                    drop (length (take width t) - length t2 + length ds) t))"

definition scan_u32 :: "string \<Rightarrow> (uint32 \<times> string) option" where
  "scan_u32 s = (case scan_num s of
     None \<Rightarrow> None | Some (neg, m, r) \<Rightarrow> Some (to_uint32 neg m, r))"

text \<open>A literal character of the format.\<close>

definition scan_char :: "char \<Rightarrow> string \<Rightarrow> string option" where
  "scan_char c s = (case s of [] \<Rightarrow> None | d # r \<Rightarrow> if d = c then Some r else None)"

fun scan_lit :: "string \<Rightarrow> string \<Rightarrow> string option" where
  "scan_lit [] s = Some s"
| "scan_lit (c # cs) s = (case scan_char c s of None \<Rightarrow> None | Some r \<Rightarrow> scan_lit cs r)"

text \<open>\<open>%s\<close>: blanks skipped, then a non-empty run of non-blanks.\<close>

definition scan_word :: "string \<Rightarrow> (string \<times> string) option" where
  "scan_word s =
     (let t = dropWhile isspace s; w = takeWhile (\<lambda>c. \<not> isspace c) t
      in if w = [] then None else Some (w, dropWhile (\<lambda>c. \<not> isspace c) t))"

text \<open>Hexadecimal printing with a minimal width, \<open>%0wx\<close>.\<close>

definition hex_digit :: "nat \<Rightarrow> char" where
  "hex_digit d = (if d < 10 then char_of (48 + d) else char_of (87 + d))"

fun hex :: "nat \<Rightarrow> string" where
  "hex n = (if n < 16 then [hex_digit n] else hex (n div 16) @ [hex_digit (n mod 16)])"

declare hex.simps [simp del]

definition hex_pad :: "nat \<Rightarrow> nat \<Rightarrow> string" where
  "hex_pad w n = replicate (w - length (hex n)) CHR ''0'' @ hex n"

text \<open>The lines "gpu%u%s %u" of the file mig-minors: GPU minor and capability minor.\<close>

definition scan_mig_minor :: "string \<Rightarrow> (uint32 \<times> uint32) option" where
  "scan_mig_minor line =
     (case scan_lit ''gpu'' line of
        None \<Rightarrow> None
      | Some r1 \<Rightarrow>
          (case scan_u32 r1 of
             None \<Rightarrow> None
           | Some (gpu_minor, r2) \<Rightarrow>
               (case scan_word r2 of
                  None \<Rightarrow> None
                | Some (_, r3) \<Rightarrow>
                    (case scan_u32 r3 of
                       None \<Rightarrow> None
                     | Some (mig_minor, _) \<Rightarrow> Some (gpu_minor, mig_minor)))))"

subsection \<open>Bounded collections\<close>

text \<open>A loop that adds elements one by one and stops at the first failure.\<close>

fun add_list :: "('k \<Rightarrow> 's \<Rightarrow> error + 's) \<Rightarrow> 'k list \<Rightarrow> 's \<Rightarrow> error + 's" where
  "add_list add [] s = Inr s"
| "add_list add (k # ks) s =
     (case add k s of Inl e \<Rightarrow> Inl e | Inr s' \<Rightarrow> add_list add ks s')"

text \<open>
  What an add operation on a bounded collection promises: elements are kept
  once, a present element changes nothing, a new one is appended or, when the
  collection is full, refused.
\<close>

locale bounded_add =
  fixes add :: "'k \<Rightarrow> 's \<Rightarrow> error + 's"
    and elems :: "'s \<Rightarrow> 'k list"
    and cap :: "'s \<Rightarrow> nat"
  assumes add_present: "k \<in> set (elems s) \<Longrightarrow> add k s = Inr s"
    and add_new: "k \<notin> set (elems s) \<Longrightarrow> length (elems s) < cap s \<Longrightarrow>
      \<exists>s'. add k s = Inr s' \<and> elems s' = elems s @ [k] \<and> cap s' = cap s"
    and add_full: "k \<notin> set (elems s) \<Longrightarrow> cap s \<le> length (elems s) \<Longrightarrow> \<exists>e. add k s = Inl e"
begin

definition bounded :: "'s \<Rightarrow> bool" where
  "bounded s \<longleftrightarrow> distinct (elems s) \<and> length (elems s) \<le> cap s"

lemma add_Inr:
  assumes "add k s = Inr s'" "bounded s"
  shows "bounded s' \<and> set (elems s') = insert k (set (elems s)) \<and> cap s' = cap s"
proof (cases "k \<in> set (elems s)")
  case True
  with assms add_present[OF True] show ?thesis by auto
next
  case False
  with add_full[OF False] assms(1) have "length (elems s) < cap s"
    by (metis Inl_Inr_False not_less)
  with add_new[OF False] assms False show ?thesis
    by (auto simp: bounded_def)
qed

lemma add_list_Inr:
  assumes "add_list add ks s = Inr s'" "bounded s"
  shows "bounded s' \<and> set (elems s') = set ks \<union> set (elems s) \<and> cap s' = cap s"
  using assms
proof (induction ks arbitrary: s)
  case (Cons k ks)
  then obtain s1 where s1: "add k s = Inr s1" "add_list add ks s1 = Inr s'"
    by (auto split: sum.splits)
  from add_Inr[OF s1(1) Cons.prems(2)] Cons.IH[OF s1(2)] show ?case
    by auto
qed simp

lemma add_succeeds:
  assumes "bounded s" "finite U" "card U \<le> cap s" "insert k (set (elems s)) \<subseteq> U"
  shows "\<exists>s'. add k s = Inr s'"
proof (cases "k \<in> set (elems s)")
  case False
  have "card (insert k (set (elems s))) \<le> card U"
    by (rule card_mono) (use assms in auto)
  with False assms(1,3) have "length (elems s) < cap s"
    by (simp add: bounded_def distinct_card)
  from add_new[OF False this] show ?thesis by blast
qed (use add_present in blast)

lemma add_list_succeeds:
  assumes "bounded s" "finite U" "card U \<le> cap s" "set ks \<union> set (elems s) \<subseteq> U"
  shows "\<exists>s'. add_list add ks s = Inr s'"
  using assms
proof (induction ks arbitrary: s)
  case (Cons k ks)
  then obtain s1 where s1: "add k s = Inr s1"
    using add_succeeds[of s U k] by auto
  with add_Inr[OF s1 Cons.prems(1)] Cons show ?case
    by auto
qed simp

end

end
