(* ===== verification/Devices.thy ===== *)
theory Devices
  imports NvcTypes
begin

text \<open>
  cli/common.c: selection of GPU and MIG devices from a device string.  A
  pointer into the device information is an index: a GPU is its position, a
  MIG device the pair of its GPU's and its own position.  The arrays of
  \<open>struct devices\<close> with their counts are lists.
\<close>

record devices =
  d_all :: bool
  d_gpus :: "nat list"
  d_max_gpus :: nat
  d_migs :: "(nat \<times> nat) list"
  d_max_migs :: nat

subsection \<open>Adding\<close>

fun already_present :: "'a \<Rightarrow> 'a list \<Rightarrow> bool" where
  "already_present ptr [] = False"
| "already_present ptr (p # ptrs) = (if p = ptr then True else already_present ptr ptrs)"

definition add_gpu_device :: "nat \<Rightarrow> devices \<Rightarrow> error + devices" where
  "add_gpu_device gpu d =
     (if \<not> already_present gpu (d_gpus d) then
        if length (d_gpus d) + 1 > d_max_gpus d then Inl (error_setx ''exceeds maximum GPU device count'')
        else Inr (d\<lparr>d_gpus := d_gpus d @ [gpu]\<rparr>)
      else Inr d)"

definition add_mig_device :: "nat \<times> nat \<Rightarrow> devices \<Rightarrow> error + devices" where
  "add_mig_device mig d =
     (if \<not> already_present mig (d_migs d) then
        if length (d_migs d) + 1 > d_max_migs d then Inl (error_setx ''exceeds maximum MIG device count'')
        else Inr (d\<lparr>d_migs := d_migs d @ [mig]\<rparr>)
      else Inr d)"

lemma already_present_iff [simp]: "already_present x xs \<longleftrightarrow> x \<in> set xs"
  by (induction xs) auto

interpretation gpu: bounded_add add_gpu_device d_gpus d_max_gpus
  by unfold_locales (auto simp: add_gpu_device_def)

interpretation mig: bounded_add add_mig_device d_migs d_max_migs
  by unfold_locales (auto simp: add_mig_device_def)

text \<open>An error of a helper is reported with a prefix: "...: %s", ierr.msg.\<close>

definition prefix_error :: "string \<Rightarrow> error \<Rightarrow> error" where
  "prefix_error text ierr = error_setx (text @ (case err_msg ierr of None \<Rightarrow> ''(null)'' | Some m \<Rightarrow> m))"

definition on_error :: "string \<Rightarrow> error + 'a \<Rightarrow> error + 'a" where
  "on_error text r = (case r of Inl e \<Rightarrow> Inl (prefix_error text e) | Inr x \<Rightarrow> Inr x)"

subsection \<open>Selecting\<close>

definition mig_of :: "nvc_device_info \<Rightarrow> nat \<times> nat \<Rightarrow> nvc_mig_device" where
  "mig_of avail = (\<lambda>(i, j). mig_devices (gpus avail ! i) ! j)"

definition all_migs :: "nvc_device_info \<Rightarrow> (nat \<times> nat) list" where
  "all_migs avail =
     concat (map (\<lambda>i. map (Pair i) [0 ..< length (mig_devices (gpus avail ! i))])
               [0 ..< length (gpus avail)])"

definition count_mig_devices :: "nvc_device list \<Rightarrow> nat" where
  "count_mig_devices gs = fold (\<lambda>g count. count + length (mig_devices g)) gs 0"

definition select_all_gpu_devices :: "nvc_device_info \<Rightarrow> devices \<Rightarrow> error + devices" where
  "select_all_gpu_devices avail sel =
     on_error ''error adding all GPU devices: ''
       (add_list add_gpu_device [0 ..< length (gpus avail)] sel)"

definition select_all_mig_devices :: "nvc_device_info \<Rightarrow> devices \<Rightarrow> error + devices" where
  "select_all_mig_devices avail sel =
     on_error ''error adding all MIG devices: ''
       (add_list add_mig_device (all_migs avail) sel)"

definition select_all_devices :: "nvc_device_info \<Rightarrow> devices \<Rightarrow> error + devices" where
  "select_all_devices avail sel =
     (case select_all_gpu_devices avail sel of
        Inl e \<Rightarrow> Inl e
      | Inr sel' \<Rightarrow> select_all_mig_devices avail sel')"

definition matches_pci_format :: "string \<Rightarrow> nat \<Rightarrow> string option" where
  "matches_pci_format gpu bufsize =
     (case scan_hex (length gpu) gpu of
        None \<Rightarrow> None
      | Some (domainid, r1) \<Rightarrow>
          (case scan_char CHR '':'' r1 of
             None \<Rightarrow> None
           | Some r2 \<Rightarrow>
               (case scan_hex 2 r2 of
                  None \<Rightarrow> None
                | Some (busid, r3) \<Rightarrow>
                    (case scan_char CHR '':'' r3 of
                       None \<Rightarrow> None
                     | Some r4 \<Rightarrow>
                         (case scan_hex 2 r4 of
                            None \<Rightarrow> None
                          | Some (deviceid, _) \<Rightarrow>
                              Some (take (bufsize - 1)
                                (hex_pad 8 (unat domainid) @ '':'' @ hex_pad 2 (unat busid) @ '':'' @
                                 hex_pad 2 (unat deviceid) @ ''.0'')))))))"

abbreviation (input) PCI_BUFSIZE :: nat where "PCI_BUFSIZE \<equiv> 33"

text \<open>
  The expression \<open>dev + 2\<close> skips two characters; of a one-character token it
  denotes what follows the token's terminator in memory: the unread part of
  the device string, or, after the last token, memory \<open>oob\<close> past its end.
\<close>

definition uuid_text :: "string \<Rightarrow> string \<Rightarrow> string option \<Rightarrow> string" where
  "uuid_text oob dev rest =
     (if length dev \<ge> 2 then drop 2 dev else case rest of Some r \<Rightarrow> r | None \<Rightarrow> oob)"

text \<open>The three lookups of select_gpu_device, in order: UUID, PCI bus, index.\<close>

definition find_gpu :: "string \<Rightarrow> string \<Rightarrow> string option \<Rightarrow> nvc_device_info \<Rightarrow> nat option" where
  "find_gpu oob dev rest avail =
     (case find_index_of (\<lambda>g. length (dev_uuid g) = length (uuid_text oob dev rest) \<and>
                              str_case_equal (dev_uuid g) (uuid_text oob dev rest)) (gpus avail) of
        Some i \<Rightarrow> Some i
      | None \<Rightarrow>
          (case (case matches_pci_format dev PCI_BUFSIZE of
                   None \<Rightarrow> None
                 | Some buf \<Rightarrow>
                     find_index_of (\<lambda>g. str_case_equal (take (length buf) (dev_busid g)) buf) (gpus avail)) of
             Some i \<Rightarrow> Some i
           | None \<Rightarrow>
               (case strtoumax dev of
                  Some (n, []) \<Rightarrow>
                    if n < 2 ^ 64 - 1 \<and> n < length (gpus avail) then Some n else None
                | _ \<Rightarrow> None)))"

definition select_gpu_device ::
  "string \<Rightarrow> string \<Rightarrow> string option \<Rightarrow> nvc_device_info \<Rightarrow> devices \<Rightarrow> error + nat option \<times> devices" where
  "select_gpu_device oob dev rest avail sel =
     (case find_gpu oob dev rest avail of
        None \<Rightarrow> Inr (None, sel)
      | Some i \<Rightarrow>
          (case on_error ''error adding GPU device: '' (add_gpu_device i sel) of
             Inl e \<Rightarrow> Inl e
           | Inr sel' \<Rightarrow> Inr (Some i, sel')))"

text \<open>The two lookups of select_mig_device: UUID, then \<open>gpu:mig\<close> indices.\<close>

definition find_mig :: "string \<Rightarrow> nvc_device_info \<Rightarrow> (nat \<times> nat) option" where
  "find_mig dev avail =
     (case (if str_case_equal (take 4 dev) ''MIG-'' \<and> length dev > 4
            then find (\<lambda>m. length (mig_uuid (mig_of avail m)) = length dev \<and>
                           str_case_equal (mig_uuid (mig_of avail m)) dev) (all_migs avail)
            else None) of
        Some m \<Rightarrow> Some m
      | None \<Rightarrow>
          (case strtoumax dev of
             None \<Rightarrow> None
           | Some (i, r1) \<Rightarrow>
               (case scan_char CHR '':'' r1 of
                  None \<Rightarrow> None
                | Some r2 \<Rightarrow>
                    (case strtoumax r2 of
                       None \<Rightarrow> None
                     | Some (j, _) \<Rightarrow>
                         if i < length (gpus avail) \<and> j < length (mig_devices (gpus avail ! i))
                         then Some (i, j) else None))))"

definition select_mig_device ::
  "string \<Rightarrow> nvc_device_info \<Rightarrow> devices \<Rightarrow> error + (nat \<times> nat) option \<times> devices" where
  "select_mig_device dev avail sel =
     (case find_mig dev avail of
        None \<Rightarrow> Inr (None, sel)
      | Some m \<Rightarrow>
          (case on_error ''error adding MIG device: '' (add_mig_device m sel) of
             Inl e \<Rightarrow> Inl e
           | Inr sel1 \<Rightarrow>
               (case on_error ''error adding GPU device: ''
                       (add_gpu_device (mig_parent (mig_of avail m)) sel1) of
                  Inl e \<Rightarrow> Inl e
                | Inr sel2 \<Rightarrow> Inr (Some m, sel2))))"

function select_loop ::
  "string \<Rightarrow> string option \<Rightarrow> nvc_device_info \<Rightarrow> devices \<Rightarrow> error + devices" where
  "select_loop oob None avail sel = Inr sel"
| "select_loop oob (Some devs) avail sel =
     (case strsep '','' devs of (dev, rest) \<Rightarrow>
        if dev = [] then select_loop oob rest avail sel
        else if str_case_equal dev ''all'' then
          (case on_error (dev @ '': '') (select_all_devices avail sel) of
             Inl e \<Rightarrow> Inl e
           | Inr sel' \<Rightarrow> Inr (sel'\<lparr>d_all := True\<rparr>))
        else
          (case on_error (dev @ '': '') (select_gpu_device oob dev rest avail sel) of
             Inl e \<Rightarrow> Inl e
           | Inr (Some _, sel') \<Rightarrow> select_loop oob rest avail sel'
           | Inr (None, sel') \<Rightarrow>
               (case on_error (dev @ '': '') (select_mig_device dev avail sel') of
                  Inl e \<Rightarrow> Inl e
                | Inr (Some _, sel2) \<Rightarrow> select_loop oob rest avail sel2
                | Inr (None, _) \<Rightarrow>
                    Inl (prefix_error (dev @ '': '') (error_setx ''unknown device'')))))"
  by pat_completeness auto
termination
  by (relation "measure (\<lambda>(oob, devs, avail, sel). case devs of None \<Rightarrow> 0 | Some s \<Rightarrow> Suc (length s))")
     (auto dest: strsep_shorter [OF sym] split: option.splits)

declare select_loop.simps [simp del]

definition select_devices :: "string \<Rightarrow> string \<Rightarrow> nvc_device_info \<Rightarrow> devices \<Rightarrow> error + devices" where
  "select_devices oob devs avail sel = select_loop oob (Some devs) avail sel"

text \<open>
  select_mig_config_devices and select_mig_monitor_devices differ only in the
  message; both know the single name "all".
\<close>

definition mig_caps_all ::
  "string \<Rightarrow> nvc_device_info \<Rightarrow> devices \<Rightarrow> devices \<Rightarrow> error + devices" where
  "mig_caps_all what avail visible sel =
     (if \<not> d_all visible \<and> length (d_migs visible) > 0 then
        Inl (error_setx (''cannot enable '' @ what @ '' with specific MIG devices selected''))
      else
        (case add_list add_gpu_device
                (filter (\<lambda>i. mig_capable (gpus avail ! i)) (d_gpus visible)) sel of
           Inl e \<Rightarrow> Inl e
         | Inr sel1 \<Rightarrow>
             (case add_list add_gpu_device
                     (filter (\<lambda>i. mig_capable (gpus avail ! i))
                        (map (\<lambda>m. mig_parent (mig_of avail m)) (d_migs visible))) sel1 of
                Inl e \<Rightarrow> Inl e
              | Inr sel2 \<Rightarrow> Inr (sel2\<lparr>d_all := True\<rparr>))))"

fun mig_caps_loop ::
  "string \<Rightarrow> string list \<Rightarrow> nvc_device_info \<Rightarrow> devices \<Rightarrow> devices \<Rightarrow> error + devices" where
  "mig_caps_loop what [] avail visible sel = Inr sel"
| "mig_caps_loop what (dev # devs) avail visible sel =
     (if dev = [] then mig_caps_loop what devs avail visible sel
      else on_error (dev @ '': '')
        (if str_case_equal dev ''all'' then mig_caps_all what avail visible sel
         else Inl (error_setx ''only 'all' devices are currently supported'')))"

definition select_mig_config_devices ::
  "string \<Rightarrow> nvc_device_info \<Rightarrow> devices \<Rightarrow> devices \<Rightarrow> error + devices" where
  "select_mig_config_devices devs avail visible sel =
     mig_caps_loop ''mig-config'' (tokens '','' devs) avail visible sel"

definition select_mig_monitor_devices ::
  "string \<Rightarrow> nvc_device_info \<Rightarrow> devices \<Rightarrow> devices \<Rightarrow> error + devices" where
  "select_mig_monitor_devices devs avail visible sel =
     mig_caps_loop ''mig-monitor'' (tokens '','' devs) avail visible sel"

definition new_devices :: "nvc_device_info \<Rightarrow> devices ioE" where
  "new_devices dev =
     bindE xcalloc (\<lambda>_.
     bindE xcalloc (\<lambda>_.
       okay \<lparr>d_all = False, d_gpus = [], d_max_gpus = length (gpus dev),
             d_migs = [], d_max_migs = count_mig_devices (gpus dev)\<rparr>))"

definition free_devices :: "devices \<Rightarrow> devices" where
  "free_devices d = \<lparr>d_all = False, d_gpus = [], d_max_gpus = 0, d_migs = [], d_max_migs = 0\<rparr>"

subsection \<open>Invariant\<close>

lemma fold_count: "fold (\<lambda>g count. count + length (mig_devices g)) gs n = n + sum_list (map (length \<circ> mig_devices) gs)"
  by (induction gs arbitrary: n) auto

lemma length_all_migs: "length (all_migs avail) = count_mig_devices (gpus avail)"
proof -
  have "length (all_migs avail) =
    sum_list (map (\<lambda>i. length (mig_devices (gpus avail ! i))) [0 ..< length (gpus avail)])"
    by (simp add: all_migs_def length_concat comp_def)
  also have "map (\<lambda>i. length (mig_devices (gpus avail ! i))) [0 ..< length (gpus avail)] =
    map (length \<circ> mig_devices) (gpus avail)"
    by (rule nth_equalityI) auto
  finally show ?thesis
    by (simp add: count_mig_devices_def fold_count)
qed

lemma set_all_migs:
  "m \<in> set (all_migs avail) \<longleftrightarrow>
     fst m < length (gpus avail) \<and> snd m < length (mig_devices (gpus avail ! fst m))"
  by (cases m) (force simp: all_migs_def)

lemma distinct_pairs: "distinct is \<Longrightarrow> distinct (concat (map (\<lambda>i. map (Pair i) [0 ..< f i]) is))"
  by (induction "is") (auto simp: distinct_map inj_on_def)

lemma distinct_all_migs: "distinct (all_migs avail)"
  unfolding all_migs_def by (rule distinct_pairs) simp

definition parents_ok :: "nvc_device_info \<Rightarrow> bool" where
  "parents_ok avail \<longleftrightarrow> (\<forall>m \<in> set (all_migs avail). mig_parent (mig_of avail m) < length (gpus avail))"

text \<open>The collections hold known devices, each once, and have room for all of them.\<close>

definition devices_base :: "nvc_device_info \<Rightarrow> devices \<Rightarrow> bool" where
  "devices_base avail d \<longleftrightarrow>
     distinct (d_gpus d) \<and> distinct (d_migs d) \<and>
     d_max_gpus d = length (gpus avail) \<and> d_max_migs d = length (all_migs avail) \<and>
     set (d_gpus d) \<subseteq> {..< length (gpus avail)} \<and> set (d_migs d) \<subseteq> set (all_migs avail)"

text \<open>Moreover the GPU of every selected MIG device is selected.\<close>

definition devices_ok :: "nvc_device_info \<Rightarrow> devices \<Rightarrow> bool" where
  "devices_ok avail d \<longleftrightarrow> devices_base avail d \<and>
     (\<forall>m \<in> set (d_migs d). mig_parent (mig_of avail m) \<in> set (d_gpus d))"

lemma devices_base_bounded:
  assumes "devices_base avail d"
  shows "gpu.bounded d" "mig.bounded d"
proof -
  have "length (d_gpus d) = card (set (d_gpus d))" "length (d_migs d) = card (set (d_migs d))"
    using assms by (auto simp: devices_base_def distinct_card)
  moreover have "card (set (d_gpus d)) \<le> card {..< length (gpus avail)}"
    using assms by (intro card_mono) (auto simp: devices_base_def)
  moreover have "card (set (d_migs d)) \<le> card (set (all_migs avail))"
    using assms by (intro card_mono) (auto simp: devices_base_def)
  ultimately show "gpu.bounded d" "mig.bounded d"
    using assms distinct_card[OF distinct_all_migs]
    by (auto simp: devices_base_def gpu.bounded_def mig.bounded_def)
qed

text \<open>The other collection is untouched.\<close>

lemma add_gpu_frame:
  "add_gpu_device g d = Inr d' \<Longrightarrow> d_migs d' = d_migs d \<and> d_max_migs d' = d_max_migs d \<and> d_all d' = d_all d"
  by (auto simp: add_gpu_device_def split: if_splits)

lemma add_mig_frame:
  "add_mig_device m d = Inr d' \<Longrightarrow> d_gpus d' = d_gpus d \<and> d_max_gpus d' = d_max_gpus d \<and> d_all d' = d_all d"
  by (auto simp: add_mig_device_def split: if_splits)

lemma add_gpus_frame:
  "add_list add_gpu_device gs d = Inr d' \<Longrightarrow>
     d_migs d' = d_migs d \<and> d_max_migs d' = d_max_migs d \<and> d_all d' = d_all d"
  by (induction gs arbitrary: d) (auto split: sum.splits dest: add_gpu_frame)

lemma add_migs_frame:
  "add_list add_mig_device gs d = Inr d' \<Longrightarrow>
     d_gpus d' = d_gpus d \<and> d_max_gpus d' = d_max_gpus d \<and> d_all d' = d_all d"
  by (induction gs arbitrary: d) (auto split: sum.splits dest: add_mig_frame)

lemma add_gpus_ok:
  assumes "devices_base avail d" "set gs \<subseteq> {..< length (gpus avail)}"
  shows "\<exists>d'. add_list add_gpu_device gs d = Inr d' \<and> devices_base avail d' \<and>
    set (d_gpus d') = set gs \<union> set (d_gpus d) \<and> d_migs d' = d_migs d \<and> d_all d' = d_all d"
proof -
  have b: "gpu.bounded d" by (rule devices_base_bounded[OF assms(1)])
  obtain d' where d': "add_list add_gpu_device gs d = Inr d'"
    using gpu.add_list_succeeds[OF b, of "{..< length (gpus avail)}" gs] assms
    by (auto simp: devices_base_def)
  from gpu.add_list_Inr[OF d' b] add_gpus_frame[OF d'] assms d' show ?thesis
    by (auto simp: devices_base_def gpu.bounded_def)
qed

lemma add_migs_ok:
  assumes "devices_base avail d" "set ms \<subseteq> set (all_migs avail)"
  shows "\<exists>d'. add_list add_mig_device ms d = Inr d' \<and> d_gpus d' = d_gpus d \<and>
    set (d_migs d') = set ms \<union> set (d_migs d) \<and> d_all d' = d_all d \<and> distinct (d_migs d') \<and>
    d_max_gpus d' = d_max_gpus d \<and> d_max_migs d' = d_max_migs d"
proof -
  have b: "mig.bounded d" by (rule devices_base_bounded[OF assms(1)])
  obtain d' where d': "add_list add_mig_device ms d = Inr d'"
    using mig.add_list_succeeds[OF b, of "set (all_migs avail)" ms] assms
      distinct_card[OF distinct_all_migs, of avail]
    by (auto simp: devices_base_def)
  from mig.add_list_Inr[OF d' b] add_migs_frame[OF d'] assms d' show ?thesis
    by (auto simp: devices_base_def mig.bounded_def)
qed

lemma find_gpu_bound: "find_gpu oob dev rest avail = Some i \<Longrightarrow> i < length (gpus avail)"
  unfolding find_gpu_def
  by (auto dest: find_index_of_Some split: option.splits prod.splits list.splits if_splits)

lemma find_mig_bound: "find_mig dev avail = Some m \<Longrightarrow> m \<in> set (all_migs avail)"
  unfolding find_mig_def
  by (auto simp: set_all_migs find_Some_iff dest: nth_mem split: option.splits if_splits prod.splits)

definition grows :: "devices \<Rightarrow> devices \<Rightarrow> bool" where
  "grows d d' \<longleftrightarrow> set (d_gpus d) \<subseteq> set (d_gpus d') \<and> set (d_migs d) \<subseteq> set (d_migs d')"

lemma select_gpu_ok:
  assumes "devices_ok avail d" "find_gpu oob dev rest avail = Some i"
  shows "\<exists>d'. select_gpu_device oob dev rest avail d = Inr (Some i, d') \<and> devices_ok avail d' \<and>
    grows d d' \<and> i \<in> set (d_gpus d')"
proof -
  have "devices_base avail d" "i < length (gpus avail)"
    using assms find_gpu_bound by (auto simp: devices_ok_def)
  from add_gpus_ok[OF this(1), of "[i]"] this(2) obtain d' where
    "add_gpu_device i d = Inr d'" "devices_base avail d'" "set (d_gpus d') = insert i (set (d_gpus d))"
    "d_migs d' = d_migs d"
    by (auto split: sum.splits)
  with assms show ?thesis
    by (auto simp: select_gpu_device_def on_error_def devices_ok_def grows_def)
qed

lemma select_mig_ok:
  assumes "devices_ok avail d" "parents_ok avail" "find_mig dev avail = Some m"
  shows "\<exists>d'. select_mig_device dev avail d = Inr (Some m, d') \<and> devices_ok avail d' \<and>
    grows d d' \<and> m \<in> set (d_migs d')"
proof -
  have base: "devices_base avail d" using assms(1) by (simp add: devices_ok_def)
  have m: "m \<in> set (all_migs avail)" by (rule find_mig_bound[OF assms(3)])
  obtain d1 where d1: "add_mig_device m d = Inr d1" "d_gpus d1 = d_gpus d"
    "set (d_migs d1) = insert m (set (d_migs d))" "devices_base avail d1"
    using add_migs_ok[OF base, of "[m]"] m base by (auto simp: devices_base_def split: sum.splits)
  have "mig_parent (mig_of avail m) < length (gpus avail)"
    using assms(2) m by (simp add: parents_ok_def)
  with add_gpus_ok[OF d1(4), of "[mig_parent (mig_of avail m)]"] obtain d2 where
    "add_gpu_device (mig_parent (mig_of avail m)) d1 = Inr d2" "devices_base avail d2"
    "set (d_gpus d2) = insert (mig_parent (mig_of avail m)) (set (d_gpus d))"
    "set (d_migs d2) = insert m (set (d_migs d))"
    using d1 by (auto split: sum.splits)
  with assms d1(1) show ?thesis
    by (auto simp: select_mig_device_def on_error_def devices_ok_def grows_def)
qed

lemma select_all_ok:
  assumes "devices_ok avail d" "parents_ok avail"
  shows "\<exists>d'. select_all_devices avail d = Inr d' \<and> devices_ok avail d' \<and> grows d d' \<and>
    set (d_gpus d') = {..< length (gpus avail)} \<and> set (d_migs d') = set (all_migs avail)"
proof -
  have base: "devices_base avail d" using assms(1) by (simp add: devices_ok_def)
  obtain d1 where add: "add_list add_gpu_device [0 ..< length (gpus avail)] d = Inr d1"
    "devices_base avail d1" "set (d_gpus d1) = {..< length (gpus avail)} \<union> set (d_gpus d)"
    "d_migs d1 = d_migs d"
    using add_gpus_ok[OF base, of "[0 ..< length (gpus avail)]"] by (auto simp: atLeast0LessThan)
  then have d1: "add_list add_gpu_device [0 ..< length (gpus avail)] d = Inr d1"
    "devices_base avail d1" "set (d_gpus d1) = {..< length (gpus avail)}" "d_migs d1 = d_migs d"
    using base by (auto simp: devices_base_def)
  obtain d2 where d2: "add_list add_mig_device (all_migs avail) d1 = Inr d2" "d_gpus d2 = d_gpus d1"
    "set (d_migs d2) = set (all_migs avail)" "devices_base avail d2"
    using add_migs_ok[OF d1(2), of "all_migs avail"] d1(2) by (auto simp: devices_base_def)
  have "devices_ok avail d2"
    using d1 d2 assms(2) by (auto simp: devices_ok_def parents_ok_def)
  moreover have "grows d d2"
    using base d1 d2 by (auto simp: grows_def devices_base_def)
  ultimately show ?thesis
    using d1 d2
    by (auto simp: select_all_devices_def select_all_gpu_devices_def select_all_mig_devices_def on_error_def)
qed

definition unknown_device :: "string \<Rightarrow> error" where
  "unknown_device dev = prefix_error (dev @ '': '') (error_setx ''unknown device'')"

lemma select_loop_outcome:
  assumes "devices_ok avail d" "parents_ok avail"
  shows "case select_loop oob devs avail d of
     Inr d' \<Rightarrow> devices_ok avail d' \<and> grows d d'
   | Inl e \<Rightarrow> \<exists>dev rest. dev \<noteq> [] \<and> e = unknown_device dev \<and>
       find_gpu oob dev rest avail = None \<and> find_mig dev avail = None"
  using assms(1)
proof (induction "case devs of None \<Rightarrow> 0 | Some s \<Rightarrow> Suc (length s)" arbitrary: devs d rule: less_induct)
  case less
  show ?case
  proof (cases devs)
    case None
    then show ?thesis using less.prems by (simp add: select_loop.simps grows_def)
  next
    case (Some s)
    obtain dev rest where sep: "strsep '','' s = (dev, rest)" by fastforce
    note eq = select_loop.simps(2)[of oob s avail d, unfolded sep prod.case]
    have step: "case select_loop oob rest avail d' of
         Inr d2 \<Rightarrow> devices_ok avail d2 \<and> grows d d2
       | Inl e \<Rightarrow> \<exists>dev rest. dev \<noteq> [] \<and> e = unknown_device dev \<and>
           find_gpu oob dev rest avail = None \<and> find_mig dev avail = None"
      if "devices_ok avail d'" "grows d d'" for d'
      using less.hyps[of rest d'] that strsep_length[OF sep] Some
      by (auto simp: grows_def split: sum.splits option.splits)
    show ?thesis
    proof (cases "dev = [] \<or> str_case_equal dev ''all''")
      case True
      then show ?thesis
        using step[of d] less.prems select_all_ok[OF less.prems assms(2)] unfolding Some eq
        by (cases "dev = []") (auto simp: on_error_def devices_ok_def devices_base_def grows_def)
    next
      case False
      then have c: "dev \<noteq> []" "\<not> str_case_equal dev ''all''" by auto
      show ?thesis
      proof (cases "find_gpu oob dev rest avail")
        case gpu: (Some i)
        from select_gpu_ok[OF less.prems gpu] step show ?thesis
          unfolding Some eq using c by (auto simp: on_error_def)
      next
        case no_gpu: None
        then have g: "select_gpu_device oob dev rest avail d = Inr (None, d)"
          by (simp add: select_gpu_device_def)
        show ?thesis
        proof (cases "find_mig dev avail")
          case mig: (Some m)
          from select_mig_ok[OF less.prems assms(2) mig] step show ?thesis
            unfolding Some eq using c g by (auto simp: on_error_def)
        next
          case None
          with no_gpu c g show ?thesis
            unfolding Some eq
            by (auto simp: on_error_def select_mig_device_def unknown_device_def)
        qed
      qed
    qed
  qed
qed

definition fresh_devices :: "nvc_device_info \<Rightarrow> devices" where
  "fresh_devices avail = \<lparr>d_all = False, d_gpus = [], d_max_gpus = length (gpus avail),
             d_migs = [], d_max_migs = count_mig_devices (gpus avail)\<rparr>"

lemma fresh_devices_ok: "devices_ok avail (fresh_devices avail)"
  by (simp add: fresh_devices_def devices_ok_def devices_base_def length_all_migs)

lemma scan_hex_rest: "scan_hex w s = Some (v, r) \<Longrightarrow> set r \<subseteq> set s"
  by (auto simp: scan_hex_def Let_def split: prod.splits if_splits dest!: set_dropWhileD in_set_dropD)

lemma matches_pci_needs_colon: "matches_pci_format s n = Some b \<Longrightarrow> CHR '':'' \<in> set s"
  unfolding matches_pci_format_def
  by (auto dest!: scan_hex_rest simp: scan_char_def split: option.splits prod.splits list.splits if_splits)

lemma mig_caps_all_ok:
  assumes "devices_ok avail visible" "devices_ok avail sel" "d_all visible \<or> d_migs visible = []"
  shows "\<exists>d. mig_caps_all what avail visible sel = Inr d \<and> d_all d \<and> d_migs d = d_migs sel \<and>
    set (d_gpus d) = set (d_gpus sel) \<union> {i \<in> set (d_gpus visible). mig_capable (gpus avail ! i)}"
proof -
  let ?cap = "\<lambda>i. mig_capable (gpus avail ! i)"
  have sub: "set (d_gpus visible) \<subseteq> {..< length (gpus avail)}"
    "\<forall>m \<in> set (d_migs visible). mig_parent (mig_of avail m) \<in> set (d_gpus visible)"
    "devices_base avail sel"
    using assms by (auto simp: devices_ok_def devices_base_def)
  obtain d1 where d1: "add_list add_gpu_device (filter ?cap (d_gpus visible)) sel = Inr d1"
    "devices_base avail d1" "set (d_gpus d1) = set (filter ?cap (d_gpus visible)) \<union> set (d_gpus sel)"
    "d_migs d1 = d_migs sel"
    using add_gpus_ok[OF sub(3), of "filter ?cap (d_gpus visible)"] sub(1) by fastforce
  have "set (filter ?cap (map (\<lambda>m. mig_parent (mig_of avail m)) (d_migs visible))) \<subseteq> {..< length (gpus avail)}"
    using sub by auto
  from add_gpus_ok[OF d1(2) this] d1 sub(2) assms(3) show ?thesis
    by (auto simp: mig_caps_all_def)
qed

text \<open>A machine with one MIG-capable GPU that has one MIG device.\<close>

definition one_gpu :: nvc_device_info where
  "one_gpu = \<lparr>gpus = [\<lparr>dev_model = ''XDX'', dev_uuid = ''abcd'', dev_busid = ''00000000:01:00.0'',
     dev_arch = [], dev_brand = [], dev_node = \<lparr>node_path = ''/dev/dri/card0'', node_id = 0\<rparr>,
     mig_capable = True, mig_caps_path = [],
     mig_devices = [\<lparr>mig_parent = 0, mig_uuid = ''MIG-1'', mig_gi = 0, mig_ci = 0,
                     gi_caps_path = [], ci_caps_path = []\<rparr>]\<rparr>]\<rparr>"

lemma one_gpu_migs: "all_migs one_gpu = [(0, 0)]" "length (gpus one_gpu) = 1"
  by (simp_all add: one_gpu_def all_migs_def)

lemma one_gpu_ok: "parents_ok one_gpu"
  by (simp add: parents_ok_def one_gpu_migs) (simp add: one_gpu_def mig_of_def)

subsection \<open>Properties\<close>

text \<open>C16: selecting devices from any string keeps the selection well formed (known devices only,
  each once, within the allocated arrays, the GPU of every selected MIG device selected too) and
  never drops a device; when it fails, it fails because some name is unknown, never because an
  array is full.\<close>

theorem select_devices_outcome:
  assumes "parents_ok avail" "devices_ok avail d"
  shows "case select_devices oob devs avail d of
     Inr d' \<Rightarrow> devices_ok avail d' \<and> grows d d'
   | Inl e \<Rightarrow> \<exists>dev rest. dev \<noteq> [] \<and> e = unknown_device dev \<and>
       find_gpu oob dev rest avail = None \<and> find_mig dev avail = None"
  unfolding select_devices_def by (rule select_loop_outcome[OF assms(2,1)])

theorem select_devices_outcome_witness:
  "\<exists>d. select_devices [] ''0:0'' one_gpu (fresh_devices one_gpu) = Inr d \<and> devices_ok one_gpu d"
proof -
  let ?r = "select_devices [] ''0:0'' one_gpu (fresh_devices one_gpu)"
  have "\<exists>d. ?r = Inr d"
    by (simp add: select_devices_def select_loop.simps strsep_def str_case_equal_def tolower_def
        ord_def on_error_def select_gpu_device_def find_gpu_def uuid_text_def one_gpu_def
        matches_pci_format_def scan_hex_def scan_sign_def isspace_def isxdigit_def isdigit_def
        scan_char_def strtoumax_def scan_num_def digit_val_def select_mig_device_def find_mig_def
        mig_of_def add_mig_device_def add_gpu_device_def fresh_devices_def count_mig_devices_def)
  with select_devices_outcome[OF one_gpu_ok fresh_devices_ok, of "[]" "''0:0''"] show ?thesis
    by auto
qed

text \<open>A device string that begins with the name "all", in any case, selects every GPU and
  every MIG device of the machine exactly once and marks the selection as complete, whatever
  follows.\<close>

theorem select_all_complete:
  assumes "parents_ok avail" "str_case_equal dev ''all''" "CHR '','' \<notin> set dev"
    and "rest = [] \<or> hd rest = CHR '',''"
  shows "\<exists>d. select_devices oob (dev @ rest) avail (fresh_devices avail) = Inr d \<and> d_all d \<and>
    set (d_gpus d) = {..< length (gpus avail)} \<and> set (d_migs d) = set (all_migs avail) \<and>
    distinct (d_gpus d) \<and> distinct (d_migs d)"
proof -
  have sep: "\<exists>r. strsep '','' (dev @ rest) = (dev, r)"
    using assms(3,4) by (cases rest) (auto simp: strsep_def takeWhile_append)
  have "dev \<noteq> []" using assms(2) by (auto simp: str_case_equal_def)
  with sep select_all_ok[OF fresh_devices_ok assms(1)] assms(2) show ?thesis
    by (fastforce simp: select_devices_def select_loop.simps(2) on_error_def devices_ok_def devices_base_def)
qed

theorem select_all_complete_witness:
  "\<exists>d. select_devices [] ''ALL,junk'' one_gpu (fresh_devices one_gpu) = Inr d \<and> d_all d \<and>
     set (d_gpus d) = {0} \<and> set (d_migs d) = {(0, 0)}"
  using select_all_complete[OF one_gpu_ok, of "''ALL''" "'',junk''" "[]"]
  by (auto simp: one_gpu_migs str_case_equal_def tolower_def ord_def char_of_def bit_0 lessThan_Suc)

text \<open>A decimal index selects exactly the GPU at that position, provided no GPU has a UUID
  that equals the text the UUID lookup reads at two characters past the start of the name.\<close>

theorem select_by_index:
  assumes "i < length (gpus avail)" "length (gpus avail) < 2 ^ 64"
    and "\<forall>g \<in> set (gpus avail). \<not> str_case_equal (dev_uuid g) (uuid_text oob (dec i) None)"
  shows "\<exists>d. select_devices oob (dec i) avail (fresh_devices avail) = Inr d \<and> d_gpus d = [i] \<and> d_migs d = []"
proof -
  have dig: "set (dec i) \<subseteq> {c. isdigit c}" using dec_digits[of i] by (auto simp: list_all_iff)
  have nc: "CHR '','' \<notin> set (dec i)" "CHR '':'' \<notin> set (dec i)" "CHR ''a'' \<notin> set (dec i)"
    using dig by (auto simp: isdigit_def ord_def)
  have sep: "strsep '','' (dec i) = (dec i, None)"
    using nc(1) by (intro strsep_single) auto
  have na: "\<not> str_case_equal (dec i) ''all''"
  proof
    assume "str_case_equal (dec i) ''all''"
    moreover have "tolower CHR ''a'' = CHR ''a''"
      by (simp add: tolower_def ord_def)
    ultimately obtain c zs where "dec i = c # zs" "tolower c = CHR ''a''"
      by (auto simp: str_case_equal_def map_eq_Cons_conv)
    with dig show False by (auto simp: tolower_def isdigit_def ord_def)
  qed
  have "find_index_of (\<lambda>g. length (dev_uuid g) = length (uuid_text oob (dec i) None) \<and>
      str_case_equal (dev_uuid g) (uuid_text oob (dec i) None)) (gpus avail) = None"
    using assms(3) by (auto simp: find_index_of_None)
  moreover have "matches_pci_format (dec i) PCI_BUFSIZE = None"
    using matches_pci_needs_colon[of "dec i"] nc(2) by (cases "matches_pci_format (dec i) PCI_BUFSIZE") auto
  ultimately have "find_gpu oob (dec i) None avail = Some i"
    using assms(1,2) by (simp add: find_gpu_def strtoumax_dec)
  with sep na assms(1) show ?thesis
    by (auto simp: select_devices_def select_loop.simps select_gpu_device_def fresh_devices_def
        add_gpu_device_def on_error_def)
qed

theorem select_by_index_witness:
  "\<exists>d. select_devices [] (dec 0) one_gpu (fresh_devices one_gpu) = Inr d \<and> d_gpus d = [0]"
  using select_by_index[of 0 one_gpu "[]"]
  by (auto simp: one_gpu_def uuid_text_def str_case_equal_def dec.simps)

text \<open>Enabling MIG configuration for "all" succeeds when all devices are visible or no
  specific MIG device is, and adds exactly the visible GPUs that are MIG capable.\<close>

theorem mig_config_capable:
  assumes "devices_ok avail visible" "devices_ok avail sel" "d_all visible \<or> d_migs visible = []"
  shows "\<exists>d. select_mig_config_devices ''all'' avail visible sel = Inr d \<and> d_all d \<and>
    d_migs d = d_migs sel \<and>
    set (d_gpus d) = set (d_gpus sel) \<union> {i \<in> set (d_gpus visible). mig_capable (gpus avail ! i)}"
  using mig_caps_all_ok[OF assms, of "''mig-config''"]
  by (auto simp: select_mig_config_devices_def on_error_def str_case_equal_def)

theorem mig_config_capable_witness:
  "\<exists>d. select_mig_config_devices ''all'' one_gpu
        ((fresh_devices one_gpu)\<lparr>d_gpus := [0]\<rparr>) (fresh_devices one_gpu) = Inr d \<and>
      set (d_gpus d) = {0}"
proof -
  let ?v = "(fresh_devices one_gpu)\<lparr>d_gpus := [0]\<rparr>"
  have "devices_ok one_gpu ?v"
    using fresh_devices_ok[of one_gpu]
    by (simp add: devices_ok_def devices_base_def fresh_devices_def one_gpu_def)
  moreover have "d_migs ?v = []" "d_gpus ?v = [0]" "d_gpus (fresh_devices one_gpu) = []"
    by (simp_all add: fresh_devices_def)
  moreover have "mig_capable (gpus one_gpu ! 0)" by (simp add: one_gpu_def)
  ultimately show ?thesis
    using mig_config_capable[of one_gpu ?v "fresh_devices one_gpu"] fresh_devices_ok[of one_gpu]
    by auto
qed

end
