(* ===== verification/Dsl.thy ===== *)
theory Dsl
  imports StrUtils "HOL-Library.List_Lexorder"
begin

text \<open>
  cli/dsl.c: the requirement expressions of the command line.  A predicate is a
  disjunction, by blanks, of conjunctions, by commas, of comparisons; versions
  are compared number by number.  The int results -1, false and true of the
  source are None, Some False and Some True.
\<close>

subsection \<open>Comparisons\<close>

datatype dsl_comparator = EQUAL | NOT_EQUAL | LESS | LESS_EQUAL | GREATER | GREATER_EQUAL

definition operators :: "(string \<times> dsl_comparator) list" where
  "operators =
    [(''='', EQUAL), (''!='', NOT_EQUAL), (''<'', LESS), (''<='', LESS_EQUAL),
     (''>'', GREATER), (''>='', GREATER_EQUAL)]"

definition version_chars :: "string \<Rightarrow> bool" where
  "version_chars v \<longleftrightarrow> takeWhile (\<lambda>c. c \<in> set ''0123456789.'') v = v"

definition compare_differ :: "nat \<Rightarrow> dsl_comparator \<Rightarrow> nat \<Rightarrow> bool" where
  "compare_differ n1 cmp n2 =
     (if cmp = EQUAL then False
      else if cmp = NOT_EQUAL then True
      else if cmp = LESS \<or> cmp = LESS_EQUAL then n1 < n2
      else n1 > n2)"

text \<open>What is left of the versions when one is exhausted, zeros and dots skipped.\<close>

definition compare_rest :: "string \<Rightarrow> dsl_comparator \<Rightarrow> string \<Rightarrow> bool" where
  "compare_rest v1 cmp v2 =
     (let v1 = dropWhile (\<lambda>c. c \<in> set ''.0'') v1;
          v2 = dropWhile (\<lambda>c. c \<in> set ''.0'') v2
      in if cmp = NOT_EQUAL then v1 \<noteq> [] \<or> v2 \<noteq> []
         else if (cmp = EQUAL \<or> cmp = LESS_EQUAL \<or> cmp = GREATER_EQUAL) \<and> v1 = [] \<and> v2 = [] then True
         else if cmp = EQUAL then False
         else if cmp = LESS \<or> cmp = LESS_EQUAL then v1 = [] \<and> v2 \<noteq> []
         else v1 \<noteq> [] \<and> v2 = [])"

lemma strtoumax_shorter: "strtoumax s = Some (n, r) \<Longrightarrow> length r < length s"
  by (auto simp: strtoumax_def dest: scan_num_shorter split: option.splits)

function compare_loop :: "string \<Rightarrow> dsl_comparator \<Rightarrow> string \<Rightarrow> bool option" where
  "compare_loop v1 cmp v2 =
     (if v1 \<noteq> [] \<and> v2 \<noteq> [] then
        (case strtoumax v1 of
           None \<Rightarrow> None
         | Some (n1, ptr1) \<Rightarrow>
             if n1 = 2 ^ 64 - 1 then None
             else
               (case strtoumax v2 of
                  None \<Rightarrow> None
                | Some (n2, ptr2) \<Rightarrow>
                    if n2 = 2 ^ 64 - 1 then None
                    else if n1 \<noteq> n2 then Some (compare_differ n1 cmp n2)
                    else compare_loop (dropWhile (\<lambda>c. c = CHR ''.'') ptr1) cmp
                           (dropWhile (\<lambda>c. c = CHR ''.'') ptr2)))
      else Some (compare_rest v1 cmp v2))"
  by pat_completeness auto
termination
  by (relation "measure (\<lambda>(v1, cmp, v2). length v1)")
     (auto dest!: strtoumax_shorter intro: le_less_trans[OF length_dropWhile_le])

declare compare_loop.simps [simp del]

definition dsl_compare_version :: "string \<Rightarrow> dsl_comparator \<Rightarrow> string \<Rightarrow> bool option" where
  "dsl_compare_version v1 cmp v2 =
     (if \<not> version_chars v1 then None
      else if \<not> version_chars v2 then None
      else compare_loop v1 cmp v2)"

definition dsl_compare_string :: "string \<Rightarrow> dsl_comparator \<Rightarrow> string \<Rightarrow> bool option" where
  "dsl_compare_string s1 cmp s2 =
     (if cmp = EQUAL then Some (str_case_equal s1 s2)
      else if cmp = NOT_EQUAL then Some (\<not> str_case_equal s1 s2)
      else None)"

subsection \<open>Expressions\<close>

text \<open>A rule: its name and its function, with the context of the evaluation supplied.\<close>

type_synonym dsl_rule = "string \<times> (dsl_comparator \<Rightarrow> string \<Rightarrow> bool option)"

fun find_operator :: "string \<Rightarrow> nat \<Rightarrow> (string \<times> dsl_comparator) list \<Rightarrow> (string \<times> dsl_comparator) option" where
  "find_operator ptr n [] = None"
| "find_operator ptr n (op # ops) =
     (if strncmp_eq ptr (fst op) n then Some op else find_operator ptr n ops)"

fun find_rule :: "string \<Rightarrow> dsl_rule list \<Rightarrow> dsl_rule option" where
  "find_rule expr [] = None"
| "find_rule expr (r # rules) =
     (if str_case_equal expr (fst r) then Some r else find_rule expr rules)"

abbreviation (input) EXPR_MAX :: nat where "EXPR_MAX \<equiv> 128"

definition evaluate_rule :: "string \<Rightarrow> dsl_rule list \<Rightarrow> bool option" where
  "evaluate_rule expr rules =
     (let isop = (\<lambda>c. c \<in> set ''<>=!'');
          name = takeWhile (\<lambda>c. \<not> isop c) expr;
          ptr = dropWhile (\<lambda>c. \<not> isop c) expr;
          n = length (takeWhile isop ptr)
      in if name = [] then None
         else if n = 0 then None
         else case find_operator ptr n operators of
                None \<Rightarrow> None
              | Some (op_str, op_cmp) \<Rightarrow>
                  let val = drop n ptr
                  in if val = [] then None
                     else case find_rule name rules of
                            None \<Rightarrow> None
                          | Some (_, func) \<Rightarrow>
                              if func op_cmp val = Some False \<and>
                                 length (name @ '' '' @ op_str @ '' '' @ val) \<ge> EXPR_MAX
                              then None
                              else func op_cmp val)"

text \<open>The inner loop: the value of \<open>ret\<close> and whether the loop ran to its end.\<close>

fun and_loop :: "dsl_rule list \<Rightarrow> bool \<Rightarrow> string list \<Rightarrow> (bool \<times> bool) option" where
  "and_loop rules rv [] = Some (rv, True)"
| "and_loop rules rv (t # ts) =
     (if t = [] then and_loop rules rv ts
      else case evaluate_rule t rules of
             None \<Rightarrow> None
           | Some b \<Rightarrow> if \<not> b then Some (False, False) else and_loop rules True ts)"

fun or_loop :: "dsl_rule list \<Rightarrow> bool \<Rightarrow> string list \<Rightarrow> bool option" where
  "or_loop rules rv [] = Some rv"
| "or_loop rules rv (g # gs) =
     (if g = [] then or_loop rules rv gs
      else case and_loop rules rv (tokens '','' g) of
             None \<Rightarrow> None
           | Some (rv', finished) \<Rightarrow> if finished then Some rv' else or_loop rules rv' gs)"

definition dsl_evaluate :: "string \<Rightarrow> dsl_rule list \<Rightarrow> unit ioE" where
  "dsl_evaluate predicate rules =
     bindE (xstrdup predicate) (\<lambda>expr.
       case or_loop rules True (tokens '' '' expr) of
         None \<Rightarrow> failx ''invalid expression''
       | Some True \<Rightarrow> okay ()
       | Some False \<Rightarrow>
           bindE (xstrdup predicate) (\<lambda>p.
             let first = fst (strsep '' '' p)
             in if length first \<ge> 6 \<and> strncmp_eq first ''cuda>='' 6
                then failx (''unsatisfied condition: '' @ first @ '', please update your driver to a newer version, or use an earlier cuda container'')
                else failx (''unsatisfied condition: '' @ first)))"

subsection \<open>Versions\<close>

text \<open>
  The reference order: the numbers of a version, trailing zeros removed,
  compared lexicographically.
\<close>

datatype version = Version (parts: "nat list")

instantiation version :: linorder
begin

definition less_eq_version :: "version \<Rightarrow> version \<Rightarrow> bool" where
  "less_eq_version v w \<longleftrightarrow> parts v \<le> parts w"

definition less_version :: "version \<Rightarrow> version \<Rightarrow> bool" where
  "less_version v w \<longleftrightarrow> parts v < parts w"

instance
  by standard (auto simp: less_eq_version_def less_version_def version.expand)

end

fun strip0 :: "nat list \<Rightarrow> nat list" where
  "strip0 [] = []"
| "strip0 (x # xs) = (if x = 0 \<and> strip0 xs = [] then [] else x # strip0 xs)"

definition numbers :: "string \<Rightarrow> nat list" where
  "numbers v = map (digits_val 0) (filter (\<lambda>t. t \<noteq> []) (tokens ''.'' v))"

definition version_of :: "string \<Rightarrow> version" where
  "version_of v = Version (strip0 (numbers v))"

fun cmp_holds :: "dsl_comparator \<Rightarrow> 'a::linorder \<Rightarrow> 'a \<Rightarrow> bool" where
  "cmp_holds EQUAL x y = (x = y)"
| "cmp_holds NOT_EQUAL x y = (x \<noteq> y)"
| "cmp_holds LESS x y = (x < y)"
| "cmp_holds LESS_EQUAL x y = (x \<le> y)"
| "cmp_holds GREATER x y = (x > y)"
| "cmp_holds GREATER_EQUAL x y = (x \<ge> y)"

text \<open>A version text the comparison accepts: digits and dots, a digit first, no huge number.\<close>

definition plain_version :: "string \<Rightarrow> bool" where
  "plain_version v \<longleftrightarrow>
     (\<forall>c \<in> set v. isdigit c \<or> c = CHR ''.'') \<and> (v = [] \<or> isdigit (hd v)) \<and>
     (\<forall>n \<in> set (numbers v). n < 2 ^ 64 - 1)"

subsection \<open>The comparison follows the order\<close>

lemma version_chars_iff: "version_chars v \<longleftrightarrow> (\<forall>c \<in> set v. isdigit c \<or> c = CHR ''.'')"
  unfolding version_chars_def takeWhile_eq_all_conv
  using isdigit_chars by auto

lemma strtoumax_digits:
  assumes "v \<noteq> []" "isdigit (hd v)"
  shows "strtoumax v =
    Some (min (digits_val 0 (takeWhile isdigit v)) (2 ^ 64 - 1), dropWhile isdigit v)"
proof -
  obtain c s where v: "v = c # s" using assms(1) by (cases v) auto
  have c: "isdigit c" "\<not> isspace c" "c \<noteq> CHR ''-''" "c \<noteq> CHR ''+''"
    using assms(2) isdigit_not_space by (auto simp: v isdigit_def ord_def)
  then show ?thesis
    by (auto simp: v strtoumax_def scan_num_def scan_sign_def Let_def min_def)
qed

lemma numbers_simps [simp]:
  "numbers [] = []" "numbers (CHR ''.'' # v) = numbers v"
  by (simp_all add: numbers_def)

lemma numbers_dots: "numbers (dropWhile (\<lambda>c. c = CHR ''.'') v) = numbers v"
  by (induction v) auto

lemma numbers_digits:
  assumes "\<forall>c \<in> set v. isdigit c \<or> c = CHR ''.''" "v \<noteq> []" "isdigit (hd v)"
  shows "numbers v = digits_val 0 (takeWhile isdigit v) # numbers (dropWhile isdigit v)"
proof -
  define d r where dr: "d = takeWhile isdigit v" "r = dropWhile isdigit v"
  have v: "v = d @ r" by (simp add: dr)
  have d: "d \<noteq> []" using assms(2,3) by (cases v) (auto simp: dr)
  have dd: "set d \<inter> set ''.'' = {}"
    by (auto dest: set_takeWhileD simp: dr isdigit_def ord_def)
  have "numbers v = digits_val 0 d # numbers r"
  proof (cases r)
    case Nil
    then show ?thesis using d tokens_single[OF dd] by (simp add: v numbers_def)
  next
    case (Cons c r')
    have "\<not> isdigit c" by (rule dropWhile_Cons_head[OF Cons[unfolded dr]])
    then have c: "c = CHR ''.''" using assms(1) Cons by (auto simp: v)
    then show ?thesis
      using d tokens_append_delim[OF dd, of "CHR ''.''" r'] by (simp add: v Cons numbers_def)
  qed
  then show ?thesis by (simp only: dr)
qed

lemma plain_rest:
  assumes "plain_version v" "v \<noteq> []"
  shows "plain_version (dropWhile (\<lambda>c. c = CHR ''.'') (dropWhile isdigit v))"
    (is "plain_version ?w")
proof -
  have chars: "\<forall>c \<in> set ?w. isdigit c \<or> c = CHR ''.''"
    using assms by (auto simp: plain_version_def dest!: set_dropWhileD)
  have hd: "?w = [] \<or> isdigit (hd ?w)"
    using chars by (metis (full_types) hd_dropWhile hd_in_set)
  have "set (numbers ?w) \<subseteq> set (numbers v)"
    using numbers_digits[of v] assms by (auto simp: numbers_dots plain_version_def)
  with chars hd assms show ?thesis
    unfolding plain_version_def by blast
qed

lemma strip0_Nil: "strip0 xs = [] \<longleftrightarrow> (\<forall>x \<in> set xs. x = 0)"
  by (induction xs) auto

lemma digits_val_0: "list_all isdigit s \<Longrightarrow> digits_val acc s = 0 \<longleftrightarrow> acc = 0 \<and> (\<forall>c \<in> set s. c = CHR ''0'')"
proof (induction s arbitrary: acc)
  case (Cons c s)
  have "digit_val c = 0 \<longleftrightarrow> c = CHR ''0''"
    using Cons.prems char_eq_ord[of c "CHR ''0''"]
    by (auto simp: digit_val_def isdigit_def) (simp_all add: ord_def)
  with Cons show ?case by auto
qed simp

lemma rest_zero:
  assumes "\<forall>c \<in> set v. isdigit c \<or> c = CHR ''.''"
  shows "dropWhile (\<lambda>c. c \<in> set ''.0'') v = [] \<longleftrightarrow> strip0 (numbers v) = []"
proof -
  have tok: "list_all isdigit t" if "t \<in> set (tokens ''.'' v)" for t
    using tokens_chars[OF that] tokens_no_delim[OF that] assms by (auto simp: list_all_iff)
  have "strip0 (numbers v) = [] \<longleftrightarrow> (\<forall>t \<in> set (tokens ''.'' v). \<forall>c \<in> set t. c = CHR ''0'')"
    using tok digits_val_0 by (auto simp: strip0_Nil numbers_def)
  also have "\<dots> \<longleftrightarrow> (\<forall>c \<in> set v. c = CHR ''.'' \<or> c = CHR ''0'')"
    using all_tokens[of "''.''" v "\<lambda>c. c = CHR ''0''"] by simp
  finally show ?thesis by auto
qed


lemma Nil_less_iff: "([] :: nat list) < xs \<longleftrightarrow> xs \<noteq> []"
  by (cases xs) auto

lemma strip0_differ:
  "m < n \<Longrightarrow> strip0 (m # xs) < strip0 (n # ys)"
  by auto

lemma strip0_same:
  "strip0 (n # xs) < strip0 (n # ys) \<longleftrightarrow> strip0 xs < strip0 ys"
  "strip0 (n # xs) = strip0 (n # ys) \<longleftrightarrow> strip0 xs = strip0 ys"
  by (auto simp: Nil_less_iff)

lemma version_less [simp]: "Version xs < Version ys \<longleftrightarrow> xs < ys"
  by (simp add: less_version_def)

lemma version_le [simp]: "Version xs \<le> Version ys \<longleftrightarrow> xs \<le> ys"
  by (simp add: less_eq_version_def)

lemma cmp_holds_less: "x < y \<Longrightarrow> cmp_holds cmp x y = (cmp \<in> {NOT_EQUAL, LESS, LESS_EQUAL})"
  by (cases cmp) auto

lemma cmp_holds_greater: "y < x \<Longrightarrow> cmp_holds cmp x y = (cmp \<in> {NOT_EQUAL, GREATER, GREATER_EQUAL})"
  by (cases cmp) auto

lemma cmp_holds_same: "cmp_holds cmp x x = (cmp \<in> {EQUAL, LESS_EQUAL, GREATER_EQUAL})"
  by (cases cmp) auto

lemma compare_differ_holds:
  "m \<noteq> n \<Longrightarrow> compare_differ m cmp n = cmp_holds cmp (Version (strip0 (m # xs))) (Version (strip0 (n # ys)))"
  using strip0_differ[of m n xs ys] strip0_differ[of n m ys xs]
  by (cases "m < n"; cases cmp) (auto simp: compare_differ_def cmp_holds_less cmp_holds_greater simp del: strip0.simps)

lemma compare_rest_holds:
  assumes "plain_version v1" "plain_version v2" "v1 = [] \<or> v2 = []"
  shows "compare_rest v1 cmp v2 = cmp_holds cmp (version_of v1) (version_of v2)"
proof -
  have z: "dropWhile (\<lambda>c. c \<in> set ''.0'') v1 = [] \<longleftrightarrow> strip0 (numbers v1) = []"
    "dropWhile (\<lambda>c. c \<in> set ''.0'') v2 = [] \<longleftrightarrow> strip0 (numbers v2) = []"
    using assms rest_zero unfolding plain_version_def by blast+
  have "[] < strip0 (numbers v1) \<longleftrightarrow> strip0 (numbers v1) \<noteq> []"
    "[] < strip0 (numbers v2) \<longleftrightarrow> strip0 (numbers v2) \<noteq> []"
    by (simp_all add: Nil_less_iff)
  with assms(3) show ?thesis
    unfolding compare_rest_def Let_def z version_of_def
    by (cases cmp) auto
qed

lemma compare_loop_holds:
  assumes "plain_version v1" "plain_version v2"
  shows "compare_loop v1 cmp v2 = Some (cmp_holds cmp (version_of v1) (version_of v2))"
  using assms
proof (induction v1 cmp v2 rule: compare_loop.induct)
  case (1 v1 cmp v2)
  show ?case
  proof (cases "v1 \<noteq> [] \<and> v2 \<noteq> []")
    case False
    then show ?thesis
      using compare_rest_holds "1.prems" by (subst compare_loop.simps) auto
  next
    case True
    define n1 n2 where n: "n1 = digits_val 0 (takeWhile isdigit v1)"
      "n2 = digits_val 0 (takeWhile isdigit v2)"
    define w1 w2 where w: "w1 = dropWhile (\<lambda>c. c = CHR ''.'') (dropWhile isdigit v1)"
      "w2 = dropWhile (\<lambda>c. c = CHR ''.'') (dropWhile isdigit v2)"
    have nums: "numbers v1 = n1 # numbers w1" "numbers v2 = n2 # numbers w2"
      using numbers_digits[of v1] numbers_digits[of v2] True "1.prems"
      by (auto simp: plain_version_def n w numbers_dots)
    have lt: "n1 < 2 ^ 64 - 1" "n2 < 2 ^ 64 - 1"
      using "1.prems" nums by (auto simp: plain_version_def)
    have p: "plain_version w1" "plain_version w2"
      using plain_rest "1.prems" True by (auto simp: w)
    have sc: "strtoumax v1 = Some (n1, dropWhile isdigit v1)"
      "strtoumax v2 = Some (n2, dropWhile isdigit v2)"
      using strtoumax_digits[of v1] strtoumax_digits[of v2] True "1.prems" lt
      by (auto simp: plain_version_def n)
    show ?thesis
    proof (cases "n1 = n2")
      case False
      then show ?thesis
        using True sc lt compare_differ_holds[OF False]
        by (subst compare_loop.simps) (simp add: version_of_def nums del: strip0.simps)
    next
      case eq: True
      have "compare_loop v1 cmp v2 = compare_loop w1 cmp w2"
        using True sc lt eq by (subst compare_loop.simps) (simp add: w)
      also have "\<dots> = Some (cmp_holds cmp (version_of w1) (version_of w2))"
        using "1.IH"[OF True sc(1) refl _ sc(2) refl] lt eq p by (auto simp: w)
      also have "cmp_holds cmp (version_of w1) (version_of w2) =
        cmp_holds cmp (version_of v1) (version_of v2)"
        using strip0_same[of n1 "numbers w1" "numbers w2"] strip0_same[of n1 "numbers w2" "numbers w1"] eq
        by (cases cmp) (auto simp: version_of_def nums le_less simp del: strip0.simps)
      finally show ?thesis .
    qed
  qed
qed

subsection \<open>Predicates as disjunctions of conjunctions\<close>

definition groups :: "string \<Rightarrow> string list list" where
  "groups predicate = map (\<lambda>g. filter (\<lambda>t. t \<noteq> []) (tokens '','' g))
     (filter (\<lambda>g. g \<noteq> []) (tokens '' '' predicate))"

definition sat :: "dsl_rule list \<Rightarrow> string list \<Rightarrow> bool" where
  "sat rules g \<longleftrightarrow> (\<forall>t \<in> set g. evaluate_rule t rules = Some True)"

lemma and_loop_total:
  assumes "\<forall>t \<in> set ts. t \<noteq> [] \<longrightarrow> evaluate_rule t rules \<noteq> None"
  shows "and_loop rules rv ts =
    (if sat rules (filter (\<lambda>t. t \<noteq> []) ts)
     then Some (filter (\<lambda>t. t \<noteq> []) ts = [] \<longrightarrow> rv, True) else Some (False, False))"
  using assms
proof (induction ts arbitrary: rv)
  case (Cons t ts)
  show ?case
  proof (cases "t = []")
    case False
    then obtain b where "evaluate_rule t rules = Some b"
      using Cons.prems by auto
    with Cons False show ?thesis by (cases b) (auto simp: sat_def)
  qed (use Cons in \<open>auto simp: sat_def\<close>)
qed (simp add: sat_def)

lemma or_loop_total:
  assumes "\<forall>g \<in> set gs. g \<noteq> [] \<longrightarrow> filter (\<lambda>t. t \<noteq> []) (tokens '','' g) \<noteq> []"
    and "\<forall>g \<in> set gs. g \<noteq> [] \<longrightarrow>
      (\<forall>t \<in> set (tokens '','' g). t \<noteq> [] \<longrightarrow> evaluate_rule t rules \<noteq> None)"
  shows "or_loop rules rv gs =
    Some (if filter (\<lambda>g. g \<noteq> []) gs = [] then rv
          else \<exists>g \<in> set gs. g \<noteq> [] \<and> sat rules (filter (\<lambda>t. t \<noteq> []) (tokens '','' g)))"
  using assms
proof (induction gs arbitrary: rv)
  case (Cons g gs)
  have all: "g \<noteq> [] \<Longrightarrow> \<forall>t \<in> set (tokens '','' g). t \<noteq> [] \<longrightarrow> evaluate_rule t rules \<noteq> None"
    using Cons.prems(2) by simp
  have IH: "or_loop rules rv' gs =
    Some (if filter (\<lambda>g. g \<noteq> []) gs = [] then rv'
          else \<exists>g \<in> set gs. g \<noteq> [] \<and> sat rules (filter (\<lambda>t. t \<noteq> []) (tokens '','' g)))" for rv'
    using Cons.IH Cons.prems by simp
  show ?case
  proof (cases "g = []")
    case False
    moreover have "filter (\<lambda>t. t \<noteq> []) (tokens '','' g) \<noteq> []"
      using Cons.prems(1) False by simp
    moreover have "(\<exists>g \<in> set gs. g \<noteq> [] \<and> P g) = False" if "filter (\<lambda>g. g \<noteq> []) gs = []" for P
      using that by (auto simp: filter_empty_conv)
    ultimately show ?thesis
      by (simp add: and_loop_total[OF all[OF False]] IH del: filter_empty_conv) blast
  qed (simp add: IH)
qed simp

lemma find_operator_exact:
  assumes "(op, cmp) \<in> set operators"
  shows "find_operator (op @ val) (length op) operators = Some (op, cmp)"
  using assms unfolding operators_def
  by (simp add: strncmp_eq_def) (elim disjE; simp)

subsection \<open>Properties\<close>

text \<open>C18: on version texts (digits and dots, a digit first, numbers below 2^64 - 1)
  dsl_compare_version decides the comparison in the linear order of versions: number by number,
  trailing zeros not counting.\<close>

theorem compare_version_correct:
  assumes "plain_version v1" "plain_version v2"
  shows "dsl_compare_version v1 cmp v2 = Some (cmp_holds cmp (version_of v1) (version_of v2))"
  using compare_loop_holds[OF assms] assms
  by (simp add: dsl_compare_version_def version_chars_iff plain_version_def)

theorem compare_version_correct_witness:
  "dsl_compare_version ''450.80.02'' GREATER ''450.80'' = Some True \<and>
   dsl_compare_version ''11.0'' EQUAL ''11'' = Some True"
proof -
  have "plain_version ''450.80.02''" "plain_version ''450.80''" "plain_version ''11.0''"
    "plain_version ''11''"
    by (simp_all add: plain_version_def numbers_def isdigit_def digit_val_def ord_def)
  with compare_version_correct[of "''450.80.02''" "''450.80''" GREATER]
    compare_version_correct[of "''11.0''" "''11''" EQUAL]
  show ?thesis
    by (simp add: version_of_def numbers_def digit_val_def ord_def)
qed

text \<open>C35: an expression written as a name, one of the six operators and a value is evaluated by
  the first rule of that name (case-insensitively), called with the comparison the operator
  denotes and with the value.\<close>

theorem evaluate_rule_parse:
  assumes "name \<noteq> []" "set name \<inter> set ''<>=!'' = {}"
    and "(op, cmp) \<in> set operators"
    and "val \<noteq> []" "hd val \<notin> set ''<>=!''"
    and "find_rule name rules = Some (rname, func)"
    and "length name + length op + length val + 2 < EXPR_MAX"
  shows "evaluate_rule (name @ op @ val) rules = func cmp val"
proof -
  have op: "op \<noteq> []" "set op \<subseteq> set ''<>=!''"
    using assms(3) by (auto simp: operators_def)
  have 1: "takeWhile (\<lambda>c. c \<notin> set ''<>=!'') (name @ op @ val) = name"
    "dropWhile (\<lambda>c. c \<notin> set ''<>=!'') (name @ op @ val) = op @ val"
    using assms(2) op by (cases op; auto simp: takeWhile_append dropWhile_append)+
  have 2: "takeWhile (\<lambda>c. c \<in> set ''<>=!'') (op @ val) = op"
    using op assms(4,5) by (cases val) (auto simp: takeWhile_append)
  show ?thesis
    using assms op find_operator_exact[OF assms(3)]
    unfolding evaluate_rule_def Let_def 1 2 by simp
qed

theorem evaluate_rule_parse_witness:
  "evaluate_rule (''brand'' @ ''!='' @ ''tesla'') [(''brand'', dsl_compare_string ''grid'')] =
     Some True"
  using evaluate_rule_parse[of "''brand''" "''!=''" NOT_EQUAL "''tesla''"
      "[(''brand'', dsl_compare_string ''grid'')]" "''brand''" "dsl_compare_string ''grid''"]
  by (simp add: operators_def str_case_equal_def tolower_def ord_def dsl_compare_string_def)

text \<open>C13: when every term of a predicate can be evaluated and no group is empty, dsl_evaluate
  succeeds exactly when there is no group at all or some blank-separated group has all its
  comma-separated terms true.\<close>

theorem dsl_evaluate_dnf:
  assumes "\<And>tr. os_unit os tr C_alloc = Inr ()"
    and "\<forall>g \<in> set (groups predicate). g \<noteq> [] \<and> (\<forall>t \<in> set g. evaluate_rule t rules \<noteq> None)"
  shows "fst (dsl_evaluate predicate rules os tr) = Inr () \<longleftrightarrow>
    groups predicate = [] \<or> (\<exists>g \<in> set (groups predicate). sat rules g)"
proof -
  let ?gs = "tokens '' '' predicate"
  have "or_loop rules True ?gs = Some (groups predicate = [] \<or> (\<exists>g \<in> set (groups predicate). sat rules g))"
    by (subst or_loop_total) (use assms(2) in \<open>auto simp: groups_def filter_empty_conv\<close>)
  then show ?thesis
    using assms(1)
    by (auto simp: dsl_evaluate_def xstrdup_def eval_simps Let_def split: bool.splits)
qed

theorem dsl_evaluate_dnf_witness:
  "fst (dsl_evaluate ''a=x,b=y c=z''
      [(''a'', \<lambda>c v. Some True), (''b'', \<lambda>c v. Some False), (''c'', \<lambda>c v. Some True)] calm []) = Inr ()"
proof -
  let ?rules = "[(''a'', \<lambda>c v. Some True), (''b'', \<lambda>c v. Some False),
     (''c'', \<lambda>c v. Some True)] :: dsl_rule list"
  have ev: "evaluate_rule ''a=x'' ?rules = Some True" "evaluate_rule ''b=y'' ?rules = Some False"
    "evaluate_rule ''c=z'' ?rules = Some True"
    by (simp_all add: evaluate_rule_def operators_def strncmp_eq_def str_case_equal_def
        tolower_def ord_def)
  have "groups ''a=x,b=y c=z'' = [[''a=x'', ''b=y''], [''c=z'']]"
    by (simp add: groups_def)
  with dsl_evaluate_dnf[of calm "''a=x,b=y c=z''" ?rules "[]"] ev show ?thesis
    by (auto simp: sat_def)
qed

end
