(* ===== verification/Options.thy ===== *)
theory Options
  imports StrUtils
begin

text \<open>
  options.c and options.h: the option tables and the parser of option strings.
  Flags are the int32_t of the source, a 32-bit word.
\<close>

unbundle bit_operations_syntax

record opt =
  opt_name :: string
  opt_value :: int32

subsection \<open>The tables\<close>

definition OPT_LOAD_KMODS :: int32 where "OPT_LOAD_KMODS = push_bit 0 1"

definition library_opts :: "opt list" where
  "library_opts = [\<lparr>opt_name = ''load-kmods'', opt_value = OPT_LOAD_KMODS\<rparr>]"

definition OPT_NO_GLVND :: int32 where "OPT_NO_GLVND = push_bit 0 1"
definition OPT_NO_UVM :: int32 where "OPT_NO_UVM = push_bit 1 1"
definition OPT_NO_MODESET :: int32 where "OPT_NO_MODESET = push_bit 2 1"
definition OPT_NO_MPS :: int32 where "OPT_NO_MPS = push_bit 3 1"
definition OPT_NO_PERSISTENCED :: int32 where "OPT_NO_PERSISTENCED = push_bit 4 1"
definition OPT_NO_FABRICMANAGER :: int32 where "OPT_NO_FABRICMANAGER = push_bit 5 1"

definition driver_opts :: "opt list" where
  "driver_opts =
    [\<lparr>opt_name = ''no-glvnd'', opt_value = OPT_NO_GLVND\<rparr>,
     \<lparr>opt_name = ''no-uvm'', opt_value = OPT_NO_UVM\<rparr>,
     \<lparr>opt_name = ''no-modeset'', opt_value = OPT_NO_MODESET\<rparr>,
     \<lparr>opt_name = ''no-mps'', opt_value = OPT_NO_MPS\<rparr>,
     \<lparr>opt_name = ''no-persistenced'', opt_value = OPT_NO_PERSISTENCED\<rparr>,
     \<lparr>opt_name = ''no-fabricmanager'', opt_value = OPT_NO_FABRICMANAGER\<rparr>]"

definition OPT_SUPERVISED :: int32 where "OPT_SUPERVISED = push_bit 0 1"
definition OPT_STANDALONE :: int32 where "OPT_STANDALONE = push_bit 1 1"
definition OPT_NO_CGROUPS :: int32 where "OPT_NO_CGROUPS = push_bit 2 1"
definition OPT_NO_DEVBIND :: int32 where "OPT_NO_DEVBIND = push_bit 3 1"
definition OPT_NO_CNTLIBS :: int32 where "OPT_NO_CNTLIBS = push_bit 4 1"
definition OPT_UTILITY_LIBS :: int32 where "OPT_UTILITY_LIBS = push_bit 5 1"
definition OPT_COMPUTE_LIBS :: int32 where "OPT_COMPUTE_LIBS = push_bit 6 1"
definition OPT_NGX_LIBS :: int32 where "OPT_NGX_LIBS = push_bit 7 1"
definition OPT_VIDEO_LIBS :: int32 where "OPT_VIDEO_LIBS = push_bit 8 1"
definition OPT_GRAPHICS_LIBS :: int32 where "OPT_GRAPHICS_LIBS = push_bit 9 1"
definition OPT_DISPLAY :: int32 where "OPT_DISPLAY = push_bit 10 1"
definition OPT_UTILITY_BINS :: int32 where "OPT_UTILITY_BINS = push_bit 11 1"
definition OPT_COMPUTE_BINS :: int32 where "OPT_COMPUTE_BINS = push_bit 12 1"
definition OPT_COMPAT32 :: int32 where "OPT_COMPAT32 = push_bit 13 1"

lemmas opt_bits =
  OPT_SUPERVISED_def OPT_STANDALONE_def OPT_NO_CGROUPS_def OPT_NO_DEVBIND_def
  OPT_NO_CNTLIBS_def OPT_UTILITY_LIBS_def OPT_COMPUTE_LIBS_def OPT_NGX_LIBS_def
  OPT_VIDEO_LIBS_def OPT_GRAPHICS_LIBS_def OPT_DISPLAY_def OPT_UTILITY_BINS_def
  OPT_COMPUTE_BINS_def OPT_COMPAT32_def
  OPT_LOAD_KMODS_def OPT_NO_GLVND_def OPT_NO_UVM_def OPT_NO_MODESET_def OPT_NO_MPS_def
  OPT_NO_PERSISTENCED_def OPT_NO_FABRICMANAGER_def

definition container_opts :: "opt list" where
  "container_opts =
    [\<lparr>opt_name = ''supervised'', opt_value = OPT_SUPERVISED\<rparr>,
     \<lparr>opt_name = ''standalone'', opt_value = OPT_STANDALONE\<rparr>,
     \<lparr>opt_name = ''no-cgroups'', opt_value = OPT_NO_CGROUPS\<rparr>,
     \<lparr>opt_name = ''no-devbind'', opt_value = OPT_NO_DEVBIND\<rparr>,
     \<lparr>opt_name = ''no-cntlibs'', opt_value = OPT_NO_CNTLIBS\<rparr>,
     \<lparr>opt_name = ''utility'', opt_value = OPT_UTILITY_BINS OR OPT_UTILITY_LIBS\<rparr>,
     \<lparr>opt_name = ''compute'', opt_value = OPT_COMPUTE_BINS OR OPT_COMPUTE_LIBS\<rparr>,
     \<lparr>opt_name = ''video'', opt_value = OPT_VIDEO_LIBS OR OPT_COMPUTE_LIBS\<rparr>,
     \<lparr>opt_name = ''graphics'', opt_value = OPT_GRAPHICS_LIBS\<rparr>,
     \<lparr>opt_name = ''display'', opt_value = OPT_DISPLAY OR OPT_GRAPHICS_LIBS\<rparr>,
     \<lparr>opt_name = ''ngx'', opt_value = OPT_NGX_LIBS\<rparr>,
     \<lparr>opt_name = ''compat32'', opt_value = OPT_COMPAT32\<rparr>]"

definition default_container_opts :: string where
  "default_container_opts = ''standalone no-cgroups no-devbind utility''"

subsection \<open>options_parse\<close>

text \<open>The inner for loop: the value of the first table entry with the token's name.\<close>

fun option_lookup :: "string \<Rightarrow> opt list \<Rightarrow> int32 option" where
  "option_lookup tok [] = None"
| "option_lookup tok (o1 # opts) =
     (if str_equal tok (opt_name o1) then Some (opt_value o1) else option_lookup tok opts)"

fun options_loop :: "opt list \<Rightarrow> int32 \<Rightarrow> string list \<Rightarrow> int32 res" where
  "options_loop opts flags [] = Inr flags"
| "options_loop opts flags (tok # toks) =
     (if tok = [] then options_loop opts flags toks
      else case option_lookup tok opts of
             None \<Rightarrow> Inl (error_setx (''invalid option: '' @ tok))
           | Some v \<Rightarrow> options_loop opts (flags OR v) toks)"

definition options_parse :: "string \<Rightarrow> opt list \<Rightarrow> int32 res" where
  "options_parse str opts =
     (if length str \<ge> NVC_ARG_MAX then Inl (error_setx ''too many options'')
      else options_loop opts 0 (tokens '' '' str))"

subsection \<open>What the parser computes\<close>

text \<open>The flags a list of tokens stands for: the bitwise or of their values.\<close>

definition opts_mask :: "opt list \<Rightarrow> string list \<Rightarrow> int32" where
  "opts_mask opts toks = foldr (\<lambda>t m. the (option_lookup t opts) OR m) toks 0"

definition names_of :: "string \<Rightarrow> string list" where
  "names_of str = filter (\<lambda>t. t \<noteq> []) (tokens '' '' str)"

lemma option_lookup_None:
  "option_lookup t opts = None \<longleftrightarrow> t \<notin> opt_name ` set opts"
  by (induction opts) (auto simp: str_equal_def)

lemma option_lookup_Some:
  "option_lookup t opts = Some v \<Longrightarrow> \<exists>p \<in> set opts. opt_name p = t \<and> opt_value p = v"
  by (induction opts) (auto simp: str_equal_def split: if_splits)

lemma options_loop_Inr:
  "options_loop opts flags toks = Inr v \<longleftrightarrow>
     (\<forall>t \<in> set toks. t \<noteq> [] \<longrightarrow> t \<in> opt_name ` set opts) \<and>
     v = flags OR opts_mask opts (filter (\<lambda>t. t \<noteq> []) toks)"
proof (induction toks arbitrary: flags)
  case (Cons t toks)
  show ?case
  proof (cases "option_lookup t opts")
    case None
    then have "t \<notin> opt_name ` set opts"
      by (simp add: option_lookup_None)
    with None Cons show ?thesis
      by auto
  next
    case (Some u)
    then have "t \<in> opt_name ` set opts"
      using option_lookup_None[of t opts] by simp
    with Some Cons show ?thesis
      by (auto simp: opts_mask_def or.assoc)
  qed
qed (auto simp: opts_mask_def)

lemma options_loop_Inl:
  "options_loop opts flags toks = Inl e \<Longrightarrow>
     \<exists>t \<in> set toks. t \<noteq> [] \<and> t \<notin> opt_name ` set opts \<and>
       e = error_setx (''invalid option: '' @ t)"
proof (induction toks arbitrary: flags)
  case (Cons t toks)
  show ?case
  proof (cases "t \<noteq> [] \<and> option_lookup t opts = None")
    case True
    then have "t \<notin> opt_name ` set opts"
      by (simp add: option_lookup_None)
    with True Cons.prems show ?thesis
      by auto
  next
    case False
    then obtain fl where "options_loop opts fl toks = Inl e"
      using Cons.prems by (cases "t = []") auto
    from Cons.IH[OF this] show ?thesis
      by auto
  qed
qed simp

text \<open>A bit of the mask is a bit of the value of some named option.\<close>

lemma bit_opts_mask:
  "set toks \<subseteq> opt_name ` set opts \<Longrightarrow>
     bit (opts_mask opts toks) n \<longleftrightarrow> (\<exists>t \<in> set toks. bit (the (option_lookup t opts)) n)"
  by (induction toks) (auto simp: opts_mask_def bit_simps)

lemma opts_mask_fits:
  assumes "\<forall>p \<in> set opts. take_bit n (opt_value p) = opt_value p"
    and "set ts \<subseteq> opt_name ` set opts"
  shows "take_bit n (opts_mask opts ts) = opts_mask opts ts"
  using assms(2)
proof (induction ts)
  case (Cons t ts)
  then obtain v where "option_lookup t opts = Some v"
    using option_lookup_None[of t opts] by fastforce
  with assms(1) option_lookup_Some[OF this] Cons show ?case
    by (auto simp: opts_mask_def take_bit_or)
qed (simp add: opts_mask_def)

lemma table_fits:
  "\<forall>p \<in> set (container_opts @ driver_opts @ library_opts). take_bit 14 (opt_value p) = opt_value p"
  by (simp add: container_opts_def driver_opts_def library_opts_def opt_bits)

subsection \<open>Properties\<close>

text \<open>C39: options_parse succeeds exactly when the string is shorter than NVC_ARG_MAX and every
  blank-separated name is in the table, and its result is then the bitwise or of the values of
  the named options.\<close>

theorem options_parse_correct:
  "options_parse str opts = Inr v \<longleftrightarrow>
     length str < NVC_ARG_MAX \<and> set (names_of str) \<subseteq> opt_name ` set opts \<and>
     v = opts_mask opts (names_of str)"
  by (auto simp: options_parse_def options_loop_Inr names_of_def)

text \<open>With the tables of the library, a successful parse yields a non-negative int32_t
  below 2^14, so the callers' test for a negative result detects failures only.\<close>

theorem options_parse_not_negative:
  assumes "options_parse str opts = Inr v"
    and "set opts \<subseteq> set (container_opts @ driver_opts @ library_opts)"
  shows "0 \<le> sint v \<and> sint v < 2 ^ 14"
proof -
  have "set (names_of str) \<subseteq> opt_name ` set opts" "v = opts_mask opts (names_of str)"
    using assms(1) by (auto simp: options_parse_def options_loop_Inr names_of_def split: if_splits)
  then have "take_bit 14 v = v"
    using opts_mask_fits[of opts 14 "names_of str"] table_fits assms(2) by blast
  then have "uint v < 2 ^ 14"
    by (metis take_bit_int_less_exp unsigned_take_bit_eq)
  moreover from this have "sint v = uint v"
    unfolding sint_uint
    by (intro signed_take_bit_int_eq_self order_trans[OF _ uint_ge_0]) auto
  ultimately show ?thesis
    by simp
qed

theorem options_parse_not_negative_witness:
  "options_parse ''utility compute'' container_opts = Inr 6240 \<and>
   0 \<le> sint (6240 :: int32) \<and> sint (6240 :: int32) < 2 ^ 14"
proof -
  have "options_parse ''utility compute'' container_opts = Inr 6240"
    by (simp add: options_parse_def container_opts_def str_equal_def opt_bits)
  with options_parse_not_negative[OF this] show ?thesis
    by simp
qed

end
