(* ===== verification/PathUtils.thy ===== *)
theory PathUtils
  imports StrUtils Monitor
begin

text \<open>
  utils.c, the path_ family.  path_append and path_join build paths in buffers
  of PATH_MAX bytes; do_path_resolve resolves a path below a root directory
  one component at a time, following symbolic links itself so that nothing
  above the root is ever opened.
\<close>

unbundle bit_operations_syntax

subsection \<open>Building paths\<close>

text \<open>\<open>*end\<close>, the last character of the buffer, None when the buffer is empty.\<close>

definition path_append :: "string \<Rightarrow> string \<Rightarrow> string ioE" where
  "path_append buf path =
     (if str_empty (Some path) then okay buf
      else
        let cap = PATH_MAX - length buf;
            end_slash = (buf \<noteq> [] \<and> last buf = CHR ''/'');
            out = (if hd path \<noteq> CHR ''/'' \<and> \<not> end_slash then ''/'' else '''') @
                  (if hd path = CHR ''/'' \<and> end_slash then tl path else path)
        in if length out \<ge> cap
           then fail_errno ENAMETOOLONG (''path error: '' @ take (cap - 1) out @ ''/'' @ path)
           else okay (buf @ out))"

definition path_new :: "string \<Rightarrow> string ioE" where
  "path_new path = path_append [] path"

definition path_join :: "string \<Rightarrow> string \<Rightarrow> string ioE" where
  "path_join p1 p2 = bindE (path_new p1) (\<lambda>buf. path_append buf p2)"

lemma emits_path_append [emits_intros]: "emits P (path_append b p)"
  unfolding path_append_def Let_def by (intro emits_intros)

lemma emits_path_new [emits_intros]: "emits P (path_new p)"
  unfolding path_new_def by (intro emits_intros)

lemma emits_path_join [emits_intros]: "emits P (path_join a b)"
  unfolding path_join_def by (intro emits_intros)

lemma path_append_no_events: "path_append b p os tr = (r, es) \<Longrightarrow> es = []"
  by (rule no_events[OF emits_path_append])

lemma path_join_no_events: "path_join b p os tr = (r, es) \<Longrightarrow> es = []"
  by (rule no_events[OF emits_path_join])

lemma path_append_bound:
  "path_append b p os tr = (Inr q, es) \<Longrightarrow> length b < PATH_MAX \<Longrightarrow> length q < PATH_MAX"
  by (auto simp: path_append_def Let_def str_empty_def split: if_splits)

subsection \<open>Resolution below a root\<close>

definition open_next :: "fd \<Rightarrow> path \<Rightarrow> fd ioE" where
  "open_next dir path =
     (let flags = (if take 1 path = ''/'' then O_PATH OR O_NOFOLLOW OR O_DIRECTORY
                   else O_PATH OR O_NOFOLLOW)
      in bindE (or_set (call_int (C_openat dir path flags)) (''open failed: '' @ path)) (\<lambda>fd.
           bindS (xclose dir) (\<lambda>_. okay fd)))"

definition outside_error :: "path \<Rightarrow> path \<Rightarrow> error" where
  "outside_error path root =
     error_setx (''path error: '' @ path @ '' resolves outside of '' @ root)"

text \<open>
  Inside the loop a failure carries the descriptor that the function closes at
  its label \<open>fail\<close>: the current one, or -1 when the open that replaces it failed.
\<close>

definition failing_at :: "fd \<Rightarrow> 'a ioE \<Rightarrow> (error \<times> fd + 'a) io" where
  "failing_at fd m = bindS m (\<lambda>r. case r of Inl e \<Rightarrow> raise (e, fd) | Inr x \<Rightarrow> okay x)"

text \<open>
  A component that is a symbolic link: the rest of the path is appended to its
  target; an absolute target also clears the resolved path and goes back to
  the root.
\<close>

definition follow_link ::
  "path \<Rightarrow> fd \<Rightarrow> string \<Rightarrow> string \<Rightarrow> string option \<Rightarrow> (error \<times> fd + string \<times> string \<times> fd) io" where
  "follow_link root fd link realpath ptr =
     bindE (if hd link = CHR ''/''
            then bindE (failing_at (-1) (open_next fd root)) (\<lambda>fd'. okay (tl link, [], fd'))
            else okay (link, realpath, fd)) (\<lambda>(link', realpath', fd').
       bindE (case ptr of
                None \<Rightarrow> okay link'
              | Some rest \<Rightarrow> failing_at fd' (path_append link' rest)) (\<lambda>newptr.
         okay (newptr, realpath', fd')))"

text \<open>
  The while loop of do_path_resolve.  \<open>ptr\<close> is the unread part of the path,
  \<open>realpath\<close> the resolved part, \<open>noents\<close> the number of its last components
  that do not exist and \<open>nlinks\<close> the number of symbolic links followed.
\<close>

function resolve_loop ::
  "path \<Rightarrow> path \<Rightarrow> nat \<Rightarrow> string option \<Rightarrow> fd \<Rightarrow> string \<Rightarrow> nat
     \<Rightarrow> (error \<times> fd + string \<times> fd) io" where
  "resolve_loop root path nlinks None fd realpath noents = okay (realpath, fd)"
| "resolve_loop root path nlinks (Some s) fd realpath noents =
    (case strsep ''/'' s of (file, ptr) \<Rightarrow>
      if file = [] \<or> str_equal file ''.'' then
        resolve_loop root path nlinks ptr fd realpath noents
      else if str_equal file ''..'' then
        (case strrchr realpath CHR ''/'' of
           None \<Rightarrow> raise (outside_error path root, fd)
         | Some (up, _) \<Rightarrow>
             if noents > 0 then
               resolve_loop root path nlinks ptr fd up (noents - 1)
             else
               bindE (failing_at (-1) (open_next fd ''..'')) (\<lambda>fd'.
                 resolve_loop root path nlinks ptr fd' up noents))
      else if noents > 0 then
        bindE (failing_at fd (path_append realpath file)) (\<lambda>real'.
          resolve_loop root path nlinks ptr fd real' (Suc noents))
      else
        bindS (call_str (C_readlinkat fd file)) (\<lambda>n.
        bindS get_errno (\<lambda>errno0.
          let link = (case n of Inl _ \<Rightarrow> [] | Inr l \<Rightarrow> take PATH_MAX l) in
          if link \<noteq> [] \<and> length link < PATH_MAX \<and> nlinks < MAXSYMLINKS then
            bindE (follow_link root fd link realpath ptr) (\<lambda>(newptr, real', fd').
              resolve_loop root path (Suc nlinks) (Some newptr) fd' real' noents)
          else
            let errno = (if length link \<ge> PATH_MAX then ENAMETOOLONG
                         else if nlinks \<ge> MAXSYMLINKS then ELOOP
                         else case n of Inl e \<Rightarrow> e | Inr _ \<Rightarrow> errno0) in
            if errno = ENOENT then
              bindE (failing_at fd (path_append realpath file)) (\<lambda>real'.
                resolve_loop root path nlinks ptr fd real' (Suc noents))
            else if errno = EINVAL then
              bindE (failing_at (-1) (open_next fd file)) (\<lambda>fd'.
              bindE (failing_at fd' (path_append realpath file)) (\<lambda>real'.
                resolve_loop root path nlinks ptr fd' real' noents))
            else
              failing_at fd (fail_errno errno (''path error: '' @ root @ ''/'' @ path)))))"
  by pat_completeness auto
termination
  by (relation "measures [\<lambda>(root, path, nlinks, ptr, fd, rp, ne). MAXSYMLINKS - nlinks,
        \<lambda>(root, path, nlinks, ptr, fd, rp, ne). case ptr of None \<Rightarrow> 0 | Some s \<Rightarrow> Suc (length s)]")
     (auto dest: strsep_shorter [OF sym] split: option.splits)

declare resolve_loop.simps [simp del]

text \<open>The label \<open>fail\<close> closes the descriptor on both paths.\<close>

definition do_path_resolve :: "bool \<Rightarrow> path \<Rightarrow> path \<Rightarrow> path ioE" where
  "do_path_resolve full root path =
     bindS
       (bindE (failing_at (-1) (open_next (-1) root)) (\<lambda>fd.
        bindE (failing_at fd (path_append [] path)) (\<lambda>ptr.
        bindE (resolve_loop root path 0 (Some ptr) fd [] 0) (\<lambda>(realpath, fd').
        bindE (failing_at fd' (if \<not> full then path_new realpath else path_join root realpath))
          (\<lambda>buf. okay (buf, fd'))))))
       (\<lambda>r. case r of
          Inl (e, fd) \<Rightarrow> bindS (xclose fd) (\<lambda>_. raise e)
        | Inr (buf, fd) \<Rightarrow> bindS (xclose fd) (\<lambda>_. okay buf))"

definition path_resolve :: "path \<Rightarrow> path \<Rightarrow> path ioE" where
  "path_resolve root path = do_path_resolve False root path"

definition path_resolve_full :: "path \<Rightarrow> path \<Rightarrow> path ioE" where
  "path_resolve_full root path = do_path_resolve True root path"


subsection \<open>Component view\<close>

text \<open>A real path component, and the text of a list of components.\<close>

definition good_comp :: "string \<Rightarrow> bool" where
  "good_comp c \<longleftrightarrow> c \<noteq> [] \<and> CHR ''/'' \<notin> set c \<and> c \<noteq> ''.'' \<and> c \<noteq> ''..''"

definition render :: "string list \<Rightarrow> string" where
  "render cs = concat (map (\<lambda>c. CHR ''/'' # c) cs)"

lemma render_simps [simp]:
  "render [] = []" "render (c # cs) = CHR ''/'' # c @ render cs"
  "render (cs @ ds) = render cs @ render ds"
  by (simp_all add: render_def)

lemma render_eq_Nil [simp]: "render cs = [] \<longleftrightarrow> cs = []"
  by (cases cs) auto

lemma last_render:
  "list_all good_comp cs \<Longrightarrow> cs \<noteq> [] \<Longrightarrow> last (render cs) \<noteq> CHR ''/''"
  by (induction cs rule: rev_induct)
     (auto simp: good_comp_def last_append dest: last_in_set split: if_splits)

lemma strrchr_render:
  "list_all good_comp cs \<Longrightarrow>
     strrchr (render cs) CHR ''/'' =
       (if cs = [] then None else Some (render (butlast cs), last cs))"
  by (induction cs rule: rev_induct)
     (auto simp: strrchr_None strrchr_Some good_comp_def)

lemma path_append_comp:
  assumes "list_all good_comp cs" "good_comp c"
  shows "path_append (render cs) c os tr = (Inr q, es) \<longleftrightarrow>
    q = render (cs @ [c]) \<and> length q < PATH_MAX \<and> es = []"
  using assms last_render[OF assms(1)]
  by (cases c) (auto simp: path_append_def str_empty_def Let_def good_comp_def)

lemma strsep_slash:
  "strsep ''/'' s = (file, ptr) \<Longrightarrow> CHR ''/'' \<notin> set file"
  by (auto simp: strsep_def dest: set_takeWhileD)

subsection \<open>Watching the descriptors\<close>

text \<open>
  The monitor knows the current directory descriptor and its depth below the
  root.  It rejects an open or a readlink relative to any other descriptor, an
  open of ".." at depth 0, and an open of anything but the root, ".." or a
  single real component.
\<close>

definition walk_step :: "path \<Rightarrow> fd \<times> nat \<Rightarrow> event \<Rightarrow> (fd \<times> nat) option" where
  "walk_step root = (\<lambda>(cur, d) (c, a).
     case c of
       FS (sc_openat dir p fl) \<Rightarrow>
         if dir \<noteq> cur \<or> \<not> (p = root \<or> p = ''..'' \<and> 0 < d \<or> good_comp p) then None
         else (case a of
                 RInt fd \<Rightarrow> Some (fd, if p = root then 0 else if p = ''..'' then d - 1 else d + 1)
               | _ \<Rightarrow> Some (cur, d))
     | DirOp (sc_readlinkat dir p) \<Rightarrow>
         if dir \<noteq> cur \<or> \<not> good_comp p then None else Some (cur, d)
     | _ \<Rightarrow> Some (cur, d))"

lemma walk_readlink:
  "good_comp p \<Longrightarrow> walk_step root (cur, d) (C_readlinkat cur p, a) = Some (cur, d)"
  by (simp add: walk_step_def)

lemma safe_path_append:
  assumes "\<And>q os tr. path_append b p os tr = (Inr q, []) \<Longrightarrow> Q (Inr q) s" "\<And>e. Q (Inl e) s"
  shows "safe \<delta> s (path_append b p) Q"
  unfolding safe_def
proof (intro allI)
  fix os tr
  obtain r es where r: "path_append b p os tr = (r, es)" by fastforce
  with path_append_no_events[OF this] assms
  show "\<exists>s'. accepts \<delta> s (snd (path_append b p os tr)) = Some s' \<and> Q (fst (path_append b p os tr)) s'"
    by (cases r) auto
qed

lemma safe_failing_at [safe_intros]:
  assumes "safe \<delta> s m (\<lambda>r s'. case r of Inl e \<Rightarrow> Q (Inl (e, fd)) s' | Inr x \<Rightarrow> Q (Inr x) s')"
  shows "safe \<delta> s (failing_at fd m) Q"
  unfolding failing_at_def
  by (rule safe_bindS, rule safe_conseq[OF assms])
     (auto split: sum.splits intro: safe_raise safe_okay)

lemma safe_open_next:
  assumes "p = root \<or> p = ''..'' \<and> 0 < d \<or> good_comp p"
    and "\<And>e. Q (Inl e) (cur, d)"
    and "\<And>fd. Q (Inr fd) (fd, if p = root then 0 else if p = ''..'' then d - 1 else d + 1)"
  shows "safe (walk_step root) (cur, d) (open_next cur p) Q"
  unfolding open_next_def Let_def
  by (intro safe_intros)
     (use assms in \<open>auto simp: walk_step_def answer_def xclose_def split: sum.splits
        intro!: safe_intros safe_ret\<close>)

text \<open>The state of the loop agrees with the monitor.\<close>

definition loop_ok :: "string \<Rightarrow> nat \<Rightarrow> nat \<Rightarrow> bool" where
  "loop_ok real noents d \<longleftrightarrow>
     (\<exists>cs. real = render cs \<and> list_all good_comp cs \<and> length real < PATH_MAX \<and>
           length cs = d + noents)"

lemma loop_ok_append:
  "loop_ok real ne d \<Longrightarrow> good_comp f \<Longrightarrow> path_append real f os tr = (Inr q, es) \<Longrightarrow>
     loop_ok q (Suc ne) d \<and> loop_ok q ne (Suc d)"
proof -
  assume "loop_ok real ne d" "good_comp f" "path_append real f os tr = (Inr q, es)"
  then obtain cs where "real = render cs" "list_all good_comp cs" "length cs = d + ne"
    "q = render (cs @ [f])" "length q < PATH_MAX" "good_comp f"
    by (auto simp: loop_ok_def path_append_comp)
  then show ?thesis
    unfolding loop_ok_def by (auto intro!: exI[of _ "cs @ [f]"])
qed

lemma loop_ok_up:
  "loop_ok real ne d \<Longrightarrow> strrchr real CHR ''/'' = Some (up, x) \<Longrightarrow>
     (ne > 0 \<longrightarrow> loop_ok up (ne - 1) d) \<and> (ne = 0 \<longrightarrow> d > 0 \<and> loop_ok up 0 (d - 1))"
proof -
  assume a: "loop_ok real ne d" and s: "strrchr real CHR ''/'' = Some (up, x)"
  then obtain cs where cs: "real = render cs" "list_all good_comp cs" "length real < PATH_MAX"
    "length cs = d + ne" by (auto simp: loop_ok_def)
  with s have "cs \<noteq> []" "up = render (butlast cs)"
    by (auto simp: strrchr_render split: if_splits)
  moreover from this obtain ds c where "cs = ds @ [c]" by (metis rev_exhaust)
  ultimately show ?thesis
    using cs unfolding loop_ok_def by (auto intro!: exI[of _ ds])
qed

lemma safe_follow_link:
  assumes "loop_ok real 0 d"
    and "\<And>e. Q (Inl e) (fd, d)"  "\<And>e cur n. Q (Inl e) (cur, n)"
    and "\<And>np real' fd' d'. loop_ok real' 0 d' \<Longrightarrow> Q (Inr (np, real', fd')) (fd', d')"
  shows "safe (walk_step root) (fd, d) (follow_link root fd link real ptr) Q"
proof -
  have "loop_ok [] 0 0" by (auto simp: loop_ok_def)
  with assms show ?thesis
    unfolding follow_link_def
    by (auto intro!: safe_intros safe_open_next safe_path_append split: option.splits)
qed

lemma safe_resolve_loop:
  assumes "loop_ok real noents d" and "take 1 root = ''/''"
  shows "safe (walk_step root) (fd, d) (resolve_loop root path nlinks ptr fd real noents)
    (\<lambda>r _. \<forall>p fd'. r = Inr (p, fd') \<longrightarrow> (\<exists>ne d. loop_ok p ne d))"
  using assms
proof (induction root path nlinks ptr fd real noents arbitrary: d rule: resolve_loop.induct)
  case (1 root path nlinks fd realpath noents)
  then show ?case unfolding resolve_loop.simps(1) by (intro safe_okay) auto
next
  case (2 root path nl s fd real ne)
  obtain f ptr where sep: "strsep ''/'' s = (f, ptr)" by fastforce
  note eq = resolve_loop.simps(2)[of root path nl s fd real ne, unfolded sep prod.case]
  note IH = "2.IH"[OF sep[symmetric]]
  have root: "root \<noteq> ''..''" "\<not> good_comp root"
    using "2.prems"(2) by (auto simp: good_comp_def take_Suc_conv_app_nth split: if_splits)
     (cases root; simp)
  consider (skip) "f = [] \<or> f = ''.''" | (up) "f = ''..''" | (comp) "good_comp f"
    using strsep_slash[OF sep] by (auto simp: good_comp_def)
  then show ?case
  proof cases
    case skip
    then show ?thesis
      unfolding eq using IH(1) "2.prems" by (auto simp: str_equal_def)
  next
    case up
    then show ?thesis
      unfolding eq using IH(2,3) loop_ok_up[OF "2.prems"(1)] "2.prems"(2) root
      by (auto simp: str_equal_def intro!: safe_intros safe_open_next split: sum.splits)
  next
    case comp
    then have f: "f \<noteq> []" "f \<noteq> ''.''" "f \<noteq> ''..''"
      by (auto simp: good_comp_def)
    note app = loop_ok_append[OF "2.prems"(1) comp]
    note pre = "2.prems" root
    show ?thesis
    proof (cases "ne > 0")
      case True
      then show ?thesis
        unfolding eq using IH(4) app f pre
        by (auto simp: str_equal_def intro!: safe_intros safe_path_append)
    next
      case False
      have c: "\<not> (f = [] \<or> str_equal f ''.'')" "\<not> str_equal f ''..''"
        using f by (auto simp: str_equal_def)
      note ih = IH(5,6,7)[OF c False]
      show ?thesis
        unfolding eq if_not_P[OF c(1)] if_not_P[OF c(2)] if_not_P[OF False]
        apply (intro safe_bindS safe_call(3) exI conjI, rule walk_readlink, rule comp)
        apply (intro safe_bindS safe_get_errno safe_Let safe_if)
        subgoal premises p for n errno0 link
          using ih(1)[OF p] pre False by (auto intro!: safe_intros safe_follow_link)
        subgoal premises p for n errno0 link errno
          using ih(2)[OF p] app pre by (auto intro!: safe_intros safe_path_append)
        subgoal premises p for n errno0 link errno
          using ih(3)[OF p] app pre comp f False
          by (auto intro!: safe_intros safe_path_append safe_open_next)
        subgoal by (auto intro!: safe_intros)
        done
    qed
  qed
qed


lemma path_new_render:
  "path_new (render cs) os tr = (Inr q, es) \<longleftrightarrow> q = render cs \<and> length q < PATH_MAX \<and> es = []"
  by (cases cs) (auto simp: path_new_def path_append_def str_empty_def Let_def)

definition below :: "path \<Rightarrow> string list \<Rightarrow> path" where
  "below root cs = (if last root = CHR ''/'' then root @ tl (render cs) else root @ render cs)"

lemma path_join_render:
  "take 1 root = ''/'' \<Longrightarrow> path_join root (render cs) os tr = (Inr q, es) \<longleftrightarrow>
     q = below root cs \<and> length root < PATH_MAX \<and> length q < PATH_MAX \<and> es = []"
  by (cases root; cases cs)
     (auto simp: below_def path_join_def path_new_def path_append_def str_empty_def Let_def bindE_Inr)

lemma safe_path_new:
  assumes "\<exists>ne d. loop_ok real ne d" "\<And>e. Q (Inl e) s"
    and "\<And>cs. list_all good_comp cs \<Longrightarrow> length (render cs) < PATH_MAX \<Longrightarrow> Q (Inr (render cs)) s"
  shows "safe \<delta> s (path_new real) Q"
proof -
  obtain cs where cs: "real = render cs" "list_all good_comp cs"
    using assms(1) by (auto simp: loop_ok_def)
  show ?thesis
  proof (rule safe_io_pure[OF emits_path_new])
    fix r os tr assume "path_new real os tr = (r, [])"
    then show "Q r s"
      using assms cs by (cases r) (auto simp: path_new_render)
  qed
qed

lemma safe_path_join:
  assumes "\<exists>ne d. loop_ok real ne d" "\<And>e. Q (Inl e) s" "take 1 root = ''/''"
    and "\<And>cs. list_all good_comp cs \<Longrightarrow> length (below root cs) < PATH_MAX \<Longrightarrow> Q (Inr (below root cs)) s"
  shows "safe \<delta> s (path_join root real) Q"
proof -
  obtain cs where cs: "real = render cs" "list_all good_comp cs"
    using assms(1) by (auto simp: loop_ok_def)
  show ?thesis
  proof (rule safe_io_pure[OF emits_path_join])
    fix r os tr assume "path_join root real os tr = (r, [])"
    then show "Q r s"
      using assms cs by (cases r) (auto simp: path_join_render)
  qed
qed

lemma safe_xclose_walk: "Q () s \<Longrightarrow> safe (walk_step root) s (xclose fd) Q"
  unfolding xclose_def by (cases s) (auto intro!: safe_intros simp: walk_step_def)

lemma safe_do_path_resolve:
  assumes "take 1 root = ''/''"
  shows "safe (walk_step root) (-1, 0) (do_path_resolve full root path)
    (\<lambda>r _. \<forall>p. r = Inr p \<longrightarrow> length p < PATH_MAX \<and>
       (\<exists>cs. list_all good_comp cs \<and> p = (if full then below root cs else render cs)))"
proof -
  have ok: "loop_ok [] 0 0" by (auto simp: loop_ok_def)
  show ?thesis
    unfolding do_path_resolve_def
    by (auto intro!: safe_intros safe_xclose_walk safe_path_append safe_open_next
       safe_path_new safe_path_join safe_conseq[OF safe_resolve_loop[OF ok assms]] assms
       split: sum.splits; blast)
qed

subsection \<open>Descriptors\<close>

lemma open_next_fds:
  assumes "s = (if dir < 0 then [] else [dir])"
    and "\<And>e. Q (Inl e) s" and "\<And>fd. 0 \<le> fd \<Longrightarrow> Q (Inr fd) [fd]"
  shows "safe fd_step s (open_next dir p) Q"
  unfolding open_next_def Let_def xclose_def using assms
  by (auto simp: fd_step_def intro!: safe_intros)

definition loop_fds :: "(error \<times> fd + string \<times> fd) \<Rightarrow> fd list \<Rightarrow> bool" where
  "loop_fds r s \<longleftrightarrow> (case r of
     Inl (e, fd) \<Rightarrow> 0 \<le> fd \<and> s = [fd] \<or> fd = -1 \<and> length s \<le> 1
   | Inr (p, fd) \<Rightarrow> 0 \<le> fd \<and> s = [fd])"

lemma fds_follow_link:
  assumes "0 \<le> fd" and "\<And>e cur s. 0 \<le> cur \<and> s = [cur] \<or> cur = -1 \<and> length s \<le> 1 \<Longrightarrow> Q (Inl (e, cur)) s"
    and "\<And>np real' fd'. 0 \<le> fd' \<Longrightarrow> Q (Inr (np, real', fd')) [fd']"
  shows "safe fd_step [fd] (follow_link root fd link real ptr) Q"
  using assms unfolding follow_link_def
  by (auto intro!: safe_intros open_next_fds safe_path_append split: option.splits)

lemma fds_resolve_loop:
  "0 \<le> fd \<Longrightarrow> safe fd_step [fd] (resolve_loop root path nl ptr fd real ne) loop_fds"
proof (induction root path nl ptr fd real ne rule: resolve_loop.induct)
  case (1 root path nlinks fd realpath noents)
  then show ?case unfolding resolve_loop.simps(1) by (intro safe_okay) (auto simp: loop_fds_def)
next
  case (2 root path nl s fd real ne)
  show ?case
    unfolding resolve_loop.simps(2)[of root path nl s fd real ne]
    apply (intro safe_case_prod safe_if safe_bindS safe_skip(4) safe_Let safe_case_option safe_get_errno)
    subgoal premises p using "2.IH"(1)[OF p(1)[symmetric] p(2)] "2.prems" by simp
    subgoal by (auto intro!: safe_intros simp: loop_fds_def "2.prems")
    subgoal premises p using "2.IH"(2)[OF p(1)[symmetric] p(2-4) p(5)[symmetric] p(6)] "2.prems" by simp
    subgoal premises p using "2.IH"(3)[OF p(1)[symmetric] p(2-4) p(5)[symmetric] p(6)] "2.prems"
      by (auto intro!: safe_intros open_next_fds simp: loop_fds_def)
    subgoal premises p using "2.IH"(4)[OF p(1)[symmetric] p(2-4)] "2.prems"
      by (auto intro!: safe_intros safe_path_append simp: loop_fds_def)
    subgoal by (simp add: fd_step_def)
    subgoal premises p using "2.IH"(5)[OF p(1)[symmetric] p(2-4) p(5,6)] "2.prems"
      by (auto intro!: safe_intros fds_follow_link simp: loop_fds_def)
    subgoal premises p using "2.IH"(6)[OF p(1)[symmetric] p(2-4) p(5,6,7,8)] "2.prems"
      by (auto intro!: safe_intros safe_path_append simp: loop_fds_def)
    subgoal premises p using "2.IH"(7)[OF p(1)[symmetric] p(2-4) p(5,6,7,8,9)] "2.prems"
      by (auto intro!: safe_intros safe_path_append open_next_fds simp: loop_fds_def)
    subgoal by (auto intro!: safe_intros simp: loop_fds_def "2.prems")
    done
qed

lemma fds_do_path_resolve:
  "safe fd_step [] (do_path_resolve full root path)
     (\<lambda>r s. length s \<le> 1 \<and> (\<forall>p. r = Inr p \<longrightarrow> s = []))"
  unfolding do_path_resolve_def xclose_def
  by (auto intro!: safe_intros open_next_fds safe_path_append safe_io_pure[OF emits_path_new]
     safe_io_pure[OF emits_path_join] safe_conseq[OF fds_resolve_loop] simp: loop_fds_def fd_step_def split: sum.splits)

subsection \<open>Lexical\<close>

fun lex_resolve :: "string list \<Rightarrow> string list \<Rightarrow> string list option" where
  "lex_resolve cs [] = Some cs"
| "lex_resolve cs (t # ts) =
     (if t = [] \<or> t = ''.'' then lex_resolve cs ts
      else if t = ''..'' then (if cs = [] then None else lex_resolve (butlast cs) ts)
      else lex_resolve (cs @ [t]) ts)"

definition no_links :: "os \<Rightarrow> bool" where
  "no_links os \<longleftrightarrow>
     (\<forall>tr d f. os_str os tr (C_readlinkat d f) \<in> {Inl ENOENT, Inl EINVAL}) \<and>
     (\<forall>tr d p fl. \<exists>n. os_int os tr (C_openat d p fl) = Inr n)"

lemma fst_open_next: "no_links os \<Longrightarrow> \<exists>fd. fst (open_next d p os tr) = Inr fd"
proof -
  assume "no_links os"
  moreover define fl where "fl = (if take 1 p = ''/'' then O_PATH OR O_NOFOLLOW OR O_DIRECTORY
    else O_PATH OR O_NOFOLLOW :: nat)"
  ultimately obtain n where "os_int os tr (C_openat d p fl) = Inr n"
    unfolding no_links_def by blast
  then show ?thesis
    unfolding open_next_def Let_def fl_def[symmetric]
    by (simp add: fst_bindE fst_bindS fst_or_set call_int_def)
qed

definition toks :: "string option \<Rightarrow> string list" where
  "toks ptr = (case ptr of None \<Rightarrow> [] | Some s \<Rightarrow> tokens ''/'' s)"



lemma fst_failing_at:
  "fst (failing_at fd m os tr) = (case fst (m os tr) of Inl e \<Rightarrow> Inl (e, fd) | Inr x \<Rightarrow> Inr x)"
  by (simp add: failing_at_def fst_bindS split: sum.splits)

lemma fst_path_append_comp:
  "list_all good_comp cs \<Longrightarrow> good_comp c \<Longrightarrow> length (render cs) + length c + 1 < PATH_MAX \<Longrightarrow>
   fst (path_append (render cs) c os tr) = Inr (render cs @ CHR ''/'' # c)"
  using path_append_comp[of cs c os tr "render (cs @ [c])" "[]"] by simp

definition lex_result :: "path \<Rightarrow> path \<Rightarrow> string list option \<Rightarrow> (error \<times> fd + string \<times> fd) \<Rightarrow> bool" where
  "lex_result path root l r \<longleftrightarrow> (case l of
     None \<Rightarrow> \<exists>fd. r = Inl (outside_error path root, fd)
   | Some cs \<Rightarrow> length (render cs) < PATH_MAX \<and> (\<exists>fd. r = Inr (render cs, fd)))"

lemma resolve_loop_lexical:
  assumes "no_links os" "list_all good_comp cs" "nl < MAXSYMLINKS"
    and "length (render cs) + (case ptr of None \<Rightarrow> 0 | Some s \<Rightarrow> Suc (length s)) < PATH_MAX"
    and "ne \<le> length cs"
  shows "lex_result path root (lex_resolve cs (toks ptr))
    (fst (resolve_loop root path nl ptr fd (render cs) ne os tr))"
  using assms
proof (induction "toks ptr" arbitrary: cs ptr fd ne tr)
  case Nil
  have "ptr = None"
    using Nil.hyps[symmetric] by (auto simp: toks_def split: option.splits)
  with Nil show ?case
    by (simp add: resolve_loop.simps toks_def lex_result_def)
next
  case (Cons f ts)
  then obtain s where s: "ptr = Some s" by (auto simp: toks_def split: option.splits)
  obtain f' ptr' where sep: "strsep ''/'' s = (f', ptr')" by fastforce
  have f: "f' = f" and ts: "ts = toks ptr'"
    using tokens_strsep[OF sep] Cons.hyps(2) by (auto simp: toks_def s)
  note sep = sep[unfolded f]
  note len = strsep_length[OF sep]
  have toks: "toks ptr = f # toks ptr'" using Cons.hyps(2) ts by simp
  have bound: "length (render cs) + Suc (length f) + (case ptr' of None \<Rightarrow> 0 | Some r \<Rightarrow> Suc (length r)) < PATH_MAX"
    using Cons.prems(4) len by (auto simp: s split: option.splits)
  note IH = Cons.hyps(1)[OF ts, OF Cons.prems(1) _ Cons.prems(3)]
  note eq = resolve_loop.simps(2)[of root path nl s fd "render cs" ne, unfolded sep prod.case]
  consider (skip) "f = [] \<or> f = ''.''" | (up) "f = ''..''" | (comp) "good_comp f"
    using strsep_slash[OF sep] by (auto simp: good_comp_def)
  then show ?case
  proof cases
    case skip
    then show ?thesis
      using IH[of cs ne fd tr] Cons.prems bound unfolding s eq toks[unfolded s]
      by (auto simp: str_equal_def)
  next
    case up
    show ?thesis
    proof (cases "cs = []")
      case True
      then show ?thesis
        using up unfolding s eq toks[unfolded s]
        by (simp add: str_equal_def strrchr_def lex_result_def)
    next
      case False
      then obtain ds c where cs: "cs = ds @ [c]" by (metis rev_exhaust)
      have ds: "list_all good_comp ds" using Cons.prems(2) cs by simp
      have b: "length (render ds) + (case ptr' of None \<Rightarrow> 0 | Some r \<Rightarrow> Suc (length r)) < PATH_MAX"
        using bound cs by simp
      obtain d' where d': "fst (open_next fd ''..'' os tr) = Inr d'"
        using fst_open_next[OF Cons.prems(1)] by blast
      show ?thesis
        using up False IH[OF ds b, of "ne - 1"] IH[OF ds b, of 0] Cons.prems(5) d'
          strrchr_render[OF Cons.prems(2)]
        unfolding s eq toks[unfolded s]
        by (auto simp: str_equal_def cs fst_bindE fst_failing_at)
    qed
  next
    case comp
    then have ff: "f \<noteq> []" "f \<noteq> ''.''" "f \<noteq> ''..''" by (auto simp: good_comp_def)
    have g: "list_all good_comp (cs @ [f])" using comp Cons.prems(2) by simp
    have b: "length (render (cs @ [f])) + (case ptr' of None \<Rightarrow> 0 | Some r \<Rightarrow> Suc (length r)) < PATH_MAX"
      using bound by simp
    have app: "fst (path_append (render cs) f os tr') = Inr (render (cs @ [f]))" for tr'
      using fst_path_append_comp[OF Cons.prems(2) comp] bound by simp
    have rl: "os_str os tr (C_readlinkat fd f) = Inl ENOENT \<or> os_str os tr (C_readlinkat fd f) = Inl EINVAL"
      using Cons.prems(1) unfolding no_links_def by blast
    obtain d' where d': "fst (open_next fd f os (tr @ [(C_readlinkat fd f, Failed EINVAL)])) = Inr d'"
        using fst_open_next[OF Cons.prems(1)] by blast
    show ?thesis
      using IH[OF g b, of "Suc ne"] IH[OF g b, of 0] ff app rl Cons.prems(3,5) d'
      unfolding s eq toks[unfolded s]
      by (auto simp: str_equal_def fst_bindS fst_bindE fst_failing_at call_str_def Let_def)
  qed
qed

subsection \<open>Components of a path\<close>

definition comps :: "path \<Rightarrow> string list" where
  "comps s = filter (\<lambda>t. t \<noteq> []) (tokens ''/'' s)"

lemma comps_slash [simp]: "comps (a @ CHR ''/'' # b) = comps a @ comps b"
  by (simp add: comps_def tokens_append)

lemma comps_start [simp]: "comps [] = []" "comps (CHR ''/'' # b) = comps b"
  by (simp_all add: comps_def)

lemma path_append_comps:
  assumes "path_append b p os tr = (Inr q, es)"
  shows "comps q = comps b @ comps p"
proof (cases "p = []")
  case False
  then obtain c p' where p: "p = c # p'" by (cases p) auto
  show ?thesis
  proof (cases "b \<noteq> [] \<and> last b = CHR ''/''")
    case True
    then obtain b' where b: "b = b' @ [CHR ''/'']" by (metis append_butlast_last_id)
    have "comps b = comps b'" using comps_slash[of b' "[]"] b by simp
    with assms p b comps_slash[of b' p'] comps_slash[of b' p] comps_start(2)[of p']
    show ?thesis
      by (auto simp: path_append_def str_empty_def Let_def split: if_splits)
  next
    case False
    with assms p comps_slash[of b p'] comps_slash[of b p] show ?thesis
      by (auto simp: path_append_def str_empty_def Let_def split: if_splits)
  qed
qed (use assms in \<open>simp add: path_append_def str_empty_def comps_start\<close>)

lemma calm_no_links: "no_links calm"
  by (simp add: no_links_def calm_def)

subsection \<open>Properties\<close>

text \<open>C1: a path resolved below an absolute root never leaves it: whatever the file system
  answers (any symbolic links, any failures), every open and readlink is relative to the
  descriptor reached so far, ".." is opened only strictly below the root, and everything else
  that is opened is the root itself or one real component. A successful result is a path
  shorter than PATH_MAX made of real components only (no empty one, no "." and no ".."),
  below the root for the full variant.\<close>

theorem path_resolve_confined:
  assumes "take 1 root = ''/''"
    and "do_path_resolve full root path os tr = (r, es)"
  shows "accepts (walk_step root) (-1, 0) es \<noteq> None \<and>
    (\<forall>p. r = Inr p \<longrightarrow> length p < PATH_MAX \<and>
       (\<exists>cs. list_all good_comp cs \<and> p = (if full then below root cs else render cs)))"
  using safeD[OF safe_do_path_resolve[OF assms(1)] assms(2)] by auto

theorem path_resolve_confined_witness:
  "\<exists>r es. do_path_resolve True ''/r'' ''/a/../b'' calm [] = (r, es) \<and>
     accepts (walk_step ''/r'') (-1, 0) es \<noteq> None"
proof -
  obtain r es where run: "do_path_resolve True ''/r'' ''/a/../b'' calm [] = (r, es)"
    by fastforce
  from path_resolve_confined[OF _ run] have "accepts (walk_step ''/r'') (-1, 0) es \<noteq> None"
    by simp
  with run show ?thesis by blast
qed

text \<open>C21: do_path_resolve closes only descriptors it opened, has at most one open at its end,
  and none when it succeeds.\<close>

theorem path_resolve_descriptors:
  assumes "do_path_resolve full root path os tr = (r, es)"
  shows "\<exists>open_fds. accepts fd_step [] es = Some open_fds \<and> length open_fds \<le> 1 \<and>
    (\<forall>p. r = Inr p \<longrightarrow> open_fds = [])"
  using safeD[OF fds_do_path_resolve assms] by blast

theorem path_resolve_descriptors_witness:
  "\<exists>r es. do_path_resolve True ''/r'' ''/a'' calm [] = (r, es) \<and>
     (\<exists>fds. accepts fd_step [] es = Some fds \<and> length fds \<le> 1)"
proof -
  obtain r es where run: "do_path_resolve True ''/r'' ''/a'' calm [] = (r, es)"
    by fastforce
  from path_resolve_descriptors[OF run] run show ?thesis by blast
qed

text \<open>C12: where nothing is a symbolic link (each component exists or not, and opens succeed),
  path_resolve computes the lexical normal form of the path, and fails with the "resolves
  outside" error exactly when ".." would climb above the root.\<close>

theorem path_resolve_lexical:
  assumes "no_links os" "length path + 2 < PATH_MAX" "take 1 root = ''/''"
  shows "fst (path_resolve root path os tr) =
    (case lex_resolve [] (tokens ''/'' path) of
       None \<Rightarrow> Inl (outside_error path root)
     | Some cs \<Rightarrow> Inr (render cs))"
proof -
  obtain fd es where o: "open_next (-1) root os tr = (Inr fd, es)"
    using fst_open_next[OF assms(1), of "-1" root tr] by (metis prod.collapse)
  define p where "p = (if path = [] \<or> hd path = CHR ''/'' then path else CHR ''/'' # path)"
  have app: "path_append [] path os tr' = (Inr p, [])" for tr'
    using assms(2) by (auto simp: path_append_def p_def str_empty_def Let_def)
  have lex: "lex_resolve [] (toks (Some p)) = lex_resolve [] (tokens ''/'' path)"
    by (auto simp: p_def toks_def)
  have len: "length (render []) + (case Some p of None \<Rightarrow> 0 | Some s \<Rightarrow> Suc (length s)) < PATH_MAX"
    using assms(2) by (auto simp: p_def)
  have res: "lex_result path root (lex_resolve [] (tokens ''/'' path))
    (fst (resolve_loop root path 0 (Some p) fd [] 0 os tr'))" for tr'
    using resolve_loop_lexical[OF assms(1) _ _ len, of 0 0 path root fd tr'] lex by simp
  show ?thesis
  proof (cases "lex_resolve [] (tokens ''/'' path)")
    case None
    obtain d where "fst (resolve_loop root path 0 (Some p) fd [] 0 os (tr @ es)) = Inl (outside_error path root, d)"
      using res[of "tr @ es"] None by (auto simp: lex_result_def)
    with None o app show ?thesis
      by (simp add: path_resolve_def do_path_resolve_def fst_bindS fst_bindE fst_failing_at failing_at_def
        bindS_run)
  next
    case (Some cs)
    then obtain d where r: "fst (resolve_loop root path 0 (Some p) fd [] 0 os (tr @ es)) = Inr (render cs, d)"
      and b: "length (render cs) < PATH_MAX"
      using res[of "tr @ es"] by (auto simp: lex_result_def)
    have "path_new (render cs) os tr' = (Inr (render cs), [])" for tr'
      using b by (simp add: path_new_render)
    with r Some o app show ?thesis
      by (simp add: path_resolve_def do_path_resolve_def fst_bindS fst_bindE fst_failing_at failing_at_def
        bindS_run)
  qed
qed

theorem path_resolve_lexical_witness:
  "fst (path_resolve ''/r'' ''/a/./b//../c/'' calm []) = Inr ''/a/c'' \<and>
   fst (path_resolve ''/r'' ''a/../..'' calm []) = Inl (outside_error ''a/../..'' ''/r'')"
  using path_resolve_lexical[OF calm_no_links, of "''/a/./b//../c/''" "''/r''" "[]"]
    path_resolve_lexical[OF calm_no_links, of "''a/../..''" "''/r''" "[]"]
  by (simp add: outside_error_def error_setx_def)

text \<open>Path_join yields a path shorter than PATH_MAX whose components are those of the first
  path followed by those of the second; it touches no file.\<close>

theorem path_join_components:
  assumes "path_join p1 p2 os tr = (Inr q, es)"
  shows "comps q = comps p1 @ comps p2 \<and> length q < PATH_MAX \<and> es = []"
proof -
  obtain b es1 es2 where run: "path_append [] p1 os tr = (Inr b, es1)"
    "path_append b p2 os (tr @ es1) = (Inr q, es2)"
    using assms by (auto simp: path_join_def path_new_def bindE_Inr)
  then show ?thesis
    using path_append_comps[OF run(1)] path_append_comps[OF run(2)]
      path_append_bound[OF run(1)] path_append_bound[OF run(2)] path_join_no_events[OF assms]
    by simp
qed

theorem path_join_components_witness:
  "path_join ''/usr/'' ''/lib'' calm [] = (Inr ''/usr/lib'', []) \<and>
   comps ''/usr/lib'' = comps ''/usr/'' @ comps ''/lib''"
proof -
  have "path_join ''/usr/'' ''/lib'' calm [] = (Inr ''/usr/lib'', [])"
    by (simp add: path_join_def path_new_def path_append_def str_empty_def bindE_Inr)
  with path_join_components[OF this] show ?thesis by simp
qed

subsection \<open>Counting the calls\<close>

definition tick :: "nat \<Rightarrow> event \<Rightarrow> nat option" where
  "tick n e = Some (Suc n)"

lemma accepts_tick: "accepts tick n es = Some (n + length es)"
  by (induction es arbitrary: n) (simp_all add: tick_def)

text \<open>
  What the loop may still spend: for each link it may follow three calls for
  every character of a path, and three for each character of the unread part.
\<close>

definition budget :: "nat \<Rightarrow> string option \<Rightarrow> nat" where
  "budget nlinks ptr = (MAXSYMLINKS - nlinks) * (3 * PATH_MAX) + 3 * (case ptr of None \<Rightarrow> 0 | Some s \<Rightarrow> Suc (length s))"

lemma budget_next: "strsep ''/'' s = (file, ptr) \<Longrightarrow> budget nlinks ptr + 3 \<le> budget nlinks (Some s)"
  by (cases ptr) (auto simp: budget_def dest: strsep_shorter)

lemma budget_link:
  "length newptr < PATH_MAX \<Longrightarrow> nlinks < MAXSYMLINKS \<Longrightarrow> budget (Suc nlinks) (Some newptr) + 3 \<le> budget nlinks (Some s)"
  unfolding budget_def option.case by (cases "MAXSYMLINKS - nlinks") auto

lemma tick_call: 
  "(\<And>r. Q r (Suc n)) \<Longrightarrow> safe tick n (call_int c) Q"
  "(\<And>r. Qs r (Suc n)) \<Longrightarrow> safe tick n (call_str c) Qs"
  "Qv () (Suc n) \<Longrightarrow> safe tick n (call_void c) Qv"
  by (simp_all add: safe_def call_defs call_void_def bindS_def tick_def Let_def)

lemma tick_xclose: "(\<And>n'. n' \<le> Suc n \<Longrightarrow> Q () n') \<Longrightarrow> safe tick n (xclose fd) Q"
  unfolding xclose_def by (intro safe_if safe_ret tick_call) auto

lemma tick_open_next: "(\<And>r n'. n' \<le> n + 2 \<Longrightarrow> Q r n') \<Longrightarrow> safe tick n (open_next d p) Q"
  unfolding open_next_def Let_def
  apply (intro safe_bindE safe_or_set tick_call)
  apply (auto split: sum.splits intro!: safe_bindS tick_xclose safe_okay)
  done

lemma tick_follow_link:
  assumes "length link < PATH_MAX" "\<And>e n'. n' \<le> n + 2 \<Longrightarrow> Q (Inl e) n'"
    "\<And>newptr real' fd' n'. length newptr < PATH_MAX \<Longrightarrow> n' \<le> n + 2 \<Longrightarrow> Q (Inr (newptr, real', fd')) n'"
  shows "safe tick n (follow_link root fd link realpath ptr) Q"
proof -
  have rest: "safe tick n' (bindE (case ptr of None \<Rightarrow> okay link' | Some rest \<Rightarrow> failing_at fd' (path_append link' rest))
      (\<lambda>newptr. okay (newptr, real', fd'))) Q"
    if "length link' < PATH_MAX" "n' \<le> n + 2" for n' link' real' fd'
    apply (intro safe_bindE safe_case_option safe_failing_at safe_path_append safe_okay)
    apply (use that assms in \<open>auto intro!: safe_okay dest: path_append_bound\<close>)
    done
  have tl: "length (tl link) < PATH_MAX" using assms(1) by simp
  show ?thesis
    unfolding follow_link_def
    apply (rule safe_bindE)
    apply (intro safe_if safe_okay safe_bindE safe_failing_at)
     apply (rule tick_open_next)
    subgoal for r n' using tl by (cases r) (auto intro!: safe_okay rest assms(2))
    subgoal using assms(1) by (auto intro!: rest)
    done
qed


lemma tick_resolve_loop:
  "n + budget nlinks ptr \<le> B \<Longrightarrow>
   safe tick n (resolve_loop root path nlinks ptr fd realpath noents) (\<lambda>_ n'. n' \<le> B)"
proof (induction root path nlinks ptr fd realpath noents arbitrary: n rule: resolve_loop.induct)
  case (1 root path nlinks fd realpath noents)
  then show ?case unfolding resolve_loop.simps(1) by (intro safe_okay) simp
next
  case (2 root path nl s fd real ne)
  obtain f ptr where sep: "strsep ''/'' s = (f, ptr)" by fastforce
  note eq = resolve_loop.simps(2)[of root path nl s fd real ne, unfolded sep prod.case]
  note IH = "2.IH"[OF sep[symmetric]]
  have pre: "n + 3 + budget nl ptr \<le> B" using budget_next[OF sep, of nl] "2.prems" by simp
  have app: "safe tick n' (bindE (failing_at fd' (path_append real f)) g) (\<lambda>_ n'. n' \<le> B)"
    if "n' \<le> B" "\<And>x. safe tick n' (g x) (\<lambda>_ n'. n' \<le> B)" for n' fd' and g :: "string \<Rightarrow> (error \<times> fd + string \<times> fd) io"
    by (intro safe_bindE safe_failing_at safe_path_append) (use that in auto)
  have opn: "safe tick n' (bindE (failing_at fd' (open_next fd p)) g) (\<lambda>_ n'. n' \<le> B)"
    if "n' + 2 \<le> B" "\<And>x n''. n'' \<le> n' + 2 \<Longrightarrow> safe tick n'' (g x) (\<lambda>_ n'. n' \<le> B)"
    for n' fd' p and g :: "fd \<Rightarrow> (error \<times> fd + string \<times> fd) io"
    by (intro safe_bindE safe_failing_at tick_open_next) (use that in \<open>auto split: sum.splits\<close>)
  show ?case
  proof (cases "f = [] \<or> str_equal f ''.''")
    case True
    then show ?thesis unfolding eq using IH(1)[OF True, of n] pre by simp
  next
    case no_dot: False
    show ?thesis
    proof (cases "str_equal f ''..''")
      case True
      show ?thesis
        unfolding eq if_not_P[OF no_dot] if_P[OF True]
        apply (intro safe_case_option safe_raise safe_case_prod safe_if opn)
        subgoal using pre by simp
        subgoal premises p for x up y by (rule IH(2)[OF no_dot True p(1) _ p(3)]) (use pre p in simp_all)
        subgoal using pre by simp
        subgoal premises p for x up y fd' n'' by (rule IH(3)[OF no_dot True p(1) _ p(3)]) (use pre p in simp_all)
        done
    next
      case no_up: False
      show ?thesis
      proof (cases "ne > 0")
        case True
        show ?thesis
          unfolding eq if_not_P[OF no_dot] if_not_P[OF no_up] if_P[OF True]
          by (rule app) (use pre in \<open>auto intro!: IH(4)[OF no_dot no_up True]\<close>)
      next
        case False
        note ih = IH(5,6,7)[OF no_dot no_up False]
        show ?thesis
          unfolding eq if_not_P[OF no_dot] if_not_P[OF no_up] if_not_P[OF False]
          apply (intro safe_bindS tick_call safe_get_errno safe_Let safe_if)
          subgoal premises p for r errno0 link
            apply (intro safe_bindE tick_follow_link)
            subgoal using p by simp
            subgoal using pre by simp
            subgoal premises q for newptr real' fd' n'
              unfolding sum.case prod.case
              by (rule ih(1)[OF p]) (use budget_link[OF q(1), of nl s] p q "2.prems" in simp)
            done
          subgoal premises p for r errno0 link errno
            by (rule app) (use pre p in \<open>auto intro!: ih(2)[OF p]\<close>)
          subgoal premises p for r errno0 link errno
            apply (intro opn app)
            subgoal using pre by simp
            subgoal using pre by simp
            subgoal premises q for fd' n'' real' by (rule ih(3)[OF p]) (use pre q in simp)
            done
          subgoal using pre by (auto intro!: safe_failing_at safe_fail_errno)
          done
      qed
    qed
  qed
qed

lemma tick_resolve: "safe tick 0 (do_path_resolve full root path) (\<lambda>_ n. n \<le> 2 + 3 * (MAXSYMLINKS + 1) * PATH_MAX)"
proof -
  let ?B = "1 + 3 * (MAXSYMLINKS + 1) * PATH_MAX"
  have first: "safe tick 0 (open_next (-1) root) (\<lambda>_ n. n \<le> 1)"
    unfolding open_next_def Let_def xclose_def
    by (intro safe_bindE safe_or_set tick_call) (auto split: sum.splits intro!: safe_bindS safe_ret safe_okay)
  have last: "safe tick n (if \<not> full then path_new p else path_join root p) (\<lambda>_ n'. n' \<le> ?B)" if "n \<le> ?B" for n p
    by (rule safe_io_pure) (use that in \<open>auto intro!: emits_intros\<close>)
  have "safe tick 0
       (bindE (failing_at (-1) (open_next (-1) root)) (\<lambda>fd.
        bindE (failing_at fd (path_append [] path)) (\<lambda>ptr.
        bindE (resolve_loop root path 0 (Some ptr) fd [] 0) (\<lambda>(realpath, fd').
        bindE (failing_at fd' (if \<not> full then path_new realpath else path_join root realpath))
          (\<lambda>buf. okay (buf, fd')))))) (\<lambda>_ n. n \<le> ?B)"
    apply (rule safe_bindE, rule safe_failing_at, rule safe_conseq[OF first])
    subgoal for r n
      apply (cases r)
       apply simp
      apply (simp only: sum.case)
      apply (rule safe_bindE, rule safe_failing_at, rule safe_path_append)
       apply (simp only: sum.case)
       apply (rule safe_bindE, rule safe_conseq[OF tick_resolve_loop[where B = ?B]])
        apply (simp add: budget_def)
      subgoal premises p
        using path_append_bound[OF p(3)] p(1) by simp
      subgoal for fd q os tr r' n'
        apply (cases r')
         apply simp
        apply (simp only: sum.case)
        apply (rule safe_case_prod)
        apply (rule safe_bindE, rule safe_failing_at, rule safe_conseq[OF last])
         apply simp
        apply (auto split: sum.splits intro!: safe_okay)
        done
      apply simp
      done
    done
  then show ?thesis
    unfolding do_path_resolve_def
    apply (intro safe_bindS)
    apply (erule safe_conseq)
    apply (auto split: sum.splits intro!: safe_bindS tick_xclose safe_raise safe_okay)
    done
qed

text \<open>C20: Resolving a path ends after a bounded number of system calls, whatever links the file
  system presents and even if it changes meanwhile: no link is followed after the twentieth and the
  path that is left to read is shorter than PATH_MAX after each of them, so at most three calls are
  made for every character of twenty-one paths, and one more at either end.\<close>

theorem path_resolve_terminates:
  "length (snd (do_path_resolve full root path os tr)) \<le> 2 + 3 * (MAXSYMLINKS + 1) * PATH_MAX"
proof -
  obtain r es where r: "do_path_resolve full root path os tr = (r, es)" by fastforce
  from safeD[OF tick_resolve r] r show ?thesis by (auto simp: accepts_tick)
qed

end
