(* ===== verification/FileUtils.thy ===== *)
theory FileUtils
  imports PathUtils
begin

text \<open>
  utils.c, the file_ family: mapping and reading files, creating files with
  their ancestor directories under another filesystem identity, and removing
  trees of empty files.
\<close>

unbundle bit_operations_syntax

subsection \<open>Helpers of the C library\<close>

definition rstrip :: "string \<Rightarrow> string" where
  "rstrip s = rev (dropWhile (\<lambda>c. c = CHR ''/'') (rev s))"

text \<open>dirname of the GNU C library; a path of exactly two leading slashes keeps both.\<close>

definition dirname :: "path \<Rightarrow> path" where
  "dirname s =
     (let t = rstrip s
      in if t = [] then (if s = [] then ''.'' else if length s = 2 then ''//'' else ''/'')
         else case strrchr t CHR ''/'' of
                None \<Rightarrow> ''.''
              | Some (a, _) \<Rightarrow>
                  if rstrip a = [] then (if length a = 1 then ''//'' else ''/'') else rstrip a)"

subsection \<open>Mapping and reading\<close>

text \<open>The mapping is the contents of the file, cut at the length fstat reports.\<close>

definition file_map :: "path \<Rightarrow> string ioE" where
  "file_map path =
     bindE (xopen path O_RDONLY) (\<lambda>fd.
       lastly
         (or_set (bindE (call_stat (C_fstat fd)) (\<lambda>s. call_str (C_mmap fd (st_size s))))
            (''file mapping failed: '' @ path))
         (call_void (C_close fd)))"

definition file_unmap :: "path \<Rightarrow> unit ioE" where
  "file_unmap path = or_set (call_unit (C_munmap path)) (''file unmapping failed: '' @ path)"

definition file_exists :: "path \<Rightarrow> bool ioE" where
  "file_exists path =
     bindS (call_unit (C_access path)) (\<lambda>r. case r of
       Inl e \<Rightarrow> if e \<noteq> ENOENT then fail_errno e (''file lookup failed: '' @ path) else okay False
     | Inr _ \<Rightarrow> okay True)"

definition file_exists_at :: "path \<Rightarrow> path \<Rightarrow> bool ioE" where
  "file_exists_at dir path =
     bindE (xopen dir (O_PATH OR O_DIRECTORY)) (\<lambda>fd.
     bindS (call_unit (C_faccessat fd (if take 1 path = ''/'' then tl path else path))) (\<lambda>r.
       lastly (case r of
                 Inl e \<Rightarrow> if e \<noteq> ENOENT then fail_errno e (''file lookup failed: '' @ path) else okay False
               | Inr _ \<Rightarrow> okay True)
         (call_void (C_close fd))))"

definition file_mode :: "path \<Rightarrow> 32 word ioE" where
  "file_mode path = bindE (xstat path) (\<lambda>s. okay (st_mode s))"

definition file_mode_link :: "path \<Rightarrow> 32 word ioE" where
  "file_mode_link path = bindE (xlstat path) (\<lambda>s. okay (st_mode s))"

text \<open>The lines of an open stream, each with its newline; an error is a read error.\<close>

definition file_read_line :: "path \<Rightarrow> nat \<Rightarrow> string ioE" where
  "file_read_line path cap =
     bindE (xfopen path) (\<lambda>fs.
     bindS (call_strs (C_getlines fs)) (\<lambda>r.
       lastly (case r of
                 Inl e \<Rightarrow> failx (''file read error: '' @ path)
               | Inr [] \<Rightarrow> okay []
               | Inr (l # _) \<Rightarrow> okay (take (cap - 1) l))
         (call_void (C_fclose fs))))"

text \<open>The fread loop of file_read_text: pieces of at most 511 bytes joined one by one.\<close>

function read_text_loop :: "string option \<Rightarrow> string \<Rightarrow> string option ioE" where
  "read_text_loop txt data =
     (if data = [] then okay txt
      else bindE (str_join txt (take 511 data) []) (\<lambda>txt'.
             read_text_loop (Some txt') (drop 511 data)))"
  by pat_completeness auto
termination
  by (relation "measure (\<lambda>(txt, data). length data)") auto

declare read_text_loop.simps [simp del]

definition file_read_text :: "path \<Rightarrow> string option ioE" where
  "file_read_text path =
     bindE (xfopen path) (\<lambda>fs.
     bindS (call_strs (C_getlines fs)) (\<lambda>r.
       lastly (case r of
                 Inl e \<Rightarrow> failx (''file read error: '' @ path)
               | Inr ls \<Rightarrow> read_text_loop None (concat ls))
         (call_void (C_fclose fs))))"

definition file_read_uint32 :: "path \<Rightarrow> uint32 ioE" where
  "file_read_uint32 path =
     bindE (xfopen path) (\<lambda>fs.
     bindS (call_strs (C_getlines fs)) (\<lambda>r.
       lastly (case (case r of Inl e \<Rightarrow> None | Inr ls \<Rightarrow> strtoumax (concat ls)) of
                 None \<Rightarrow> failx (''file read error: '' @ path)
               | Some (n, _) \<Rightarrow> okay (word_of_nat n))
         (call_void (C_fclose fs))))"

subsection \<open>Creating\<close>

definition get_umask :: "32 word io" where
  "get_umask =
     bindS (call_id (C_umask 0)) (\<lambda>mask.
     bindS (call_id (C_umask mask)) (\<lambda>_. ret mask))"

abbreviation (input) CAP_DAC_OVERRIDE :: nat where "CAP_DAC_OVERRIDE \<equiv> 1"

text \<open>setfsgid and setfsuid answer the previous value; -1 only asks for it.\<close>

definition set_fsugid :: "uint32 \<Rightarrow> uint32 \<Rightarrow> (nat + unit) io" where
  "set_fsugid uid gid =
     bindS (call_id (C_setfsgid gid)) (\<lambda>_.
     bindS (call_id (C_setfsgid (-1))) (\<lambda>g.
     if g \<noteq> gid then raise EPERM
     else
     bindS (call_id (C_setfsuid uid)) (\<lambda>_.
     bindS (call_id (C_setfsuid (-1))) (\<lambda>u.
     if u \<noteq> uid then raise EPERM
     else
     bindE (call_cap C_cap_get_proc) (\<lambda>state.
     bindE (call_int (C_cap_get_flag state CAP_DAC_OVERRIDE CAP_PERMITTED)) (\<lambda>flag.
     if flag = 1 then
       bindE (call_cap (C_cap_set_flag state CAP_EFFECTIVE [CAP_DAC_OVERRIDE] True)) (\<lambda>state'.
         call_unit (C_cap_set_proc state'))
     else okay ()))))))"

function make_ancestors :: "path \<Rightarrow> 32 word \<Rightarrow> (nat + unit) io" where
  "make_ancestors path perm =
     (if path = [] \<or> hd path = CHR ''.'' then okay ()
      else
        bindS (call_stat (C_stat path)) (\<lambda>r. case r of
          Inr s \<Rightarrow> if S_ISDIR (st_mode s) then okay () else raise ENOTDIR
        | Inl e \<Rightarrow>
            if e \<noteq> ENOENT then raise e
            else
              bindE (case strrchr path CHR ''/'' of
                       Some (p, _) \<Rightarrow> make_ancestors p perm
                     | None \<Rightarrow> okay ()) (\<lambda>_.
                call_unit (C_mkdir path perm))))"
  by pat_completeness auto
termination
  by (relation "measure (\<lambda>(path, perm). length path)") (auto simp: strrchr_Some)

declare make_ancestors.simps [simp del]

text \<open>The three kinds of file; errno is the value at the label \<open>fail\<close>.\<close>

definition create_node :: "path \<Rightarrow> string option \<Rightarrow> 32 word \<Rightarrow> 32 word \<Rightarrow> (nat + unit) io" where
  "create_node path data perm mode =
     (if S_ISDIR mode then
        bindS (call_unit (C_mkdir path perm)) (\<lambda>r. case r of
          Inl e \<Rightarrow> if e \<noteq> EEXIST then raise e else okay ()
        | Inr _ \<Rightarrow> okay ())
      else if S_ISLNK mode then
        (case data of
           None \<Rightarrow> raise EINVAL
         | Some target \<Rightarrow>
             bindS (call_unit (C_symlink target path)) (\<lambda>r. case r of
               Inl e \<Rightarrow> if e \<noteq> EEXIST then raise e else okay ()
             | Inr _ \<Rightarrow> okay ()))
      else
        bindS (call_int (C_open_mode path
                 (case data of
                    None \<Rightarrow> O_NOFOLLOW OR O_CREAT
                  | Some _ \<Rightarrow> O_NOFOLLOW OR O_CREAT OR (O_WRONLY OR O_TRUNC)) perm)) (\<lambda>r. case r of
          Inl e \<Rightarrow> raise (if e = ELOOP then EEXIST else e)
        | Inr fd \<Rightarrow>
            (case data of
               None \<Rightarrow> bindS (call_void (C_close fd)) (\<lambda>_. okay ())
             | Some d \<Rightarrow>
                 bindS (call_int (C_write fd d)) (\<lambda>w.
                 bindS get_errno (\<lambda>errno0.
                 bindS (call_unit (C_close fd)) (\<lambda>c.
                   case w of
                     Inl e \<Rightarrow> raise (case c of Inl e' \<Rightarrow> e' | Inr _ \<Rightarrow> e)
                   | Inr n \<Rightarrow>
                       if n < int (length d) then raise (case c of Inl e' \<Rightarrow> e' | Inr _ \<Rightarrow> errno0)
                       else okay ()))))))"

definition file_create ::
  "path \<Rightarrow> string option \<Rightarrow> uint32 \<Rightarrow> uint32 \<Rightarrow> 32 word \<Rightarrow> unit ioE" where
  "file_create path data uid gid mode =
     bindS (case data of
              None \<Rightarrow> bindS (file_mode path) (\<lambda>m. ret (m = Inr mode))
            | Some _ \<Rightarrow> ret False) (\<lambda>present.
     if present then okay ()
     else
     bindE (xstrdup path) (\<lambda>p.
     bindS (call_id C_geteuid) (\<lambda>euid.
     bindS (call_id C_getegid) (\<lambda>egid.
       lastly
         (or_set
           (bindE (set_fsugid uid gid) (\<lambda>_.
            bindS get_umask (\<lambda>mask.
            bindE (make_ancestors (dirname p) ((511 AND NOT mask) OR 128 OR 64)) (\<lambda>_.
            bindS get_umask (\<lambda>mask.
              create_node path data (511 AND NOT mask AND mode) mode)))))
           (''file creation failed: '' @ path))
         (set_fsugid euid egid)))))"

subsection \<open>Removing\<close>

definition do_file_remove :: "path \<times> ftw_flag \<times> nat \<Rightarrow> (nat + unit) io" where
  "do_file_remove = (\<lambda>(path, flag, st_size0).
     if flag = FTW_NS \<or> flag = FTW_DNR then bindS get_errno raise
     else if flag = FTW_DP then
       bindS (call_unit (C_rmdir path)) (\<lambda>r. case r of
         Inl e \<Rightarrow> if e \<noteq> ENOTEMPTY then raise e else okay ()
       | Inr _ \<Rightarrow> okay ())
     else if flag = FTW_F then
       (if st_size0 = 0 then call_unit (C_unlink path) else okay ())
     else
       bindS (call_stat (C_stat path)) (\<lambda>r. case r of
         Inl e \<Rightarrow> if e \<noteq> ENOENT then raise e else call_unit (C_unlink path)
       | Inr sl \<Rightarrow> if st_size sl = 0 then call_unit (C_unlink path) else okay ()))"

text \<open>nftw with FTW_DEPTH calls the function on every file it finds until one call fails.\<close>

fun nftw_walk :: "(path \<times> ftw_flag \<times> nat) list \<Rightarrow> (nat + unit) io" where
  "nftw_walk [] = okay ()"
| "nftw_walk (f # fs) = bindE (do_file_remove f) (\<lambda>_. nftw_walk fs)"

definition file_remove :: "path \<Rightarrow> unit ioE" where
  "file_remove path =
     or_set (bindE (call_tree (C_nftw path)) nftw_walk) (''file removal failed: '' @ path)"

subsection \<open>What is removed\<close>

text \<open>
  The monitor knows what nftw found and which path the last stat reported as
  gone or empty.  It rejects the removal of a directory that was not reported,
  of a file that is not empty and of a link whose target is not empty.
\<close>

record rm_state =
  rm_found :: "(path \<times> ftw_flag \<times> nat) list"
  rm_empty :: "path option"

definition rm_step :: "rm_state \<Rightarrow> event \<Rightarrow> rm_state option" where
  "rm_step s = (\<lambda>(c, a). case c of
       DirOp (sc_nftw p) \<Rightarrow> (case a of RTree fs \<Rightarrow> Some (s\<lparr>rm_found := fs\<rparr>) | _ \<Rightarrow> Some s)
     | FS (sc_stat p) \<Rightarrow>
         Some (s\<lparr>rm_empty :=
           (case a of Failed e \<Rightarrow> if e = ENOENT then Some p else None
            | RStat st \<Rightarrow> if st_size st = 0 then Some p else None | _ \<Rightarrow> None)\<rparr>)
     | DirOp (sc_unlink p) \<Rightarrow>
         if (p, FTW_F, 0) \<in> set (rm_found s) \<or>
            rm_empty s = Some p \<and> (\<exists>n. (p, FTW_SL, n) \<in> set (rm_found s))
         then Some s else None
     | DirOp (sc_rmdir p) \<Rightarrow> if (\<exists>n. (p, FTW_DP, n) \<in> set (rm_found s)) then Some s else None
     | _ \<Rightarrow> Some s)"

lemma rm_step_simps:
  "rm_step s (C_nftw p, RTree fs) = Some (s\<lparr>rm_found := fs\<rparr>)"
  "rm_step s (C_nftw p, Failed e) = Some s"
  "rm_step s (C_stat p, Failed e) = Some (s\<lparr>rm_empty := if e = ENOENT then Some p else None\<rparr>)"
  "rm_step s (C_stat p, RStat st) = Some (s\<lparr>rm_empty := if st_size st = 0 then Some p else None\<rparr>)"
  "rm_step s (C_unlink p, a) = (if (p, FTW_F, 0) \<in> set (rm_found s) \<or>
      rm_empty s = Some p \<and> (\<exists>n. (p, FTW_SL, n) \<in> set (rm_found s)) then Some s else None)"
  "rm_step s (C_rmdir p, a) = (if (\<exists>n. (p, FTW_DP, n) \<in> set (rm_found s)) then Some s else None)"
  by (simp_all add: rm_step_def)

lemma safe_do_file_remove:
  assumes "f \<in> set (rm_found s)"
  shows "safe rm_step s (do_file_remove f) (\<lambda>_ s'. rm_found s' = rm_found s)"
proof (cases f)
  case (fields p flag n)
  with assms show ?thesis
    unfolding do_file_remove_def
    by (cases flag) (auto intro!: safe_intros simp: rm_step_simps answer_def split: sum.splits)
qed

lemma safe_nftw_walk:
  "set fs \<subseteq> set (rm_found s) \<Longrightarrow> safe rm_step s (nftw_walk fs) (\<lambda>_ s'. True)"
proof (induction fs arbitrary: s)
  case (Cons f fs)
  then show ?case
    by (auto intro!: safe_intros safe_conseq[OF safe_do_file_remove] split: sum.splits)
qed (auto intro!: safe_intros)

subsection \<open>Properties\<close>

text \<open>C25: file_remove only removes directories, empty regular files and symbolic links whose
  target is missing or empty, all among what the tree walk reported, whatever the file system
  answers: it never unlinks a file that has contents.\<close>

theorem file_remove_keeps_data:
  assumes "file_remove path os tr = (r, es)"
  shows "accepts rm_step \<lparr>rm_found = [], rm_empty = None\<rparr> es \<noteq> None"
proof -
  have "safe rm_step \<lparr>rm_found = [], rm_empty = None\<rparr> (file_remove path) (\<lambda>_ _. True)"
    unfolding file_remove_def
    by (auto intro!: safe_intros safe_conseq[OF safe_nftw_walk] simp: rm_step_simps answer_def
        split: sum.splits)
  from safeD[OF this assms] show ?thesis by auto
qed

theorem file_remove_keeps_data_witness:
  "\<exists>r es. file_remove ''/x'' calm [] = (r, es) \<and>
     accepts rm_step \<lparr>rm_found = [], rm_empty = None\<rparr> es \<noteq> None"
proof -
  obtain r es where run: "file_remove ''/x'' calm [] = (r, es)"
    by fastforce
  from file_remove_keeps_data[OF run] run show ?thesis by blast
qed

end
