(* ===== verification/Lookups.thy ===== *)
theory Lookups
  imports FileUtils
begin

text \<open>
  Fragments that only observe.  A read-only call leaves the file system, the
  credentials, the namespaces and the other processes as they are; the lookups
  of utils.c make no other calls, so a monitor that ignores read-only calls can
  skip them, and a path they resolve is known to lie below its root.
\<close>

fun readonly :: "call \<Rightarrow> bool" where
  "readonly (FS c) = (case c of sc_open_mode _ _ _ \<Rightarrow> False | _ \<Rightarrow> True)"
| "readonly (DirOp c) =
     (case c of
        sc_readlinkat _ _ \<Rightarrow> True | sc_fopen _ \<Rightarrow> True | sc_getlines _ \<Rightarrow> True
      | sc_fclose _ \<Rightarrow> True | sc_readdir _ \<Rightarrow> True | sc_glob _ \<Rightarrow> True | sc_nftw _ \<Rightarrow> True
      | sc_read _ _ \<Rightarrow> True | sc_lseek _ _ \<Rightarrow> True
      | _ \<Rightarrow> False)"
| "readonly (Cred c) =
     (case c of
        sc_geteuid \<Rightarrow> True | sc_getegid \<Rightarrow> True | sc_getpwnam _ \<Rightarrow> True | sc_getpwuid _ \<Rightarrow> True
      | sc_getgrnam _ \<Rightarrow> True | sc_getgroups_count \<Rightarrow> True | sc_getgroups \<Rightarrow> True | _ \<Rightarrow> False)"
| "readonly (Cap c) = False"
| "readonly (NS c) = (case c of sc_statvfs _ \<Rightarrow> True | _ \<Rightarrow> False)"
| "readonly (Proc c) = (case c of sc_getppid \<Rightarrow> True | sc_uname \<Rightarrow> True | _ \<Rightarrow> False)"

definition observes :: "'a io \<Rightarrow> bool" where
  "observes m \<longleftrightarrow> emits (\<lambda>e. readonly (fst e)) m"

lemma observesI: "emits (\<lambda>e. readonly (fst e)) m \<Longrightarrow> observes m"
  by (simp add: observes_def)

lemma emits_failing_at [emits_intros]: "emits P m \<Longrightarrow> emits P (failing_at fd m)"
  unfolding failing_at_def by (intro emits_intros)

lemma observes_open_next: "observes (open_next d p)"
  unfolding observes_def open_next_def Let_def by (intro emits_intros) simp_all

lemmas observes_emits = observes_open_next[unfolded observes_def]

lemma observes_follow_link: "observes (follow_link root fd link realpath ptr)"
  unfolding observes_def follow_link_def by (intro emits_intros observes_emits) 

lemma observes_resolve_loop:
  "observes (resolve_loop root path nlinks ptr fd realpath noents)"
proof (induction root path nlinks ptr fd realpath noents rule: resolve_loop.induct)
  case (1 root path nlinks fd realpath noents)
  show ?case by (simp only: resolve_loop.simps observes_def) (rule emits_okay)
next
  case (2 root path nlinks s fd realpath noents)
  note IH = "2.IH"[unfolded observes_def]
  show ?case
    unfolding observes_def
    apply (subst resolve_loop.simps)
    apply (intro emits_intros emits_Let observes_emits observes_follow_link[unfolded observes_def])
    subgoal premises p by (rule IH(1)[OF p(1)[symmetric] p(2)])
    subgoal premises p by (rule IH(2)[OF p(1)[symmetric] p(2-4) p(5)[symmetric] p(6)])
    subgoal premises p by (rule IH(3)[OF p(1)[symmetric] p(2-4) p(5)[symmetric] p(6)])
    subgoal premises p by (rule IH(4)[OF p(1)[symmetric] p(2-4)])
    subgoal by simp
    subgoal premises p by (rule IH(5)[OF p(1)[symmetric] p(2-4) p(5,6)])
    subgoal premises p by (rule IH(6)[OF p(1)[symmetric] p(2-4) p(5,6,7,8)])
    subgoal premises p by (rule IH(7)[OF p(1)[symmetric] p(2-4) p(5,6,7,8,9)])
    done
qed

lemma observes_path_resolve:
  "observes (do_path_resolve full root path)" "observes (path_resolve root path)"
  "observes (path_resolve_full root path)"
proof -
  show r: "observes (do_path_resolve full root path)" for full
    unfolding observes_def do_path_resolve_def
    by (intro emits_intros emits_case_prod observes_emits observes_resolve_loop[unfolded observes_def]) simp_all
  show "observes (path_resolve root path)" "observes (path_resolve_full root path)"
    unfolding path_resolve_def path_resolve_full_def by (rule r)+
qed

lemma observes_str_join: "observes (str_join a b c)"
  unfolding observes_def str_join_def by (intro emits_intros) simp_all

lemma observes_read_text_loop: "observes (read_text_loop t d)"
proof (induction t d rule: read_text_loop.induct)
  case (1 acc data)
  then show ?case
    unfolding observes_def
    by (subst read_text_loop.simps) (intro emits_intros observes_str_join[unfolded observes_def])
qed

lemma observes_file:
  "observes (file_exists p)" "observes (file_exists_at d p)" "observes (file_mode p)"
  "observes (file_mode_link p)" "observes (file_read_line p n)" "observes (file_read_uint32 p)"
  "observes (file_read_text p)" "observes (file_map p)" "observes (file_unmap p)"
  unfolding observes_def file_exists_def file_exists_at_def file_mode_def file_mode_link_def
    file_read_line_def file_read_uint32_def file_read_text_def file_map_def file_unmap_def
  by (intro emits_intros emits_case_list observes_read_text_loop[unfolded observes_def]; simp)+

lemmas observes_lookups = observes_open_next observes_path_resolve observes_str_join observes_file

lemmas observes_emits_intros = observes_lookups[unfolded observes_def]

text \<open>A monitor that ignores read-only calls skips a fragment that only observes.\<close>

definition ignores :: "('s \<Rightarrow> event \<Rightarrow> 's option) \<Rightarrow> bool" where
  "ignores \<delta> \<longleftrightarrow> (\<forall>s c a. readonly c \<longrightarrow> \<delta> s (c, a) = Some s)"

lemma ignoresD: "ignores \<delta> \<Longrightarrow> readonly c \<Longrightarrow> \<delta> s (c, a) = Some s"
  by (simp add: ignores_def)

lemma safe_observes:
  assumes "ignores \<delta>" "observes m" "\<And>r. Q r s"
  shows "safe \<delta> s m Q"
proof (rule safe_ignored)
  show "emits (\<lambda>e. \<delta> s e = Some s) m"
    using assms(1,2) unfolding observes_def
    by (elim emits_weaken) (metis ignoresD prod.collapse)
qed (rule assms(3))

subsection \<open>Paths below a root\<close>

definition under :: "path \<Rightarrow> path \<Rightarrow> bool" where
  "under root p \<longleftrightarrow> length p < PATH_MAX \<and> (\<exists>cs. list_all good_comp cs \<and> p = below root cs)"

lemma path_resolve_full_under:
  assumes "take 1 root = ''/''" "path_resolve_full root path os tr = (Inr p, es)"
  shows "under root p"
  using safeD[OF safe_do_path_resolve[OF assms(1), of True path] assms(2)[unfolded path_resolve_full_def]]
  by (auto simp: under_def)

lemma path_resolve_rendered:
  assumes "take 1 root = ''/''" "path_resolve root path os tr = (Inr p, es)"
  shows "length p < PATH_MAX \<and> (\<exists>cs. list_all good_comp cs \<and> p = render cs)"
  using safeD[OF safe_do_path_resolve[OF assms(1), of False path] assms(2)[unfolded path_resolve_def]]
  by auto

lemma safe_observes_result:
  assumes "ignores \<delta>" "observes m" "\<And>r os tr es. m os tr = (r, es) \<Longrightarrow> Q r s"
  shows "safe \<delta> s m Q"
  unfolding safe_def
proof (intro allI)
  fix os tr
  obtain r es where r: "m os tr = (r, es)" by fastforce
  from safeD[OF safe_observes[OF assms(1,2), of "\<lambda>_ s'. s' = s" s] r] r assms(3)[OF r]
  show "\<exists>s'. accepts \<delta> s (snd (m os tr)) = Some s' \<and> Q (fst (m os tr)) s'"
    by auto
qed

lemma safe_path_resolve_full:
  assumes "ignores \<delta>" "take 1 root = ''/''" "\<And>e. Q (Inl e) s" "\<And>p. under root p \<Longrightarrow> Q (Inr p) s"
  shows "safe \<delta> s (path_resolve_full root path) Q"
proof (rule safe_observes_result[OF assms(1) observes_path_resolve(3)])
  fix r os tr es
  assume "path_resolve_full root path os tr = (r, es)"
  with path_resolve_full_under[OF assms(2)] assms(3,4) show "Q r s"
    by (cases r) auto
qed

subsection \<open>Creating and removing files\<close>

text \<open>The calls file_create and file_remove are made of.\<close>

fun file_call :: "call \<Rightarrow> bool" where
  "file_call (FS c) = True"
| "file_call (DirOp c) = True"
| "file_call (Cred c) =
     (case c of sc_setfsuid _ \<Rightarrow> True | sc_setfsgid _ \<Rightarrow> True | sc_geteuid \<Rightarrow> True | sc_getegid \<Rightarrow> True | _ \<Rightarrow> False)"
| "file_call (Cap c) = True"
| "file_call c = False"

lemma emits_file_create: "emits (\<lambda>e. file_call (fst e)) (file_create p d u g mode)"
proof -
  have "emits (\<lambda>e. file_call (fst e)) (make_ancestors q perm)" for q perm
  proof (induction q perm rule: make_ancestors.induct)
    case (1 p perm)
    then show ?case
      by (subst make_ancestors.simps) (auto intro!: emits_intros split: option.splits)
  qed
  moreover have "emits (\<lambda>e. file_call (fst e)) (file_mode p)"
    unfolding file_mode_def by (intro emits_intros) simp_all
  ultimately show ?thesis
    unfolding file_create_def get_umask_def create_node_def set_fsugid_def
    by (auto intro!: emits_intros split: option.splits)
qed

lemma emits_file_remove: "emits (\<lambda>e. file_call (fst e)) (file_remove p)"
proof -
  have "emits (\<lambda>e. file_call (fst e)) (nftw_walk fs)" for fs
    by (induction fs) (auto intro!: emits_intros simp: do_file_remove_def split: prod.splits)
  then show ?thesis
    unfolding file_remove_def by (auto intro!: emits_intros)
qed

end
