(* ===== verification/DeviceCgroup.thy ===== *)
theory DeviceCgroup
  imports NvcTypes Options Lookups
begin

text \<open>
  cgroup.h: the three operations on the device cgroup of a container, which
  cgroup_legacy.c and cgroup.c both define and of which a build links one.
  The contract bounds their calls: the queries only observe or ask the Go
  service, and allowing a device only writes to a stream or asks the service.
\<close>

fun library_call :: "call \<Rightarrow> bool" where
  "library_call (Proc (sc_lib _ _ _)) = True"
| "library_call _ = False"

fun stream_write :: "call \<Rightarrow> bool" where
  "stream_write (DirOp (sc_fprintf _ _)) = True"
| "stream_write _ = False"

definition cg_query :: "call \<Rightarrow> bool" where
  "cg_query c \<longleftrightarrow> readonly c \<or> library_call c"

definition cg_setup :: "call \<Rightarrow> bool" where
  "cg_setup c \<longleftrightarrow> readonly c \<or> library_call c \<or> stream_write c"

locale device_cgroup =
  fixes get_version :: "nvc_container \<Rightarrow> int ioE"
    and find_path :: "nvc_container \<Rightarrow> path ioE"
    and allow :: "nvc_container \<Rightarrow> uint64 \<Rightarrow> unit ioE"
  assumes version_query: "emits (\<lambda>e. cg_query (fst e)) (get_version cnt)"
    and path_query: "emits (\<lambda>e. cg_query (fst e)) (find_path cnt)"
    and allow_calls: "emits (\<lambda>e. cg_setup (fst e)) (allow cnt dev)"

lemma observes_query: "observes m \<Longrightarrow> emits (\<lambda>e. cg_query (fst e)) m"
  unfolding observes_def by (erule emits_weaken) (simp add: cg_query_def)

lemma observes_setup: "observes m \<Longrightarrow> emits (\<lambda>e. cg_setup (fst e)) m"
  unfolding observes_def by (erule emits_weaken) (simp add: cg_setup_def)

end
