(* ===== verification/CgroupLegacy.thy ===== *)
theory CgroupLegacy
  imports DeviceCgroup
begin

text \<open>
  cgroup_legacy.c, the device cgroup of version 1 found through the files
  mountinfo and cgroup of the proc file system.  The functions carry the
  suffix of the file because cgroup.c defines the same names.
\<close>

text \<open>
  A dereference of NULL ends the process: a parser that does it answers \<open>Crash\<close>
  and the run ends there, with the result \<open>null_deref\<close>.
\<close>

datatype 'a parse = Crash | NoMatch | Match 'a

definition null_deref :: error where
  "null_deref = \<lparr>err_code = -11, err_msg = None\<rparr>"

text \<open>strsep on a pointer that may already be NULL.\<close>

definition strsep_opt :: "string \<Rightarrow> string option \<Rightarrow> string option \<times> string option" where
  "strsep_opt delim line =
     (case line of
        None \<Rightarrow> (None, None)
      | Some s \<Rightarrow> (case strsep delim s of (t, r) \<Rightarrow> (Some t, r)))"

text \<open>The n-th of n consecutive calls.\<close>

fun strsep_n :: "nat \<Rightarrow> string option \<Rightarrow> string option \<times> string option" where
  "strsep_n 0 line = (None, line)"
| "strsep_n (Suc n) line =
     (case strsep_opt '' '' line of (t, r) \<Rightarrow> if n = 0 then (t, r) else strsep_n n r)"

text \<open>cgroup_mount: the mount point and, through \<open>pfx\<close>, the root of the mount.\<close>

definition cgroup_mount :: "string \<Rightarrow> string \<Rightarrow> string \<Rightarrow> (string \<times> string) parse" where
  "cgroup_mount line pfx subsys =
     (case strsep_n 4 (Some line) of (root, line1) \<Rightarrow>
      case strsep_opt '' '' line1 of (mnt, line2) \<Rightarrow>
      case line2 of
        None \<Rightarrow> Crash
      | Some rest \<Rightarrow>
          (case map_option (\<lambda>(a, b). CHR ''-'' # b) (strchr rest CHR ''-'') of line3 \<Rightarrow>
           case strsep_n 2 line3 of (fstype, line4) \<Rightarrow>
           case strsep_n 2 line4 of (substr, line5) \<Rightarrow>
           (case (root, mnt, fstype, substr) of
              (Some root, Some mnt, Some fstype, Some substr) \<Rightarrow>
                if root = [] \<or> mnt = [] \<or> fstype = [] \<or> substr = [] then NoMatch
                else if \<not> str_equal fstype ''cgroup'' then NoMatch
                else if strstr substr subsys = None then NoMatch
                else if length root \<ge> PATH_MAX \<or> str_has_prefix root ''/..'' then NoMatch
                else Match (mnt, root)
            | _ \<Rightarrow> NoMatch)))"

definition cgroup_root :: "string \<Rightarrow> string \<Rightarrow> string \<Rightarrow> (string \<times> string) parse" where
  "cgroup_root line pfx subsys =
     (case strsep '':'' line of (hierarchy_id, l1) \<Rightarrow>
      case l1 of
        None \<Rightarrow> NoMatch
      | Some s1 \<Rightarrow>
          (case strsep '':'' s1 of (controller_list, l2) \<Rightarrow>
           case l2 of
             None \<Rightarrow> NoMatch
           | Some cgroup_path \<Rightarrow>
               if cgroup_path = [] \<or> controller_list = [] then NoMatch
               else if strstr controller_list subsys = None then NoMatch
               else if length cgroup_path \<ge> PATH_MAX \<or> str_has_prefix cgroup_path ''/..'' then NoMatch
               else if \<not> str_equal pfx ''/'' \<and> str_has_prefix cgroup_path pfx
               then Match (drop (length pfx) cgroup_path, pfx)
               else Match (cgroup_path, pfx)))"

text \<open>
  The getline loop: a line loses its newline, blank lines are skipped and the
  first match ends the loop.  A match on a last line without a newline leaves
  the stream at its end, which the caller takes for a failed search.
\<close>

fun parse_loop ::
  "(string \<Rightarrow> string \<Rightarrow> string \<Rightarrow> (string \<times> string) parse) \<Rightarrow> string \<Rightarrow> string \<Rightarrow> string list
     \<Rightarrow> (string \<times> string) parse" where
  "parse_loop parse pfx subsys [] = NoMatch"
| "parse_loop parse pfx subsys (l # ls) =
     (let text = takeWhile (\<lambda>c. c \<noteq> CHR 0x0A) l
      in if text = [] then parse_loop parse pfx subsys ls
         else case parse text pfx subsys of
                Crash \<Rightarrow> Crash
              | NoMatch \<Rightarrow> parse_loop parse pfx subsys ls
              | Match m \<Rightarrow> if text = l then NoMatch else Match m)"

definition parse_proc_file ::
  "path \<Rightarrow> (string \<Rightarrow> string \<Rightarrow> string \<Rightarrow> (string \<times> string) parse) \<Rightarrow> string \<Rightarrow> string
     \<Rightarrow> (string \<times> string) ioE" where
  "parse_proc_file procf parse pfx subsys =
     bindE (xfopen procf) (\<lambda>fs.
     bindS (call_strs (C_getlines fs)) (\<lambda>r.
       if (case r of Inl _ \<Rightarrow> False | Inr ls \<Rightarrow> parse_loop parse pfx subsys ls = Crash)
       then raise null_deref else
       lastly
         (case r of
            Inl e \<Rightarrow> fail_errno e (''read error: '' @ procf)
          | Inr ls \<Rightarrow>
              (case parse_loop parse pfx subsys ls of
                 Crash \<Rightarrow> raise null_deref
               | NoMatch \<Rightarrow> failx (''cgroup subsystem '' @ subsys @ '' not found'')
               | Match (ptr, pfx') \<Rightarrow> bindE (xstrdup ptr) (\<lambda>p. okay (p, pfx'))))
         (call_void (C_fclose fs))))"

definition proc_pid :: "int \<Rightarrow> path" where
  "proc_pid pid = ''/proc/'' @ dec_int pid"

text \<open>The pfx under which the proc file system of a standalone container is seen.\<close>

definition proc_prefix :: "nvc_container \<Rightarrow> path" where
  "proc_prefix cnt = (if flag_set (cnt_flags cnt) OPT_STANDALONE then cnt_rootfs cnt else [])"

definition get_device_cgroup_version_legacy :: "nvc_container \<Rightarrow> int ioE" where
  "get_device_cgroup_version_legacy cnt = okay 1"

definition find_device_cgroup_path_legacy :: "nvc_container \<Rightarrow> path ioE" where
  "find_device_cgroup_path_legacy cnt =
     bindS (if flag_set (cnt_flags cnt) OPT_STANDALONE then ret (cnt_pid cnt)
            else bindS (call_id C_getppid) (\<lambda>p. ret (uint p))) (\<lambda>pid.
     bindE (xsnprintf PATH_MAX (proc_prefix cnt @ proc_pid pid @ ''/mountinfo'')) (\<lambda>path.
     bindE (parse_proc_file path cgroup_mount [] ''devices'') (\<lambda>(mnt, root_prefix).
     bindE (xsnprintf PATH_MAX (proc_prefix cnt @ proc_pid (cnt_pid cnt) @ ''/cgroup'')) (\<lambda>path.
     bindE (parse_proc_file path cgroup_root root_prefix ''devices'') (\<lambda>(root, _).
       xasprintf (proc_prefix cnt @ mnt @ root))))))"

text \<open>The line written to devices.allow.\<close>

definition device_rule :: "uint64 \<Rightarrow> string" where
  "device_rule dev = ''c '' @ dec (unat (major dev)) @ '':'' @ dec (unat (minor dev)) @ '' rw''"

definition setup_device_cgroup_legacy :: "nvc_container \<Rightarrow> uint64 \<Rightarrow> unit ioE" where
  "setup_device_cgroup_legacy cnt dev =
     bindE (path_join (cnt_dev_cg cnt) ''devices.allow'') (\<lambda>path.
     bindE (xfopen path) (\<lambda>fs.
       lastly (or_set (call_unit (C_fprintf fs (device_rule dev))) (''write error: '' @ path))
         (call_void (C_fclose fs))))"

subsection \<open>The contract\<close>

lemma observes_parse_proc_file: "observes (parse_proc_file f p pfx sub)"
  unfolding observes_def parse_proc_file_def
  apply (intro emits_intros)
  subgoal by simp
  subgoal by simp
  subgoal for fs r ls by (cases "parse_loop p pfx sub ls") (auto intro!: emits_intros)
  subgoal by simp
  done

interpretation legacy: device_cgroup get_device_cgroup_version_legacy find_device_cgroup_path_legacy
  setup_device_cgroup_legacy
proof unfold_locales
  fix cnt dev
  have "observes (find_device_cgroup_path_legacy cnt)"
    unfolding observes_def find_device_cgroup_path_legacy_def
    by (intro emits_intros observes_parse_proc_file[unfolded observes_def]) simp_all
  then show "emits (\<lambda>e. cg_query (fst e)) (find_device_cgroup_path_legacy cnt)"
    by (rule observes_query)
  show "emits (\<lambda>e. cg_query (fst e)) (get_device_cgroup_version_legacy cnt)"
    unfolding get_device_cgroup_version_legacy_def by (intro emits_intros)
  show "emits (\<lambda>e. cg_setup (fst e)) (setup_device_cgroup_legacy cnt dev)"
    unfolding setup_device_cgroup_legacy_def by (intro emits_intros) (simp_all add: cg_setup_def)
qed

subsection \<open>Reading the lines\<close>

lemma strsep_blank: "CHR '' '' \<notin> set t \<Longrightarrow> strsep '' '' (t @ CHR '' '' # s) = (t, Some s)"
  by (rule strsep_token) auto

lemma strsep_blank_last: "CHR '' '' \<notin> set t \<Longrightarrow> strsep '' '' t = (t, None)"
  by (rule strsep_single) auto

lemma strsep_colon: "CHR '':'' \<notin> set t \<Longrightarrow> strsep '':'' (t @ CHR '':'' # s) = (t, Some s)"
  by (rule strsep_token) auto

lemma strchr_first: "c \<notin> set t \<Longrightarrow> strchr (t @ c # s) c = Some (t, s)"
  by (simp add: strchr_Some)

lemma sublist_nonempty: "k \<noteq> [] \<Longrightarrow> sublist k s \<Longrightarrow> s \<noteq> []"
  by auto

definition mountinfo_line :: "string list \<Rightarrow> path \<Rightarrow> path \<Rightarrow> string \<Rightarrow> string list \<Rightarrow> string" where
  "mountinfo_line ids root mnt opts tail =
     concat (map (\<lambda>f. f @ '' '') (ids @ [root, mnt])) @ opts @ ''-'' @ concat (map (\<lambda>f. CHR '' '' # f) tail)"

lemma cgroup_mount_fields:
  assumes ids: "length ids = 3" "\<forall>f \<in> set ids. CHR '' '' \<notin> set f"
    and "CHR '' '' \<notin> set root" "CHR '' '' \<notin> set mnt" "CHR ''-'' \<notin> set opts"
    and "CHR '' '' \<notin> set fstype" "CHR '' '' \<notin> set source" "CHR '' '' \<notin> set superopts"
    and "subsys \<noteq> []"
  shows "cgroup_mount (mountinfo_line ids root mnt opts [fstype, source, superopts]) pfx subsys =
    (if root \<noteq> [] \<and> mnt \<noteq> [] \<and> fstype = ''cgroup'' \<and> sublist subsys superopts \<and>
        length root < PATH_MAX \<and> \<not> prefix ''/..'' root
     then Match (mnt, root) else NoMatch)"
proof -
  obtain a b c where abc: "ids = [a, b, c]"
    using ids(1) by (auto simp: numeral_3_eq_3 length_Suc_conv)
  have dash: "strsep '' '' (CHR ''-'' # CHR '' '' # s) = (''-'', Some s)" for s
    using strsep_blank[of "''-''" s] by simp
  note sep = strsep_blank dash strsep_blank_last strchr_first strsep_opt_def
  have four: "strsep_n 4 (Some (mountinfo_line ids root mnt opts [fstype, source, superopts])) =
     (Some root, Some (mnt @ CHR '' '' # opts @ CHR ''-'' # CHR '' '' # fstype @ CHR '' '' # source @ CHR '' '' # superopts))"
    using assms unfolding abc by (simp add: mountinfo_line_def sep eval_nat_numeral)
  let ?tail = "CHR ''-'' # CHR '' '' # fstype @ CHR '' '' # source @ CHR '' '' # superopts"
  have rest: "strsep_opt '' '' (Some (mnt @ CHR '' '' # opts @ ?tail)) = (Some mnt, Some (opts @ ?tail))"
    "strchr (opts @ ?tail) CHR ''-'' = Some (opts, tl ?tail)"
    "strsep_n 2 (Some ?tail) = (Some fstype, Some (source @ CHR '' '' # superopts))"
    "strsep_n 2 (Some (source @ CHR '' '' # superopts)) = (Some superopts, None)"
    using assms by (simp_all add: sep numeral_2_eq_2)
  show ?thesis
    unfolding cgroup_mount_def four prod.case rest option.case option.map
    using sublist_nonempty[OF assms(9), of superopts]
    by (simp add: rest(3,4) str_equal_def strstr_None not_le)
qed

lemma cgroup_root_fields:
  assumes "CHR '':'' \<notin> set hid" "CHR '':'' \<notin> set ctrls" "subsys \<noteq> []"
  shows "cgroup_root (hid @ '':'' @ ctrls @ '':'' @ path) pfx subsys =
    (if path \<noteq> [] \<and> sublist subsys ctrls \<and> length path < PATH_MAX \<and> \<not> prefix ''/..'' path
     then Match (if pfx \<noteq> ''/'' \<and> prefix pfx path then drop (length pfx) path else path, pfx)
     else NoMatch)"
  using assms sublist_nonempty[OF assms(3)]
  by (auto simp: cgroup_root_def strsep_colon str_equal_def strstr_None not_le)


subsection \<open>Properties\<close>

text \<open>C37: a line of mountinfo (three numbers, root, mount point, options, a dash, type, source and
  super options) is taken for the devices cgroup exactly when its type is cgroup, the
  super options name the subsystem and the root is a usable path, and then yields the mount
  point and the root; a line hierarchy:controllers:path of the cgroup file is taken exactly
  when the controllers name the subsystem and the path is usable, and yields the path
  with the root of the mount removed from its front, unless that root is "/".\<close>

theorem legacy_proc_lines:
  assumes "subsys \<noteq> []"
  shows "(length ids = 3 \<and> (\<forall>f \<in> set (root # mnt # fstype # source # superopts # ids). CHR '' '' \<notin> set f) \<and>
      CHR ''-'' \<notin> set opts \<longrightarrow>
      cgroup_mount (mountinfo_line ids root mnt opts [fstype, source, superopts]) pfx subsys =
        (if root \<noteq> [] \<and> mnt \<noteq> [] \<and> fstype = ''cgroup'' \<and> sublist subsys superopts \<and>
            length root < PATH_MAX \<and> \<not> prefix ''/..'' root
         then Match (mnt, root) else NoMatch)) \<and>
    (CHR '':'' \<notin> set hid \<and> CHR '':'' \<notin> set ctrls \<longrightarrow>
      cgroup_root (hid @ '':'' @ ctrls @ '':'' @ path) pfx subsys =
        (if path \<noteq> [] \<and> sublist subsys ctrls \<and> length path < PATH_MAX \<and> \<not> prefix ''/..'' path
         then Match (if pfx \<noteq> ''/'' \<and> prefix pfx path then drop (length pfx) path else path, pfx)
         else NoMatch))"
  using cgroup_mount_fields[of ids root mnt opts fstype source superopts subsys pfx]
    cgroup_root_fields[of hid ctrls subsys path pfx] assms by auto

theorem legacy_proc_lines_witness:
  "cgroup_mount (mountinfo_line [''33'', ''25'', ''0:29''] ''/docker'' ''/sys/fs/cgroup/devices''
       ''rw,nosuid master:9 '' [''cgroup'', ''cgroup'', ''rw,devices'']) [] ''devices''
     = Match (''/sys/fs/cgroup/devices'', ''/docker'') \<and>
   cgroup_root (''4'' @ '':'' @ ''devices'' @ '':'' @ ''/docker/abc'') ''/docker'' ''devices''
     = Match (''/abc'', ''/docker'')"
proof -
  have s: "sublist ''devices'' ''rw,devices''" "sublist ''devices'' ''devices''"
    by (simp_all add: sublist_Cons_right)
  show ?thesis
    using legacy_proc_lines[of "''devices''" "[''33'', ''25'', ''0:29'']" "''/docker''"
        "''/sys/fs/cgroup/devices''" "''cgroup''" "''cgroup''" "''rw,devices''" "''rw,nosuid master:9 ''" "[]"]
      legacy_proc_lines[of "''devices''" _ _ _ _ _ _ _ "''/docker''" "''4''" "''devices''" "''/docker/abc''"] s
    by simp
qed

text \<open>allowing a device made of a major and a minor number succeeds only by appending the
  rule "c major:minor rw", with these numbers, to the file devices.allow of the container's
  device cgroup, and the stream is closed.\<close>

theorem legacy_setup_rule:
  assumes "setup_device_cgroup_legacy cnt (makedev maj mn) os tr = (Inr u, es)"
  shows "\<exists>p fs a. fst (path_join (cnt_dev_cg cnt) ''devices.allow'' os tr) = Inr p \<and>
    es = [(C_fopen p, RInt fs),
          (C_fprintf fs (''c '' @ dec (unat maj) @ '':'' @ dec (unat mn) @ '' rw''), Done),
          (C_fclose fs, a)]"
proof -
  obtain p es1 es2 where p: "path_join (cnt_dev_cg cnt) ''devices.allow'' os tr = (Inr p, es1)"
    and es: "es = es1 @ es2" and r: "(bindE (xfopen p) (\<lambda>fs.
       lastly (or_set (call_unit (C_fprintf fs (device_rule (makedev maj mn)))) (''write error: '' @ p))
         (call_void (C_fclose fs)))) os (tr @ es1) = (Inr u, es2)"
    using assms unfolding setup_device_cgroup_legacy_def by (auto simp: bindE_Inr)
  have "es1 = []" by (rule path_join_no_events[OF p])
  with p es r show ?thesis
    by (auto simp: xfopen_def run_simps device_rule_def major_makedev minor_makedev simp del: append_Cons append.simps(2))
qed

theorem legacy_setup_rule_witness:
  "\<exists>p fs a es. snd (setup_device_cgroup_legacy
       \<lparr>cnt_flags = 0, cnt_pid = 1, cnt_rootfs = ''/'', cnt_bins_dir = [], cnt_libs_dir = [],
        cnt_libs32_dir = [], cnt_dris_dir = [], cnt_cudart_dir = [], cnt_ldconfig = [], cnt_uid = 0,
        cnt_gid = 0, cnt_mnt_ns = [], cnt_dev_cg_version = 1, cnt_dev_cg = ''/cg'', cnt_libs = []\<rparr>
       (makedev 195 255) calm []) = es \<and>
     es = [(C_fopen p, RInt fs),
          (C_fprintf fs (''c '' @ dec (unat (195::uint32)) @ '':'' @ dec (unat (255::uint32)) @ '' rw''), Done),
          (C_fclose fs, a)]"
proof -
  let ?cnt = "\<lparr>cnt_flags = 0, cnt_pid = 1, cnt_rootfs = ''/'', cnt_bins_dir = [], cnt_libs_dir = [],
        cnt_libs32_dir = [], cnt_dris_dir = [], cnt_cudart_dir = [], cnt_ldconfig = [], cnt_uid = 0,
        cnt_gid = 0, cnt_mnt_ns = [], cnt_dev_cg_version = 1, cnt_dev_cg = ''/cg'', cnt_libs = []\<rparr>"
  have "fst (setup_device_cgroup_legacy ?cnt (makedev 195 255) calm []) = Inr ()"
    by (simp add: setup_device_cgroup_legacy_def path_join_def path_new_def path_append_def Let_def
        str_empty_def eval_simps xfopen_def)
  then obtain es where "setup_device_cgroup_legacy ?cnt (makedev 195 255) calm [] = (Inr (), es)"
    by (metis prod.collapse)
  from legacy_setup_rule[OF this] this show ?thesis by auto
qed

end
