(* ===== verification/Perm.thy ===== *)
theory Perm
  imports FileUtils
begin

text \<open>
  utils.c, the perm_ family: dropping to another user, shrinking the
  capability bounding set and setting the capability sets of the process.
  libcap works on a state in memory; its functions are calls of the
  environment and \<open>libcap_ok\<close> states what their manual pages promise.
\<close>

subsection \<open>Dropping privileges\<close>

definition drop_groups_step :: "uint32 \<Rightarrow> (nat + unit) io" where
  "drop_groups_step gid =
     bindE (call_int C_getgroups_count) (\<lambda>n.
       if n = 0 then okay ()
       else if n = 1 then
         bindE (call_int C_getgroups) (\<lambda>egroup.
           if word_of_int egroup = gid then okay () else call_unit (C_setgroups [gid]))
       else call_unit (C_setgroups [gid]))"

definition perm_drop_privileges :: "uint32 \<Rightarrow> uint32 \<Rightarrow> bool \<Rightarrow> unit ioE" where
  "perm_drop_privileges uid gid drop_groups =
     or_set
       (bindS (call_id C_geteuid) (\<lambda>euid.
        bindS (call_id C_getegid) (\<lambda>egid.
        bindE (if drop_groups then drop_groups_step gid else okay ()) (\<lambda>_.
        bindE (if egid \<noteq> gid then call_unit (C_setregid gid) else okay ()) (\<lambda>_.
        bindE (if euid \<noteq> uid then call_unit (C_setreuid uid) else okay ()) (\<lambda>_.
        bindS (if egid \<noteq> gid then bindS (call_id C_getegid) (\<lambda>g. ret (g \<noteq> gid)) else ret False)
          (\<lambda>badg.
        bindS (if badg then ret True
               else if euid \<noteq> uid then bindS (call_id C_geteuid) (\<lambda>u. ret (u \<noteq> uid))
               else ret False) (\<lambda>bad.
        if bad then raise EPERM
        else call_unit C_no_new_privs))))))))
       ''privilege change failed''"

subsection \<open>Bounding set\<close>

abbreviation (input) CAP_LAST_CAP :: nat where "CAP_LAST_CAP \<equiv> 40"

definition PROC_LAST_CAP_PATH :: path where
  "PROC_LAST_CAP_PATH = ''/proc/sys/kernel/cap_last_cap''"

text \<open>The array argument of the perm_ functions may be NULL, which lists nothing.\<close>

definition cap_listed :: "nat list option \<Rightarrow> nat \<Rightarrow> bool" where
  "cap_listed caps c \<longleftrightarrow> (case caps of None \<Rightarrow> False | Some l \<Rightarrow> c \<in> set l)"

fun set_bounds_loop :: "nat list option \<Rightarrow> nat list \<Rightarrow> unit ioE" where
  "set_bounds_loop caps [] = okay ()"
| "set_bounds_loop caps (c # cs) =
     (if cap_listed caps c then set_bounds_loop caps cs
      else
        bindS (call_int (C_capbset_read c)) (\<lambda>r.
        bindE (case r of
                 Inl _ \<Rightarrow> okay ()
               | Inr v \<Rightarrow>
                   if v > 0 then or_set (call_unit (C_capbset_drop c)) ''capability change failed''
                   else okay ()) (\<lambda>_.
          set_bounds_loop caps cs)))"

definition last_cap :: "uint32 \<Rightarrow> nat" where
  "last_cap n = (if sint n \<ge> 0 \<and> sint n > int CAP_LAST_CAP then nat (sint n) else CAP_LAST_CAP)"

definition perm_set_bounds :: "nat list option \<Rightarrow> unit ioE" where
  "perm_set_bounds caps =
     bindE (file_read_uint32 PROC_LAST_CAP_PATH) (\<lambda>n.
       set_bounds_loop caps [0 ..< Suc (last_cap n)])"

subsection \<open>Capability sets\<close>

fun ambient_loop :: "nat list \<Rightarrow> (nat + unit) io" where
  "ambient_loop [] = okay ()"
| "ambient_loop (c # cs) =
     bindS (call_unit (C_cap_ambient_raise c)) (\<lambda>r. case r of
       Inl e \<Rightarrow> if e \<noteq> EINVAL then raise e else ambient_loop cs
     | Inr _ \<Rightarrow> ambient_loop cs)"

fun effective_loop :: "cap_state \<Rightarrow> cap_state \<Rightarrow> nat list \<Rightarrow> (nat + cap_state) io" where
  "effective_loop tmp state [] = okay state"
| "effective_loop tmp state (c # cs) =
     bindE (call_int (C_cap_get_flag tmp c CAP_EFFECTIVE)) (\<lambda>flag.
     bindE (call_cap (C_cap_set_flag state CAP_EFFECTIVE [c] (flag = 1))) (\<lambda>state'.
       effective_loop tmp state' cs))"

text \<open>The new contents of the set, then the block for CAP_PERMITTED.\<close>

definition install_caps :: "cap_flag \<Rightarrow> nat list option \<Rightarrow> cap_state \<Rightarrow> (nat + cap_state) io" where
  "install_caps type caps state =
     bindE (call_cap (C_cap_clear_flag state type)) (\<lambda>state.
       case caps of
         None \<Rightarrow> okay state
       | Some l \<Rightarrow> if l \<noteq> [] then call_cap (C_cap_set_flag state type l True) else okay state)"

definition restrict_effective :: "nat list option \<Rightarrow> cap_state \<Rightarrow> (nat + cap_state) io" where
  "restrict_effective caps state =
     bindE (call_cap (C_cap_dup state)) (\<lambda>tmp.
     bindE (call_cap (C_cap_clear_flag state CAP_EFFECTIVE)) (\<lambda>state.
       effective_loop tmp state (case caps of None \<Rightarrow> [] | Some l \<Rightarrow> l)))"

definition perm_set_capabilities :: "cap_flag \<Rightarrow> nat list option \<Rightarrow> unit ioE" where
  "perm_set_capabilities type caps =
     or_set
       (if type = CAP_AMBIENT then
          bindS (call_unit C_cap_ambient_clear) (\<lambda>r. case r of
            Inl e \<Rightarrow> if e \<noteq> EINVAL then raise e
                     else ambient_loop (case caps of None \<Rightarrow> [] | Some l \<Rightarrow> l)
          | Inr _ \<Rightarrow> ambient_loop (case caps of None \<Rightarrow> [] | Some l \<Rightarrow> l))
        else
          bindE (call_cap C_cap_get_proc) (\<lambda>state.
          bindE (install_caps type caps state) (\<lambda>state.
          bindE (if type = CAP_PERMITTED then restrict_effective caps state else okay state) (\<lambda>state.
            call_unit (C_cap_set_proc state)))))
       ''capability change failed''"

subsection \<open>What libcap promises\<close>

text \<open>The set of a state that a flag names.\<close>

fun cap_get :: "cap_flag \<Rightarrow> cap_state \<Rightarrow> nat set" where
  "cap_get CAP_EFFECTIVE st = set (cap_effective st)"
| "cap_get CAP_PERMITTED st = set (cap_permitted st)"
| "cap_get CAP_INHERITABLE st = set (cap_inheritable st)"
| "cap_get CAP_AMBIENT st = {}"

definition libcap_ok :: "os \<Rightarrow> bool" where
  "libcap_ok os \<longleftrightarrow>
     (\<forall>tr st st'. os_cap os tr (C_cap_dup st) = Inr st' \<longrightarrow> st' = st) \<and>
     (\<forall>tr st st' f. os_cap os tr (C_cap_clear_flag st f) = Inr st' \<longrightarrow>
        cap_get f st' = {} \<and> (\<forall>g. g \<noteq> f \<longrightarrow> cap_get g st' = cap_get g st)) \<and>
     (\<forall>tr st st' f cs v. os_cap os tr (C_cap_set_flag st f cs v) = Inr st' \<longrightarrow>
        cap_get f st' = (if v then cap_get f st \<union> set cs else cap_get f st - set cs) \<and>
        (\<forall>g. g \<noteq> f \<longrightarrow> cap_get g st' = cap_get g st)) \<and>
     (\<forall>tr st c f n. os_int os tr (C_cap_get_flag st c f) = Inr n \<longrightarrow>
        (n = 1 \<longleftrightarrow> c \<in> cap_get f st))"

lemma libcap_dup: "libcap_ok os \<Longrightarrow> os_cap os tr (C_cap_dup st) = Inr st' \<Longrightarrow> st' = st"
  unfolding libcap_ok_def by metis

lemma libcap_clear:
  assumes "libcap_ok os" "os_cap os tr (C_cap_clear_flag st f) = Inr st'"
  shows "cap_get g st' = (if g = f then {} else cap_get g st)"
proof -
  have "cap_get f st' = {} \<and> (\<forall>g. g \<noteq> f \<longrightarrow> cap_get g st' = cap_get g st)"
    using assms unfolding libcap_ok_def by metis
  then show ?thesis by auto
qed

lemma libcap_set:
  assumes "libcap_ok os" "os_cap os tr (C_cap_set_flag st f cs v) = Inr st'"
  shows "cap_get g st' = (if g \<noteq> f then cap_get g st
    else if v then cap_get f st \<union> set cs else cap_get f st - set cs)"
proof -
  have "cap_get f st' = (if v then cap_get f st \<union> set cs else cap_get f st - set cs) \<and>
    (\<forall>g. g \<noteq> f \<longrightarrow> cap_get g st' = cap_get g st)"
    using assms unfolding libcap_ok_def by metis
  then show ?thesis by simp
qed

lemma libcap_get:
  "libcap_ok os \<Longrightarrow> os_int os tr (C_cap_get_flag st c f) = Inr n \<Longrightarrow>
     n = 1 \<longleftrightarrow> c \<in> cap_get f st"
  unfolding libcap_ok_def by metis

lemma effective_loop_result:
  assumes "libcap_ok os" "effective_loop tmp st cs os tr = (Inr st', es)"
  shows "cap_get CAP_EFFECTIVE st' =
      (cap_get CAP_EFFECTIVE st - set cs) \<union> (cap_get CAP_EFFECTIVE tmp \<inter> set cs) \<and>
    cap_get CAP_PERMITTED st' = cap_get CAP_PERMITTED st \<and>
    cap_get CAP_INHERITABLE st' = cap_get CAP_INHERITABLE st"
  using assms(2)
proof (induction cs arbitrary: st tr es)
  case (Cons c cs)
  then obtain n st1 tr1 tr2 es2 where
    get: "os_int os tr (C_cap_get_flag tmp c CAP_EFFECTIVE) = Inr n"
    and upd: "os_cap os tr1 (C_cap_set_flag st CAP_EFFECTIVE [c] (int n = 1)) = Inr st1"
    and rest: "effective_loop tmp st1 cs os tr2 = (Inr st', es2)"
    by (cases "os_int os tr (C_cap_get_flag tmp c CAP_EFFECTIVE)") (auto simp: run_simps)
  have g: "int n = 1 \<longleftrightarrow> c \<in> cap_get CAP_EFFECTIVE tmp"
    using libcap_get[OF assms(1) get] by simp
  have s1: "cap_get CAP_EFFECTIVE st1 = (if int n = 1 then cap_get CAP_EFFECTIVE st \<union> {c}
       else cap_get CAP_EFFECTIVE st - {c})"
    "cap_get CAP_PERMITTED st1 = cap_get CAP_PERMITTED st"
    "cap_get CAP_INHERITABLE st1 = cap_get CAP_INHERITABLE st"
    by (simp_all only: libcap_set[OF assms(1) upd] cap_flag.distinct simp_thms if_True if_False list.set)
  show ?case
    using Cons.IH[OF rest] s1 g by auto
qed simp

lemma install_caps_result:
  assumes "libcap_ok os" "install_caps f (Some caps) st os tr = (Inr st', es)" "f \<noteq> CAP_AMBIENT"
  shows "cap_get f st' = set caps \<and> (\<forall>g. g \<noteq> f \<longrightarrow> cap_get g st' = cap_get g st)"
proof -
  obtain st1 tr1 tr2 where "os_cap os tr1 (C_cap_clear_flag st f) = Inr st1"
    "if caps = [] then st' = st1 else os_cap os tr2 (C_cap_set_flag st1 f caps True) = Inr st'"
    using assms(2) by (cases "caps = []") (auto simp: install_caps_def run_simps)
  then show ?thesis
    using libcap_clear[OF assms(1)] libcap_set[OF assms(1)] assms(3)
    by (cases "caps = []") (simp_all del: cap_get.simps)
qed

lemma restrict_effective_result:
  assumes "libcap_ok os" "restrict_effective (Some caps) st os tr = (Inr st', es)"
  shows "cap_get CAP_EFFECTIVE st' = cap_get CAP_EFFECTIVE st \<inter> set caps \<and>
    cap_get CAP_PERMITTED st' = cap_get CAP_PERMITTED st \<and>
    cap_get CAP_INHERITABLE st' = cap_get CAP_INHERITABLE st"
proof -
  obtain tmp st1 tr1 tr2 tr3 es3 where run:
    "os_cap os tr1 (C_cap_dup st) = Inr tmp"
    "os_cap os tr2 (C_cap_clear_flag st CAP_EFFECTIVE) = Inr st1"
    "effective_loop tmp st1 caps os tr3 = (Inr st', es3)"
    using assms(2) by (auto simp: restrict_effective_def run_simps)
  have "tmp = st" "cap_get CAP_EFFECTIVE st1 = {}"
    "cap_get CAP_PERMITTED st1 = cap_get CAP_PERMITTED st"
    "cap_get CAP_INHERITABLE st1 = cap_get CAP_INHERITABLE st"
    using libcap_dup[OF assms(1) run(1)] libcap_clear[OF assms(1) run(2)]
    by (simp_all del: cap_get.simps)
  with effective_loop_result[OF assms(1) run(3)] show ?thesis
    by simp
qed

subsection \<open>Monitors\<close>

text \<open>
  The order in which identity is given up: supplementary groups, then the
  group, then the user, then the no-new-privileges bit; and the identity the
  kernel reported last.
\<close>

record priv = stage :: nat  seen_uid :: "uint32 option"  seen_gid :: "uint32 option"

definition priv_step :: "priv \<Rightarrow> event \<Rightarrow> priv option" where
  "priv_step s = (\<lambda>(c, a). case c of
       Cred (sc_setgroups gs) \<Rightarrow> if stage s \<le> 0 then Some (s\<lparr>stage := 1\<rparr>) else None
     | Cred (sc_setregid g) \<Rightarrow> if stage s \<le> 1 then Some (s\<lparr>stage := 2\<rparr>) else None
     | Cred (sc_setreuid u) \<Rightarrow> if stage s \<le> 2 then Some (s\<lparr>stage := 3\<rparr>) else None
     | Cred sc_no_new_privs \<Rightarrow> if stage s \<le> 3 then Some (s\<lparr>stage := 4\<rparr>) else None
     | Cred sc_geteuid \<Rightarrow> (case a of RInt u \<Rightarrow> Some (s\<lparr>seen_uid := Some (word_of_int u)\<rparr>) | _ \<Rightarrow> Some s)
     | Cred sc_getegid \<Rightarrow> (case a of RInt g \<Rightarrow> Some (s\<lparr>seen_gid := Some (word_of_int g)\<rparr>) | _ \<Rightarrow> Some s)
     | _ \<Rightarrow> Some s)"

definition priv_start :: priv where
  "priv_start = \<lparr>stage = 0, seen_uid = None, seen_gid = None\<rparr>"

lemma safe_drop:
  "safe priv_step priv_start (perm_drop_privileges uid gid dg)
    (\<lambda>r s. \<forall>u. r = Inr u \<longrightarrow> s = \<lparr>stage = 4, seen_uid = Some uid, seen_gid = Some gid\<rparr>)"
  unfolding perm_drop_privileges_def drop_groups_step_def priv_start_def
  by (auto intro!: safe_intros simp: priv_step_def split: sum.splits)

text \<open>
  The capabilities of the bounding set known to be absent: read as absent or
  dropped.  Dropping a listed capability is rejected.
\<close>

definition bound_step :: "nat list option \<Rightarrow> nat set \<Rightarrow> event \<Rightarrow> nat set option" where
  "bound_step caps gone = (\<lambda>(c, a). case c of
       Cap (sc_capbset_read n) \<Rightarrow> 
         (case a of RInt v \<Rightarrow> Some (if v > 0 then gone else insert n gone) | _ \<Rightarrow> Some (insert n gone))
     | Cap (sc_capbset_drop n) \<Rightarrow>
         if cap_listed caps n then None
         else (case a of Done \<Rightarrow> Some (insert n gone) | _ \<Rightarrow> Some gone)
     | _ \<Rightarrow> Some gone)"

lemma bound_step_simps [simp]:
  "bound_step caps gone (C_capbset_read n, Failed e) = Some (insert n gone)"
  "bound_step caps gone (C_capbset_read n, RInt v) = Some (if v > 0 then gone else insert n gone)"
  "bound_step caps gone (C_capbset_drop n, a) =
     (if cap_listed caps n then None
      else Some (if a = Done then insert n gone else gone))"
  "bound_step caps gone (DirOp d, a) = Some gone"
  by (auto simp: bound_step_def split: ans.splits)

lemma safe_bounds_loop:
  "safe (bound_step caps) gone (set_bounds_loop caps cs)
    (\<lambda>r s. \<forall>u. r = Inr u \<longrightarrow> gone \<union> {c \<in> set cs. \<not> cap_listed caps c} \<subseteq> s)"
proof (induction cs arbitrary: gone)
  case (Cons c cs)
  show ?case
    by (auto intro!: safe_intros safe_conseq[OF Cons.IH] simp: answer_def
        split: sum.splits if_splits; blast)
qed (auto intro!: safe_intros)

lemma safe_read_uint32:
  assumes "\<And>c a. \<delta> s (DirOp c, a) = Some s" "\<And>r. Q r s"
  shows "safe \<delta> s (file_read_uint32 p) Q"
  unfolding file_read_uint32_def
  by (rule safe_ignored) (auto intro!: emits_intros assms)

lemma safe_set_bounds:
  "safe (bound_step caps) {} (perm_set_bounds caps)
    (\<lambda>r gone. \<forall>u. r = Inr u \<longrightarrow> {c. c \<le> CAP_LAST_CAP \<and> \<not> cap_listed caps c} \<subseteq> gone)"
proof -
  have "x \<le> CAP_LAST_CAP \<Longrightarrow> x < Suc (last_cap n)" for n x
    by (auto simp: last_cap_def)
  then show ?thesis
    unfolding perm_set_bounds_def
    by (auto intro!: safe_intros safe_read_uint32 safe_conseq[OF safe_bounds_loop]
      simp del: upt_Suc split: sum.splits; blast)
qed

subsection \<open>A functioning libcap\<close>

fun cap_put :: "cap_flag \<Rightarrow> nat list \<Rightarrow> cap_state \<Rightarrow> cap_state" where
  "cap_put CAP_EFFECTIVE cs st = st\<lparr>cap_effective := cs\<rparr>"
| "cap_put CAP_PERMITTED cs st = st\<lparr>cap_permitted := cs\<rparr>"
| "cap_put CAP_INHERITABLE cs st = st\<lparr>cap_inheritable := cs\<rparr>"
| "cap_put CAP_AMBIENT cs st = st"

fun cap_list :: "cap_flag \<Rightarrow> cap_state \<Rightarrow> nat list" where
  "cap_list CAP_EFFECTIVE st = cap_effective st"
| "cap_list CAP_PERMITTED st = cap_permitted st"
| "cap_list CAP_INHERITABLE st = cap_inheritable st"
| "cap_list CAP_AMBIENT st = []"

definition libcap_env :: "cap_state \<Rightarrow> os" where
  "libcap_env st0 = calm\<lparr>
     os_cap := (\<lambda>tr c. case c of
         Cap (sc_cap_clear_flag st f) \<Rightarrow> Inr (cap_put f [] st)
       | Cap (sc_cap_set_flag st f cs v) \<Rightarrow>
           if f = CAP_AMBIENT then Inl EINVAL
           else Inr (cap_put f (if v then cap_list f st @ cs
                                else filter (\<lambda>c. c \<notin> set cs) (cap_list f st)) st)
       | Cap (sc_cap_dup st) \<Rightarrow> Inr st
       | _ \<Rightarrow> Inr st0),
     os_int := (\<lambda>tr c. case c of
         Cap (sc_cap_get_flag st n f) \<Rightarrow> Inr (if n \<in> set (cap_list f st) then 1 else 0)
       | _ \<Rightarrow> Inr 0)\<rparr>"

lemma cap_get_list: "cap_get f st = set (cap_list f st)"
  by (cases f) auto

lemma cap_list_put:
  "cap_list g (cap_put f cs st) = (if g = f \<and> f \<noteq> CAP_AMBIENT then cs else cap_list g st)"
  by (cases f; cases g) auto

lemma libcap_env_ok: "libcap_ok (libcap_env st0)"
  unfolding libcap_ok_def
  by (auto simp: libcap_env_def cap_get_list cap_list_put split: if_splits)

subsection \<open>Effective capabilities\<close>

lemma set_effective_result:
  assumes "libcap_ok os" "perm_set_capabilities CAP_EFFECTIVE caps os tr = (Inr u, es)"
  shows "\<exists>es0 st. es = es0 @ [(C_cap_set_proc st, Done)] \<and>
    cap_get CAP_EFFECTIVE st = (case caps of None \<Rightarrow> {} | Some l \<Rightarrow> set l)"
proof -
  obtain st0 st1 es1 es2 tr1 where run: "install_caps CAP_EFFECTIVE caps st0 os tr1 = (Inr st1, es2)"
    and es: "es = es1 @ es2 @ [(C_cap_set_proc st1, Done)]"
    using assms(2) by (auto simp: perm_set_capabilities_def run_simps)
  have "cap_get CAP_EFFECTIVE st1 = (case caps of None \<Rightarrow> {} | Some l \<Rightarrow> set l)"
  proof (cases caps)
    case None
    with run obtain tr2 where "os_cap os tr2 (C_cap_clear_flag st0 CAP_EFFECTIVE) = Inr st1"
      by (auto simp: install_caps_def run_simps)
    with None libcap_clear[OF assms(1) this, of CAP_EFFECTIVE] show ?thesis by simp
  next
    case (Some l)
    with install_caps_result[OF assms(1), of CAP_EFFECTIVE l] run show ?thesis by auto
  qed
  with es show ?thesis by (metis append_assoc)
qed

definition cap_call :: "call \<Rightarrow> bool" where
  "cap_call c \<longleftrightarrow> (case c of Cap _ \<Rightarrow> True | _ \<Rightarrow> False)"

lemma emits_ambient: "emits (\<lambda>e. cap_call (fst e)) (ambient_loop cs)"
  by (induction cs) (auto intro!: emits_intros simp: cap_call_def)

lemma emits_effective: "emits (\<lambda>e. cap_call (fst e)) (effective_loop tmp st cs)"
  by (induction cs arbitrary: st) (auto intro!: emits_intros simp: cap_call_def)

lemma perm_set_capabilities_calls:
  "emits (\<lambda>e. cap_call (fst e)) (perm_set_capabilities f caps)"
  unfolding perm_set_capabilities_def
  unfolding install_caps_def restrict_effective_def
  apply (intro emits_intros emits_effective emits_ambient; simp add: cap_call_def)
  done

text \<open>A failing call sets errno.\<close>

definition errno_set :: "os \<Rightarrow> bool" where
  "errno_set os \<longleftrightarrow> (\<forall>tr c. os_unit os tr c \<noteq> Inl 0 \<and> os_cap os tr c \<noteq> Inl 0 \<and> os_int os tr c \<noteq> Inl 0)"

text \<open>A fragment that does not fail with errno 0.\<close>

definition sets_errno :: "os \<Rightarrow> (nat + 'a) io \<Rightarrow> bool" where
  "sets_errno os m \<longleftrightarrow> (\<forall>tr es. m os tr \<noteq> (Inl 0, es))"

lemma sets_errno_intros:
  "sets_errno os m \<Longrightarrow> (\<And>x. sets_errno os (f x)) \<Longrightarrow> sets_errno os (bindE m f)"
  "sets_errno os (okay y)"
  "errno_set os \<Longrightarrow> sets_errno os (call_unit c)" "errno_set os \<Longrightarrow> sets_errno os (call_cap c)"
  by (auto simp: sets_errno_def bindE_Inl call_unit_eq call_cap_eq errno_set_def)

lemma set_effective_error:
  assumes "errno_set os" "perm_set_capabilities CAP_EFFECTIVE caps os tr = (Inl e, es)"
  shows "err_code e \<noteq> 0"
proof -
  have "sets_errno os (install_caps CAP_EFFECTIVE caps st)" for st
    unfolding install_caps_def
    by (cases caps) (auto intro!: sets_errno_intros assms(1))
  then have "sets_errno os (bindE (call_cap C_cap_get_proc) (\<lambda>state.
          bindE (install_caps CAP_EFFECTIVE caps state) (\<lambda>state.
          bindE (okay state) (\<lambda>state. call_unit (C_cap_set_proc state)))))"
    by (intro sets_errno_intros assms(1))
  with assms(2) show ?thesis
    unfolding perm_set_capabilities_def or_set_Inl sets_errno_def by auto
qed

lemma set_effective_fails:
  assumes "perm_set_capabilities CAP_EFFECTIVE caps os tr = (Inl e, es)"
  shows "es \<noteq> [] \<and> (\<exists>c n. last es = (c, Failed n))"
proof -
  have "install_caps CAP_EFFECTIVE caps st os tr = (Inl n, es) \<Longrightarrow> es \<noteq> [] \<and> (\<exists>c. last es = (c, Failed n))" for st tr es n
    by (auto simp: install_caps_def run_simps split: option.split_asm if_split_asm)
  with assms show ?thesis
    unfolding perm_set_capabilities_def or_set_Inl by (fastforce simp: run_simps)
qed

lemma set_effective_nonempty: "perm_set_capabilities CAP_EFFECTIVE caps os tr = (r, es) \<Longrightarrow> es \<noteq> []"
  using set_effective_fails by (cases r) (auto simp: perm_set_capabilities_def run_simps)

lemma libcap_env_errno: "errno_set (libcap_env st0)"
  by (auto simp: errno_set_def libcap_env_def split: call.splits cap_call.splits)

subsection \<open>Properties\<close>



text \<open>C30: perm_set_bounds never drops a listed capability from the bounding set, and when it
  succeeds every capability up to CAP_LAST_CAP that is not listed was either reported absent or
  dropped.\<close>

theorem set_bounds_exact:
  assumes "perm_set_bounds caps os tr = (r, es)"
  shows "\<exists>gone. accepts (bound_step caps) {} es = Some gone \<and>
    (\<forall>u. r = Inr u \<longrightarrow> {c. c \<le> CAP_LAST_CAP \<and> \<not> cap_listed caps c} \<subseteq> gone)"
  using safeD[OF safe_set_bounds assms] by blast

theorem set_bounds_exact_witness:
  "\<exists>r es gone. perm_set_bounds (Some [1, 16]) calm [] = (r, es) \<and>
     accepts (bound_step (Some [1, 16])) {} es = Some gone"
proof -
  obtain r es where run: "perm_set_bounds (Some [1, 16]) calm [] = (r, es)"
    by fastforce
  from set_bounds_exact[OF run] run show ?thesis by blast
qed

text \<open>C31: with a libcap that works as documented, setting the permitted capabilities installs
  exactly the given set as permitted, keeps as effective those of the given set that were
  effective before, and leaves the inheritable set alone.\<close>

theorem perm_set_permitted:
  assumes "libcap_ok os"
    and "perm_set_capabilities CAP_PERMITTED (Some caps) os tr = (Inr u, es)"
  shows "\<exists>st0 st. hd es = (C_cap_get_proc, RCap st0) \<and> last es = (C_cap_set_proc st, Done) \<and>
    cap_get CAP_PERMITTED st = set caps \<and>
    cap_get CAP_EFFECTIVE st = set caps \<inter> cap_get CAP_EFFECTIVE st0 \<and>
    cap_get CAP_INHERITABLE st = cap_get CAP_INHERITABLE st0"
proof -
  obtain st0 st1 st2 tr1 tr2 es1 es2 where run:
    "install_caps CAP_PERMITTED (Some caps) st0 os tr1 = (Inr st1, es1)"
    "restrict_effective (Some caps) st1 os tr2 = (Inr st2, es2)"
    "hd es = (C_cap_get_proc, RCap st0)" "last es = (C_cap_set_proc st2, Done)"
    using assms(2) by (auto simp: perm_set_capabilities_def run_simps)
  show ?thesis
    using install_caps_result[OF assms(1) run(1)] restrict_effective_result[OF assms(1) run(2)]
      run(3,4) by (intro exI[of _ st0] exI[of _ st2]) auto
qed

theorem perm_set_permitted_witness:
  "\<exists>es st0 st. perm_set_capabilities CAP_PERMITTED (Some [1, 5])
       (libcap_env \<lparr>cap_effective = [5], cap_permitted = [5, 7], cap_inheritable = []\<rparr>) []
       = (Inr (), es) \<and> hd es = (C_cap_get_proc, RCap st0) \<and>
     last es = (C_cap_set_proc st, Done) \<and> cap_get CAP_PERMITTED st = {1, 5}"
proof -
  let ?os = "libcap_env \<lparr>cap_effective = [5], cap_permitted = [5, 7], cap_inheritable = []\<rparr>"
  have "fst (perm_set_capabilities CAP_PERMITTED (Some [1, 5]) ?os []) = Inr ()"
    by (simp add: perm_set_capabilities_def install_caps_def restrict_effective_def
        libcap_env_def eval_simps)
  then obtain es where
    run: "perm_set_capabilities CAP_PERMITTED (Some [1, 5]) ?os [] = (Inr (), es)"
    by (metis prod.collapse)
  from perm_set_permitted[OF libcap_env_ok run] run show ?thesis by auto
qed

end
