(* ===== verification/Rpc.thy ===== *)
theory Rpc
  imports NvcTypes Perm
begin

text \<open>
  rpc.c, rpc.h and the RPC part of error.c and error.h: the service process a
  context starts, the calls a client makes to it and the way it is shut down.
  The environment answers a remote call with a \<open>reply\<close>; the encoding of arguments
  and results and their way to the handler are the subject of Xdr and Stubs.
\<close>

record rpc =
  rpc_initialized :: bool
  rpc_fd_clt :: fd
  rpc_fd_svc :: fd
  rpc_pid :: int
  rpc_clt :: bool
  rpc_name :: string

definition rpc_zero :: rpc where
  "rpc_zero = \<lparr>rpc_initialized = False, rpc_fd_clt = -1, rpc_fd_svc = -1, rpc_pid = -1,
               rpc_clt = False, rpc_name = []\<rparr>"

subsection \<open>Calls\<close>

definition error_set_rpc :: "string \<Rightarrow> nat \<Rightarrow> string \<Rightarrow> error" where
  "error_set_rpc sperrno errcode text =
     error_vset (int errcode)
       (Some (if errcode \<in> {3, 4, 1, 2, 11} then ''failed to process request''
              else if errcode \<in> {6, 8, 9, 10, 13, 17, 14, 15} then ''failed to perform handshake''
              else if take 5 sperrno = ''RPC: '' then drop 5 sperrno else sperrno))
       text"

definition error_from_xdr :: "int \<Rightarrow> string \<Rightarrow> error io" where
  "error_from_xdr code msg =
     bindS (xstrdup msg) (\<lambda>r. ret (case r of
       Inl e \<Rightarrow> e | Inr m \<Rightarrow> \<lparr>err_code = code, err_msg = Some m\<rparr>))"

definition call_rpc ::
  "string \<Rightarrow> string \<Rightarrow> int list \<Rightarrow> string list \<Rightarrow> (int list \<times> string list) ioE" where
  "call_rpc name func ints strs =
     bindS (call_reply (C_lib func ints strs)) (\<lambda>r. case r of
       NoReply st \<Rightarrow> (\<lambda>os tr. (Inl (error_set_rpc (case os_libmsg os tr (int st) of None \<Rightarrow> [] | Some m \<Rightarrow> m)
                                  st (name @ '' rpc error'')), []))
     | Fault code msg \<Rightarrow>
         if code \<noteq> 0 then bindS (error_from_xdr code msg) raise else okay ([], [])
     | Value is ss \<Rightarrow> okay (is, ss))"

text \<open>error_to_xdr, the reply a service handler makes of its error.\<close>

definition error_to_xdr :: "error \<Rightarrow> reply \<Rightarrow> reply io" where
  "error_to_xdr err res =
     (if err_code err \<noteq> 0 then
        bindS (xstrdup (case err_msg err of None \<Rightarrow> [] | Some m \<Rightarrow> m)) (\<lambda>r. ret (case r of
          Inl e \<Rightarrow> Fault (err_code e) (case err_msg e of None \<Rightarrow> [] | Some m \<Rightarrow> m)
        | Inr m \<Rightarrow> Fault (err_code err) m))
      else ret res)"

subsection \<open>The service process\<close>

abbreviation (input) SIGKILL :: nat where "SIGKILL \<equiv> 9"
abbreviation (input) SIGTERM :: nat where "SIGTERM \<equiv> 15"

text \<open>waitpid with WNOHANG (1) or without (0), poll with the timeout in milliseconds.\<close>

abbreviation (input) "C_wait pid opts \<equiv> C_lib ''waitpid'' [pid, opts] []"
abbreviation (input) "C_poll fd timeout \<equiv> C_lib ''poll'' [fd, timeout] []"
abbreviation (input) "REAP_TIMEOUT_MS \<equiv> (10 :: int)"

definition setup_client :: "rpc \<Rightarrow> (error + unit) io" where
  "setup_client rpc =
     bindS (xclose (rpc_fd_svc rpc)) (\<lambda>_.
     bindE (or_set (call_unit (C_lib ''getpeername'' [rpc_fd_clt rpc] []))
              (rpc_name rpc @ '' rpc address resolution failed'')) (\<lambda>_.
     bindS (call_unit (C_lib ''clntunix_create'' [rpc_fd_clt rpc] [rpc_name rpc])) (\<lambda>r. case r of
       Inl e \<Rightarrow> (\<lambda>os tr. (Inl (error_setx (rpc_name rpc @ '' rpc '' @
                  (case os_libmsg os tr (int e) of None \<Rightarrow> [] | Some m \<Rightarrow> m))), []))
     | Inr _ \<Rightarrow> bindS (call_void (C_lib ''clnt_control'' [10] [])) (\<lambda>_. okay ()))))"

text \<open>
  What the child process does: it becomes the service, dies with its parent,
  and its exit status is 0 when the service loop has returned.
\<close>

definition setup_service :: "rpc \<Rightarrow> uint32 \<Rightarrow> nat io" where
  "setup_service rpc ppid =
     bindS (call_void (C_lib ''prctl_set_name'' [] [take 15 (''nvc:['' @ rpc_name rpc @ '']'')])) (\<lambda>_.
     bindS (xclose (rpc_fd_clt rpc)) (\<lambda>_.
     bindS (call_unit (C_prctl 1 SIGTERM)) (\<lambda>r. case r of
       Inl _ \<Rightarrow> ret 1
     | Inr _ \<Rightarrow>
         bindS (call_id C_getppid) (\<lambda>p.
         bindS (if p \<noteq> ppid
                then bindS (call_id (C_lib ''getpid'' [] [])) (\<lambda>me. call_void (C_kill (uint me) SIGTERM))
                else ret ()) (\<lambda>_.
         bindS (call_unit (C_lib ''svcunixfd_create'' [rpc_fd_svc rpc] [])) (\<lambda>c. case c of
           Inl _ \<Rightarrow> ret 1
         | Inr _ \<Rightarrow>
             bindS (call_unit (C_lib ''svc_register'' [] [rpc_name rpc])) (\<lambda>g.
               lastly
                 (case g of
                    Inl _ \<Rightarrow> ret 1
                  | Inr _ \<Rightarrow> bindS (call_void (C_lib ''svc_run'' [] [])) (\<lambda>_. ret 0))
                 (call_void (C_lib ''svc_destroy'' [] []))))))))) "

definition reap_process :: "rpc \<Rightarrow> fd \<Rightarrow> bool \<Rightarrow> (error + unit) io" where
  "reap_process rpc fd force =
     or_set
       (bindS (call_int (C_wait (rpc_pid rpc) 1)) (\<lambda>w.
          if (case w of Inl _ \<Rightarrow> True | Inr n \<Rightarrow> n \<le> 0) then
            bindS (if force then call_void (C_kill (rpc_pid rpc) SIGTERM) else ret ()) (\<lambda>_.
            bindE (call_int (C_poll fd REAP_TIMEOUT_MS)) (\<lambda>n.
            bindE (if n = 0 then call_unit (C_kill (rpc_pid rpc) SIGKILL) else okay ()) (\<lambda>_.
            bindE (call_int (C_wait (rpc_pid rpc) 0)) (\<lambda>_. okay ()))))
          else okay ()))
       (''reaping '' @ rpc_name rpc @ '' rpc service process failed (pid '' @ dec_int (rpc_pid rpc) @ '')'')"

text \<open>The two descriptors of a socketpair.\<close>

definition socketpair :: "(nat + fd \<times> fd) io" where
  "socketpair = bindS (call_reply C_socketpair) (\<lambda>r. ret (case r of
     Value (a # b # _) _ \<Rightarrow> Inr (a, b) | NoReply e \<Rightarrow> Inl e | Fault e _ \<Rightarrow> Inl (nat e) | _ \<Rightarrow> Inl 0))"

text \<open>The label \<open>fail\<close> of rpc_init: the service is reaped, both descriptors are closed.\<close>

definition rpc_abort :: "rpc \<Rightarrow> unit io" where
  "rpc_abort rpc =
     bindS (if rpc_pid rpc > 0 then bindS (reap_process rpc (rpc_fd_clt rpc) True) (\<lambda>_. ret ()) else ret ()) (\<lambda>_.
     bindS (if rpc_clt rpc then call_void (C_lib ''clnt_destroy'' [] []) else ret ()) (\<lambda>_.
     bindS (xclose (rpc_fd_clt rpc)) (\<lambda>_. xclose (rpc_fd_svc rpc))))"

text \<open>
  The state of the rpc structure is part of the result: after a failure it
  still holds the descriptors and the process identifier.  fork answers 0 in
  the child, which ends when the service does.
\<close>

definition rpc_init :: "rpc \<Rightarrow> string \<Rightarrow> ((error + unit) \<times> rpc) io" where
  "rpc_init rpc prog =
     (if rpc_initialized rpc then ret (Inr (), rpc)
      else
      let rpc0 = rpc_zero\<lparr>rpc_name := prog\<rparr>;
          text = prog @ '' rpc service process creation failed'' in
      bindS (call_id (C_lib ''getpid'' [] [])) (\<lambda>pid.
      bindS socketpair (\<lambda>sp. case sp of
        Inl e \<Rightarrow> bindS (fail_errno e text) (\<lambda>r. bindS (rpc_abort rpc0) (\<lambda>_. ret (r, rpc0)))
      | Inr (a, b) \<Rightarrow>
          let rpc1 = rpc0\<lparr>rpc_fd_clt := a, rpc_fd_svc := b\<rparr> in
          bindS (call_int C_fork) (\<lambda>f. case f of
            Inl e \<Rightarrow> bindS (fail_errno e text) (\<lambda>r. bindS (rpc_abort rpc1) (\<lambda>_. ret (r, rpc1)))
          | Inr child \<Rightarrow>
              let rpc2 = rpc1\<lparr>rpc_pid := child\<rparr> in
              if child = 0 then bindS (setup_service rpc2 pid) (\<lambda>rv. ret (Inl (exited rv), rpc2))
              else
              bindS (setup_client rpc2) (\<lambda>c. case c of
                Inl e \<Rightarrow> bindS (rpc_abort rpc2) (\<lambda>_. ret (Inl e, rpc2))
              | Inr _ \<Rightarrow> ret (Inr (), rpc2\<lparr>rpc_clt := True, rpc_initialized := True\<rparr>))))))"

definition rpc_shutdown :: "rpc \<Rightarrow> bool \<Rightarrow> ((error + unit) \<times> rpc) io" where
  "rpc_shutdown rpc force =
     bindS (if rpc_pid rpc > 0 then reap_process rpc (rpc_fd_clt rpc) force else okay ()) (\<lambda>r. case r of
       Inl e \<Rightarrow> ret (Inl e, rpc)
     | Inr _ \<Rightarrow>
         bindS (if rpc_clt rpc then call_void (C_lib ''clnt_destroy'' [] []) else ret ()) (\<lambda>_.
         bindS (xclose (rpc_fd_clt rpc)) (\<lambda>_.
         bindS (xclose (rpc_fd_svc rpc)) (\<lambda>_. ret (Inr (), rpc_zero)))))"

subsection \<open>What is called\<close>

lemma emits_call_rpc [emits_intros]:
  "(\<And>a. P (C_lib func is ss, a)) \<Longrightarrow> (\<And>a. P (C_alloc, a)) \<Longrightarrow> emits P (call_rpc n func is ss)"
  unfolding call_rpc_def error_from_xdr_def
  apply (rule emits_bindS)
   apply (rule emits_call, simp)
  subgoal for r
    by (cases r) (auto intro!: emits_intros simp: emits_def[of _ "\<lambda>os tr. (_ os tr, [])"])
  done

lemma error_to_xdr_Value:
  "error_to_xdr err res os tr = (Value is ss, es) \<Longrightarrow> err_code err = 0 \<and> es = []"
  unfolding error_to_xdr_def
  apply (cases "err_code err = 0")
  subgoal by simp
  subgoal by (clarsimp simp: bindS_eq) (metis reply.distinct(5) sum.case(1,2) old.sum.exhaust)
  done

lemma error_to_xdr_calls: "emits (\<lambda>e. fst e = C_alloc) (error_to_xdr err res)"
  unfolding error_to_xdr_def by (intro emits_intros) simp_all

end
