(* ===== verification/Cgroup.thy ===== *)
theory Cgroup
  imports Rpc DeviceCgroup
begin

text \<open>
  cgroup.c: the device cgroup through the Go library.  The three operations
  are remote calls; the handlers of the service process run the Go functions
  with the effective capabilities of the phase raised around them.  The Go
  library is part of the environment: it answers \<open>Fault\<close> with a message when
  it returns a negative value.
\<close>

definition proc_root :: "nvc_container \<Rightarrow> path" where
  "proc_root cnt = (if flag_set (cnt_flags cnt) OPT_STANDALONE then cnt_rootfs cnt else ''/'')"

subsection \<open>The client\<close>

definition get_device_cgroup_version :: "nvc_container \<Rightarrow> int ioE" where
  "get_device_cgroup_version cnt =
     bindE (call_rpc ''nvcgo'' ''nvcgo_get_device_cgroup_version_1'' [cnt_pid cnt] [proc_root cnt])
       (\<lambda>(is, _). okay (sint (word_of_int (case is of [] \<Rightarrow> 0 | v # _ \<Rightarrow> v) :: int32)))"

definition find_device_cgroup_path :: "nvc_container \<Rightarrow> path ioE" where
  "find_device_cgroup_path cnt =
     bindS (if flag_set (cnt_flags cnt) OPT_STANDALONE then ret (cnt_pid cnt)
            else bindS (call_id C_getppid) (\<lambda>p. ret (uint p))) (\<lambda>pid.
     bindE (call_rpc ''nvcgo'' ''nvcgo_find_device_cgroup_path_1''
              [cnt_dev_cg_version cnt, pid, cnt_pid cnt] [proc_root cnt])
       (\<lambda>(_, ss). xstrdup (case ss of [] \<Rightarrow> [] | s # _ \<Rightarrow> s)))"

definition setup_device_cgroup :: "nvc_container \<Rightarrow> uint64 \<Rightarrow> unit ioE" where
  "setup_device_cgroup cnt dev =
     bindE (call_rpc ''nvcgo'' ''nvcgo_setup_device_cgroup_1''
              [cnt_dev_cg_version cnt, uint dev] [cnt_dev_cg cnt]) (\<lambda>_. okay ())"

subsection \<open>The service\<close>

text \<open>A call of the Go library: its error text, or its results.\<close>

definition go_call :: "string \<Rightarrow> int list \<Rightarrow> string list \<Rightarrow> (string + int list \<times> string list) io" where
  "go_call func is ss = bindS (call_reply (C_lib func is ss)) (\<lambda>r. ret (case r of
     NoReply _ \<Rightarrow> Inl [] | Fault _ rerr \<Rightarrow> Inl rerr | Value is ss \<Rightarrow> Inr (is, ss)))"

text \<open>
  The frame of the three handlers.  \<open>body\<close> yields the value of \<open>rv\<close> at the label
  \<open>fail\<close>, the error and the result filled in so far (\<open>blank\<close> before the body).
\<close>

definition svc_handler :: "nat list \<Rightarrow> reply \<Rightarrow> (int \<times> error \<times> reply) io \<Rightarrow> reply io" where
  "svc_handler caps blank body =
     bindS (perm_set_capabilities CAP_EFFECTIVE (Some caps)) (\<lambda>p.
     bindS (case p of Inl e \<Rightarrow> ret (-1, e, blank) | Inr _ \<Rightarrow> body) (\<lambda>(rv, err, res).
     bindS (perm_set_capabilities CAP_EFFECTIVE None) (\<lambda>q. case q of
       Inl e \<Rightarrow> error_to_xdr e res
     | Inr _ \<Rightarrow> if rv < 0 then error_to_xdr err res else ret res)))"

definition no_error :: error where
  "no_error = \<lparr>err_code = 0, err_msg = None\<rparr>"

text \<open>
  The condition reads \<open>(rv = GetDeviceCGroupVersion(...) < 0)\<close>: on failure rv
  is 1, the value of the comparison.
\<close>

definition get_version_body :: "path \<Rightarrow> int \<Rightarrow> (int \<times> error \<times> reply) io" where
  "get_version_body root pid =
     bindS (go_call ''GetDeviceCGroupVersion'' [pid] [root]) (\<lambda>r. case r of
       Inl rerr \<Rightarrow> ret (1, error_setx (''failed to get device cgroup version: '' @ rerr), Value [0] [])
     | Inr (is, _) \<Rightarrow> ret (0, no_error, Value [case is of [] \<Rightarrow> -1 | v # _ \<Rightarrow> v] []))"

definition nvcgo_get_device_cgroup_version_1_svc :: "path \<Rightarrow> int \<Rightarrow> reply io" where
  "nvcgo_get_device_cgroup_version_1_svc root pid =
     svc_handler (ecaps NVC_CONTAINER) (Value [0] []) (get_version_body root pid)"

text \<open>
  When the path cannot be copied, rv still holds the success of path_append:
  the reply then carries no path (a null pointer) and no error.
\<close>

definition find_path_body :: "int \<Rightarrow> path \<Rightarrow> int \<Rightarrow> int \<Rightarrow> path ioE" where
  "find_path_body version root mp_pid rp_pid =
     bindS (go_call ''GetDeviceCGroupMountPath'' [version, mp_pid] [root]) (\<lambda>r. case r of
       Inl rerr \<Rightarrow> failx (''failed to get device cgroup mount path: '' @ rerr)
     | Inr (_, ss) \<Rightarrow>
         (case ss of mount_prefix # cgroup_mount # _ \<Rightarrow>
            bindS (go_call ''GetDeviceCGroupRootPath'' [version, rp_pid] [root, mount_prefix]) (\<lambda>r. case r of
              Inl rerr \<Rightarrow> failx (''failed to get device cgroup root path: '' @ rerr)
            | Inr (_, ss) \<Rightarrow>
                bindE (path_new root) (\<lambda>path.
                bindE (path_append path cgroup_mount) (\<lambda>path.
                  path_append path (case ss of [] \<Rightarrow> [] | s # _ \<Rightarrow> s))))
          | _ \<Rightarrow> failx ''failed to get device cgroup mount path: ''))"

definition nvcgo_find_device_cgroup_path_1_svc :: "int \<Rightarrow> path \<Rightarrow> int \<Rightarrow> int \<Rightarrow> reply io" where
  "nvcgo_find_device_cgroup_path_1_svc version root mp_pid rp_pid =
     svc_handler (ecaps NVC_CONTAINER) (Value [] [])
       (bindS (find_path_body version root mp_pid rp_pid) (\<lambda>r. case r of
          Inl e \<Rightarrow> ret (-1, e, Value [] [])
        | Inr path \<Rightarrow> bindS (xstrdup path) (\<lambda>d. ret (case d of
            Inl e \<Rightarrow> (0, e, Value [] [])
          | Inr p \<Rightarrow> (0, no_error, Value [] [p])))))"

definition nvcgo_setup_device_cgroup_1_svc :: "int \<Rightarrow> path \<Rightarrow> uint64 \<Rightarrow> reply io" where
  "nvcgo_setup_device_cgroup_1_svc version dev_cg dev =
     svc_handler (ecaps NVC_MOUNT) (Value [] [])
       (bindS (go_call ''AddDeviceRules'' [version, 1, uint (major dev), uint (minor dev)] [dev_cg, ''c'', ''rw''])
          (\<lambda>r. ret (case r of
             Inl rerr \<Rightarrow> (-1, error_setx (''failed to add device rules: '' @ rerr), Value [] [])
           | Inr _ \<Rightarrow> (0, no_error, Value [] []))))"

subsection \<open>The contract\<close>

interpretation nvcgo: device_cgroup get_device_cgroup_version find_device_cgroup_path setup_device_cgroup
proof unfold_locales
  fix cnt dev
  show "emits (\<lambda>e. cg_query (fst e)) (get_device_cgroup_version cnt)"
    unfolding get_device_cgroup_version_def by (intro emits_intros) (simp_all add: cg_query_def)
  show "emits (\<lambda>e. cg_query (fst e)) (find_device_cgroup_path cnt)"
    unfolding find_device_cgroup_path_def by (intro emits_intros) (simp_all add: cg_query_def)
  show "emits (\<lambda>e. cg_setup (fst e)) (setup_device_cgroup cnt dev)"
    unfolding setup_device_cgroup_def by (intro emits_intros) (simp_all add: cg_setup_def)
qed

subsection \<open>Runs of a handler\<close>

lemma cap_call_not_library: "cap_call c \<Longrightarrow> \<not> library_call c"
  by (cases c) (auto simp: cap_call_def)

lemma svc_handler_run:
  assumes "svc_handler caps blank body os tr = (reply, es)"
  obtains p e1 rv err res e2 q e3 e4 where
    "perm_set_capabilities CAP_EFFECTIVE (Some caps) os tr = (p, e1)"
    "(case p of Inl e \<Rightarrow> ret (-1, e, blank) | Inr _ \<Rightarrow> body) os (tr @ e1) = ((rv, err, res), e2)"
    "perm_set_capabilities CAP_EFFECTIVE None os (tr @ e1 @ e2) = (q, e3)"
    "(case q of Inl e \<Rightarrow> error_to_xdr e res
     | Inr _ \<Rightarrow> if rv < 0 then error_to_xdr err res else ret res) os (tr @ e1 @ e2 @ e3) = (reply, e4)"
    "es = e1 @ e2 @ e3 @ e4"
proof -
  obtain p e1 where p: "perm_set_capabilities CAP_EFFECTIVE (Some caps) os tr = (p, e1)" by fastforce
  obtain rv err res e2 where b: "(case p of Inl e \<Rightarrow> ret (-1, e, blank) | Inr _ \<Rightarrow> body) os (tr @ e1) = ((rv, err, res), e2)"
    by (metis prod.exhaust)
  obtain q e3 where q: "perm_set_capabilities CAP_EFFECTIVE None os (tr @ e1 @ e2) = (q, e3)" by fastforce
  obtain e4 where "(case q of Inl e \<Rightarrow> error_to_xdr e res
     | Inr _ \<Rightarrow> if rv < 0 then error_to_xdr err res else ret res) os (tr @ e1 @ e2 @ e3) = (reply, e4)"
    "es = e1 @ e2 @ e3 @ e4"
    using assms unfolding svc_handler_def by (auto simp: bindS_eq p b q)
  with p b q show thesis by (rule that)
qed

text \<open>What a handler does, when its body makes no capability call.\<close>

lemma svc_handler_frame:
  assumes os: "libcap_ok os" "errno_set os"
    and body: "emits (\<lambda>e. \<not> cap_call (fst e)) body"
    and run: "svc_handler caps blank body os tr = (reply, es)"
  shows "\<exists>before inside after.
    es = before @ inside @ after \<and>
    (\<forall>e \<in> set inside. \<not> cap_call (fst e)) \<and> (\<forall>e \<in> set (before @ after). \<not> library_call (fst e)) \<and>
    (inside \<noteq> [] \<longrightarrow> (\<exists>st. last before = (C_cap_set_proc st, Done) \<and> before \<noteq> [] \<and> cap_get CAP_EFFECTIVE st = set caps)) \<and>
    (\<forall>is ss. reply = Value is ss \<longrightarrow>
       (\<exists>st. last after = (C_cap_set_proc st, Done) \<and> after \<noteq> [] \<and> cap_get CAP_EFFECTIVE st = {}))"
proof -
  from svc_handler_run[OF run] obtain p e1 rv err res e2 q e3 e4 where
    p: "perm_set_capabilities CAP_EFFECTIVE (Some caps) os tr = (p, e1)"
    and b: "(case p of Inl e \<Rightarrow> ret (-1, e, blank) | Inr _ \<Rightarrow> body) os (tr @ e1) = ((rv, err, res), e2)"
    and q: "perm_set_capabilities CAP_EFFECTIVE None os (tr @ e1 @ e2) = (q, e3)"
    and fin: "(case q of Inl e \<Rightarrow> error_to_xdr e res
     | Inr _ \<Rightarrow> if rv < 0 then error_to_xdr err res else ret res) os (tr @ e1 @ e2 @ e3) = (reply, e4)"
    and es: "es = e1 @ e2 @ e3 @ e4" .
  have alloc: "\<forall>e \<in> set e4. fst e = C_alloc"
    using fin emits_events[OF error_to_xdr_calls] by (cases q) (auto split: if_splits)
  have lib: "\<forall>e \<in> set (e1 @ e3 @ e4). \<not> library_call (fst e)"
    using emits_events[OF perm_set_capabilities_calls p] emits_events[OF perm_set_capabilities_calls q]
      alloc by (auto dest!: cap_call_not_library)
  have inside: "\<forall>e \<in> set e2. \<not> cap_call (fst e)" "p = Inl x \<Longrightarrow> e2 = []" for x
    using b emitsD[OF body] by (auto split: sum.splits)
  have raised: "e2 \<noteq> [] \<longrightarrow> (\<exists>st. last e1 = (C_cap_set_proc st, Done) \<and> e1 \<noteq> [] \<and> cap_get CAP_EFFECTIVE st = set caps)"
    using inside(2) p set_effective_result[OF os(1)] by (cases p) fastforce+
  have cleared: "\<exists>st. last (e3 @ e4) = (C_cap_set_proc st, Done) \<and> e3 @ e4 \<noteq> [] \<and> cap_get CAP_EFFECTIVE st = {}"
    if v: "reply = Value is ss" for "is" ss
  proof (cases q)
    case (Inl e)
    with fin v have "err_code e = 0" by (auto dest: error_to_xdr_Value)
    with set_effective_error[OF os(2)] q Inl show ?thesis by blast
  next
    case (Inr u)
    with fin v have "e4 = []" by (auto dest: error_to_xdr_Value split: if_splits)
    with set_effective_result[OF os(1)] q Inr show ?thesis by fastforce
  qed
  show ?thesis
    using es inside(1) lib raised cleared by (intro exI[of _ e1] exI[of _ e2] exI[of _ "e3 @ e4"]) auto
qed

lemma emits_go_call [emits_intros]: "(\<And>a. P (C_lib func is ss, a)) \<Longrightarrow> emits P (go_call func is ss)"
  unfolding go_call_def by (intro emits_intros)

lemma emits_find_path_body: "emits (\<lambda>e. \<not> cap_call (fst e)) (find_path_body v root mp rp)"
  unfolding find_path_body_def
  by (intro emits_intros) (simp_all add: cap_call_def)

definition nvcgo_handlers :: "path \<Rightarrow> int \<Rightarrow> int \<Rightarrow> int \<Rightarrow> path \<Rightarrow> uint64 \<Rightarrow> (nat list \<times> reply io) list" where
  "nvcgo_handlers root pid mp_pid version dev_cg dev =
     [(ecaps NVC_CONTAINER, nvcgo_get_device_cgroup_version_1_svc root pid),
      (ecaps NVC_CONTAINER, nvcgo_find_device_cgroup_path_1_svc version root mp_pid pid),
      (ecaps NVC_MOUNT, nvcgo_setup_device_cgroup_1_svc version dev_cg dev)]"

lemma nvcgo_handlers_shape:
  assumes "(caps, handler) \<in> set (nvcgo_handlers root pid mp_pid version dev_cg dev)"
  obtains blank body where "handler = svc_handler caps blank body" "emits (\<lambda>e. \<not> cap_call (fst e)) body"
proof -
  have nc: "\<not> cap_call (C_lib f i s)" "\<not> cap_call C_alloc" for f i s
    by (simp_all add: cap_call_def)
  from assms consider
    "caps = ecaps NVC_CONTAINER" "handler = nvcgo_get_device_cgroup_version_1_svc root pid"
  | "caps = ecaps NVC_CONTAINER" "handler = nvcgo_find_device_cgroup_path_1_svc version root mp_pid pid"
  | "caps = ecaps NVC_MOUNT" "handler = nvcgo_setup_device_cgroup_1_svc version dev_cg dev"
    unfolding nvcgo_handlers_def by auto
  then show thesis
  proof cases
    case 1
    show ?thesis
      by (rule that[OF 1(2)[unfolded nvcgo_get_device_cgroup_version_1_svc_def 1(1)[symmetric]]])
         (unfold get_version_body_def, intro emits_intros, simp_all add: nc)
  next
    case 2
    show ?thesis
      by (rule that[OF 2(2)[unfolded nvcgo_find_device_cgroup_path_1_svc_def 2(1)[symmetric]]])
         (intro emits_intros emits_find_path_body, simp_all add: nc)
  next
    case 3
    show ?thesis
      by (rule that[OF 3(2)[unfolded nvcgo_setup_device_cgroup_1_svc_def 3(1)[symmetric]]])
         (intro emits_intros, simp_all add: nc)
  qed
qed

lemma get_version_body_fault:
  assumes "get_version_body root pid os tr = ((rv, err, res), es)"
    and "(C_lib ''GetDeviceCGroupVersion'' [pid] [root], RReply (Fault c m)) \<in> set es"
  shows "rv = 1 \<and> res = Value [0] []"
  using assms
  by (cases "os_reply os tr (C_lib ''GetDeviceCGroupVersion'' [pid] [root])")
     (auto simp: get_version_body_def go_call_def eval_simps Let_def)

subsection \<open>Properties\<close>

text \<open>C24: each handler of the Go service calls the Go library only with exactly the effective
  capabilities of its phase in force, and, whenever it replies with a result rather than an
  error, the last thing it did was to clear them all. This assumes that libcap works as
  documented and that a failing call sets errno.\<close>

theorem svc_capability_bracket:
  assumes "libcap_ok os" "errno_set os"
    and "(caps, handler) \<in> set (nvcgo_handlers root pid mp_pid version dev_cg dev)"
    and "handler os tr = (reply, es)"
  shows "\<exists>before inside after.
    es = before @ inside @ after \<and>
    (\<forall>e \<in> set inside. \<not> cap_call (fst e)) \<and> (\<forall>e \<in> set (before @ after). \<not> library_call (fst e)) \<and>
    (inside \<noteq> [] \<longrightarrow> (\<exists>st. last before = (C_cap_set_proc st, Done) \<and> before \<noteq> [] \<and>
       cap_get CAP_EFFECTIVE st = set caps)) \<and>
    (\<forall>is ss. reply = Value is ss \<longrightarrow>
       (\<exists>st. last after = (C_cap_set_proc st, Done) \<and> after \<noteq> [] \<and> cap_get CAP_EFFECTIVE st = {}))"
proof (rule nvcgo_handlers_shape[OF assms(3)])
  fix blank body
  assume h: "handler = svc_handler caps blank body" and b: "emits (\<lambda>e. \<not> cap_call (fst e)) body"
  show ?thesis by (rule svc_handler_frame[OF assms(1,2) b assms(4)[unfolded h]])
qed

theorem svc_capability_bracket_witness:
  "\<exists>es before inside after.
    snd (nvcgo_setup_device_cgroup_1_svc 1 ''/cg'' (makedev 195 0)
      (libcap_env \<lparr>cap_effective = [], cap_permitted = [5], cap_inheritable = []\<rparr>) []) = es \<and>
    es = before @ inside @ after \<and>
    (inside \<noteq> [] \<longrightarrow> (\<exists>st. last before = (C_cap_set_proc st, Done) \<and>
       cap_get CAP_EFFECTIVE st = set (ecaps NVC_MOUNT)))"
proof -
  let ?os = "libcap_env \<lparr>cap_effective = [], cap_permitted = [5], cap_inheritable = []\<rparr>"
  obtain reply es where run: "nvcgo_setup_device_cgroup_1_svc 1 ''/cg'' (makedev 195 0) ?os [] = (reply, es)"
    by fastforce
  have "(ecaps NVC_MOUNT, nvcgo_setup_device_cgroup_1_svc 1 ''/cg'' (makedev 195 0))
      \<in> set (nvcgo_handlers ''/'' 1 1 1 ''/cg'' (makedev 195 0))"
    by (simp add: nvcgo_handlers_def)
  from svc_capability_bracket[OF libcap_env_ok libcap_env_errno this run]
  obtain before inside after where "es = before @ inside @ after"
    "inside \<noteq> [] \<longrightarrow> (\<exists>st. last before = (C_cap_set_proc st, Done) \<and> before \<noteq> [] \<and>
       cap_get CAP_EFFECTIVE st = set (ecaps NVC_MOUNT))" by metis
  with run show ?thesis
    by (intro exI[of _ es] exI[of _ before] exI[of _ inside] exI[of _ after]) auto
qed

text \<open>the handler that detects the version of the device cgroup never reports a failure of
  the Go library: when the library fails and the capabilities can be cleared, the reply is
  version 0 and no error.\<close>

theorem svc_version_failure_lost:
  assumes "nvcgo_get_device_cgroup_version_1_svc root pid os tr = (reply, es)"
    and "(C_lib ''GetDeviceCGroupVersion'' [pid] [root], RReply (Fault c m)) \<in> set es"
    and "last es = (C_cap_set_proc st, Done)"
  shows "reply = Value [0] []"
proof -
  let ?lib = "(C_lib ''GetDeviceCGroupVersion'' [pid] [root], RReply (Fault c m))"
  have nolib: "?lib \<notin> set es'" if "perm_set_capabilities CAP_EFFECTIVE cs os tr' = (r, es')" for cs tr' r es'
    using emits_events[OF perm_set_capabilities_calls that] by (auto simp: cap_call_def)
  from svc_handler_run[OF assms(1)[unfolded nvcgo_get_device_cgroup_version_1_svc_def]]
  obtain p e1 rv err res e2 q e3 e4 where
    p: "perm_set_capabilities CAP_EFFECTIVE (Some (ecaps NVC_CONTAINER)) os tr = (p, e1)"
    and b: "(case p of Inl e \<Rightarrow> ret (-1, e, Value [0] []) | Inr _ \<Rightarrow> get_version_body root pid) os (tr @ e1)
         = ((rv, err, res), e2)"
    and q: "perm_set_capabilities CAP_EFFECTIVE None os (tr @ e1 @ e2) = (q, e3)"
    and fin: "(case q of Inl e \<Rightarrow> error_to_xdr e res
         | Inr _ \<Rightarrow> if rv < 0 then error_to_xdr err res else ret res) os (tr @ e1 @ e2 @ e3) = (reply, e4)"
    and es: "es = e1 @ e2 @ e3 @ e4" .
  have alloc: "\<forall>e \<in> set e4. fst e = C_alloc"
    using fin emits_events[OF error_to_xdr_calls] by (cases q) (auto split: if_splits)
  then have "?lib \<in> set e2"
    using assms(2) es nolib[OF p] nolib[OF q] by auto
  with b have rv: "rv = 1 \<and> res = Value [0] []"
    using get_version_body_fault by (cases p) auto
  have "e3 \<noteq> []" "\<And>e. q = Inl e \<Longrightarrow> \<exists>c n. last e3 = (c, Failed n)"
    using q set_effective_fails set_effective_nonempty by blast+
  moreover have "fst (last e4) = C_alloc" if "e4 \<noteq> []"
    using alloc last_in_set[OF that] by blast
  ultimately have "q = Inr ()"
    using es assms(3) by (cases q; cases "e4 = []") auto
  with fin rv show ?thesis by simp
qed

theorem svc_version_failure_lost_witness:
  "fst (nvcgo_get_device_cgroup_version_1_svc ''/'' 7
     ((libcap_env \<lparr>cap_effective = [], cap_permitted = [5], cap_inheritable = []\<rparr>)
        \<lparr>os_reply := \<lambda>tr c. Fault (-1) ''no cgroup''\<rparr>) []) = Value [0] []"
proof -
  let ?os = "(libcap_env \<lparr>cap_effective = [], cap_permitted = [5], cap_inheritable = []\<rparr>)
        \<lparr>os_reply := \<lambda>tr c. Fault (-1) ''no cgroup''\<rparr>"
  obtain reply es where run: "nvcgo_get_device_cgroup_version_1_svc ''/'' 7 ?os [] = (reply, es)"
    by fastforce
  have "(C_lib ''GetDeviceCGroupVersion'' [7] [''/''], RReply (Fault (-1) ''no cgroup'')) \<in> set es"
    "\<exists>st. last es = (C_cap_set_proc st, Done)"
    using run by (auto simp: nvcgo_get_device_cgroup_version_1_svc_def svc_handler_def get_version_body_def
        go_call_def perm_set_capabilities_def install_caps_def libcap_env_def eval_simps Let_def)
  with svc_version_failure_lost[OF run] run show ?thesis by auto
qed

end
