(* ===== verification/Container.thy ===== *)
theory Container
  imports CgroupLegacy Cgroup
begin

text \<open>
  nvc_container.c: the container context, made of a configuration and an
  option string by lookups in the root file system of the container and in
  the proc file system.  The device cgroup operations are those of
  cgroup.h, a parameter.  The values of common.h are those of x86_64.
\<close>

definition of_res :: "'a res \<Rightarrow> 'a ioE" where
  "of_res r = ret r"

text \<open>A failure for which the source does not fill in the error.\<close>

definition unset_error :: error where
  "unset_error = \<lparr>err_code = 0, err_msg = None\<rparr>"

subsection \<open>Paths\<close>

definition PROC_ROOT_PATH :: "int \<Rightarrow> path" where
  "PROC_ROOT_PATH pid = proc_pid pid @ ''/root/''"

abbreviation (input) "USR_BIN_DIR \<equiv> ''/usr/bin''"
abbreviation (input) "USR_LIB_DIR \<equiv> ''/usr/lib64''"
abbreviation (input) "USR_LIB32_DIR \<equiv> ''/usr/lib32''"
abbreviation (input) "USR_LIB32_ALT_DIR \<equiv> ''/usr/lib''"
abbreviation (input) "XDX_LIB_MULTIARCH_DIR \<equiv> ''/opt/xdxgpu/lib/x86_64-linux-gnu''"
abbreviation (input) "USR_LIB32_MULTIARCH_DIR \<equiv> ''/usr/lib/i386-linux-gnu''"
abbreviation (input) "XDX_LIB_DRI_X86_DEB \<equiv> ''/usr/lib/x86_64-linux-gnu/dri''"
abbreviation (input) "XDX_LIB_DRI_ARM_DEB \<equiv> ''/usr/lib/aarch64-linux-gnu/dri''"
abbreviation (input) "XDX_LIB_DRI_X86_RPM \<equiv> ''/usr/lib64/dri''"
abbreviation (input) "CUDA_RUNTIME_DIR \<equiv> ''/usr/local/cuda''"
abbreviation (input) "LDCONFIG_PATH \<equiv> ''/sbin/ldconfig''"
abbreviation (input) "LDCONFIG_ALT_PATH \<equiv> ''/sbin/ldconfig.real''"

subsection \<open>Configuration\<close>

definition nvc_container_config_new :: "int \<Rightarrow> path \<Rightarrow> nvc_container_config option io" where
  "nvc_container_config_new pid rootfs =
     bindS (call_unit C_alloc) (\<lambda>r. ret (case r of
       Inl _ \<Rightarrow> None
     | Inr _ \<Rightarrow> Some \<lparr>cc_pid = pid, cc_rootfs = rootfs, cc_bins_dir = None, cc_libs_dir = None,
         cc_libs32_dir = None, cc_dris_dir = None, cc_cudart_dir = None, cc_ldconfig = None\<rparr>))"

definition find_namespace_path :: "nvc_container \<Rightarrow> string \<Rightarrow> path ioE" where
  "find_namespace_path cnt namespace =
     xasprintf (proc_prefix cnt @ proc_pid (cnt_pid cnt) @ ''/ns/'' @ namespace)"

text \<open>The loop over the files found: each resolved below the root, kept once.\<close>

fun library_paths_loop :: "path \<Rightarrow> path list \<Rightarrow> path list \<Rightarrow> path list ioE" where
  "library_paths_loop rootfs libs [] = okay libs"
| "library_paths_loop rootfs libs (p # ps) =
     bindE (path_resolve rootfs (drop (length rootfs) p)) (\<lambda>path.
       if \<not> str_array_match path libs
       then bindE (xstrdup path) (\<lambda>lib. library_paths_loop rootfs (libs @ [lib]) ps)
       else library_paths_loop rootfs libs ps)"

definition find_library_paths :: "nvc_container \<Rightarrow> nvc_container ioE" where
  "find_library_paths cnt =
     (if \<not> flag_set (cnt_flags cnt) OPT_COMPUTE_LIBS then okay cnt
      else
      bindE (path_resolve_full (cnt_rootfs cnt) (cnt_cudart_dir cnt)) (\<lambda>path.
      bindE (path_append path ''compat/lib*.so.*'') (\<lambda>path.
      bindE (xglob path) (\<lambda>gl.
        if gl \<noteq> [] then
          bindE (array_new (length gl)) (\<lambda>_.
          bindE (library_paths_loop (cnt_rootfs cnt) [] gl) (\<lambda>libs.
            okay (cnt\<lparr>cnt_libs := libs\<rparr>)))
        else okay cnt))))"

definition lookup_owner :: "nvc_container \<Rightarrow> nvc_container ioE" where
  "lookup_owner cnt =
     bindE (xsnprintf PATH_MAX (proc_prefix cnt @ proc_pid (cnt_pid cnt))) (\<lambda>path.
     bindE (xstat path) (\<lambda>s. okay (cnt\<lparr>cnt_uid := st_uid s, cnt_gid := st_gid s\<rparr>)))"

text \<open>copy_config, in the order of its blocks: the root seen from here, \<dots>\<close>

definition config_rootfs :: "int32 \<Rightarrow> int \<Rightarrow> path \<Rightarrow> path ioE" where
  "config_rootfs flags pid rootfs =
     (if flag_set flags OPT_STANDALONE then xstrdup rootfs
      else
      bindE (xsnprintf PATH_MAX (PROC_ROOT_PATH pid)) (\<lambda>tmp.
      bindE (path_resolve_full tmp rootfs) (\<lambda>path. xstrdup path)))"

text \<open>\<dots> the library directories, \<dots>\<close>

definition present_below :: "path \<Rightarrow> path \<Rightarrow> (path \<times> bool) ioE" where
  "present_below rootfs p =
     bindE (path_resolve_full rootfs p) (\<lambda>path.
     bindE (file_exists path) (\<lambda>b. okay (path, b)))"

definition config_lib32_dir :: "path \<Rightarrow> path \<Rightarrow> path ioE" where
  "config_lib32_dir rootfs libs_dir =
     bindE (present_below rootfs USR_LIB32_DIR) (\<lambda>(_, found).
       if found then okay USR_LIB32_DIR
       else
       bindE (path_resolve_full rootfs libs_dir) (\<lambda>tmp.
       bindE (present_below rootfs USR_LIB32_ALT_DIR) (\<lambda>(path, found).
         okay (if found \<and> \<not> str_equal path tmp then USR_LIB32_ALT_DIR else USR_LIB32_DIR))))"

definition config_lib_dirs :: "path \<Rightarrow> path option \<Rightarrow> path option \<Rightarrow> (path \<times> path) ioE" where
  "config_lib_dirs rootfs libs_dir libs32_dir =
     (case (libs_dir, libs32_dir) of
        (Some l, Some l32) \<Rightarrow> okay (l, l32)
      | _ \<Rightarrow>
        bindE (present_below rootfs ''/etc/debian_version'') (\<lambda>(_, multiarch).
          if multiarch then
            okay (case libs_dir of None \<Rightarrow> XDX_LIB_MULTIARCH_DIR | Some l \<Rightarrow> l,
                  case libs32_dir of None \<Rightarrow> USR_LIB32_MULTIARCH_DIR | Some l \<Rightarrow> l)
          else
            let l = (case libs_dir of None \<Rightarrow> USR_LIB_DIR | Some l \<Rightarrow> l) in
            (case libs32_dir of
               Some l32 \<Rightarrow> okay (l, l32)
             | None \<Rightarrow> bindE (config_lib32_dir rootfs l) (\<lambda>l32. okay (l, l32)))))"

text \<open>\<dots> the directory of the DRI drivers on the host, \<dots>\<close>

definition is_dir :: "path \<Rightarrow> bool io" where
  "is_dir p = bindS (call_stat (C_stat p)) (\<lambda>r. ret (case r of
     Inl _ \<Rightarrow> False | Inr st \<Rightarrow> S_ISDIR (st_mode st)))"

definition both :: "bool \<Rightarrow> bool io \<Rightarrow> bool io" where
  "both b m = (if b then m else ret False)"

definition config_dris_dir :: "path option \<Rightarrow> path ioE" where
  "config_dris_dir dris_dir =
     (case dris_dir of
        Some d \<Rightarrow> okay d
      | None \<Rightarrow>
        bindE (or_set (call_str C_uname) ''uname'') (\<lambda>machine.
        bindS (both (str_has_suffix machine ''x86_64'') (is_dir ''/etc/apt'')) (\<lambda>a.
        if a then okay XDX_LIB_DRI_X86_DEB else
        bindS (both (str_has_suffix machine ''aarch64'') (is_dir ''/etc/apt'')) (\<lambda>b.
        if b then okay XDX_LIB_DRI_ARM_DEB else
        bindS (both (str_has_suffix machine ''x86_64'') (is_dir ''/etc/rpm'')) (\<lambda>c.
        if c then okay XDX_LIB_DRI_X86_RPM else raise unset_error)))))"

text \<open>\<dots> and ldconfig, never a wrapper script.\<close>

definition config_ldconfig :: "path \<Rightarrow> path option \<Rightarrow> path ioE" where
  "config_ldconfig rootfs ldconfig =
     (case ldconfig of
        Some l \<Rightarrow> okay l
      | None \<Rightarrow> bindE (present_below rootfs LDCONFIG_ALT_PATH) (\<lambda>(_, found).
          okay (if found then LDCONFIG_ALT_PATH else LDCONFIG_PATH)))"

definition copy_config :: "nvc_container \<Rightarrow> nvc_container_config \<Rightarrow> nvc_container ioE" where
  "copy_config cnt cfg =
     bindE (xstrdup (cc_rootfs cfg)) (\<lambda>cfg_rootfs.
     bindE (config_rootfs (cnt_flags cnt) (cc_pid cfg) cfg_rootfs) (\<lambda>rootfs.
     bindE (config_lib_dirs rootfs (cc_libs_dir cfg) (cc_libs32_dir cfg)) (\<lambda>(libs_dir, libs32_dir).
     bindE (config_dris_dir (cc_dris_dir cfg)) (\<lambda>dris_dir.
     bindE (config_ldconfig rootfs (cc_ldconfig cfg)) (\<lambda>ldconfig.
     bindE (xstrdup (case cc_bins_dir cfg of None \<Rightarrow> USR_BIN_DIR | Some d \<Rightarrow> d)) (\<lambda>bins.
     bindE (xstrdup libs_dir) (\<lambda>libs.
     bindE (xstrdup libs32_dir) (\<lambda>libs32.
     bindE (xstrdup dris_dir) (\<lambda>dris.
     bindE (xstrdup (case cc_cudart_dir cfg of None \<Rightarrow> CUDA_RUNTIME_DIR | Some d \<Rightarrow> d)) (\<lambda>cudart.
     bindE (xstrdup ldconfig) (\<lambda>ldc.
       okay (cnt\<lparr>cnt_pid := cc_pid cfg, cnt_rootfs := cfg_rootfs, cnt_bins_dir := bins,
                 cnt_libs_dir := libs, cnt_libs32_dir := libs32, cnt_dris_dir := dris,
                 cnt_cudart_dir := cudart, cnt_ldconfig := ldc\<rparr>))))))))))))"

subsection \<open>The container\<close>

definition container_zero :: nvc_container where
  "container_zero = \<lparr>cnt_flags = 0, cnt_pid = 0, cnt_rootfs = [], cnt_bins_dir = [],
     cnt_libs_dir = [], cnt_libs32_dir = [], cnt_dris_dir = [], cnt_cudart_dir = [],
     cnt_ldconfig = [], cnt_uid = 0, cnt_gid = 0, cnt_mnt_ns = [], cnt_dev_cg_version = 0,
     cnt_dev_cg = [], cnt_libs = []\<rparr>"

definition config_valid :: "nvc_container_config \<Rightarrow> bool" where
  "config_valid cfg \<longleftrightarrow>
     cc_pid cfg > 0 \<and> \<not> str_empty (Some (cc_rootfs cfg)) \<and> take 1 (cc_rootfs cfg) = ''/'' \<and>
     \<not> str_empty (cc_dris_dir cfg) \<and> \<not> str_empty (cc_bins_dir cfg) \<and> \<not> str_empty (cc_libs_dir cfg) \<and>
     \<not> str_empty (cc_libs32_dir cfg) \<and> \<not> str_empty (cc_cudart_dir cfg) \<and> \<not> str_empty (cc_ldconfig cfg)"

definition parse_flags :: "string option \<Rightarrow> int32 ioE" where
  "parse_flags opts =
     bindE (of_res (options_parse (case opts of None \<Rightarrow> default_container_opts | Some s \<Rightarrow> s) container_opts))
       (\<lambda>flags. if sint flags < 0 then raise unset_error
          else if flag_set flags OPT_SUPERVISED = flag_set flags OPT_STANDALONE
          then failx ''invalid mode of operation'' else okay flags)"

definition container_cgroup ::
  "(nvc_container \<Rightarrow> int ioE) \<Rightarrow> (nvc_container \<Rightarrow> path ioE) \<Rightarrow> nvc_container \<Rightarrow> nvc_container ioE" where
  "container_cgroup get_version find_path cnt =
     (if flag_set (cnt_flags cnt) OPT_NO_CGROUPS then okay cnt
      else
      bindE (get_version cnt) (\<lambda>v.
      if v < 0 then raise unset_error
      else
      let cnt = cnt\<lparr>cnt_dev_cg_version := v\<rparr> in
      bindE (find_path cnt) (\<lambda>p. okay (cnt\<lparr>cnt_dev_cg := p\<rparr>))))"

definition nvc_container_new ::
  "(nvc_container \<Rightarrow> int ioE) \<Rightarrow> (nvc_container \<Rightarrow> path ioE) \<Rightarrow> nvc_context option
     \<Rightarrow> nvc_container_config option \<Rightarrow> string option \<Rightarrow> nvc_container ioE" where
  "nvc_container_new get_version find_path ctx cfg opts =
     bindE (validate_context ctx) (\<lambda>_.
     bindE (validate_args (case cfg of None \<Rightarrow> False | Some c \<Rightarrow> config_valid c)) (\<lambda>_.
     bindE (parse_flags opts) (\<lambda>flags.
     bindE xcalloc (\<lambda>_.
     bindE (copy_config (container_zero\<lparr>cnt_flags := flags\<rparr>) (the cfg)) (\<lambda>cnt.
     bindE (lookup_owner cnt) (\<lambda>cnt.
     bindE (if flag_set flags OPT_NO_CNTLIBS then okay cnt else find_library_paths cnt) (\<lambda>cnt.
     bindE (find_namespace_path cnt ''mnt'') (\<lambda>ns.
       container_cgroup get_version find_path (cnt\<lparr>cnt_mnt_ns := ns\<rparr>)))))))))"

subsection \<open>Results\<close>

text \<open>The value of a setting: the configured one, or one of the defaults.\<close>

definition setting :: "path option \<Rightarrow> path set \<Rightarrow> path \<Rightarrow> bool" where
  "setting given defaults v \<longleftrightarrow> (case given of Some d \<Rightarrow> v = d | None \<Rightarrow> v \<in> defaults)"

lemma config_lib32_dir_result:
  "config_lib32_dir rootfs l os tr = (Inr d, es) \<Longrightarrow> d \<in> {USR_LIB32_DIR, USR_LIB32_ALT_DIR}"
  by (auto simp: config_lib32_dir_def bindE_Inr split: if_splits prod.splits)

lemma config_lib_dirs_result:
  assumes "config_lib_dirs rootfs libs libs32 os tr = (Inr (l, l32), es)"
  shows "setting libs {XDX_LIB_MULTIARCH_DIR, USR_LIB_DIR} l \<and>
    setting libs32 {USR_LIB32_MULTIARCH_DIR, USR_LIB32_DIR, USR_LIB32_ALT_DIR} l32"
proof (cases "libs = None \<or> libs32 = None")
  case False
  with assms show ?thesis by (auto simp: config_lib_dirs_def setting_def)
next
  case True
  then obtain found es1 tr2 es2 where run:
    "(if found then
            okay (case libs of None \<Rightarrow> XDX_LIB_MULTIARCH_DIR | Some l \<Rightarrow> l,
                  case libs32 of None \<Rightarrow> USR_LIB32_MULTIARCH_DIR | Some l \<Rightarrow> l)
          else
            let l = (case libs of None \<Rightarrow> USR_LIB_DIR | Some l \<Rightarrow> l) in
            (case libs32 of
               Some l32 \<Rightarrow> okay (l, l32)
             | None \<Rightarrow> bindE (config_lib32_dir rootfs l) (\<lambda>l32. okay (l, l32)))) os tr2 = (Inr (l, l32), es2)"
    using assms unfolding config_lib_dirs_def
    by (cases libs; cases libs32) (auto simp: bindE_Inr split_beta)
  show ?thesis
  proof (cases found)
    case True
    with run show ?thesis by (auto simp: setting_def split: option.splits)
  next
    case False
    show ?thesis
    proof (cases libs32)
      case None
      define l' where "l' = (case libs of None \<Rightarrow> USR_LIB_DIR | Some l \<Rightarrow> l)"
      have "bindE (config_lib32_dir rootfs l') (\<lambda>l32. okay (l', l32)) os tr2 = (Inr (l, l32), es2)"
        using run False None unfolding l'_def Let_def by simp
      then have "config_lib32_dir rootfs l' os tr2 = (Inr l32, es2)" "l = l'"
        by (auto simp: bindE_Inr)
      moreover from this(2) have "setting libs {XDX_LIB_MULTIARCH_DIR, USR_LIB_DIR} l"
        unfolding l'_def by (cases libs) (simp_all add: setting_def)
      ultimately show ?thesis
        using config_lib32_dir_result None by (simp only: setting_def option.case) blast
    qed (use run False in \<open>auto simp: setting_def Let_def split: option.splits\<close>)
  qed
qed

lemma config_dris_dir_result:
  "config_dris_dir given os tr = (Inr d, es) \<Longrightarrow>
     setting given {XDX_LIB_DRI_X86_DEB, XDX_LIB_DRI_ARM_DEB, XDX_LIB_DRI_X86_RPM} d"
  by (cases given) (auto simp: config_dris_dir_def setting_def bindE_Inr bindS_eq split: if_splits)

lemma config_ldconfig_result:
  "config_ldconfig rootfs given os tr = (Inr d, es) \<Longrightarrow>
     setting given {LDCONFIG_PATH, LDCONFIG_ALT_PATH} d"
  by (cases given) (auto simp: config_ldconfig_def setting_def bindE_Inr split: if_splits prod.splits)

definition configured :: "nvc_container_config \<Rightarrow> nvc_container \<Rightarrow> bool" where
  "configured cfg cnt \<longleftrightarrow>
     cnt_pid cnt = cc_pid cfg \<and> cnt_rootfs cnt = cc_rootfs cfg \<and>
     setting (cc_bins_dir cfg) {USR_BIN_DIR} (cnt_bins_dir cnt) \<and>
     setting (cc_libs_dir cfg) {XDX_LIB_MULTIARCH_DIR, USR_LIB_DIR} (cnt_libs_dir cnt) \<and>
     setting (cc_libs32_dir cfg) {USR_LIB32_MULTIARCH_DIR, USR_LIB32_DIR, USR_LIB32_ALT_DIR} (cnt_libs32_dir cnt) \<and>
     setting (cc_dris_dir cfg) {XDX_LIB_DRI_X86_DEB, XDX_LIB_DRI_ARM_DEB, XDX_LIB_DRI_X86_RPM} (cnt_dris_dir cnt) \<and>
     setting (cc_cudart_dir cfg) {CUDA_RUNTIME_DIR} (cnt_cudart_dir cnt) \<and>
     setting (cc_ldconfig cfg) {LDCONFIG_PATH, LDCONFIG_ALT_PATH} (cnt_ldconfig cnt)"

lemma copy_config_result:
  assumes "copy_config cnt cfg os tr = (Inr cnt', es)"
  shows "configured cfg cnt' \<and> cnt_flags cnt' = cnt_flags cnt \<and> cnt_libs cnt' = cnt_libs cnt \<and>
    cnt_dev_cg cnt' = cnt_dev_cg cnt \<and> cnt_dev_cg_version cnt' = cnt_dev_cg_version cnt"
proof -
  have "setting o1 {d} (case o1 of None \<Rightarrow> d | Some v \<Rightarrow> v)" for o1 d
    by (auto simp: setting_def split: option.splits)
  with assms show ?thesis
    unfolding copy_config_def configured_def
    by (auto simp: bindE_Inr xstrdup_Inr split: prod.splits
        dest!: config_lib_dirs_result config_dris_dir_result config_ldconfig_result)
qed

text \<open>The libraries of the container: distinct paths of real components.\<close>

definition resolved :: "path \<Rightarrow> bool" where
  "resolved p \<longleftrightarrow> (\<exists>cs. list_all good_comp cs \<and> p = render cs)"

lemma library_paths_loop_result:
  assumes "take 1 rootfs = ''/''" "library_paths_loop rootfs libs ps os tr = (Inr libs', es)"
    "distinct libs" "list_all resolved libs"
  shows "distinct libs' \<and> list_all resolved libs'"
  using assms(2-)
proof (induction ps arbitrary: libs tr es)
  case (Cons p ps)
  from Cons.prems(1) obtain path es1 es2 where p: "path_resolve rootfs (drop (length rootfs) p) os tr = (Inr path, es1)"
    and cont: "(if path \<notin> set libs
       then bindE (xstrdup path) (\<lambda>lib. library_paths_loop rootfs (libs @ [lib]) ps)
       else library_paths_loop rootfs libs ps) os (tr @ es1) = (Inr libs', es2)"
    by (auto simp: bindE_Inr str_array_match_iff)
  have "resolved path"
    using path_resolve_rendered[OF assms(1) p] by (auto simp: resolved_def)
  with cont Cons.IH Cons.prems(2,3) show ?case
    by (cases "path \<in> set libs") (fastforce simp: bindE_Inr xstrdup_Inr)+
qed auto


lemma find_library_paths_result:
  assumes "take 1 (cnt_rootfs cnt) = ''/''" "find_library_paths cnt os tr = (Inr cnt', es)" "cnt_libs cnt = []"
  shows "\<exists>libs. cnt' = cnt\<lparr>cnt_libs := libs\<rparr> \<and> distinct libs \<and> list_all resolved libs"
proof (cases "flag_set (cnt_flags cnt) OPT_COMPUTE_LIBS")
  case True
  have same: "\<exists>libs. cnt = cnt\<lparr>cnt_libs := libs\<rparr> \<and> distinct libs \<and> list_all resolved libs"
    using assms(3) by (intro exI[of _ "[]"]) simp
  show ?thesis
    using assms(2) True same library_paths_loop_result[OF assms(1), of "[]"] unfolding find_library_paths_def
    by (fastforce simp: bindE_Inr split: if_splits)
next
  case False
  with assms(2,3) show ?thesis by (intro exI[of _ "[]"]) (simp add: find_library_paths_def)
qed

lemma lookup_owner_result:
  "lookup_owner cnt os tr = (Inr cnt', es) \<Longrightarrow> \<exists>u g. cnt' = cnt\<lparr>cnt_uid := u, cnt_gid := g\<rparr>"
  by (auto simp: lookup_owner_def bindE_Inr)

lemma container_cgroup_result:
  "container_cgroup gv fp cnt os tr = (Inr cnt', es) \<Longrightarrow>
     \<exists>v p. cnt' = cnt\<lparr>cnt_dev_cg_version := v, cnt_dev_cg := p\<rparr> \<and>
       (flag_set (cnt_flags cnt) OPT_NO_CGROUPS \<longrightarrow> cnt' = cnt) \<and>
       (\<not> flag_set (cnt_flags cnt) OPT_NO_CGROUPS \<longrightarrow> 0 \<le> v)"
  by (cases cnt) (auto simp: container_cgroup_def bindE_Inr Let_def split: if_splits)

text \<open>The container is in exactly one of the two modes and keeps the configuration.\<close>

definition container_ok :: "nvc_container_config \<Rightarrow> nvc_container \<Rightarrow> bool" where
  "container_ok cfg cnt \<longleftrightarrow>
     configured cfg cnt \<and>
     flag_set (cnt_flags cnt) OPT_SUPERVISED \<noteq> flag_set (cnt_flags cnt) OPT_STANDALONE \<and>
     cnt_mnt_ns cnt = proc_prefix cnt @ proc_pid (cnt_pid cnt) @ ''/ns/mnt'' \<and>
     distinct (cnt_libs cnt) \<and> list_all resolved (cnt_libs cnt) \<and>
     (flag_set (cnt_flags cnt) OPT_NO_CGROUPS \<longrightarrow> cnt_dev_cg cnt = []) \<and> 0 \<le> cnt_dev_cg_version cnt"

lemma configured_update:
  "configured cfg (cnt\<lparr>cnt_uid := u\<rparr>) = configured cfg cnt"
  "configured cfg (cnt\<lparr>cnt_gid := g\<rparr>) = configured cfg cnt"
  "configured cfg (cnt\<lparr>cnt_libs := l\<rparr>) = configured cfg cnt"
  "configured cfg (cnt\<lparr>cnt_mnt_ns := n\<rparr>) = configured cfg cnt"
  "configured cfg (cnt\<lparr>cnt_dev_cg_version := v\<rparr>) = configured cfg cnt"
  "configured cfg (cnt\<lparr>cnt_dev_cg := p\<rparr>) = configured cfg cnt"
  by (simp_all add: configured_def)

lemma parse_flags_result:
  assumes "parse_flags opts os tr = (Inr flags, es)"
  shows "options_parse (case opts of None \<Rightarrow> default_container_opts | Some s \<Rightarrow> s) container_opts = Inr flags \<and>
    flag_set flags OPT_SUPERVISED \<noteq> flag_set flags OPT_STANDALONE"
  using assms by (auto simp: parse_flags_def bindE_Inr of_res_def split: if_splits)

lemma validate_args_Inr: "validate_args b os tr = (Inr u, es) \<longleftrightarrow> b \<and> es = []"
  by (auto simp: validate_args_def)

lemma nvc_container_new_result:
  assumes "nvc_container_new gv fp ctx (Some cfg) opts os tr = (Inr cnt, es)"
  shows "config_valid cfg \<and> container_ok cfg cnt \<and>
    options_parse (case opts of None \<Rightarrow> default_container_opts | Some s \<Rightarrow> s) container_opts = Inr (cnt_flags cnt)"
proof -
  obtain flags c1 c2 c3 ns tr1 tr2 tr3 tr4 tr5 e1 e2 e3 e4 e5 where
    v: "config_valid cfg" and f: "parse_flags opts os tr1 = (Inr flags, e1)"
    and c1: "copy_config (container_zero\<lparr>cnt_flags := flags\<rparr>) cfg os tr2 = (Inr c1, e2)"
    and c2: "lookup_owner c1 os tr3 = (Inr c2, e3)"
    and c3: "(if flag_set flags OPT_NO_CNTLIBS then okay c2 else find_library_paths c2) os tr4 = (Inr c3, e4)"
    and ns: "ns = proc_prefix c3 @ proc_pid (cnt_pid c3) @ ''/ns/mnt''"
    and cg: "container_cgroup gv fp (c3\<lparr>cnt_mnt_ns := ns\<rparr>) os tr5 = (Inr cnt, e5)"
    using assms unfolding nvc_container_new_def
    by (auto simp: bindE_Inr validate_args_Inr find_namespace_path_def xasprintf_Inr split del: if_split)
  have c1': "configured cfg c1" "cnt_flags c1 = flags" "cnt_libs c1 = []" "cnt_dev_cg c1 = []" "cnt_dev_cg_version c1 = 0"
    using copy_config_result[OF c1] by (auto simp: container_zero_def)
  from lookup_owner_result[OF c2] obtain u g where c2': "c2 = c1\<lparr>cnt_uid := u, cnt_gid := g\<rparr>" by blast
  have root: "take 1 (cnt_rootfs c2) = ''/''"
    using v c1'(1) by (simp add: c2' configured_def config_valid_def)
  have "\<exists>libs. c3 = c2\<lparr>cnt_libs := libs\<rparr> \<and> distinct libs \<and> list_all resolved libs"
  proof (cases "flag_set flags OPT_NO_CNTLIBS")
    case True
    with c3 c1' c2' show ?thesis by (intro exI[of _ "[]"]) auto
  next
    case False
    with c3 find_library_paths_result[OF root] c1' c2' show ?thesis by simp
  qed
  then obtain libs where c3': "c3 = c2\<lparr>cnt_libs := libs\<rparr>" "distinct libs" "list_all resolved libs" by blast
  from container_cgroup_result[OF cg] obtain ver p where
    cnt: "cnt = c3\<lparr>cnt_mnt_ns := ns, cnt_dev_cg_version := ver, cnt_dev_cg := p\<rparr>"
    "flag_set (cnt_flags c3) OPT_NO_CGROUPS \<longrightarrow> cnt = c3\<lparr>cnt_mnt_ns := ns\<rparr>"
    "\<not> flag_set (cnt_flags c3) OPT_NO_CGROUPS \<longrightarrow> 0 \<le> ver" by auto
  note upd = cnt(1) c3'(1) c2'
  have conf: "configured cfg cnt" by (simp add: upd configured_update c1'(1))
  have parts: "cnt_flags cnt = flags" "cnt_libs cnt = libs" "cnt_mnt_ns cnt = ns" "cnt_pid cnt = cnt_pid c3"
    "proc_prefix cnt = proc_prefix c3" "cnt_flags c3 = flags"
    by (simp_all add: upd c1'(2) proc_prefix_def)
  have cg': "flag_set flags OPT_NO_CGROUPS \<longrightarrow> cnt_dev_cg cnt = []" "0 \<le> cnt_dev_cg_version cnt"
  proof -
    have "cnt_dev_cg cnt = [] \<and> cnt_dev_cg_version cnt = 0" if "flag_set flags OPT_NO_CGROUPS"
      using cnt(2) c1'(4,5) parts(6) that by (simp add: c3'(1) c2')
    moreover have "cnt_dev_cg_version cnt = ver" by (simp add: cnt(1))
    ultimately show "flag_set flags OPT_NO_CGROUPS \<longrightarrow> cnt_dev_cg cnt = []" "0 \<le> cnt_dev_cg_version cnt"
      using cnt(3) parts(6) by fastforce+
  qed
  show ?thesis
    using parse_flags_result[OF f] v conf c3'(2,3) cg'
    by (simp add: container_ok_def parts ns)
qed


subsection \<open>What is called\<close>

lemma observes_copy_config: "observes (copy_config cnt cfg)"
  unfolding observes_def copy_config_def config_rootfs_def config_lib_dirs_def config_lib32_dir_def
    config_dris_dir_def config_ldconfig_def present_below_def both_def is_dir_def
  by (intro emits_intros observes_emits_intros) simp_all

lemma observes_library_paths_loop: "observes (library_paths_loop rootfs libs ps)"
  by (induction ps arbitrary: libs)
     (auto simp: observes_def intro!: emits_intros observes_emits_intros)

lemma observes_find_library_paths: "observes (find_library_paths cnt)"
  unfolding observes_def find_library_paths_def array_new_def
  by (intro emits_intros observes_emits_intros observes_library_paths_loop[unfolded observes_def]) simp_all

lemma observes_lookup_owner: "observes (lookup_owner cnt)"
  unfolding observes_def lookup_owner_def by (intro emits_intros) simp_all

lemma observes_parse_flags: "observes (parse_flags opts)"
  unfolding observes_def parse_flags_def of_res_def by (intro emits_intros)

context device_cgroup
begin

lemma container_new_queries:
  "emits (\<lambda>e. cg_query (fst e)) (nvc_container_new get_version find_path ctx cfg opts)"
  unfolding nvc_container_new_def container_cgroup_def find_namespace_path_def
  by (intro emits_intros version_query path_query observes_query observes_copy_config
      observes_lookup_owner observes_find_library_paths observes_parse_flags)
     (simp_all add: cg_query_def)

end

subsection \<open>Properties\<close>

text \<open>C23: a container context that nvc_container_new returns, whichever cgroup implementation is
  linked, comes from a valid configuration, carries exactly the flags of the option string, is
  either supervised or standalone but not both, keeps the process, the root and every
  configured directory, has one of the documented defaults for the others, names the mount
  namespace of the container's process, and lists each library of the container once, as
  a path of real components below the root.\<close>

theorem container_new_wellformed:
  assumes "nvc_container_new get_version find_path ctx (Some cfg) opts os tr = (Inr cnt, es)"
  shows "config_valid cfg \<and> container_ok cfg cnt \<and>
    options_parse (case opts of None \<Rightarrow> default_container_opts | Some s \<Rightarrow> s) container_opts
      = Inr (cnt_flags cnt)"
  by (rule nvc_container_new_result[OF assms])

text \<open>making a container context changes nothing: with either cgroup implementation every
  call it makes is a lookup or a request to the Go service.\<close>

theorem container_new_observes:
  assumes "(get_version, find_path) \<in> {(get_device_cgroup_version_legacy, find_device_cgroup_path_legacy),
      (get_device_cgroup_version, find_device_cgroup_path)}"
    and "nvc_container_new get_version find_path ctx cfg opts os tr = (r, es)"
  shows "\<forall>e \<in> set es. cg_query (fst e)"
proof -
  have "emits (\<lambda>e. cg_query (fst e)) (nvc_container_new get_version find_path ctx cfg opts)"
    using assms(1) legacy.container_new_queries nvcgo.container_new_queries by auto
  from emits_events[OF this assms(2)] show ?thesis .
qed


definition plain_config :: nvc_container_config where
  "plain_config = \<lparr>cc_pid = 42, cc_rootfs = ''/r'', cc_bins_dir = None, cc_libs_dir = Some ''/l'',
     cc_libs32_dir = Some ''/l32'', cc_dris_dir = Some ''/dri'', cc_cudart_dir = None,
     cc_ldconfig = Some ''@/sbin/ldconfig''\<rparr>"

definition plain_context :: nvc_context where
  "plain_context = \<lparr>ctx_initialized = True, ctx_root = ''/'', ctx_ldcache = [], ctx_uid = 0, ctx_gid = 0,
     ctx_mnt_ns = 3, ctx_no_pivot = False, ctx_dxcore = \<lparr>dx_initialized = False, dx_adapters = []\<rparr>\<rparr>"

lemma plain_run:
  "\<exists>cnt es. nvc_container_new get_device_cgroup_version_legacy find_device_cgroup_path_legacy
     (Some plain_context) (Some plain_config) None calm [] = (Inr cnt, es)"
proof -
  have p: "parse_flags None = okay 2094"
    by (rule ext)+ (simp add: parse_flags_def bindE_def bindS_def of_res_def options_parse_def default_container_opts_def
      container_opts_def str_equal_def opt_bits flag_set_def)
  show ?thesis
    unfolding nvc_container_new_def p
    by (simp add: validate_context_def validate_args_def config_valid_def plain_config_def plain_context_def
      str_empty_def eval_simps xcalloc_def copy_config_def xstrdup_def config_rootfs_def flag_set_def opt_bits
      config_lib_dirs_def config_dris_dir_def config_ldconfig_def lookup_owner_def xsnprintf_def xstat_def
      find_library_paths_def find_namespace_path_def xasprintf_def container_cgroup_def
      proc_prefix_def proc_pid_def dec_int_def dec.simps)
qed

theorem container_new_wellformed_witness:
  "\<exists>cnt es. nvc_container_new get_device_cgroup_version_legacy find_device_cgroup_path_legacy
     (Some plain_context) (Some plain_config) None calm [] = (Inr cnt, es) \<and> container_ok plain_config cnt"
  using plain_run container_new_wellformed by blast

theorem container_new_observes_witness:
  "\<exists>r es. nvc_container_new get_device_cgroup_version_legacy find_device_cgroup_path_legacy
     (Some plain_context) (Some plain_config) None calm [] = (r, es) \<and> (\<forall>e \<in> set es. cg_query (fst e))"
  using plain_run
    container_new_observes[of get_device_cgroup_version_legacy find_device_cgroup_path_legacy] by blast

end
