(* ===== verification/Pci.thy ===== *)
theory Pci
  imports NvcTypes Lookups
begin

text \<open>
  The enumeration of PCI devices of modprobe-utils/pci-sysfs.c with the structures
  of pci-enum.h.  The directory of the devices and the configuration space of each
  are read from sysfs.  A variable that C leaves indeterminate is answered by the
  environment.
\<close>

unbundle bit_operations_syntax

type_synonym uint16 = "16 word"

record pci_id_match =
  match_vendor_id :: uint32
  match_device_id :: uint32
  match_subvendor_id :: uint32
  match_subdevice_id :: uint32
  match_device_class :: uint16
  match_device_class_mask :: uint16

abbreviation (input) PCI_MATCH_ANY :: uint32 where "PCI_MATCH_ANY \<equiv> -1"
abbreviation (input) "SYS_BUS_PCI_DEVICES \<equiv> ''/sys/bus/pci/devices''"

definition PCI_ID_COMPARE :: "uint32 \<Rightarrow> uint16 \<Rightarrow> bool" where
  "PCI_ID_COMPARE a b \<longleftrightarrow> a = PCI_MATCH_ANY \<or> a = ucast b"

text \<open>A field of two bytes of the configuration space, low byte first.\<close>

definition config16 :: "string \<Rightarrow> nat \<Rightarrow> uint16" where
  "config16 config i = word_of_nat (ord (config ! i)) + push_bit 8 (word_of_nat (ord (config ! Suc i)))"

definition pci_device_matches :: "pci_id_match \<Rightarrow> string \<Rightarrow> bool" where
  "pci_device_matches m config \<longleftrightarrow>
     PCI_ID_COMPARE (match_vendor_id m) (config16 config 0) \<and>
     PCI_ID_COMPARE (match_device_id m) (config16 config 2) \<and>
     PCI_ID_COMPARE (match_subvendor_id m) (config16 config 44) \<and>
     PCI_ID_COMPARE (match_subdevice_id m) (config16 config 46) \<and>
     config16 config 10 AND match_device_class_mask m = match_device_class m"

subsection \<open>The configuration space of a device\<close>

text \<open>The name \<open>%04x:%02x:%02x.%1u\<close> of a device, printed and scanned.\<close>

definition pci_name :: "uint32 \<Rightarrow> uint16 \<Rightarrow> uint16 \<Rightarrow> uint16 \<Rightarrow> string" where
  "pci_name domain bus device func =
     hex_pad 4 (unat domain) @ '':'' @ hex_pad 2 (unat bus) @ '':'' @ hex_pad 2 (unat device) @ ''.'' @ dec (unat func)"

definition scan_digit :: "string \<Rightarrow> (uint32 \<times> string) option" where
  "scan_digit s =
     (case dropWhile isspace s of
        [] \<Rightarrow> None
      | c # r \<Rightarrow> if isdigit c then Some (word_of_nat (digit_val c), r) else None)"

text \<open>The numbers sscanf assigns, up to the first field that does not match.\<close>

definition scan_pci_name :: "string \<Rightarrow> uint32 list" where
  "scan_pci_name s =
     (case scan_hex 4 s of
        None \<Rightarrow> []
      | Some (domain, r) \<Rightarrow> domain #
          (case map_option (scan_hex 2) (scan_char CHR '':'' r) of
             Some (Some (bus, r)) \<Rightarrow> bus #
               (case map_option (scan_hex 2) (scan_char CHR '':'' r) of
                  Some (Some (dev, r)) \<Rightarrow> dev #
                    (case map_option scan_digit (scan_char CHR ''.'' r) of
                       Some (Some (func, _)) \<Rightarrow> [func]
                     | _ \<Rightarrow> [])
                | _ \<Rightarrow> [])
           | _ \<Rightarrow> []))"

definition indeterminate :: "uint32 io" where
  "indeterminate = call_id (C_lib ''indeterminate'' [] [])"

text \<open>The variables after the scan: those it does not assign are indeterminate.\<close>

fun assigned :: "nat \<Rightarrow> uint32 list \<Rightarrow> uint32 list io" where
  "assigned 0 vs = ret []"
| "assigned (Suc n) [] = bindS indeterminate (\<lambda>v. bindS (assigned n []) (\<lambda>vs. ret (v # vs)))"
| "assigned (Suc n) (v # vs) = bindS (assigned n vs) (\<lambda>ws. ret (v # ws))"

text \<open>
  The loop of reads: what was read and the error.  At the end of the file the
  error is the value errno happens to hold.
\<close>

function read_cfg_loop :: "fd \<Rightarrow> nat \<Rightarrow> (string \<times> nat) io" where
  "read_cfg_loop fd len =
     (if len = 0 then ret ([], 0)
      else bindS (call_str (C_read fd len)) (\<lambda>r. case r of
        Inl e \<Rightarrow> ret ([], e)
      | Inr b \<Rightarrow>
          if b = [] then bindS get_errno (\<lambda>e. ret ([], e))
          else bindS (read_cfg_loop fd (len - length (take len b))) (\<lambda>(bs, e). ret (take len b @ bs, e))))"
  by pat_completeness auto
termination
  by (relation "measure snd") auto

declare read_cfg_loop.simps [simp del]

definition pci_sysfs_read_cfg ::
  "uint32 \<Rightarrow> uint16 \<Rightarrow> uint16 \<Rightarrow> uint16 \<Rightarrow> nat \<Rightarrow> nat \<Rightarrow> (string \<times> nat) io" where
  "pci_sysfs_read_cfg domain bus device func off len =
     bindS (call_int (C_open (take 254 (SYS_BUS_PCI_DEVICES @ ''/'' @ pci_name domain bus device func @ ''/config'')) O_RDONLY))
       (\<lambda>f. case f of
         Inl e \<Rightarrow> ret ([], e)
       | Inr fd \<Rightarrow>
           bindS (if off \<noteq> 0 then call_unit (C_lseek fd off) else ret (Inr ())) (\<lambda>s. case s of
             Inl e \<Rightarrow> bindS (call_unit (C_close fd)) (\<lambda>c. ret ([], case c of Inl e' \<Rightarrow> e' | Inr _ \<Rightarrow> e))
           | Inr _ \<Rightarrow> lastly (read_cfg_loop fd len) (call_void (C_close fd))))"

subsection \<open>Enumeration\<close>

text \<open>One entry of the directory: the count with this device, and the error that ends the loop.\<close>

definition match_entry :: "pci_id_match \<Rightarrow> string \<Rightarrow> uint16 \<Rightarrow> (nat \<times> uint16) io" where
  "match_entry m name count =
     bindS (assigned 4 (scan_pci_name name)) (\<lambda>vs.
     bindS (pci_sysfs_read_cfg (vs ! 0) (ucast (vs ! 1)) (ucast (vs ! 2)) (ucast (vs ! 3)) 0 48) (\<lambda>(config, err).
       ret (err, if length config = 48 \<and> err = 0 \<and> pci_device_matches m config then count + 1 else count)))"

fun match_loop :: "pci_id_match \<Rightarrow> string list \<Rightarrow> uint16 \<Rightarrow> (nat \<times> uint16) io" where
  "match_loop m [] count = ret (0, count)"
| "match_loop m (name # names) count =
     (if name \<in> {''.'', ''..''} then match_loop m names count
      else bindS (match_entry m name count) (\<lambda>(err, count).
        if err \<noteq> 0 then ret (err, count) else match_loop m names count))"

definition find_matches :: "pci_id_match \<Rightarrow> (nat \<times> uint16) io" where
  "find_matches m =
     bindS (call_strs (C_readdir SYS_BUS_PCI_DEVICES)) (\<lambda>r. case r of
       Inl e \<Rightarrow> ret (e, 0)
     | Inr names \<Rightarrow> match_loop m names 0)"

text \<open>The error and the number of matches, which wraps at 16 bits.\<close>

definition pci_enum_match_id :: "pci_id_match \<Rightarrow> (nat \<times> uint16) io" where
  "pci_enum_match_id m =
     bindS (call_stat (C_stat SYS_BUS_PCI_DEVICES)) (\<lambda>r. case r of
       Inl e \<Rightarrow> ret (e, 0)
     | Inr _ \<Rightarrow> find_matches m)"

subsection \<open>What is counted\<close>

text \<open>The entries that are devices, and a device whose configuration space can be read.\<close>

definition device_names :: "string list \<Rightarrow> string list" where
  "device_names names = filter (\<lambda>n. n \<notin> {''.'', ''..''}) names"

definition readable :: "os \<Rightarrow> string \<Rightarrow> string \<Rightarrow> bool" where
  "readable os name config \<longleftrightarrow> length config = 48 \<and>
     (\<exists>d b v f. scan_pci_name name = [d, b, v, f] \<and>
       (\<forall>tr. fst (pci_sysfs_read_cfg d (ucast b) (ucast v) (ucast f) 0 48 os tr) = (config, 0)))"

lemma assigned_all: "assigned (length vs) vs os tr = (vs, [])"
  by (induction vs arbitrary: tr) (simp_all add: bindS_def)

lemma match_entry_count:
  assumes "readable os name config"
  shows "fst (match_entry m name count os tr) = (0, if pci_device_matches m config then count + 1 else count)"
proof -
  obtain d b v f where s: "scan_pci_name name = [d, b, v, f]" and l: "length config = 48"
    and r: "\<And>tr. fst (pci_sysfs_read_cfg d (ucast b) (ucast v) (ucast f) 0 48 os tr) = (config, 0)"
    using assms by (auto simp: readable_def)
  have a: "assigned 4 [d, b, v, f] os tr = ([d, b, v, f], [])" for tr
    using assigned_all[of "[d, b, v, f]" os tr] by (simp add: eval_nat_numeral)
  show ?thesis
    using r[of tr] l unfolding match_entry_def s by (simp add: fst_bindS a split: prod.splits)
qed

lemma match_loop_count:
  assumes "\<And>n. n \<in> set (device_names names) \<Longrightarrow> readable os n (config n)"
  shows "fst (match_loop m names count os tr) =
    (0, count + word_of_nat (length (filter (\<lambda>n. pci_device_matches m (config n)) (device_names names))))"
  using assms
proof (induction names arbitrary: count tr)
  case (Cons n names)
  then have IH: "fst (match_loop m names count os tr) =
    (0, count + word_of_nat (length (filter (\<lambda>n. pci_device_matches m (config n)) (device_names names))))" for count tr
    by (auto simp: device_names_def)
  show ?case
  proof (cases "n \<in> {''.'', ''..''}")
    case True
    then show ?thesis using IH by (auto simp: device_names_def)
  next
    case False
    then have r: "readable os n (config n)" using Cons.prems by (auto simp: device_names_def)
    from False IH show ?thesis
      by (simp add: fst_bindS match_entry_count[OF r] device_names_def)
  qed
qed (simp add: device_names_def)

text \<open>when the directory can be listed and the configuration space of every device in it can be
  read, pci_enum_match_id reports no error and counts, modulo 2 to the 16, exactly the devices
  whose identifiers and class match.\<close>

theorem pci_enum_counts:
  assumes "\<And>tr. os_stat os tr (C_stat SYS_BUS_PCI_DEVICES) = Inr st"
    and "\<And>tr. os_strs os tr (C_readdir SYS_BUS_PCI_DEVICES) = Inr names"
    and "\<And>n. n \<in> set (device_names names) \<Longrightarrow> readable os n (config n)"
  shows "fst (pci_enum_match_id m os tr) =
    (0, word_of_nat (length (filter (\<lambda>n. pci_device_matches m (config n)) (device_names names))))"
  using match_loop_count[OF assms(3), where m = m and count = 0]
  by (simp add: pci_enum_match_id_def find_matches_def fst_bindS call_defs assms(1,2))

definition any_display :: pci_id_match where
  "any_display = \<lparr>match_vendor_id = 0x10DE, match_device_id = PCI_MATCH_ANY,
     match_subvendor_id = PCI_MATCH_ANY, match_subdevice_id = PCI_MATCH_ANY,
     match_device_class = 0x0300, match_device_class_mask = 0xff00\<rparr>"

definition card_config :: string where
  "card_config = [CHR 0xDE, CHR 0x10] @ replicate 8 CHR 0x01 @ [CHR 0x02, CHR 0x03] @ replicate 36 CHR 0x01"

definition one_slot :: os where
  "one_slot = calm\<lparr>os_strs := (\<lambda>tr c. Inr [''.'', ''..'', ''0000:01:00.0'']), os_str := (\<lambda>tr c. Inr card_config)\<rparr>"

lemma one_slot_readable: "readable one_slot ''0000:01:00.0'' card_config"
proof -
  have s: "scan_pci_name ''0000:01:00.0'' = [0, 1, 0, 0]"
    by (simp add: scan_pci_name_def scan_hex_def scan_digit_def scan_char_def scan_sign_def isspace_def isxdigit_def
        isdigit_def digit_val_def xdigit_val_def to_uint32_def ord_def Let_def)
  have l: "length card_config = 48" "card_config \<noteq> []" by (simp_all add: card_config_def)
  have "fst (read_cfg_loop fd 48 one_slot tr) = (card_config, 0)" for fd tr
    by (subst read_cfg_loop.simps) (simp add: one_slot_def eval_simps l read_cfg_loop.simps)
  then show ?thesis unfolding readable_def s
    by (simp add: l pci_sysfs_read_cfg_def fst_bindS lastly_def call_defs one_slot_def)
qed

theorem pci_enum_counts_witness: "fst (pci_enum_match_id any_display one_slot []) = (0, 1)"
proof -
  have n: "device_names [''.'', ''..'', ''0000:01:00.0''] = [''0000:01:00.0'']" by (simp add: device_names_def)
  have c: "card_config ! 0 = CHR 0xDE" "card_config ! Suc 0 = CHR 0x10" "card_config ! 10 = CHR 0x02"
    "card_config ! Suc 10 = CHR 0x03"
    by (simp_all add: card_config_def nth_append nth_Cons')
  have "pci_device_matches any_display card_config"
    unfolding pci_device_matches_def config16_def c
    by (simp add: PCI_ID_COMPARE_def any_display_def ord_def push_bit_eq_mult)
  with pci_enum_counts[of one_slot _ "[''.'', ''..'', ''0000:01:00.0'']" "\<lambda>_. card_config" any_display "[]"]
    one_slot_readable show ?thesis
    unfolding n by (simp add: one_slot_def)
qed

end
