(* ===== verification/Modprobe.thy ===== *)
theory Modprobe
  imports Pci
begin

text \<open>
  The bundled utilities of nvidia-modprobe, modprobe-utils/nvidia-modprobe-utils.c
  and .h: finding and loading kernel modules, the parameters of device files, and
  the creation of device nodes.  A stream is read as the text of its lines; fscanf
  and fgets work on that text.  A function that returns 1 for success and 0 for
  failure returns a truth value.
\<close>

abbreviation (input) NV_PCI_VENDOR_ID :: uint32 where "NV_PCI_VENDOR_ID \<equiv> 0x10DE"
abbreviation (input) NV_MAJOR_DEVICE_NUMBER :: int where "NV_MAJOR_DEVICE_NUMBER \<equiv> 195"
abbreviation (input) "NV_PROC_REGISTRY_PATH \<equiv> ''/proc/driver/nvidia/params''"
abbreviation (input) "NV_NVLINK_PROC_PERM_PATH \<equiv> ''/proc/driver/nvidia-nvlink/permissions''"
abbreviation (input) "NV_NVSWITCH_PROC_PERM_PATH \<equiv> ''/proc/driver/nvidia-nvswitch/permissions''"

text \<open>The text a stream still holds; after a read error there is none.\<close>

definition stream_text :: "fd \<Rightarrow> string io" where
  "stream_text fp = bindS (call_strs (C_getlines fp)) (\<lambda>r. ret (case r of Inl _ \<Rightarrow> [] | Inr ls \<Rightarrow> concat ls))"

text \<open>fopen, read, fclose; \<open>None\<close> when the file cannot be opened.\<close>

definition slurp :: "path \<Rightarrow> string option io" where
  "slurp path =
     bindS (call_int (C_fopen path)) (\<lambda>f. case f of
       Inl _ \<Rightarrow> ret None
     | Inr fp \<Rightarrow> bindS (lastly (stream_text fp) (call_void (C_fclose fp))) (\<lambda>s. ret (Some s)))"

subsection \<open>Kernel modules\<close>

text \<open>The value of a char that is signed.\<close>

definition schar :: "char \<Rightarrow> int" where
  "schar c = (if ord c < 128 then int (ord c) else int (ord c) - 256)"

fun modcmp :: "string \<Rightarrow> string \<Rightarrow> int" where
  "modcmp [] [] = 0"
| "modcmp (a # as) [] = schar a"
| "modcmp [] (b # bs) = - schar b"
| "modcmp (a # as) (b # bs) =
     (if a \<noteq> b \<and> \<not> (a \<in> {CHR ''-'', CHR ''_''} \<and> b \<in> {CHR ''-'', CHR ''_''}) then schar a - schar b
      else modcmp as bs)"

text \<open>fscanf with the format \<open>%15s%*[^\n]\n\<close>: the first word of a line, cut, and what follows the line.\<close>

definition scan_module :: "string \<Rightarrow> (string \<times> string) option" where
  "scan_module s =
     (let t = dropWhile isspace s; w = take 15 (takeWhile (\<lambda>c. \<not> isspace c) t)
      in if w = [] then None
         else Some (w, dropWhile isspace (dropWhile (\<lambda>c. c \<noteq> CHR 0x0A) (drop (length w) t))))"

lemma scan_module_shorter: "scan_module s = Some (w, r) \<Longrightarrow> length r < length s"
proof -
  assume "scan_module s = Some (w, r)"
  then have w: "w = take 15 (takeWhile (\<lambda>c. \<not> isspace c) (dropWhile isspace s))" "w \<noteq> []"
    and r: "r = dropWhile isspace (dropWhile (\<lambda>c. c \<noteq> CHR 0x0A) (drop (length w) (dropWhile isspace s)))"
    by (auto simp: scan_module_def Let_def split: if_splits)
  have "length r \<le> length (drop (length w) (dropWhile isspace s))"
    unfolding r by (rule order_trans[OF length_dropWhile_le length_dropWhile_le])
  moreover have "0 < length w" "length w \<le> length (dropWhile isspace s)"
    using w length_takeWhile_le[of "\<lambda>c. \<not> isspace c" "dropWhile isspace s"] by auto
  moreover have "length (dropWhile isspace s) \<le> length s" by (rule length_dropWhile_le)
  ultimately show ?thesis unfolding length_drop by linarith
qed

function module_listed :: "string \<Rightarrow> string \<Rightarrow> bool" where
  "module_listed nv_module_name s =
     (case scan_module s of
        None \<Rightarrow> False
      | Some (w, r) \<Rightarrow> modcmp w nv_module_name = 0 \<or> module_listed nv_module_name r)"
  by pat_completeness auto
termination
  by (relation "measure (\<lambda>(_, s). length s)") (auto dest: scan_module_shorter)

declare module_listed.simps [simp del]

definition is_kernel_module_loaded :: "string \<Rightarrow> bool io" where
  "is_kernel_module_loaded nv_module_name =
     bindS (slurp ''/proc/modules'') (\<lambda>s. ret (case s of None \<Rightarrow> False | Some t \<Rightarrow> module_listed nv_module_name t))"

abbreviation (input) O_RDWR :: nat where "O_RDWR \<equiv> 2"

definition silence_current_process :: "unit io" where
  "silence_current_process =
     bindS (call_int (C_open ''/dev/null'' O_RDWR)) (\<lambda>f. case f of
       Inl _ \<Rightarrow> ret ()
     | Inr fd \<Rightarrow>
         bindS (call_void (C_dup2 fd 1)) (\<lambda>_. bindS (call_void (C_dup2 fd 2)) (\<lambda>_. call_void (C_close fd))))"

definition is_tegra :: "bool io" where
  "is_tegra = bindS (slurp ''/sys/devices/soc0/family'') (\<lambda>s. ret (case s of None \<Rightarrow> False | Some t \<Rightarrow> take 5 t = ''Tegra''))"

text \<open>The path of the modprobe program, as the kernel reports it or the default.\<close>

definition modprobe_path :: "path io" where
  "modprobe_path =
     bindS (slurp ''/proc/sys/kernel/modprobe'') (\<lambda>s.
     let path = takeWhile (\<lambda>c. c \<noteq> CHR 0x0A) (take 1023 (case s of None \<Rightarrow> [] | Some t \<Rightarrow> t)) in
       ret (if path = [] then ''/sbin/modprobe'' else path))"

abbreviation (input) S_IXUSR :: "32 word" where "S_IXUSR \<equiv> 64"

definition nv_display :: pci_id_match where
  "nv_display = \<lparr>match_vendor_id = NV_PCI_VENDOR_ID, match_device_id = PCI_MATCH_ANY,
     match_subvendor_id = PCI_MATCH_ANY, match_subdevice_id = PCI_MATCH_ANY,
     match_device_class = 0x0300, match_device_class_mask = 0xff00\<rparr>"

text \<open>
  The child runs modprobe and is gone, whether the program is executed or not;
  the parent answers whether the module is loaded once the child has ended.
\<close>

definition run_modprobe :: "bool \<Rightarrow> path \<Rightarrow> string \<Rightarrow> bool ioE" where
  "run_modprobe print_errors path module_name =
     bindS (call_int C_fork) (\<lambda>p. case p of
       Inl _ \<Rightarrow> okay False
     | Inr pid \<Rightarrow>
         if pid = 0 then
           bindS silence_current_process (\<lambda>_.
           bindS (call_unit (C_lib ''execle'' [] [path, ''modprobe'', module_name])) (\<lambda>x. case x of
             Inr _ \<Rightarrow> raise (exited 0)
           | Inl _ \<Rightarrow>
               bindS (if print_errors then call_void (C_puts (''NVIDIA: failed to execute '' @ path)) else ret ()) (\<lambda>_.
                 raise (exited 1))))
         else bindS (call_void (C_waitpid pid)) (\<lambda>_.
           bindS (is_kernel_module_loaded module_name) okay))"

definition modprobe_helper :: "bool \<Rightarrow> string \<Rightarrow> bool \<Rightarrow> bool ioE" where
  "modprobe_helper print_errors module_name allow_on_tegra =
     (if module_name = [] then okay False
      else
      bindS (is_kernel_module_loaded module_name) (\<lambda>loaded.
      if loaded then okay True
      else
      bindS (pci_enum_match_id nv_display) (\<lambda>(status, num_matches).
      bindS (if status = 0 \<and> num_matches = 0
             then (if \<not> allow_on_tegra then ret False else is_tegra) else ret True) (\<lambda>present.
      if \<not> present
      then bindS (if print_errors then call_void (C_puts ''NVIDIA: no NVIDIA devices found'') else ret ()) (\<lambda>_. okay False)
      else
      bindS (call_id C_geteuid) (\<lambda>euid.
      if euid \<noteq> 0 then okay False
      else
      bindS modprobe_path (\<lambda>path.
      bindS (call_stat (C_stat path)) (\<lambda>st.
      if (case st of Inl _ \<Rightarrow> True | Inr s \<Rightarrow> \<not> S_ISREG (st_mode s) \<or> st_mode s AND S_IXUSR \<noteq> S_IXUSR) then okay False
      else run_modprobe print_errors path module_name)))))))"

definition nvidia_modprobe :: "bool \<Rightarrow> bool ioE" where
  "nvidia_modprobe print_errors = modprobe_helper print_errors ''nvidia'' False"

definition nvidia_uvm_modprobe :: "bool ioE" where
  "nvidia_uvm_modprobe = modprobe_helper False ''nvidia-uvm'' False"

definition nvidia_msr_modprobe :: "bool ioE" where
  "nvidia_msr_modprobe = modprobe_helper False ''msr'' False"

definition nvidia_modeset_modprobe :: "bool ioE" where
  "nvidia_modeset_modprobe = modprobe_helper False ''nvidia-modeset'' True"

subsection \<open>Parameters of device files\<close>

record device_file =
  file_uid :: uint32
  file_gid :: uint32
  file_perm :: uint32
  file_modify :: int32

definition default_device_file :: device_file where
  "default_device_file = \<lparr>file_uid = 0, file_gid = 0, file_perm = 438, file_modify = 1\<rparr>"

text \<open>\<open>%d\<close>: strtol saturates, then the low 32 bits are kept.\<close>

definition to_int32 :: "bool \<Rightarrow> nat \<Rightarrow> int" where
  "to_int32 neg m =
     sint (word_of_int (if neg then max (- int m) (- (2 ^ 63)) else min (int m) (2 ^ 63 - 1)) :: int32)"

definition scan_int :: "string \<Rightarrow> (int \<times> string) option" where
  "scan_int s = (case scan_num s of None \<Rightarrow> None | Some (neg, m, r) \<Rightarrow> Some (to_int32 neg m, r))"

text \<open>fscanf with the format \<open>%31[^:]: %u\n\<close>, or with \<open>%d\<close>: the name, the number, the rest.\<close>

definition scan_field :: "string \<Rightarrow> (string \<times> (bool \<times> nat) \<times> string) option" where
  "scan_field s =
     (let name = take 31 (takeWhile (\<lambda>c. c \<noteq> CHR '':'') s)
      in if name = [] then None
         else
         (case scan_char CHR '':'' (drop (length name) s) of
            None \<Rightarrow> None
          | Some r \<Rightarrow>
              (case scan_num r of None \<Rightarrow> None | Some (neg, m, r') \<Rightarrow> Some (name, (neg, m), dropWhile isspace r'))))"

lemma scan_field_shorter: "scan_field s = Some (name, v, r) \<Longrightarrow> length r < length s"
  by (auto simp: scan_field_def scan_char_def Let_def split: if_splits option.splits list.splits
      dest!: scan_num_shorter intro!: le_less_trans[OF length_dropWhile_le])
     (metis length_Cons length_drop less_Suc_eq less_trans diff_le_self not_less_eq le_less_trans)

definition set_field :: "string \<Rightarrow> bool \<times> nat \<Rightarrow> device_file \<Rightarrow> device_file" where
  "set_field name = (\<lambda>(neg, m) d.
     let v = to_uint32 neg m in
     if str_equal name ''DeviceFileUID'' then d\<lparr>file_uid := v\<rparr>
     else if str_equal name ''DeviceFileGID'' then d\<lparr>file_gid := v\<rparr>
     else if str_equal name ''DeviceFileMode'' then d\<lparr>file_perm := v\<rparr>
     else if str_equal name ''ModifyDeviceFiles'' \<or> str_equal name ''DeviceFileModify'' then d\<lparr>file_modify := v\<rparr>
     else d)"

function fields_loop :: "string \<Rightarrow> device_file \<Rightarrow> device_file" where
  "fields_loop s d =
     (case scan_field s of None \<Rightarrow> d | Some (name, v, r) \<Rightarrow> fields_loop r (set_field name v d))"
  by pat_completeness auto
termination
  by (relation "measure (\<lambda>(s, _). length s)") (auto dest: scan_field_shorter)

declare fields_loop.simps [simp del]

text \<open>A path that is null in the source is empty here.\<close>

definition init_device_file_parameters :: "path \<Rightarrow> device_file io" where
  "init_device_file_parameters proc_path =
     (if proc_path = [] then ret default_device_file
      else bindS (slurp proc_path) (\<lambda>s. ret (case s of
        None \<Rightarrow> default_device_file | Some t \<Rightarrow> fields_loop t default_device_file)))"

subsection \<open>The state of a device file\<close>

datatype NvDeviceFileState = NvDeviceFileStateFileExists | NvDeviceFileStateChrDevOk | NvDeviceFileStatePermissionsOk

fun state_bit :: "NvDeviceFileState \<Rightarrow> nat" where
  "state_bit NvDeviceFileStateFileExists = 0"
| "state_bit NvDeviceFileStateChrDevOk = 1"
| "state_bit NvDeviceFileStatePermissionsOk = 2"

definition nvidia_update_file_state :: "NvDeviceFileState \<Rightarrow> int32 \<Rightarrow> int32" where
  "nvidia_update_file_state v state = state OR push_bit (state_bit v) 1"

definition nvidia_test_file_state :: "int32 \<Rightarrow> NvDeviceFileState \<Rightarrow> bool" where
  "nvidia_test_file_state state v \<longleftrightarrow> state AND push_bit (state_bit v) 1 \<noteq> 0"

text \<open>The number is computed as an int and extended to 64 bits with its sign.\<close>

definition NV_MAKE_DEVICE :: "int32 \<Rightarrow> int32 \<Rightarrow> uint64" where
  "NV_MAKE_DEVICE maj mn = scast ((mn AND 0xff) OR push_bit 8 maj OR push_bit 12 (mn AND NOT 0xff))"

abbreviation (input) NV_DEVICE_FILE_MODE_MASK :: uint32 where "NV_DEVICE_FILE_MODE_MASK \<equiv> 511"

definition S_ISCHR :: "32 word \<Rightarrow> bool" where "S_ISCHR m \<longleftrightarrow> m AND S_IFMT = S_IFCHR"

definition get_file_state_helper :: "path \<Rightarrow> int32 \<Rightarrow> int32 \<Rightarrow> device_file \<Rightarrow> int32 io" where
  "get_file_state_helper path maj mn d =
     bindS (call_stat (C_stat path)) (\<lambda>r. ret (case r of
       Inl _ \<Rightarrow> 0
     | Inr st \<Rightarrow>
         (let s1 = nvidia_update_file_state NvDeviceFileStateFileExists 0;
              s2 = (if S_ISCHR (st_mode st) \<and> st_rdev st = NV_MAKE_DEVICE maj mn
                    then nvidia_update_file_state NvDeviceFileStateChrDevOk s1 else s1)
          in if st_mode st AND NV_DEVICE_FILE_MODE_MASK = file_perm d \<and> st_uid st = file_uid d \<and> st_gid st = file_gid d
             then nvidia_update_file_state NvDeviceFileStatePermissionsOk s2 else s2)))"

text \<open>The name of the device with a minor number; an empty name is an error.\<close>

definition assign_device_file_name :: "int \<Rightarrow> path" where
  "assign_device_file_name mn =
     (if mn < 0 \<or> mn > 255 then []
      else if mn = 255 then ''/dev/nvidiactl'' else ''/dev/nvidia'' @ dec_int mn)"

definition nvidia_get_file_state :: "int \<Rightarrow> int32 io" where
  "nvidia_get_file_state mn =
     bindS (init_device_file_parameters NV_PROC_REGISTRY_PATH) (\<lambda>d.
       get_file_state_helper (assign_device_file_name mn) (word_of_int NV_MAJOR_DEVICE_NUMBER) (word_of_int mn) d)"

subsection \<open>Device nodes\<close>

text \<open>The last step: permissions and ownership, and the removal of a node made here when they cannot be set.\<close>

definition own_node :: "device_file \<Rightarrow> path \<Rightarrow> bool \<Rightarrow> bool io" where
  "own_node d path do_mknod =
     bindS (bindE (call_unit (C_chmod path (file_perm d))) (\<lambda>_. call_unit (C_chown path (file_uid d) (file_gid d)))) (\<lambda>p.
     case p of
       Inr _ \<Rightarrow> ret True
     | Inl _ \<Rightarrow> bindS (if do_mknod then call_void (C_remove path) else ret ()) (\<lambda>_. ret False))"

text \<open>A file that is no such device is removed; a file that is not there is made.\<close>

definition make_node :: "device_file \<Rightarrow> path \<Rightarrow> uint64 \<Rightarrow> int32 \<Rightarrow> bool io" where
  "make_node d path dev state =
     (let absent = \<not> nvidia_test_file_state state NvDeviceFileStateFileExists in
      bindS (if \<not> absent \<and> \<not> nvidia_test_file_state state NvDeviceFileStateChrDevOk
             then bindE (call_unit (C_remove path)) (\<lambda>_. okay True) else ret (Inr absent)) (\<lambda>m. case m of
        Inl _ \<Rightarrow> ret False
      | Inr do_mknod \<Rightarrow>
          bindS (if do_mknod then call_unit (C_mknod path (S_IFCHR OR file_perm d) dev) else ret (Inr ())) (\<lambda>k. case k of
            Inl _ \<Rightarrow> ret False
          | Inr _ \<Rightarrow> own_node d path do_mknod)))"

definition mknod_helper :: "int32 \<Rightarrow> int32 \<Rightarrow> path \<Rightarrow> path \<Rightarrow> bool io" where
  "mknod_helper maj mn path proc_path =
     (if path = [] then ret False
      else
      bindS (init_device_file_parameters proc_path) (\<lambda>d.
      if file_modify d \<noteq> 1 then ret True
      else
      bindS (get_file_state_helper path maj mn d) (\<lambda>state.
      if nvidia_test_file_state state NvDeviceFileStateFileExists \<and>
         nvidia_test_file_state state NvDeviceFileStateChrDevOk \<and>
         nvidia_test_file_state state NvDeviceFileStatePermissionsOk then ret True
      else make_node d path (NV_MAKE_DEVICE maj mn) state)))"

definition nvidia_mknod :: "int \<Rightarrow> bool io" where
  "nvidia_mknod mn =
     mknod_helper (word_of_int NV_MAJOR_DEVICE_NUMBER) (word_of_int mn) (assign_device_file_name mn) NV_PROC_REGISTRY_PATH"

text \<open>fgets with a buffer of \<open>n\<close> bytes: the line, with its newline when it fits, and the rest.\<close>

definition fgets :: "nat \<Rightarrow> string \<Rightarrow> string \<times> string" where
  "fgets n s =
     (let line = takeWhile (\<lambda>c. c \<noteq> CHR 0x0A) s @ take 1 (dropWhile (\<lambda>c. c \<noteq> CHR 0x0A) s)
      in (take (n - 1) line, drop (length (take (n - 1) line)) s))"

lemma fgets_shorter: "s \<noteq> [] \<Longrightarrow> 1 < n \<Longrightarrow> length (snd (fgets n s)) < length s"
  by (cases s) (auto simp: fgets_def Let_def)

function fgets_lines :: "nat \<Rightarrow> string \<Rightarrow> string list" where
  "fgets_lines n s = (if s = [] \<or> n \<le> 1 then [] else fst (fgets n s) # fgets_lines n (snd (fgets n s)))"
  by pat_completeness auto
termination
  by (relation "measure (\<lambda>(_, s). length s)") (auto intro: fgets_shorter)

declare fgets_lines.simps [simp del]

text \<open>The line that ends in the name, up to the end of the section; the first number of it.\<close>

fun major_of :: "string \<Rightarrow> string list \<Rightarrow> int" where
  "major_of name [] = -1"
| "major_of name (line # lines) =
     (if line = [CHR 0x0A] then -1
      else
      (case strstr line name of
         Some (_, found) \<Rightarrow>
           if take 1 (drop (length name) found) = [CHR 0x0A]
           then (case scan_int line of None \<Rightarrow> -1 | Some (m, _) \<Rightarrow> m)
           else major_of name lines
       | None \<Rightarrow> major_of name lines))"

definition nvidia_get_chardev_major :: "string \<Rightarrow> int io" where
  "nvidia_get_chardev_major name =
     bindS (slurp ''/proc/devices'') (\<lambda>s. ret (case s of
       None \<Rightarrow> -1
     | Some t \<Rightarrow> major_of name (drop 1 (dropWhile (\<lambda>l. l \<noteq> ''Character devices:'' @ [CHR 0x0A]) (fgets_lines 255 t)))))"

abbreviation (input) "NV_CAPS_MODULE_NAME \<equiv> ''nvidia-caps''"

definition nvidia_nvlink_get_file_state :: "int32 io" where
  "nvidia_nvlink_get_file_state =
     bindS (nvidia_get_chardev_major ''nvidia-nvlink'') (\<lambda>maj.
     bindS (init_device_file_parameters NV_NVLINK_PROC_PERM_PATH) (\<lambda>d.
       get_file_state_helper (if maj < 0 then [] else ''/dev/nvidia-nvlink'') (word_of_int maj) 0 d))"

definition nvswitch_name :: "int \<Rightarrow> path" where
  "nvswitch_name mn = (if mn = 255 then ''/dev/nvidia-nvswitchctl'' else ''/dev/nvidia-nvswitch'' @ dec_int mn)"

definition nvidia_nvswitch_get_file_state :: "int \<Rightarrow> int32 io" where
  "nvidia_nvswitch_get_file_state mn =
     bindS (nvidia_get_chardev_major ''nvidia-nvswitch'') (\<lambda>maj.
     bindS (init_device_file_parameters NV_NVSWITCH_PROC_PERM_PATH) (\<lambda>d.
       get_file_state_helper (if maj < 0 \<or> mn < 0 \<or> mn > 255 then [] else nvswitch_name mn)
         (word_of_int maj) (word_of_int mn) d))"

definition with_major :: "string \<Rightarrow> (int32 \<Rightarrow> bool io) \<Rightarrow> bool io" where
  "with_major name f =
     bindS (nvidia_get_chardev_major name) (\<lambda>maj. if maj < 0 then ret False else f (word_of_int maj))"

definition nvidia_uvm_mknod :: "int \<Rightarrow> bool io" where
  "nvidia_uvm_mknod base_minor =
     with_major ''nvidia-uvm'' (\<lambda>maj.
     bindS (mknod_helper maj (word_of_int base_minor) ''/dev/nvidia-uvm'' []) (\<lambda>ok.
       if ok then mknod_helper maj (word_of_int (base_minor + 1)) ''/dev/nvidia-uvm-tools'' [] else ret False))"

definition nvidia_modeset_mknod :: "bool io" where
  "nvidia_modeset_mknod = mknod_helper (word_of_int NV_MAJOR_DEVICE_NUMBER) 254 ''/dev/nvidia-modeset'' NV_PROC_REGISTRY_PATH"

definition nvidia_nvlink_mknod :: "bool io" where
  "nvidia_nvlink_mknod =
     with_major ''nvidia-nvlink'' (\<lambda>maj. mknod_helper maj 0 ''/dev/nvidia-nvlink'' NV_NVLINK_PROC_PERM_PATH)"

definition nvidia_nvswitch_mknod :: "int \<Rightarrow> bool io" where
  "nvidia_nvswitch_mknod mn =
     with_major ''nvidia-nvswitch'' (\<lambda>maj. mknod_helper maj (word_of_int mn) (nvswitch_name mn) NV_NVSWITCH_PROC_PERM_PATH)"

definition nvidia_vgpu_vfio_mknod :: "int \<Rightarrow> bool io" where
  "nvidia_vgpu_vfio_mknod mn =
     with_major ''nvidia-vgpu-vfio'' (\<lambda>maj.
       mknod_helper maj (word_of_int mn) (''/dev/nvidia-vgpu'' @ dec_int mn) NV_PROC_REGISTRY_PATH)"

subsection \<open>Capability devices\<close>

function minor_loop :: "string \<Rightarrow> int" where
  "minor_loop s =
     (case scan_field s of
        None \<Rightarrow> -1
      | Some (field, (neg, m), r) \<Rightarrow> if str_equal field ''DeviceFileMinor'' then to_int32 neg m else minor_loop r)"
  by pat_completeness auto
termination
  by (relation "measure length") (auto dest: scan_field_shorter)

declare minor_loop.simps [simp del]

text \<open>The numbers and the name of the device; after a failure the numbers are what was stored before it.\<close>

definition nvidia_cap_get_device_file_attrs :: "path \<Rightarrow> int \<Rightarrow> (path option \<times> int \<times> int) io" where
  "nvidia_cap_get_device_file_attrs cap_file_path mn =
     bindS (nvidia_get_chardev_major NV_CAPS_MODULE_NAME) (\<lambda>maj.
     if maj < 0 then ret (None, maj, mn)
     else
     bindS (slurp cap_file_path) (\<lambda>s. ret (case s of
       None \<Rightarrow> (None, maj, mn)
     | Some t \<Rightarrow>
         (let mn = minor_loop t
          in (if mn < 0 then None else Some (''/dev/nvidia-caps/nvidia-cap'' @ dec_int mn), maj, mn)))))"

definition nvidia_cap_mknod :: "path \<Rightarrow> bool io" where
  "nvidia_cap_mknod cap_file_path =
     bindS (nvidia_cap_get_device_file_attrs cap_file_path 0) (\<lambda>(name, maj, mn). case name of
       None \<Rightarrow> ret False
     | Some n \<Rightarrow>
         bindS (call_unit (C_mkdir ''/dev/nvidia-caps'' 493)) (\<lambda>r.
         if (case r of Inl e \<Rightarrow> e \<noteq> EEXIST | Inr _ \<Rightarrow> False) then ret False
         else mknod_helper (word_of_int maj) (word_of_int mn) n cap_file_path))"

definition nvidia_cap_get_file_state :: "path \<Rightarrow> int32 io" where
  "nvidia_cap_get_file_state cap_file_path =
     bindS indeterminate (\<lambda>v.
     bindS (nvidia_cap_get_device_file_attrs cap_file_path (sint v)) (\<lambda>(name, maj, mn).
     bindS (init_device_file_parameters cap_file_path) (\<lambda>d.
       get_file_state_helper (case name of None \<Rightarrow> [] | Some n \<Rightarrow> n) (word_of_int maj) (word_of_int mn) d)))"

subsection \<open>What is called\<close>

lemma observes_slurp: "observes (slurp p)"
  unfolding observes_def slurp_def stream_text_def by (intro emits_intros) simp_all

lemma observes_chardev_major: "observes (nvidia_get_chardev_major name)"
  unfolding observes_def nvidia_get_chardev_major_def
  by (intro emits_intros observes_slurp[unfolded observes_def])

lemma observes_cap_attrs: "observes (nvidia_cap_get_device_file_attrs p mn)"
  unfolding observes_def nvidia_cap_get_device_file_attrs_def
  by (intro emits_intros observes_slurp[unfolded observes_def] observes_chardev_major[unfolded observes_def])

subsection \<open>What the utilities achieve\<close>

lemma schar_zero: "schar c = 0 \<longleftrightarrow> ord c = 0"
proof -
  have "ord c < 256" by (simp add: ord_def)
  then show ?thesis by (auto simp: schar_def)
qed

lemma schar_eq: "schar a = schar b \<longleftrightarrow> a = b"
proof -
  have "ord a < 256" "ord b < 256" by (simp_all add: ord_def)
  then show ?thesis by (auto simp: schar_def char_eq_ord split: if_splits)
qed

text \<open>Module names are compared up to the difference of dash and underscore.\<close>

definition module_char :: "char \<Rightarrow> char" where
  "module_char c = (if c = CHR ''_'' then CHR ''-'' else c)"

lemma modcmp_zero:
  assumes "list_all (\<lambda>c. ord c \<noteq> 0) a" "list_all (\<lambda>c. ord c \<noteq> 0) b"
  shows "modcmp a b = 0 \<longleftrightarrow> map module_char a = map module_char b"
  using assms
  by (induction a b rule: modcmp.induct) (auto simp: schar_zero schar_eq module_char_def)

lemma high_bit_clear: "unat (w :: uint32) < 2 ^ k \<Longrightarrow> k \<le> n \<Longrightarrow> \<not> bit w n"
proof
  assume a: "unat w < 2 ^ k" "k \<le> n" "bit w n"
  then have "bit (unat w) n" by (auto simp: bit_unsigned_iff possible_bit_def dest: uint32_bit)
  then have "bit (take_bit k (unat w)) n" using a(1) by (simp add: take_bit_nat_eq_self)
  then show False using a(2) by (simp add: bit_take_bit_iff)
qed

text \<open>C36: for a major number below 2 to the 12 and a minor number below 2 to the 19 the device number
  the utilities compute is the one makedev computes.\<close>

theorem make_device_agrees:
  assumes "unat maj < 2 ^ 12" "unat mn < 2 ^ 19"
  shows "NV_MAKE_DEVICE maj mn = makedev maj mn"
  unfolding NV_MAKE_DEVICE_def makedev_def dev_masks
proof (rule bit_word_eqI, goal_cases)
  case (1 n)
  have a: "bit maj k \<Longrightarrow> k < 12" and b: "bit mn k \<Longrightarrow> k < 19" for k
    using high_bit_clear[OF assms(1)] high_bit_clear[OF assms(2)] not_le by blast+
  have h: "\<not> bit ((mn AND mask 8) OR push_bit 8 maj OR push_bit 12 (mn AND NOT (mask 8))) 31"
    using a[of 23] b[of 31] b[of 19] by (auto simp: bit_rules)
  from 1 show ?case
    apply (simp only: bit_rules len_of_numeral_defs bit_signed_iff)
    using a[of n] a[of "n - 8"] a[of "n - 32"] b[of n] b[of "n - 12"] h a[of 23] b[of 19] b[of 31]
    by (auto simp: min_def)
qed


text \<open>
  What the calls make of the file at a path: its mode, device number, user and
  group, or nothing.  \<open>owner\<close> is the owner of a new file.
\<close>

type_synonym node = "uint32 \<times> uint64 \<times> uint32 \<times> uint32"

definition node_step :: "uint32 \<times> uint32 \<Rightarrow> path \<Rightarrow> node option \<Rightarrow> event \<Rightarrow> node option" where
  "node_step owner path n = (\<lambda>(c, a).
     if a \<noteq> Done then n
     else
     (case c of
        DirOp (sc_mknod p mode dev) \<Rightarrow> if p = path then Some (mode, dev, owner) else n
      | DirOp (sc_chmod p mode) \<Rightarrow>
          if p = path then map_option (\<lambda>(m, rest). ((m AND S_IFMT) OR (mode AND 4095), rest)) n else n
      | DirOp (sc_chown p uid gid) \<Rightarrow> if p = path then map_option (\<lambda>(m, d, _). (m, d, uid, gid)) n else n
      | DirOp (sc_remove p) \<Rightarrow> if p = path then None else n
      | _ \<Rightarrow> n))"

definition node_after :: "uint32 \<times> uint32 \<Rightarrow> path \<Rightarrow> node option \<Rightarrow> trace \<Rightarrow> node option" where
  "node_after owner path n es = foldl (node_step owner path) n es"

text \<open>The environment tells the state of the file.\<close>

definition tells :: "os \<Rightarrow> path \<Rightarrow> node option \<Rightarrow> bool" where
  "tells os path n \<longleftrightarrow> (\<forall>tr. case os_stat os tr (C_stat path) of
     Inl _ \<Rightarrow> n = None
   | Inr st \<Rightarrow> n = Some (st_mode st, st_rdev st, st_uid st, st_gid st))"

definition device_node :: "device_file \<Rightarrow> uint64 \<Rightarrow> node option \<Rightarrow> bool" where
  "device_node d dev n \<longleftrightarrow> (\<exists>m. n = Some (m, dev, file_uid d, file_gid d) \<and> S_ISCHR m \<and>
     m AND NV_DEVICE_FILE_MODE_MASK = file_perm d AND NV_DEVICE_FILE_MODE_MASK)"

lemma node_after_simps [simp]:
  "node_after w p n [] = n"
  "node_after w p n (e # es) = node_after w p (node_step w p n e) es"
  "node_after w p n (es @ es') = node_after w p (node_after w p n es) es'"
  by (simp_all add: node_after_def)

lemma node_step_readonly: "readonly c \<Longrightarrow> node_step w p n (c, a) = n"
proof (cases c)
  case (DirOp x)
  assume "readonly c"
  with DirOp show ?thesis by (cases x) (simp_all add: node_step_def)
qed (auto simp add: node_step_def)

lemma node_after_observes:
  assumes "observes m" "m os tr = (r, es)"
  shows "node_after w p n es = n"
proof -
  have "\<forall>e \<in> set es. readonly (fst e)" by (rule emits_events[OF assms(1)[unfolded observes_def] assms(2)])
  then show ?thesis by (induction es) (auto simp: node_step_readonly)
qed

lemma observes_params: "observes (init_device_file_parameters p)"
  unfolding observes_def init_device_file_parameters_def
  by (intro emits_intros observes_slurp[unfolded observes_def])

lemma test_file_state: "nvidia_test_file_state s v \<longleftrightarrow> bit s (state_bit v)"
  unfolding nvidia_test_file_state_def push_bit_of_1 by (simp add: and_exp_eq_0_iff_not_bit)

lemma update_file_state: "bit (nvidia_update_file_state v s) n \<longleftrightarrow> bit s n \<or> n = state_bit v"
proof -
  have "state_bit v < 32" by (cases v) simp_all
  then show ?thesis
    unfolding nvidia_update_file_state_def push_bit_of_1 by (auto simp: bit_or_iff bit_exp_iff possible_bit_def)
qed

lemma file_state_run:
  assumes "get_file_state_helper path maj mn d os tr = (state, es)" "tells os path n"
  shows "nvidia_test_file_state state NvDeviceFileStateFileExists \<longleftrightarrow> n \<noteq> None"
    "nvidia_test_file_state state NvDeviceFileStateChrDevOk \<longleftrightarrow>
       (\<exists>m o'. n = Some (m, NV_MAKE_DEVICE maj mn, o') \<and> S_ISCHR m)"
    "nvidia_test_file_state state NvDeviceFileStatePermissionsOk \<longleftrightarrow>
       (\<exists>m dev. n = Some (m, dev, file_uid d, file_gid d) \<and> m AND NV_DEVICE_FILE_MODE_MASK = file_perm d)"
    "node_after w path k es = k"
  using assms spec[OF assms(2)[unfolded tells_def], of tr]
  unfolding get_file_state_helper_def
  by (auto simp: run_simps test_file_state update_file_state node_step_def Let_def split: sum.splits if_splits)

lemma chmod_bits:
  fixes p m :: uint32
  shows "((m AND S_IFMT) OR (p AND 4095)) AND S_IFMT = m AND S_IFMT"
    "((m AND S_IFMT) OR (p AND 4095)) AND NV_DEVICE_FILE_MODE_MASK = p AND NV_DEVICE_FILE_MODE_MASK"
  by (simp_all add: and.assoc bit.conj_disj_distrib2 )

lemma own_node_run:
  assumes "own_node d path made os tr = (True, es)"
  shows "node_after owner path (Some (m, dev, o1)) es =
    Some ((m AND S_IFMT) OR (file_perm d AND 4095), dev, file_uid d, file_gid d)"
  using assms unfolding own_node_def
  by (cases "os_unit os tr (C_chmod path (file_perm d))";
      cases "os_unit os (tr @ [(C_chmod path (file_perm d), Done)]) (C_chown path (file_uid d) (file_gid d))")
     (auto simp: eval_simps node_step_def split: prod.splits)

lemma own_node_device:
  assumes "own_node d path made os tr = (True, es)" "S_ISCHR m"
  shows "device_node d dev (node_after owner path (Some (m, dev, o1)) es)"
  unfolding own_node_run[OF assms(1)] device_node_def
proof (intro exI conjI)
  show "S_ISCHR ((m AND S_IFMT) OR (file_perm d AND 4095))" using assms(2) unfolding S_ISCHR_def chmod_bits .
  show "((m AND S_IFMT) OR (file_perm d AND 4095)) AND NV_DEVICE_FILE_MODE_MASK =
    file_perm d AND NV_DEVICE_FILE_MODE_MASK" by (rule chmod_bits)
qed simp

lemma make_node_run:
  assumes "make_node d path dev state os tr = (True, es)" "file_perm d AND S_IFMT = 0"
    and ex: "nvidia_test_file_state state NvDeviceFileStateFileExists \<longleftrightarrow> n \<noteq> None"
    and chr: "nvidia_test_file_state state NvDeviceFileStateChrDevOk \<longleftrightarrow> (\<exists>m o1. n = Some (m, dev, o1) \<and> S_ISCHR m)"
  shows "device_node d dev (node_after owner path n es)"
proof -
  have "S_ISCHR (S_IFCHR OR file_perm d)"
    using assms(2) by (simp add: S_ISCHR_def bit.conj_disj_distrib2)
  note made = own_node_device[OF _ this]
  consider "n = None" | m o1 where "n = Some (m, dev, o1)" "S_ISCHR m"
    | "n \<noteq> None" "\<not> nvidia_test_file_state state NvDeviceFileStateChrDevOk"
    using chr by blast
  then show ?thesis
  proof cases
    case 1
    with assms(1) ex show ?thesis unfolding make_node_def
      by (cases "os_unit os tr (C_mknod path (S_IFCHR OR file_perm d) dev)")
         (auto simp: eval_simps node_step_def intro: made split: prod.splits)
  next
    case 2
    with assms(1) ex chr show ?thesis unfolding make_node_def
      by (auto simp: eval_simps intro: own_node_device)
  next
    case 3
    with assms(1) ex show ?thesis unfolding make_node_def
      by (cases "os_unit os tr (C_remove path)";
          cases "os_unit os (tr @ [(C_remove path, Done)]) (C_mknod path (S_IFCHR OR file_perm d) dev)")
         (auto simp: eval_simps node_step_def intro: made split: prod.splits)
  qed
qed

lemma mknod_run:
  assumes "mknod_helper maj mn path proc_path os tr = (True, es)" "tells os path n"
    and "d = fst (init_device_file_parameters proc_path os tr)" "file_modify d = 1" "file_perm d AND S_IFMT = 0"
  shows "device_node d (NV_MAKE_DEVICE maj mn) (node_after owner path n es)"
proof -
  obtain es1 where r1: "init_device_file_parameters proc_path os tr = (d, es1)"
    using assms(3) by (metis prod.collapse)
  note q = node_after_observes[OF observes_params r1]
  from assms(1,4) r1 obtain state es2 es3 where r2: "get_file_state_helper path maj mn d os (tr @ es1) = (state, es2)"
    and es: "es = es1 @ es2 @ es3"
    and r3: "(if nvidia_test_file_state state NvDeviceFileStateFileExists \<and>
         nvidia_test_file_state state NvDeviceFileStateChrDevOk \<and>
         nvidia_test_file_state state NvDeviceFileStatePermissionsOk then ret True
      else make_node d path (NV_MAKE_DEVICE maj mn) state) os (tr @ es1 @ es2) = (True, es3)"
    unfolding mknod_helper_def by (cases "path = []") (simp, simp add: bindS_eq, metis)
  note st = file_state_run[OF r2 assms(2)]
  show ?thesis
  proof (cases "nvidia_test_file_state state NvDeviceFileStateFileExists \<and>
         nvidia_test_file_state state NvDeviceFileStateChrDevOk \<and>
         nvidia_test_file_state state NvDeviceFileStatePermissionsOk")
    case True
    then have "es3 = []" using r3 by simp
    then show ?thesis using True unfolding es st by (auto simp: q st device_node_def) (metis and.assoc and.idem)
  next
    case False
    with r3 make_node_run[OF _ assms(5) st(1,2)] show ?thesis unfolding es by (simp add: q st(4))
  qed
qed

text \<open>A line of /proc/modules: the name, a blank and the rest.\<close>

definition module_line :: "string \<times> string \<Rightarrow> string" where
  "module_line = (\<lambda>(name, rest). name @ CHR '' '' # rest @ [CHR 0x0A])"

definition module_entry :: "string \<times> string \<Rightarrow> bool" where
  "module_entry = (\<lambda>(name, rest). name \<noteq> [] \<and> (\<forall>c \<in> set name. \<not> isspace c \<and> ord c \<noteq> 0) \<and> CHR 0x0A \<notin> set rest)"

lemma blank_space: "isspace CHR '' ''" "isspace CHR 0x0A"
  by (simp_all add: isspace_def ord_def)

lemma scan_module_line:
  assumes "module_entry (name, rest)" "s = [] \<or> \<not> isspace (hd s)"
  shows "scan_module (module_line (name, rest) @ s) = Some (take 15 name, s)"
proof -
  have n: "name \<noteq> []" "\<forall>c \<in> set name. \<not> isspace c" "CHR 0x0A \<notin> set rest" "CHR 0x0A \<notin> set name"
    using assms(1) blank_space by (auto simp: module_entry_def)
  have d: "dropWhile isspace (module_line (name, rest) @ s) = module_line (name, rest) @ s"
    using n(1,2) by (cases name) (auto simp: module_line_def)
  have t: "takeWhile (\<lambda>c. \<not> isspace c) (module_line (name, rest) @ s) = name"
    using n(2) by (auto simp: module_line_def takeWhile_append blank_space)
  have r: "drop (length (take 15 name)) (module_line (name, rest) @ s) = drop 15 name @ CHR '' '' # rest @ CHR 0x0A # s"
    by (auto simp: module_line_def min_def)
  have q: "CHR 0x0A \<notin> set (drop 15 name @ CHR '' '' # rest)"
    using n(3,4) by (auto dest: in_set_dropD)
  have "dropWhile (\<lambda>c. c \<noteq> CHR 0x0A) (drop 15 name @ CHR '' '' # rest @ CHR 0x0A # s) = CHR 0x0A # s"
    using q by (subst append_Cons[symmetric], subst append_assoc[symmetric], subst dropWhile_append2) auto
  moreover have "dropWhile isspace (CHR 0x0A # s) = s"
    using assms(2) by (cases s) (auto simp: blank_space)
  ultimately show ?thesis
    using n(1) unfolding scan_module_def Let_def d t r by simp
qed

text \<open>On the lines of /proc/modules the search finds a module exactly when the name of some line,
  cut after 15 characters, is the given name up to the difference of dash and underscore.\<close>

theorem module_listed_lines:
  assumes "list_all module_entry es" "list_all (\<lambda>c. ord c \<noteq> 0) nv"
  shows "module_listed nv (concat (map module_line es)) \<longleftrightarrow>
    (\<exists>(name, rest) \<in> set es. map module_char (take 15 name) = map module_char nv)"
  using assms
proof (induction es)
  case Nil
  show ?case by (simp add: module_listed.simps scan_module_def)
next
  case (Cons e es)
  obtain name rest where e: "e = (name, rest)" by fastforce
  have h: "concat (map module_line es) = [] \<or> \<not> isspace (hd (concat (map module_line es)))"
    using Cons.prems(1) by (cases es) (auto simp: module_entry_def module_line_def split: prod.splits)
  have z: "list_all (\<lambda>c. ord c \<noteq> 0) (take 15 name)"
    using Cons.prems(1) by (auto simp: e module_entry_def list_all_iff dest: in_set_takeD)
  from Cons h show ?case
    by (subst module_listed.simps) (simp add: e scan_module_line modcmp_zero[OF z])
qed

text \<open>C17: when mknod_helper succeeds and the parameters allow it to modify device files, the path is
  left as a character device with the requested number, owner and permissions, whatever was there
  before; the environment must answer stat with what is there.\<close>

theorem mknod_makes_device:
  assumes "mknod_helper maj mn path proc_path os tr = (True, es)" "tells os path n"
    and "d = fst (init_device_file_parameters proc_path os tr)" "file_modify d = 1" "file_perm d AND S_IFMT = 0"
  shows "device_node d (NV_MAKE_DEVICE maj mn) (node_after owner path n es)"
  by (rule mknod_run[OF assms])

definition no_files :: os where
  "no_files = calm\<lparr>os_stat := (\<lambda>tr c. Inl ENOENT)\<rparr>"

theorem mknod_makes_device_witness:
  "\<exists>es. mknod_helper 195 0 ''/dev/nvidia0'' [] no_files [] = (True, es) \<and>
     device_node default_device_file (NV_MAKE_DEVICE 195 0) (node_after (0, 0) ''/dev/nvidia0'' None es)"
proof -
  have p: "init_device_file_parameters [] no_files [] = (default_device_file, [])"
    by (simp add: init_device_file_parameters_def)
  have "fst (mknod_helper 195 0 ''/dev/nvidia0'' [] no_files []) = True"
    by (simp add: mknod_helper_def init_device_file_parameters_def get_file_state_helper_def make_node_def own_node_def
        test_file_state no_files_def eval_simps default_device_file_def)
  then obtain es where r: "mknod_helper 195 0 ''/dev/nvidia0'' [] no_files [] = (True, es)" by (metis prod.collapse)
  have "tells no_files ''/dev/nvidia0'' None" by (simp add: tells_def no_files_def)
  from mknod_makes_device[OF r this, of default_device_file "(0, 0)"] r p show ?thesis
    by (auto simp: default_device_file_def)
qed

theorem module_listed_lines_witness:
  "module_listed ''nvidia-uvm'' (concat (map module_line [(''ext4'', ''1''), (''nvidia_uvm'', ''2'')]))"
  using module_listed_lines[of "[(''ext4'', ''1''), (''nvidia_uvm'', ''2'')]" "''nvidia-uvm''"]
  by (simp add: module_entry_def module_char_def isspace_def ord_def)

theorem make_device_agrees_witness:
  "NV_MAKE_DEVICE 195 300 = makedev 195 300"
  using make_device_agrees[of 195 300] by simp

end
