(* ===== verification/Libraries.thy ===== *)
theory Libraries
  imports Options Modprobe
begin

text \<open>
  nvc_info.c, the tables of file names of the driver and the tests on them,
  and the lookup of a capability device.
\<close>

subsection \<open>File names\<close>

definition utility_bins :: "string list" where
  "utility_bins = [''xdxsmi'']"

definition utility_libs :: "string list" where
  "utility_libs = [''libxdxgpu-ml.so'', ''libpciaccess.so'', ''libva.so'', ''libva-drm.so'', ''libdrm.so'']"

definition compute_libs :: "string list" where
  "compute_libs = [''libCL_xdxgpu.so'', ''libdrm.so'']"

definition video_libs :: "string list" where
  "video_libs = [''libva.so'', ''libva-x11.so'', ''xdxgpu_dri.so'', ''xdxgpu_drv_video.so'',
     ''xdxgpu_drv_video_a0.so'', ''xdxgpu_drv_video_b0.so'']"

definition graphics_libs :: "string list" where
  "graphics_libs = [''libEGL_mesa.so'', ''libEGL.so'', ''libglapi.so'', ''libGLdispatch.so'',
     ''libGLESv1_CM.so'', ''libGLESv1_CM_xdxgpu.so'', ''libGLESv2.so'', ''libGLESv2_xdxgpu.so'',
     ''libGL.so'', ''libGL_xdxgpu.so'', ''libGLX_mesa.so'', ''libGLX.so'', ''libOpenGL.so'',
     ''libusc_xdxgpu.so'', ''libufgen_xdxgpu.so'', ''libgsl_xdxgpu.so'', ''libdri_xdxgpu.so'',
     ''libdrm_xdxgpu.so'', ''libxdxgpu_mesa_wsi.so'', ''libvlk_xdxgpu.so'', ''xdxgpu_dri.so'']"

definition dxcore_libs :: "string list" where
  "dxcore_libs = [''libdxcore.so'']"

definition match_binary_flags :: "string \<Rightarrow> int32 \<Rightarrow> bool" where
  "match_binary_flags bin flags \<longleftrightarrow>
     flag_set flags OPT_UTILITY_BINS \<and> str_array_match_prefix bin utility_bins"

definition match_library_flags :: "string \<Rightarrow> int32 \<Rightarrow> bool" where
  "match_library_flags lib flags \<longleftrightarrow>
     (if str_array_match_prefix lib dxcore_libs then True
      else if flag_set flags OPT_UTILITY_LIBS \<and> str_array_match_prefix lib utility_libs then True
      else if flag_set flags OPT_COMPUTE_LIBS \<and> str_array_match_prefix lib compute_libs then True
      else if flag_set flags OPT_VIDEO_LIBS \<and> str_array_match_prefix lib video_libs then True
      else if flag_set flags OPT_GRAPHICS_LIBS \<and> str_array_match_prefix lib graphics_libs then True
      else False)"

definition driver_files :: "string list" where
  "driver_files = utility_bins @ dxcore_libs @ utility_libs @ compute_libs @ video_libs @ graphics_libs"

text \<open>A name that is mounted begins with one of the table entries, so it is a real component.\<close>

lemma matched_prefix:
  "match_binary_flags f fl \<or> match_library_flags f fl \<Longrightarrow> \<exists>k \<in> set driver_files. prefix k f"
  by (auto simp: match_binary_flags_def match_library_flags_def driver_files_def
      str_array_match_prefix_iff split: if_splits)

lemma driver_files_start:
  "\<forall>k \<in> set driver_files. take 1 k = ''l'' \<or> take 1 k = ''x''"
  by (simp add: driver_files_def utility_bins_def dxcore_libs_def utility_libs_def compute_libs_def
      video_libs_def graphics_libs_def)

lemma matched_good_comp:
  assumes "match_binary_flags f fl \<or> match_library_flags f fl" "CHR ''/'' \<notin> set f"
  shows "good_comp f"
proof -
  from matched_prefix[OF assms(1)] driver_files_start obtain k where
    "prefix k f" "take 1 k = ''l'' \<or> take 1 k = ''x''" by blast
  then have "take 1 f = ''l'' \<or> take 1 f = ''x''"
    by (cases k) (auto simp: prefix_def)
  with assms(2) show ?thesis by (cases f) (auto simp: good_comp_def)
qed

subsection \<open>Capability devices\<close>

abbreviation (input) "NV_PROC_DRIVER \<equiv> ''/proc/driver/nvidia''"
abbreviation (input) "NV_PROC_DRIVER_CAPS \<equiv> ''/proc/driver/nvidia/capabilities''"

text \<open>The major number of the capability devices, or -1.\<close>

definition chardev_major :: "int io" where
  "chardev_major = nvidia_get_chardev_major NV_CAPS_MODULE_NAME"

datatype nvcaps_style = NVC_NVCAPS_STYLE_NONE | NVC_NVCAPS_STYLE_PROC | NVC_NVCAPS_STYLE_DEV

text \<open>file_exists answers 0 for a file that does not exist, which the test accepts.\<close>

definition nvc_nvcaps_style :: "nvcaps_style io" where
  "nvc_nvcaps_style =
     bindS chardev_major (\<lambda>m.
     if m \<ge> 0 then ret NVC_NVCAPS_STYLE_DEV
     else bindS (file_exists NV_PROC_DRIVER_CAPS) (\<lambda>r. ret (case r of
       Inl _ \<Rightarrow> NVC_NVCAPS_STYLE_NONE | Inr _ \<Rightarrow> NVC_NVCAPS_STYLE_PROC)))"

text \<open>The node of the device a capability file names.\<close>

definition nvc_nvcaps_device_from_proc_path :: "path \<Rightarrow> path \<Rightarrow> nvc_device_node ioE" where
  "nvc_nvcaps_device_from_proc_path root cap_path =
     bindE (path_join root cap_path) (\<lambda>abs_cap_path.
     bindS (nvidia_cap_get_device_file_attrs abs_cap_path 0) (\<lambda>(name, maj, mn). case name of
       None \<Rightarrow> bindS get_errno (\<lambda>e. fail_errno e (''unable to get cap device attributes: '' @ cap_path))
     | Some dev_name \<Rightarrow>
         bindE (xstrdup dev_name) (\<lambda>p.
           okay \<lparr>node_path = p, node_id = makedev (word_of_int maj) (word_of_int mn)\<rparr>)))"

end
