(* ===== verification/Mount.thy ===== *)
theory Mount
  imports Container Libraries
begin

text \<open>
  nvc_mount.c, the primitives: each bind mounts one thing of the driver below
  the root of the container and answers the mount point.  A buffer that a
  failing path_resolve_full may have left half written is taken to be empty.
\<close>

unbundle bit_operations_syntax

subsection \<open>Mount flags\<close>

abbreviation (input) MS_RDONLY :: uint64 where "MS_RDONLY \<equiv> 1"
abbreviation (input) MS_NOSUID :: uint64 where "MS_NOSUID \<equiv> 2"
abbreviation (input) MS_NODEV :: uint64 where "MS_NODEV \<equiv> 4"
abbreviation (input) MS_NOEXEC :: uint64 where "MS_NOEXEC \<equiv> 8"
abbreviation (input) MS_REMOUNT :: uint64 where "MS_REMOUNT \<equiv> 32"
abbreviation (input) MS_BIND :: uint64 where "MS_BIND \<equiv> 4096"
abbreviation (input) MNT_DETACH :: nat where "MNT_DETACH \<equiv> 2"
abbreviation (input) CLONE_NEWNS :: nat where "CLONE_NEWNS \<equiv> 131072"

subsection \<open>Mounting and unmounting\<close>

definition unmount :: "path option \<Rightarrow> unit io" where
  "unmount p =
     (case p of
        None \<Rightarrow> ret ()
      | Some path \<Rightarrow>
          if str_empty (Some path) then ret ()
          else bindS (call_void (C_umount2 path MNT_DETACH)) (\<lambda>_.
               bindS (file_remove path) (\<lambda>_. ret ())))"

fun unmount_all :: "path list \<Rightarrow> unit io" where
  "unmount_all [] = ret ()"
| "unmount_all (p # ps) = bindS (unmount (Some p)) (\<lambda>_. unmount_all ps)"

text \<open>Cleanup on failure, which a process that has crashed does not do.\<close>

definition onerror :: "'a ioE \<Rightarrow> 'b io \<Rightarrow> 'a ioE" where
  "onerror m clean = bindS m (\<lambda>r. case r of
     Inl e \<Rightarrow> if e = null_deref then ret (Inl e) else bindS clean (\<lambda>_. ret (Inl e))
   | Inr x \<Rightarrow> ret (Inr x))"

text \<open>The sequence all primitives end with: bind, remount with the final flags, copy the path.\<close>

definition bind_mount :: "path \<Rightarrow> path \<Rightarrow> uint64 \<Rightarrow> path ioE" where
  "bind_mount src dst mountflags =
     bindE (xmount (Some src) dst None MS_BIND None) (\<lambda>_.
     bindE (xmount None dst None (MS_BIND OR MS_REMOUNT OR mountflags) None) (\<lambda>_.
       xstrdup dst))"

definition create_mountpoint :: "nvc_container \<Rightarrow> path \<Rightarrow> path \<Rightarrow> unit ioE" where
  "create_mountpoint cnt src dst =
     bindE (file_mode src) (\<lambda>mode. file_create dst None (cnt_uid cnt) (cnt_gid cnt) mode)"

text \<open>
  mount_with_flags unmounts its variable \<open>mnt\<close> on failure, which only the last
  statement assigns: \<open>junk\<close> is what the variable holds until then.
\<close>

definition mount_with_flags ::
  "path option \<Rightarrow> path \<Rightarrow> path \<Rightarrow> uint32 \<Rightarrow> uint32 \<Rightarrow> uint64 \<Rightarrow> path ioE" where
  "mount_with_flags junk src dst uid gid mountflags =
     bindE (onfail
       (bindE (file_mode src) (\<lambda>mode.
        bindE (file_create dst None uid gid mode) (\<lambda>_.
        bindE (xmount (Some src) dst None MS_BIND None) (\<lambda>_.
          xmount None dst None (MS_BIND OR MS_REMOUNT OR mountflags) None))))
       (unmount junk)) (\<lambda>_.
     onfail (xstrdup dst) (unmount None))"

definition mount_directory :: "path option \<Rightarrow> path \<Rightarrow> nvc_container \<Rightarrow> path \<Rightarrow> path ioE" where
  "mount_directory junk root cnt dir =
     bindE (path_join root dir) (\<lambda>src.
     bindE (path_resolve_full (cnt_rootfs cnt) dir) (\<lambda>dst.
       mount_with_flags junk src dst (cnt_uid cnt) (cnt_gid cnt) (MS_NOSUID OR MS_NOEXEC)))"

definition mount_firmware :: "path option \<Rightarrow> path \<Rightarrow> nvc_container \<Rightarrow> path \<Rightarrow> path ioE" where
  "mount_firmware junk root cnt container_path =
     bindE (path_resolve_full root container_path) (\<lambda>src.
     bindE (path_join (cnt_rootfs cnt) container_path) (\<lambda>dst.
       mount_with_flags junk src dst (cnt_uid cnt) (cnt_gid cnt) (MS_RDONLY OR MS_NODEV OR MS_NOSUID)))"

text \<open>basename of the GNU C library.\<close>

definition basename :: "path \<Rightarrow> string" where
  "basename p = (case strrchr p CHR ''/'' of None \<Rightarrow> p | Some (_, b) \<Rightarrow> b)"

text \<open>
  mount_files: the paths mounted so far are unmounted when one fails; a bind
  mount whose remount or copy fails is not among them.
\<close>

definition mount_file :: "nvc_container \<Rightarrow> path \<Rightarrow> path \<Rightarrow> path \<Rightarrow> path ioE" where
  "mount_file cnt src dst p =
     bindE (path_append src p) (\<lambda>src.
     bindE (path_append dst (basename p)) (\<lambda>dst.
     bindE (create_mountpoint cnt src dst) (\<lambda>_.
       bind_mount src dst (MS_RDONLY OR MS_NODEV OR MS_NOSUID))))"

fun mount_files_loop :: "nvc_container \<Rightarrow> path \<Rightarrow> path \<Rightarrow> path list \<Rightarrow> path list \<Rightarrow> path list ioE" where
  "mount_files_loop cnt src dst mnt [] = okay mnt"
| "mount_files_loop cnt src dst mnt (p # ps) =
     (if \<not> match_binary_flags (basename p) (cnt_flags cnt) \<and> \<not> match_library_flags (basename p) (cnt_flags cnt)
      then mount_files_loop cnt src dst mnt ps
      else bindE (onfail (mount_file cnt src dst p) (unmount_all mnt)) (\<lambda>m.
             mount_files_loop cnt src dst (mnt @ [m]) ps))"

definition mount_files :: "path \<Rightarrow> nvc_container \<Rightarrow> path \<Rightarrow> path list \<Rightarrow> path list ioE" where
  "mount_files root cnt dir paths =
     bindE (path_new root) (\<lambda>src.
     bindE (path_resolve_full (cnt_rootfs cnt) dir) (\<lambda>dst.
     bindE (file_create dst None (cnt_uid cnt) (cnt_gid cnt) (MODE_DIR 493)) (\<lambda>_.
     bindE (array_new (length paths + 1)) (\<lambda>_.
       mount_files_loop cnt src dst [] paths))))"

definition mount_driverstore_file :: "nvc_container \<Rightarrow> path \<Rightarrow> path \<Rightarrow> path \<Rightarrow> path ioE" where
  "mount_driverstore_file cnt src dst f =
     bindE (path_append src f) (\<lambda>src.
     bindE (path_append dst (basename f)) (\<lambda>dst.
     bindE (file_create dst None (cnt_uid cnt) (cnt_gid cnt) (MODE_REG 365)) (\<lambda>_.
       bind_mount src dst (MS_RDONLY OR MS_NODEV OR MS_NOSUID))))"

fun mount_driverstore_loop :: "nvc_container \<Rightarrow> path \<Rightarrow> path \<Rightarrow> path list \<Rightarrow> path list \<Rightarrow> path list ioE" where
  "mount_driverstore_loop cnt src dst mnt [] = okay mnt"
| "mount_driverstore_loop cnt src dst mnt (f # fs) =
     bindE (onfail (mount_driverstore_file cnt src dst f) (unmount_all mnt)) (\<lambda>m.
       mount_driverstore_loop cnt src dst (mnt @ [m]) fs)"

definition mount_driverstore_files :: "path \<Rightarrow> nvc_container \<Rightarrow> path \<Rightarrow> string list \<Rightarrow> path list ioE" where
  "mount_driverstore_files root cnt driverStore files =
     bindE (path_join root driverStore) (\<lambda>src.
     bindE (path_resolve_full (cnt_rootfs cnt) driverStore) (\<lambda>dst.
     bindE (file_create dst None (cnt_uid cnt) (cnt_gid cnt) (MODE_DIR 493)) (\<lambda>_.
     bindE (array_new (length files + 1)) (\<lambda>_.
       mount_driverstore_loop cnt src dst [] files))))"

subsection \<open>Devices and single files\<close>

definition mount_device :: "path \<Rightarrow> nvc_container \<Rightarrow> nvc_device_node \<Rightarrow> path ioE" where
  "mount_device root cnt dev =
     bindE (path_join root (node_path dev)) (\<lambda>src.
     bindE (path_resolve_full (cnt_rootfs cnt) (node_path dev)) (\<lambda>dst.
     bindE (xstat src) (\<lambda>s.
     if st_rdev s \<noteq> node_id dev then failx (''invalid device node: '' @ src)
     else
     bindE (create_mountpoint cnt src dst) (\<lambda>_.
       onfail (bind_mount src dst (MS_RDONLY OR MS_NOSUID OR MS_NOEXEC)) (unmount (Some dst))))))"

definition mount_ipc :: "path \<Rightarrow> nvc_container \<Rightarrow> path \<Rightarrow> path ioE" where
  "mount_ipc root cnt ipc =
     bindE (path_join root ipc) (\<lambda>src.
     bindE (path_resolve_full (cnt_rootfs cnt) ipc) (\<lambda>dst.
     bindE (create_mountpoint cnt src dst) (\<lambda>_.
       onfail (bind_mount src dst (MS_NODEV OR MS_NOSUID OR MS_NOEXEC)) (unmount (Some dst)))))"

text \<open>mount_procfs_mig and mount_config_file also unmount when the mount point cannot be made.\<close>

definition mount_procfs_mig :: "path \<Rightarrow> nvc_container \<Rightarrow> path \<Rightarrow> path ioE" where
  "mount_procfs_mig root cnt caps_path =
     bindE (path_join root caps_path) (\<lambda>src.
     bindE (path_resolve_full (cnt_rootfs cnt) caps_path) (\<lambda>dst.
       onfail
         (bindE (create_mountpoint cnt src dst) (\<lambda>_.
            bind_mount src dst (MS_RDONLY OR MS_NODEV OR MS_NOSUID OR MS_NOEXEC)))
         (unmount (Some dst))))"

definition mount_config_file :: "path \<Rightarrow> nvc_container \<Rightarrow> path \<Rightarrow> path ioE" where
  "mount_config_file root cnt dir =
     bindE (path_join root dir) (\<lambda>src.
     bindE (path_resolve_full (cnt_rootfs cnt) dir) (\<lambda>dst.
       onfail
         (bindE (create_mountpoint cnt src dst) (\<lambda>_.
            bind_mount src dst (MS_RDONLY OR MS_NODEV OR MS_NOSUID)))
         (unmount (Some dst))))"

text \<open>mount_procfs_gpu tries the bus identifier and, when absent, the one without four leading digits.\<close>

definition procfs_gpu_at :: "path \<Rightarrow> nvc_container \<Rightarrow> string \<Rightarrow> (path \<times> path \<times> 32 word res) ioE" where
  "procfs_gpu_at root cnt busid =
     bindE (xasprintf (NV_PROC_DRIVER @ ''/gpus/'' @ busid)) (\<lambda>gpu.
     bindE (path_join root gpu) (\<lambda>src.
     bindE (path_resolve_full (cnt_rootfs cnt) gpu) (\<lambda>dst.
     bindS (file_mode src) (\<lambda>m. okay (src, dst, m)))))"

definition mount_procfs_gpu_at :: "nvc_container \<Rightarrow> path \<Rightarrow> path \<Rightarrow> 32 word \<Rightarrow> path ioE" where
  "mount_procfs_gpu_at cnt src dst mode =
     onfail
       (bindE (file_create dst None (cnt_uid cnt) (cnt_gid cnt) mode) (\<lambda>_.
          bind_mount src dst (MS_RDONLY OR MS_NODEV OR MS_NOSUID OR MS_NOEXEC)))
       (unmount (Some dst))"

definition mount_procfs_gpu :: "path \<Rightarrow> nvc_container \<Rightarrow> string \<Rightarrow> path ioE" where
  "mount_procfs_gpu root cnt busid =
     bindE (procfs_gpu_at root cnt busid) (\<lambda>(src, dst, m). case m of
       Inr mode \<Rightarrow> mount_procfs_gpu_at cnt src dst mode
     | Inl e \<Rightarrow>
         if err_code e \<noteq> int ENOENT then onfail (raise e) (unmount (Some dst))
         else
         bindE (procfs_gpu_at root cnt (drop 4 busid)) (\<lambda>(src, dst, m). case m of
           Inr mode \<Rightarrow> mount_procfs_gpu_at cnt src dst mode
         | Inl e \<Rightarrow> onfail (raise e) (unmount (Some dst))))"

subsection \<open>File systems in memory\<close>

abbreviation (input) "NV_APP_PROFILE_DIR \<equiv> ''/etc/nvidia/nvidia-application-profiles-rc.d''"

definition mount_app_profile :: "nvc_container \<Rightarrow> path ioE" where
  "mount_app_profile cnt =
     bindE (path_resolve_full (cnt_rootfs cnt) NV_APP_PROFILE_DIR) (\<lambda>path.
     bindE (file_create path None (cnt_uid cnt) (cnt_gid cnt) (MODE_DIR 365)) (\<lambda>_.
       onfail
         (bindE (xmount (Some ''tmpfs'') path (Some ''tmpfs'') 0 (Some ''mode=0555'')) (\<lambda>_.
          bindE (xmount None path None (MS_BIND OR MS_REMOUNT OR (MS_NODEV OR MS_NOSUID OR MS_NOEXEC)) None) (\<lambda>_.
            xstrdup path)))
         (unmount (Some path))))"

text \<open>
  The application profile names the visible devices in a bit mask.  The shift
  of the source is undefined for a minor number of 64 or more; \<open>push_bit\<close>
  then yields 0.  An empty profile ends the process: its text is a null pointer.
\<close>

definition profile_text :: "uint64 \<Rightarrow> string" where
  "profile_text m =
     ''{ \"profiles\": [{\"name\": \"_container_\", \"settings\": [\"EGLVisibleDGPUDevices\", 0x'' @ hex (unat m) @
     '']}], \"rules\": [{\"pattern\": [], \"profile\": \"_container_\"}]}''"

text \<open>strtoumax in base 16 at the text \<open>0x\<close>: a saturated value is refused.\<close>

definition profile_mask :: "string \<Rightarrow> uint64 option" where
  "profile_mask buf =
     (case strstr buf ''0x'' of
        None \<Rightarrow> None
      | Some (_, p) \<Rightarrow>
          let n = hex_val 0 (takeWhile isxdigit (drop 2 p))
          in if n \<ge> 2 ^ 64 - 1 then None else Some (word_of_nat n))"

definition update_app_profile :: "nvc_container \<Rightarrow> uint64 \<Rightarrow> unit ioE" where
  "update_app_profile cnt dev_id =
     (let dev = push_bit (unat (minor dev_id)) 1 in
      bindE (path_resolve_full (cnt_rootfs cnt) (NV_APP_PROFILE_DIR @ ''/10-container.conf'')) (\<lambda>path.
      bindS (file_read_text path) (\<lambda>r.
      bindE (case r of
               Inl e \<Rightarrow> if err_code e \<noteq> int ENOENT then raise e else xasprintf (profile_text dev)
             | Inr None \<Rightarrow> raise null_deref
             | Inr (Some buf) \<Rightarrow>
                 (case profile_mask buf of
                    None \<Rightarrow> failx (''invalid application profile: '' @ path)
                  | Some n \<Rightarrow> xasprintf (profile_text (n OR dev)))) (\<lambda>buf.
        file_create path (Some buf) (cnt_uid cnt) (cnt_gid cnt) (MODE_REG 365)))))"

text \<open>mount_procfs: copies of three files of the driver in a file system of their own.\<close>

definition hide_param :: "nat \<Rightarrow> string \<Rightarrow> string" where
  "hide_param i buf =
     (if i = 0 then
        (case strstr buf ''ModifyDeviceFiles: 1'' of
           None \<Rightarrow> buf
         | Some (a, b) \<Rightarrow> a @ take 19 b @ ''0'' @ drop 20 b)
      else buf)"

fun procfs_files :: "nvc_container \<Rightarrow> path \<Rightarrow> path \<Rightarrow> (nat \<times> string) list \<Rightarrow> unit ioE" where
  "procfs_files cnt src dst [] = okay ()"
| "procfs_files cnt src dst ((i, f) # fs) =
     bindE (path_append src f) (\<lambda>s.
     bindE (path_append dst f) (\<lambda>d.
     bindS (file_mode s) (\<lambda>m. case m of
       Inl e \<Rightarrow> if err_code e = int ENOENT then procfs_files cnt src dst fs else raise e
     | Inr mode \<Rightarrow>
         bindE (file_read_text s) (\<lambda>buf.
         if i = 0 \<and> buf = None then raise null_deref else
         bindE (file_create d (map_option (hide_param i) buf) (cnt_uid cnt) (cnt_gid cnt) mode) (\<lambda>_.
           procfs_files cnt src dst fs)))))"

definition mount_procfs :: "path \<Rightarrow> nvc_container \<Rightarrow> path ioE" where
  "mount_procfs root cnt =
     bindE (path_join root NV_PROC_DRIVER) (\<lambda>src.
     bindE (path_resolve_full (cnt_rootfs cnt) NV_PROC_DRIVER) (\<lambda>dst.
     bindE (xmount (Some ''tmpfs'') dst (Some ''tmpfs'') 0 (Some ''mode=0555'')) (\<lambda>_.
       onerror
         (bindE (procfs_files cnt src dst [(0, ''params''), (1, ''version''), (2, ''registry'')]) (\<lambda>_.
          bindE (xmount None dst None (MS_BIND OR MS_REMOUNT OR (MS_NODEV OR MS_NOSUID OR MS_NOEXEC)) None) (\<lambda>_.
            xstrdup dst)))
         (unmount (Some dst)))))"

end
