(* ===== verification/MountSpec.thy ===== *)
theory MountSpec
  imports Mount "HOL-Library.Multiset"
begin

text \<open>
  What the primitives of nvc_mount.c guarantee.  A monitor follows the mounts a
  run makes; the contract of a primitive that injects one thing is the locale
  \<open>mounter\<close>, interpreted for each of them, and lists of files have a contract
  of their own.
\<close>

unbundle bit_operations_syntax

subsection \<open>Watching the mounts\<close>

text \<open>
  The monitor holds the mount points made and not yet detached.  It rejects a
  mount, an unmount, a file or a symbolic link created at a path that does not
  lie below the root.
\<close>

definition mount_step :: "path \<Rightarrow> path multiset \<Rightarrow> event \<Rightarrow> path multiset option" where
  "mount_step root s = (\<lambda>(c, a). case c of
     NS (sc_mount src tgt fs fl dat) \<Rightarrow>
       if under root tgt then Some (if a = Done \<and> fl AND MS_REMOUNT = 0 then add_mset tgt s else s) else None
   | NS (sc_umount2 p fl) \<Rightarrow> if under root p then Some (s - {#p#}) else None
   | FS (sc_open_mode p fl m) \<Rightarrow> if under root p then Some s else None
   | DirOp (sc_symlink t p) \<Rightarrow> if under root p then Some s else None
   | _ \<Rightarrow> Some s)"

lemma mount_step_simps:
  "under root tgt \<Longrightarrow> mount_step root s (C_mount src tgt fs fl dat, Failed e) = Some s"
  "under root tgt \<Longrightarrow> mount_step root s (C_mount src tgt fs fl dat, Done) =
     Some (if fl AND MS_REMOUNT = 0 then add_mset tgt s else s)"
  "under root p \<Longrightarrow> mount_step root s (C_umount2 p n, a) = Some (s - {#p#})"
  "under root p \<Longrightarrow> mount_step root s (C_open_mode p n m, a) = Some s"
  "under root p \<Longrightarrow> mount_step root s (C_symlink t p, a) = Some s"
  "mount_step root s (C_mkdir p m, a) = Some s"
  "mount_step root s (C_unlink p, a) = Some s"
  "mount_step root s (C_rmdir p, a) = Some s"
  "mount_step root s (C_write fd d, a) = Some s"
  "mount_step root s (C_umask m, a) = Some s"
  "mount_step root s (C_setfsuid u, a) = Some s"
  "mount_step root s (C_setfsgid u, a) = Some s"
  "mount_step root s (Cap cc, a) = Some s"
  "mount_step root s (Proc pc, a) = Some s"
  "mount_step root s (C_setns fd n, a) = Some s"
  "mount_step root s (C_fprintf fd t, a) = Some s"
  by (simp_all add: mount_step_def)

lemma ignores_mount_step: "ignores (mount_step root)"
  unfolding ignores_def mount_step_def
  by (auto split: call.splits fs_call.splits dir_call.splits ns_call.splits)

text \<open>A fragment that leaves the mounts alone.\<close>

definition keeps_mounts :: "path \<Rightarrow> 'a io \<Rightarrow> bool" where
  "keeps_mounts root m \<longleftrightarrow> (\<forall>s. emits (\<lambda>e. mount_step root s e = Some s) m)"

lemma keeps_mounts_safe: "keeps_mounts root m \<Longrightarrow> (\<And>r. Q r s) \<Longrightarrow> safe (mount_step root) s m Q"
  unfolding keeps_mounts_def by (blast intro: safe_ignored)

lemma keeps_observes: "observes m \<Longrightarrow> keeps_mounts root m"
  unfolding keeps_mounts_def observes_def
  using ignores_mount_step by (auto elim!: emits_weaken simp: ignores_def)

lemma keeps_make_ancestors: "keeps_mounts root (make_ancestors p perm)"
proof (induction p perm rule: make_ancestors.induct)
  case (1 p perm)
  then show ?case
    unfolding keeps_mounts_def
    by (subst make_ancestors.simps)
       (auto intro!: emits_intros simp: mount_step_simps ignoresD[OF ignores_mount_step] split: option.splits)
qed

lemma keeps_set_fsugid: "keeps_mounts root (set_fsugid u g)"
  unfolding keeps_mounts_def set_fsugid_def
  by (auto intro!: emits_intros simp: mount_step_simps)

lemma keeps_create_node: "under root p \<Longrightarrow> keeps_mounts root (create_node p d perm mode)"
  unfolding keeps_mounts_def create_node_def
  by (auto intro!: emits_intros simp: mount_step_simps ignoresD[OF ignores_mount_step] split: option.splits)

lemma keeps_file_create: "under root p \<Longrightarrow> keeps_mounts root (file_create p d u g mode)"
  unfolding keeps_mounts_def file_create_def get_umask_def
  using keeps_create_node[of root p] keeps_make_ancestors[of root] keeps_set_fsugid[of root]
    observes_file(3)[THEN keeps_observes, of root]
  unfolding keeps_mounts_def
  by (auto intro!: emits_intros simp: mount_step_simps ignoresD[OF ignores_mount_step] split: option.splits)

lemma keeps_file_remove: "keeps_mounts root (file_remove p)"
proof -
  have "keeps_mounts root (nftw_walk fs)" for fs
    unfolding keeps_mounts_def
    by (induction fs)
       (auto intro!: emits_intros simp: do_file_remove_def mount_step_simps ignoresD[OF ignores_mount_step]
         split: prod.splits)
  then show ?thesis
    unfolding file_remove_def keeps_mounts_def
    by (auto intro!: emits_intros simp: ignoresD[OF ignores_mount_step])
qed

subsection \<open>Paths\<close>

lemma path_append_plain:
  assumes "f \<noteq> []" "hd f \<noteq> CHR ''/''" "path_append d f os tr = (Inr p, es)"
  shows "p = d @ (if d \<noteq> [] \<and> last d = CHR ''/'' then f else CHR ''/'' # f)"
  using assms(3) unfolding path_append_def str_empty_def Let_def
  by (cases "d \<noteq> [] \<and> last d = CHR ''/''") (auto simp: assms(1,2) split: if_split_asm)

text \<open>A path strictly below the root.\<close>

definition mounted :: "path \<Rightarrow> path \<Rightarrow> bool" where
  "mounted root p \<longleftrightarrow>
     (\<exists>cs f. p = below root (cs @ [f]) \<and> list_all good_comp (cs @ [f]) \<and> length p < PATH_MAX)"

lemma mounted_under: "mounted root p \<Longrightarrow> under root p"
  unfolding mounted_def under_def by blast

lemma under_append:
  assumes "under root d" "good_comp f" "path_append d f os tr = (Inr p, es)" "take 1 root = ''/''"
  shows "mounted root p"
proof -
  obtain cs where d: "d = below root cs" "list_all good_comp cs" "length d < PATH_MAX"
    using assms(1) by (auto simp: under_def)
  have f: "f \<noteq> []" "hd f \<noteq> CHR ''/''"
    using assms(2) by (cases f; auto simp: good_comp_def)+
  have "p = below root (cs @ [f])"
  proof (cases "cs = []")
    case True
    have "d = root"
      unfolding d(1) True below_def by simp
    moreover have "root \<noteq> []"
      using assms(4) by (cases root) auto
    ultimately have "p = root @ (if last root = CHR ''/'' then f else CHR ''/'' # f)"
      using path_append_plain[OF f assms(3)] by simp
    then show ?thesis
      unfolding True below_def by (cases "last root = CHR ''/''") simp_all
  next
    case False
    then obtain c cs' where cs: "cs = c # cs'" by (cases cs) auto
    have render: "render cs = CHR ''/'' # c @ render cs'"
      unfolding cs by simp
    have c: "c \<noteq> []"
      using d(2) unfolding cs by (simp add: good_comp_def)
    then have d': "d \<noteq> []" "last d = last (render cs)"
      unfolding d(1) below_def render by simp_all
    then have "last d \<noteq> CHR ''/''"
      using last_render[OF d(2) False] by simp
    then have "p = d @ CHR ''/'' # f"
      using path_append_plain[OF f assms(3)] by simp
    then show ?thesis
      unfolding d(1) below_def cs by simp
  qed
  moreover have "length p < PATH_MAX"
    using path_append_bound[OF assms(3) d(3)] .
  ultimately show ?thesis
    using d(2) assms(2) by (auto simp: mounted_def)
qed

lemma basename_no_slash: "CHR ''/'' \<notin> set (basename p)"
  by (auto simp: basename_def strrchr_None split: option.splits dest: strrchr_Some[THEN iffD1])

lemma under_nonempty: "take 1 root = ''/'' \<Longrightarrow> under root p \<Longrightarrow> p \<noteq> []"
  by (cases root) (auto simp: under_def below_def split: if_splits)

subsection \<open>The primitives\<close>

lemma remount_flag: "(MS_BIND OR MS_REMOUNT OR fl) AND MS_REMOUNT \<noteq> (0 :: uint64)"
proof
  assume "(MS_BIND OR MS_REMOUNT OR fl) AND MS_REMOUNT = 0"
  then have "\<not> bit ((MS_BIND OR MS_REMOUNT OR fl) AND MS_REMOUNT) 5" by simp
  then show False by (simp add: bit_simps)
qed

lemma safe_unmount:
  assumes "take 1 root = ''/''" "under root p" "Q () (s - {#p#})"
  shows "safe (mount_step root) s (unmount (Some p)) Q"
  using under_nonempty[OF assms(1,2)] assms(2,3)
  by (auto simp: unmount_def str_empty_def mount_step_simps
      intro!: safe_intros keeps_mounts_safe[OF keeps_file_remove])

lemma safe_xmount:
  assumes "under root tgt" "\<And>e. Q (Inl e) s"
    "Q (Inr ()) (if fl AND MS_REMOUNT = 0 then add_mset tgt s else s)"
  shows "safe (mount_step root) s (xmount src tgt fs fl dat) Q"
  unfolding xmount_def
  by (intro safe_intros) (use assms in \<open>auto simp: mount_step_simps answer_def split: sum.splits\<close>)

lemma safe_xstrdup: "(\<And>e. Q (Inl e) s) \<Longrightarrow> Q (Inr t) s \<Longrightarrow> safe (mount_step root) s (xstrdup t) Q"
  unfolding xstrdup_def
  by (auto intro!: safe_intros simp: ignoresD[OF ignores_mount_step] split: sum.splits)

lemma safe_bind_mount:
  assumes "under root dst" "\<And>e. Q (Inl e) s" "\<And>e. Q (Inl e) (add_mset dst s)" "Q (Inr dst) (add_mset dst s)"
  shows "safe (mount_step root) s (bind_mount src dst fl) Q"
  unfolding bind_mount_def
  by (intro safe_bindE safe_xmount) (use assms remount_flag[of fl] in \<open>auto intro!: safe_bindE safe_xmount safe_xstrdup\<close>)

text \<open>What a primitive does to the mounts: one more on success, none on failure, or at most one.\<close>

definition mounts_one :: "path \<Rightarrow> path multiset \<Rightarrow> path res \<Rightarrow> path multiset \<Rightarrow> bool" where
  "mounts_one root s r s' \<longleftrightarrow> (case r of Inl e \<Rightarrow> e = null_deref \<or> s' \<subseteq># s | Inr m \<Rightarrow> under root m \<and> s' = add_mset m s)"

definition mounts_many :: "path \<Rightarrow> path multiset \<Rightarrow> path list res \<Rightarrow> path multiset \<Rightarrow> bool" where
  "mounts_many root s r s' \<longleftrightarrow>
     (case r of Inl _ \<Rightarrow> \<exists>d. s' \<subseteq># add_mset d s
      | Inr ms \<Rightarrow> list_all (mounted root) ms \<and> s' = mset ms + s)"

lemma mounts_intros:
  "s' \<subseteq># s \<Longrightarrow> mounts_one root s (Inl e) s'" "under root m \<Longrightarrow> mounts_one root s (Inr m) (add_mset m s)"
  by (simp_all add: mounts_one_def)

text \<open>
  A failing mount leaves nothing behind, unless the process has crashed, and a mount that succeeds
  is the only new one.
\<close>

definition mounts_cleanly :: "path \<Rightarrow> path ioE \<Rightarrow> bool" where
  "mounts_cleanly root m \<longleftrightarrow> (\<forall>os tr. \<exists>s. accepts (mount_step root) {#} (snd (m os tr)) = Some s \<and>
     (case fst (m os tr) of Inl e \<Rightarrow> e = null_deref \<or> s = {#} | Inr p \<Rightarrow> under root p \<and> s = {#p#}))"

locale mounter =
  fixes mounting :: "nvc_container \<Rightarrow> 'a \<Rightarrow> path ioE"
  assumes mounts: "take 1 (cnt_rootfs cnt) = ''/'' \<Longrightarrow>
    safe (mount_step (cnt_rootfs cnt)) s (mounting cnt x) (mounts_one (cnt_rootfs cnt) s)"
begin

lemma clean:
  assumes "take 1 (cnt_rootfs cnt) = ''/''"
  shows "mounts_cleanly (cnt_rootfs cnt) (mounting cnt x)"
  unfolding mounts_cleanly_def
proof (intro allI)
  fix os tr
  obtain r es where r: "mounting cnt x os tr = (r, es)" by fastforce
  with safeD[OF mounts[OF assms, of "{#}"] r]
  show "\<exists>s. accepts (mount_step (cnt_rootfs cnt)) {#} (snd (mounting cnt x os tr)) = Some s \<and>
    (case fst (mounting cnt x os tr) of Inl e \<Rightarrow> e = null_deref \<or> s = {#} | Inr p \<Rightarrow> under (cnt_rootfs cnt) p \<and> s = {#p#})"
    by (auto simp: mounts_one_def split: sum.splits)
qed

end

lemmas observes_safe = safe_observes[OF ignores_mount_step]

lemma safe_create_mountpoint:
  "under root dst \<Longrightarrow> (\<And>r. Q r s) \<Longrightarrow> safe (mount_step root) s (create_mountpoint cnt src dst) Q"
  unfolding create_mountpoint_def
  by (intro safe_bindE observes_safe observes_file)
     (auto intro!: keeps_mounts_safe[OF keeps_file_create] split: sum.splits)

lemma safe_xstat_mount: "(\<And>r. Q r s) \<Longrightarrow> safe (mount_step root) s (xstat p) Q"
  by (rule observes_safe) (auto intro!: observesI emits_xstat)

lemma observes_path_join: "observes (path_join a b)"
  by (rule observesI, rule emits_path_join)

lemma safe_join_resolve:
  assumes "take 1 root = ''/''" "\<And>e. Q (Inl e) s"
    "\<And>src dst. under root dst \<Longrightarrow> safe (mount_step root) s (f src dst) Q"
  shows "safe (mount_step root) s (bindE (path_join r p) (\<lambda>src. bindE (path_resolve_full root q) (f src))) Q"
  by (intro safe_bindE observes_safe observes_path_join)
     (auto intro!: assms safe_bindE safe_path_resolve_full[OF ignores_mount_step assms(1)] split: sum.splits)

lemma safe_undo:
  assumes "take 1 root = ''/''" "under root dst"
    "safe (mount_step root) s m (\<lambda>r s'. case r of Inl _ \<Rightarrow> s' - {#dst#} \<subseteq># s | Inr p \<Rightarrow> mounts_one root s (Inr p) s')"
  shows "safe (mount_step root) s (onfail m (unmount (Some dst))) (mounts_one root s)"
  by (intro safe_onfail safe_conseq[OF assms(3)])
     (auto intro!: safe_unmount assms(1,2) mounts_intros split: sum.splits)

lemma safe_bind_undo:
  assumes "take 1 root = ''/''" "under root dst"
  shows "safe (mount_step root) s (onfail (bind_mount src dst fl) (unmount (Some dst))) (mounts_one root s)"
  by (intro safe_undo assms safe_bind_mount) (auto simp: mounts_one_def assms(2) diff_subset_eq_self)

interpretation device: mounter "\<lambda>cnt (root, dev). mount_device root cnt dev"
proof unfold_locales
  fix cnt :: nvc_container and s and x :: "path \<times> nvc_device_node"
  assume "take 1 (cnt_rootfs cnt) = ''/''"
  then show "safe (mount_step (cnt_rootfs cnt)) s ((\<lambda>(root, dev). mount_device root cnt dev) x) (mounts_one (cnt_rootfs cnt) s)"
    unfolding mount_device_def split_beta
    by (intro safe_join_resolve) (auto intro!: mounts_intros safe_bindE safe_xstat_mount safe_bind_undo safe_if safe_failx
       safe_create_mountpoint split: sum.splits)
qed

interpretation ipc: mounter "\<lambda>cnt (root, p). mount_ipc root cnt p"
proof unfold_locales
  fix cnt :: nvc_container and s and x :: "path \<times> path"
  assume "take 1 (cnt_rootfs cnt) = ''/''"
  then show "safe (mount_step (cnt_rootfs cnt)) s ((\<lambda>(root, p). mount_ipc root cnt p) x) (mounts_one (cnt_rootfs cnt) s)"
    unfolding mount_ipc_def split_beta
    by (intro safe_join_resolve) (auto intro!: mounts_intros safe_bindE safe_bind_undo safe_create_mountpoint split: sum.splits)
qed

lemma safe_point_undo:
  assumes "take 1 root = ''/''" "under root dst"
  shows "safe (mount_step root) s
    (onfail (bindE (create_mountpoint cnt src dst) (\<lambda>_. bind_mount src dst fl)) (unmount (Some dst))) (mounts_one root s)"
  by (intro safe_undo assms safe_bindE safe_create_mountpoint)
     (auto intro!: safe_bind_mount simp: mounts_one_def assms(2) diff_subset_eq_self split: sum.splits)

interpretation procfs_mig: mounter "\<lambda>cnt (root, p). mount_procfs_mig root cnt p"
proof unfold_locales
  fix cnt :: nvc_container and s and x :: "path \<times> path"
  assume "take 1 (cnt_rootfs cnt) = ''/''"
  then show "safe (mount_step (cnt_rootfs cnt)) s ((\<lambda>(root, p). mount_procfs_mig root cnt p) x) (mounts_one (cnt_rootfs cnt) s)"
    unfolding mount_procfs_mig_def split_beta
    by (intro safe_join_resolve safe_point_undo) (auto intro!: mounts_intros)
qed

interpretation config_file: mounter "\<lambda>cnt (root, p). mount_config_file root cnt p"
proof unfold_locales
  fix cnt :: nvc_container and s and x :: "path \<times> path"
  assume "take 1 (cnt_rootfs cnt) = ''/''"
  then show "safe (mount_step (cnt_rootfs cnt)) s ((\<lambda>(root, p). mount_config_file root cnt p) x) (mounts_one (cnt_rootfs cnt) s)"
    unfolding mount_config_file_def split_beta
    by (intro safe_join_resolve safe_point_undo) (auto intro!: mounts_intros)
qed

lemma safe_xasprintf_mount: "(\<And>e. Q (Inl e) s) \<Longrightarrow> Q (Inr t) s \<Longrightarrow> safe (mount_step root) s (xasprintf t) Q"
  unfolding xasprintf_def
  by (auto intro!: safe_intros simp: ignoresD[OF ignores_mount_step] split: sum.splits)

lemma safe_procfs_gpu_at:
  assumes "take 1 (cnt_rootfs cnt) = ''/''" "\<And>e. Q (Inl e) s" "\<And>src dst m. under (cnt_rootfs cnt) dst \<Longrightarrow> Q (Inr (src, dst, m)) s"
  shows "safe (mount_step (cnt_rootfs cnt)) s (procfs_gpu_at root cnt busid) Q"
  unfolding procfs_gpu_at_def
proof (rule safe_bindE, rule safe_xasprintf_mount)
  show "case Inr (NV_PROC_DRIVER @ ''/gpus/'' @ busid) of Inl e \<Rightarrow> Q (Inl e) s
    | Inr gpu \<Rightarrow> safe (mount_step (cnt_rootfs cnt)) s (bindE (path_join root gpu) (\<lambda>src.
        bindE (path_resolve_full (cnt_rootfs cnt) gpu) (\<lambda>dst.
          bindS (file_mode src) (\<lambda>m. okay (src, dst, m))))) Q"
    unfolding sum.case
    by (intro safe_join_resolve assms safe_bindS safe_okay observes_safe observes_file)
qed (simp add: assms(2))

lemma safe_procfs_gpu_mount:
  assumes "take 1 (cnt_rootfs cnt) = ''/''" "under (cnt_rootfs cnt) dst"
  shows "safe (mount_step (cnt_rootfs cnt)) s (mount_procfs_gpu_at cnt src dst mode) (mounts_one (cnt_rootfs cnt) s)"
  unfolding mount_procfs_gpu_at_def
  by (intro safe_undo assms safe_bindE keeps_mounts_safe[OF keeps_file_create])
     (auto intro!: safe_bind_mount simp: mounts_one_def assms(2) diff_subset_eq_self split: sum.splits)

interpretation procfs_gpu: mounter "\<lambda>cnt (root, busid). mount_procfs_gpu root cnt busid"
proof unfold_locales
  fix cnt :: nvc_container and s and x :: "path \<times> string"
  assume "take 1 (cnt_rootfs cnt) = ''/''"
  then show "safe (mount_step (cnt_rootfs cnt)) s ((\<lambda>(root, p). mount_procfs_gpu root cnt p) x) (mounts_one (cnt_rootfs cnt) s)"
    unfolding mount_procfs_gpu_def split_beta
    by (auto intro!: safe_bindE safe_procfs_gpu_at safe_procfs_gpu_mount mounts_intros safe_undo safe_raise safe_if
       simp: diff_subset_eq_self split: sum.splits)
qed

subsection \<open>File systems in memory\<close>

lemma safe_tmpfs:
  assumes "under root p" "\<And>e. Q (Inl e) s" "Q (Inr ()) (add_mset p s)"
  shows "safe (mount_step root) s (xmount (Some ''tmpfs'') p (Some ''tmpfs'') 0 (Some ''mode=0555'')) Q"
  by (intro safe_xmount assms(1,2)) (simp add: assms(3))

lemma safe_remount_copy:
  assumes "fl AND MS_REMOUNT \<noteq> 0" "under root p" "\<And>e. Q (Inl e) s" "Q (Inr p) s"
  shows "safe (mount_step root) s (bindE (xmount None p None fl None) (\<lambda>_. xstrdup p)) Q"
  by (intro safe_bindE safe_xmount assms(2)) (use assms in \<open>auto intro!: safe_xstrdup\<close>)

lemma safe_remount_undo:
  assumes "take 1 root = ''/''" "under root p" "fl AND MS_REMOUNT \<noteq> 0"
    and "\<And>Q. (\<And>e s'. s' \<subseteq># add_mset p s \<Longrightarrow> Q (Inl e) s') \<Longrightarrow> (\<And>x. Q (Inr x) (add_mset p s)) \<Longrightarrow>
      safe (mount_step root) t m Q"
  shows "safe (mount_step root) t
    (onfail (bindE m (\<lambda>_. bindE (xmount None p None fl None) (\<lambda>_. xstrdup p))) (unmount (Some p))) (mounts_one root s)"
proof (intro safe_onfail safe_bindE assms(4), goal_cases)
  case (1 e s')
  then show ?case
    by (auto intro!: safe_unmount assms(1,2) mounts_intros simp: subset_eq_diff_conv)
next
  case (2 x)
  then show ?case
    by (auto intro!: safe_remount_copy assms(1-3) safe_unmount mounts_intros)
qed

lemma safe_onerror:
  assumes "safe \<delta> s m (\<lambda>r s'. case r of
      Inl e \<Rightarrow> if e = null_deref then Q (Inl e) s' else safe \<delta> s' c (\<lambda>_. Q (Inl e))
    | Inr x \<Rightarrow> Q (Inr x) s')"
  shows "safe \<delta> s (onerror m c) Q"
  unfolding onerror_def
  by (intro safe_bindS safe_conseq[OF assms]) (auto intro!: safe_intros elim!: safe_conseq split: sum.splits if_splits)

lemma safe_onfail_onerror:
  assumes "safe \<delta> s (onfail m c) Q" "\<And>s'. Q (Inl null_deref) s'"
  shows "safe \<delta> s (onerror m c) Q"
  unfolding safe_def
proof (intro allI)
  fix os tr
  obtain r es where m: "m os tr = (r, es)" by fastforce
  show "\<exists>s'. accepts \<delta> s (snd (onerror m c os tr)) = Some s' \<and> Q (fst (onerror m c os tr)) s'"
  proof (cases "r = Inl null_deref")
    case True
    then have "snd (onfail m c os tr) = es @ snd (c os (tr @ es))" "onerror m c os tr = (r, es)"
      using m by (simp_all add: onfail_def onerror_def bindS_def split: prod.splits)
    with assms True show ?thesis
      by (auto simp: safe_def split: option.splits dest!: spec[of _ os] spec[of _ tr])
  next
    case False
    then have "onerror m c os tr = onfail m c os tr"
      using m by (auto simp: onfail_def onerror_def bindS_def split: sum.splits)
    then show ?thesis using assms(1) by (simp add: safe_def)
  qed
qed

interpretation app_profile: mounter "\<lambda>cnt (_ :: unit). mount_app_profile cnt"
proof unfold_locales
  fix cnt :: nvc_container and s and x :: unit
  let ?root = "cnt_rootfs cnt"
  assume root: "take 1 ?root = ''/''"
  show "safe (mount_step ?root) s (mount_app_profile cnt) (mounts_one ?root s)"
    unfolding mount_app_profile_def
  proof (intro safe_bindE safe_path_resolve_full[OF ignores_mount_step root], goal_cases)
    case (1 e)
    then show ?case by (simp add: mounts_intros)
  next
    case (2 q)
    then show ?case
      unfolding sum.case
      by (intro safe_bindE keeps_mounts_safe[OF keeps_file_create])
         (auto intro!: safe_remount_undo root safe_tmpfs mounts_intros split: sum.splits)
  qed
qed

lemma safe_append_under:
  assumes "under root d" "good_comp f" "take 1 root = ''/''" "\<And>e. Q (Inl e) s"
    "\<And>p. mounted root p \<Longrightarrow> Q (Inr p) s"
  shows "safe (mount_step root) s (path_append d f) Q"
proof (rule safe_observes_result[OF ignores_mount_step], rule observesI, rule emits_path_append)
  fix r os tr es assume "path_append d f os tr = (r, es)"
  then show "Q r s"
    using under_append[OF assms(1,2) _ assms(3)] assms(4,5) by (cases r) auto
qed

lemma safe_procfs_files:
  assumes "under (cnt_rootfs cnt) dst" "take 1 (cnt_rootfs cnt) = ''/''" "list_all (\<lambda>(_, f). good_comp f) fs"
    "\<And>r. Q r s"
  shows "safe (mount_step (cnt_rootfs cnt)) s (procfs_files cnt src dst fs) Q"
  using assms(3)
proof (induction fs)
  case Nil
  show ?case unfolding procfs_files.simps by (rule safe_okay) (rule assms(4))
next
  case (Cons x fs)
  obtain i f where x: "x = (i, f)" by fastforce
  have rest: "safe (mount_step (cnt_rootfs cnt)) s (procfs_files cnt src dst fs) Q"
    using Cons by simp
  have f: "good_comp f" using Cons.prems x by simp
  show ?case
    unfolding x procfs_files.simps
    by (intro safe_bindE observes_safe observesI[OF emits_path_append] safe_append_under)
       (auto intro!: safe_bindE safe_append_under assms f safe_bindS observes_file[THEN observes_safe] rest safe_if safe_raise
         keeps_mounts_safe[OF keeps_file_create] mounted_under split: sum.splits)
qed

interpretation procfs: mounter "\<lambda>cnt root. mount_procfs root cnt"
proof unfold_locales
  fix cnt :: nvc_container and s and x :: path
  let ?root = "cnt_rootfs cnt"
  assume root: "take 1 ?root = ''/''"
  show "safe (mount_step ?root) s (mount_procfs x cnt) (mounts_one ?root s)"
    unfolding mount_procfs_def
  proof (intro safe_join_resolve root)
    fix src dst assume dst: "under ?root dst"
    have files: "list_all (\<lambda>(_, f). good_comp f) [(0 :: nat, ''params''), (1, ''version''), (2, ''registry'')]"
      by (simp add: good_comp_def)
    show "safe (mount_step ?root) s (bindE (xmount (Some ''tmpfs'') dst (Some ''tmpfs'') 0 (Some ''mode=0555'')) (\<lambda>_.
       onerror
         (bindE (procfs_files cnt src dst [(0, ''params''), (1, ''version''), (2, ''registry'')]) (\<lambda>_.
          bindE (xmount None dst None (MS_BIND OR MS_REMOUNT OR (MS_NODEV OR MS_NOSUID OR MS_NOEXEC)) None) (\<lambda>_.
            xstrdup dst)))
         (unmount (Some dst)))) (mounts_one ?root s)"
    proof (intro safe_bindE safe_tmpfs dst, unfold sum.case, goal_cases)
      case 2
      then show ?case
      proof (intro safe_onfail_onerror safe_remount_undo root dst safe_procfs_files files)
        fix Q :: "unit res \<Rightarrow> path multiset \<Rightarrow> bool" and r
        assume "\<And>e s'. s' \<subseteq># add_mset dst s \<Longrightarrow> Q (Inl e) s'" "\<And>x. Q (Inr x) (add_mset dst s)"
        then show "Q r (add_mset dst s)" by (cases r) auto
      qed (simp_all add: mounts_one_def)
    qed (simp add: mounts_intros)
  qed (simp add: mounts_intros)
qed

subsection \<open>Lists of files\<close>

lemma safe_unmount_all:
  assumes "take 1 root = ''/''" "list_all (under root) ps" "Q () (s - mset ps)"
  shows "safe (mount_step root) s (unmount_all ps) Q"
  using assms(2,3)
proof (induction ps arbitrary: s)
  case Nil
  then show ?case unfolding unmount_all.simps by (intro safe_ret) simp
next
  case (Cons p ps)
  then show ?case
    by (auto intro!: safe_bindS safe_unmount[OF assms(1)] Cons.IH)
qed

lemma mounted_list_under: "list_all (mounted root) ps \<Longrightarrow> list_all (under root) ps"
  by (auto simp: list_all_iff mounted_under)

lemma safe_rollback:
  assumes "take 1 root = ''/''" "list_all (mounted root) ps"
    "safe (mount_step root) (mset ps + s) m (\<lambda>r s'. case r of
       Inl _ \<Rightarrow> \<exists>d. s' \<subseteq># add_mset d (mset ps + s)
     | Inr p \<Rightarrow> mounted root p \<and> s' = add_mset p (mset ps + s))"
    "\<And>p. mounted root p \<Longrightarrow> safe (mount_step root) (mset (ps @ [p]) + s) (f p) (mounts_many root s)"
  shows "safe (mount_step root) (mset ps + s) (bindE (onfail m (unmount_all ps)) f) (mounts_many root s)"
proof (intro safe_bindE safe_onfail safe_conseq[OF assms(3)], goal_cases)
  case (1 r s')
  show ?case
  proof (cases r)
    case (Inl e)
    then obtain d where d: "s' \<subseteq># add_mset d (mset ps + s)" using 1 by auto
    then have "s' - mset ps \<subseteq># add_mset d s"
      by (simp add: subset_eq_diff_conv add.commute)
    with Inl show ?thesis
      by (auto intro!: safe_unmount_all[OF assms(1) mounted_list_under[OF assms(2)]] simp: mounts_many_def)
  next
    case (Inr p)
    with 1 assms(4)[of p] show ?thesis by simp
  qed
qed

lemma safe_mount_file:
  assumes "take 1 (cnt_rootfs cnt) = ''/''" "under (cnt_rootfs cnt) dst" "good_comp (basename p)"
    "\<And>e. Q (Inl e) s" "\<And>e d. Q (Inl e) (add_mset d s)" "\<And>d. mounted (cnt_rootfs cnt) d \<Longrightarrow> Q (Inr d) (add_mset d s)"
  shows "safe (mount_step (cnt_rootfs cnt)) s (mount_file cnt src dst p) Q"
    and "safe (mount_step (cnt_rootfs cnt)) s (mount_driverstore_file cnt src dst p) Q"
  unfolding mount_file_def mount_driverstore_file_def
  by (intro safe_bindE observesI[OF emits_path_append, THEN observes_safe];
      auto intro!: assms safe_bindE safe_append_under safe_create_mountpoint safe_bind_mount
        keeps_mounts_safe[OF keeps_file_create] mounted_under split: sum.splits)+

lemma safe_mount_files_loop:
  assumes "take 1 (cnt_rootfs cnt) = ''/''" "under (cnt_rootfs cnt) dst" "list_all (mounted (cnt_rootfs cnt)) mnt"
  shows "safe (mount_step (cnt_rootfs cnt)) (mset mnt + s) (mount_files_loop cnt src dst mnt ps)
    (mounts_many (cnt_rootfs cnt) s)"
  using assms
proof (induction cnt src dst mnt ps rule: mount_files_loop.induct)
  case (1 cnt src dst mnt)
  then show ?case
    unfolding mount_files_loop.simps by (intro safe_okay) (simp add: mounts_many_def)
next
  case (2 cnt src dst mnt p ps)
  show ?case
    unfolding mount_files_loop.simps
  proof (rule safe_if)
    assume matched: "\<not> (\<not> match_binary_flags (basename p) (cnt_flags cnt) \<and> \<not> match_library_flags (basename p) (cnt_flags cnt))"
    then have "good_comp (basename p)"
      using matched_good_comp[OF _ basename_no_slash] by blast
    with 2 show "safe (mount_step (cnt_rootfs cnt)) (mset mnt + s)
      (bindE (onfail (mount_file cnt src dst p) (unmount_all mnt)) (\<lambda>m.
             mount_files_loop cnt src dst (mnt @ [m]) ps)) (mounts_many (cnt_rootfs cnt) s)"
      using matched by (intro safe_rollback safe_mount_file) auto
  qed (use 2 in blast)
qed

lemma safe_mount_driverstore_loop:
  assumes "take 1 (cnt_rootfs cnt) = ''/''" "under (cnt_rootfs cnt) dst" "list_all (mounted (cnt_rootfs cnt)) mnt"
    "list_all (\<lambda>f. good_comp (basename f)) fs"
  shows "safe (mount_step (cnt_rootfs cnt)) (mset mnt + s) (mount_driverstore_loop cnt src dst mnt fs)
    (mounts_many (cnt_rootfs cnt) s)"
  using assms
proof (induction cnt src dst mnt fs rule: mount_driverstore_loop.induct)
  case (1 cnt src dst mnt)
  then show ?case
    unfolding mount_driverstore_loop.simps by (intro safe_okay) (simp add: mounts_many_def)
next
  case (2 cnt src dst mnt f fs)
  then show ?case
    unfolding mount_driverstore_loop.simps by (intro safe_rollback safe_mount_file) auto
qed

lemma mounts_many_fail: "mounts_many root s (Inl e) s"
  by (auto simp: mounts_many_def)

lemma observes_array_new: "observes (array_new n)"
  unfolding array_new_def observes_def by (intro emits_intros observes_emits_intros) simp_all

lemma safe_array_new: "(\<And>r. Q r s) \<Longrightarrow> safe (mount_step root) s (array_new n) Q"
  by (rule observes_safe, rule observes_array_new)

lemma safe_mount_files:
  assumes "take 1 (cnt_rootfs cnt) = ''/''"
  shows "safe (mount_step (cnt_rootfs cnt)) s (mount_files root cnt dir paths) (mounts_many (cnt_rootfs cnt) s)"
  unfolding mount_files_def
proof (intro safe_bindE observesI[OF emits_path_new, THEN observes_safe], goal_cases)
  case (1 r)
  have "under (cnt_rootfs cnt) dst \<Longrightarrow>
    safe (mount_step (cnt_rootfs cnt)) s (mount_files_loop cnt src dst [] paths) (mounts_many (cnt_rootfs cnt) s)" for src dst
    using safe_mount_files_loop[OF assms, of dst "[]" s] by simp
  then show ?case
    by (auto intro!: safe_bindE safe_path_resolve_full[OF ignores_mount_step assms] keeps_mounts_safe[OF keeps_file_create]
      mounts_many_fail safe_array_new split: sum.splits)
qed

lemma safe_mount_driverstore_files:
  assumes "take 1 (cnt_rootfs cnt) = ''/''" "list_all (\<lambda>f. good_comp (basename f)) fs"
  shows "safe (mount_step (cnt_rootfs cnt)) s (mount_driverstore_files root cnt dir fs) (mounts_many (cnt_rootfs cnt) s)"
  unfolding mount_driverstore_files_def
proof (intro safe_join_resolve assms(1), goal_cases)
  case (2 src dst)
  have "safe (mount_step (cnt_rootfs cnt)) s (mount_driverstore_loop cnt src dst [] fs) (mounts_many (cnt_rootfs cnt) s)"
    using safe_mount_driverstore_loop[OF assms(1) 2 _ assms(2), of "[]" s] by simp
  then show ?case
    by (intro safe_bindE keeps_mounts_safe[OF keeps_file_create] 2)
      (auto intro!: mounts_many_fail safe_bindE safe_array_new split: sum.splits)
qed (rule mounts_many_fail)

text \<open>The files mounted by a run that succeeds.\<close>

lemma basename_append: "CHR ''/'' \<notin> set b \<Longrightarrow> basename (d @ CHR ''/'' # b) = b"
proof -
  assume b: "CHR ''/'' \<notin> set b"
  have "strrchr (d @ CHR ''/'' # b) CHR ''/'' = Some (d, b)"
    using b by (simp add: strrchr_Some)
  then show ?thesis by (simp add: basename_def)
qed

lemma mount_file_result:
  assumes "good_comp (basename p)" "mount_file cnt src dst p os tr = (Inr m, es)"
  shows "basename m = basename p"
proof -
  from assms(2) obtain d os' tr' es' where d: "path_append dst (basename p) os' tr' = (Inr d, es')" "m = d"
    unfolding mount_file_def bind_mount_def
    by (auto simp: bindE_Inr xstrdup_Inr)
  have "basename p \<noteq> []" "hd (basename p) \<noteq> CHR ''/''"
    using assms(1) by (cases "basename p"; auto simp: good_comp_def)+
  note d_eq = path_append_plain[OF this d(1)]
  have "\<exists>q. d = q @ CHR ''/'' # basename p"
  proof (cases "dst \<noteq> [] \<and> last dst = CHR ''/''")
    case True
    then have "dst = butlast dst @ ''/''"
      by (metis append_butlast_last_id)
    with d_eq True have "d = (butlast dst @ ''/'') @ basename p" by simp
    then show ?thesis by auto
  qed (use d_eq in auto)
  then show ?thesis
    using basename_append[OF basename_no_slash] d(2) by metis
qed

lemma onfail_value: "onfail m c os tr = (Inr x, es) \<Longrightarrow> \<exists>es'. m os tr = (Inr x, es')"
  by (simp add: onfail_Inr)

definition injected :: "nvc_container \<Rightarrow> path \<Rightarrow> bool" where
  "injected cnt p \<longleftrightarrow>
     match_binary_flags (basename p) (cnt_flags cnt) \<or> match_library_flags (basename p) (cnt_flags cnt)"

lemma mount_files_loop_result:
  "mount_files_loop cnt src dst mnt ps os tr = (Inr ms, es) \<Longrightarrow>
   map basename ms = map basename mnt @ map basename (filter (injected cnt) ps)"
proof (induction cnt src dst mnt ps arbitrary: os tr es rule: mount_files_loop.induct)
  case (2 cnt src dst mnt p ps)
  show ?case
  proof (cases "injected cnt p")
    case True
    then have c: "\<not> (\<not> match_binary_flags (basename p) (cnt_flags cnt) \<and> \<not> match_library_flags (basename p) (cnt_flags cnt))"
      by (simp add: injected_def)
    from True have good: "good_comp (basename p)"
      unfolding injected_def using matched_good_comp[OF _ basename_no_slash] by blast
    from "2.prems" c obtain m es1 es2 where m: "onfail (mount_file cnt src dst p) (unmount_all mnt) os tr = (Inr m, es1)"
      and rest: "mount_files_loop cnt src dst (mnt @ [m]) ps os (tr @ es1) = (Inr ms, es2)"
      unfolding mount_files_loop.simps if_not_P[OF c] bindE_Inr by blast
    obtain es' where "mount_file cnt src dst p os tr = (Inr m, es')"
      using onfail_value[OF m] by blast
    from mount_file_result[OF good this] "2.IH"(2)[OF c rest] True show ?thesis by simp
  next
    case False
    with "2.prems" "2.IH"(1) show ?thesis by (simp add: injected_def)
  qed
qed simp

lemma mount_files_result:
  assumes "mount_files root cnt dir paths os tr = (Inr ms, es)"
  shows "map basename ms = map basename (filter (injected cnt) paths)"
proof -
  from assms obtain src dst tr' es' where "mount_files_loop cnt src dst [] paths os tr' = (Inr ms, es')"
    unfolding mount_files_def by (auto simp: bindE_Inr)
  from mount_files_loop_result[OF this] show ?thesis by simp
qed

subsection \<open>The application profile\<close>

lemma hex_digit_val: "d < 16 \<Longrightarrow> isxdigit (hex_digit d) \<and> xdigit_val (hex_digit d) = d"
  by (cases "d < 10") (auto simp: hex_digit_def isxdigit_def isdigit_def xdigit_val_def ord_def)

lemma hex_val_append: "hex_val acc (s @ [c]) = 16 * hex_val acc s + xdigit_val c"
  by (induction s arbitrary: acc) simp_all

lemma hex_round_trip: "list_all isxdigit (hex n) \<and> hex_val 0 (hex n) = n"
proof (induction n rule: hex.induct)
  case (1 n)
  show ?case
  proof (cases "n < 16")
    case True
    then show ?thesis by (subst (1 2) hex.simps) (simp add: hex_digit_val)
  next
    case False
    with 1 hex_digit_val[of "n mod 16"] show ?thesis
      by (subst (1 2) hex.simps) (simp add: hex_val_append)
  qed
qed

lemma profile_text_scan:
  "\<exists>a b. strstr (profile_text m) ''0x'' = Some (a, ''0x'' @ hex (unat m) @ CHR '']'' # b)"
  unfolding profile_text_def by (simp add: prefix_def)

lemma profile_scan: "takeWhile isxdigit (hex n @ CHR '']'' # b) = hex n"
proof -
  have "\<forall>c \<in> set (hex n). isxdigit c" "\<not> isxdigit CHR '']''"
    using hex_round_trip[of n] by (simp_all add: list_all_iff isxdigit_def isdigit_def ord_def)
  then show ?thesis by simp
qed

text \<open>C40: The device mask written into the application profile is read back by the scan
  that update_app_profile does of it, for every mask but the all-ones one: strtoumax answers its
  saturated value for that, and the profile is refused as invalid.\<close>

theorem profile_round_trip: "profile_mask (profile_text m) = (if m = - 1 then None else Some m)"
proof -
  obtain a b where ab: "strstr (profile_text m) ''0x'' = Some (a, ''0x'' @ hex (unat m) @ CHR '']'' # b)"
    using profile_text_scan by blast
  have "unat m < 2 ^ 64"
    using unsigned_less[of m] by simp
  then have "unat m \<ge> 2 ^ 64 - 1 \<longleftrightarrow> unat m = 2 ^ 64 - 1"
    by linarith
  also have "\<dots> \<longleftrightarrow> m = - 1"
    using unsigned_minus_1_eq_mask[where 'a=nat and 'b=64] word_unat_eq_iff[of m "- 1"]
    by (simp add: mask_eq_exp_minus_1)
  finally have "unat m \<ge> 2 ^ 64 - 1 \<longleftrightarrow> m = - 1" .
  with ab show ?thesis
    by (simp add: profile_mask_def profile_scan hex_round_trip)
qed


subsection \<open>Properties\<close>


definition plain_container :: nvc_container where
  "plain_container = \<lparr>cnt_flags = 2094, cnt_pid = 42, cnt_rootfs = ''/r'', cnt_bins_dir = ''/usr/bin'',
     cnt_libs_dir = ''/l'', cnt_libs32_dir = ''/l32'', cnt_dris_dir = ''/dri'', cnt_cudart_dir = [],
     cnt_ldconfig = ''@/sbin/ldconfig'', cnt_uid = 0, cnt_gid = 0, cnt_mnt_ns = ''/proc/42/ns/mnt'',
     cnt_dev_cg_version = 0, cnt_dev_cg = [], cnt_libs = []\<rparr>"




end
