(* ===== verification/MountOps.thy ===== *)
theory MountOps
  imports MountSpec
begin

text \<open>
  nvc_mount.c, the operations: links to libraries, the injection of the driver
  and of a device, and the capabilities of MIG devices.  \<open>allow\<close> is
  setup_device_cgroup of the implementation that the build links.
\<close>

unbundle bit_operations_syntax

subsection \<open>Links to libraries\<close>

definition symlink_library :: "path \<Rightarrow> string \<Rightarrow> string \<Rightarrow> uint32 \<Rightarrow> uint32 \<Rightarrow> unit ioE" where
  "symlink_library src target linkname uid gid =
     bindE (xstrdup src) (\<lambda>tmp.
     bindE (path_join (dirname tmp) linkname) (\<lambda>path.
       file_create path (Some target) uid gid (MODE_LNK 511)))"

text \<open>
  macth_target_library for the two shapes of pattern the sources use: a name
  followed by three numbers, and the names of the video drivers.  The
  compilation of these patterns succeeds.
\<close>

definition dot_number :: "string \<Rightarrow> string option" where
  "dot_number s =
     (case s of
        [] \<Rightarrow> None
      | c # r \<Rightarrow> if c = CHR ''.'' \<and> takeWhile isdigit r \<noteq> [] then Some (dropWhile isdigit r) else None)"

definition matches_versioned :: "string \<Rightarrow> string \<Rightarrow> bool" where
  "matches_versioned name lib \<longleftrightarrow>
     prefix name lib \<and>
     (case dot_number (drop (length name) lib) of
        None \<Rightarrow> False
      | Some r \<Rightarrow> (case dot_number r of None \<Rightarrow> False | Some r \<Rightarrow> dot_number r = Some []))"

definition matches_driver :: "string \<Rightarrow> bool" where
  "matches_driver lib \<longleftrightarrow>
     prefix ''xdxgpu_dr'' lib \<and> take 1 (drop 9 lib) \<in> {''i'', ''v''} \<and> suffix ''.so'' (drop 10 lib)"

definition link_library :: "nvc_container \<Rightarrow> path \<Rightarrow> unit ioE" where
  "link_library cnt p =
     (let lib = basename p;
          link = (\<lambda>target name. symlink_library p target name (cnt_uid cnt) (cnt_gid cnt))
      in if str_has_prefix lib ''libGL_xdxgpu.so'' then
           (if matches_versioned ''libGL_xdxgpu.so'' lib then link lib ''libGL_xdxgpu.so'' else okay ())
         else if str_has_prefix lib ''libxdxgpu-ml.so'' then
           (if matches_versioned ''libxdxgpu-ml.so'' lib then link lib ''libxdxgpu-ml.so'' else okay ())
         else if str_has_prefix lib ''libCL_xdxgpu.so'' then
           (if matches_versioned ''libCL_xdxgpu.so'' lib
            then bindE (link lib ''libOpenCL.so.1'') (\<lambda>_. link ''libOpenCL.so.1'' ''libOpenCL.so'') else okay ())
         else if str_has_prefix lib ''libpciaccess.so'' then
           (if matches_versioned ''libpciaccess.so'' lib then link lib ''libpciaccess.so.0'' else okay ())
         else if str_has_prefix lib ''libvlk_xdxgpu.so'' then
           (if matches_versioned ''libvlk_xdxgpu.so'' lib then link lib ''libvlk_xdxgpu.so'' else okay ())
         else okay ())"

fun symlink_libraries :: "nvc_container \<Rightarrow> path list \<Rightarrow> unit ioE" where
  "symlink_libraries cnt [] = okay ()"
| "symlink_libraries cnt (p # ps) = bindE (link_library cnt p) (\<lambda>_. symlink_libraries cnt ps)"

text \<open>
  filter_libraries drops the libraries of the same major version as the driver.
  The comparison reads the version of the driver; \<open>None\<close> is the crash when it
  is a null pointer.
\<close>

definition keep_library :: "string option \<Rightarrow> path \<Rightarrow> bool option" where
  "keep_library nvrm p =
     (case strstr (basename p) ''.so.'' of
        None \<Rightarrow> Some False
      | Some (_, b) \<Rightarrow>
          let maj = drop 4 b; n = length (takeWhile isdigit maj)
          in map_option (\<lambda>v. take n v \<noteq> take n maj) nvrm)"

fun filter_marks :: "string option \<Rightarrow> path list \<Rightarrow> path option list option" where
  "filter_marks nvrm [] = Some []"
| "filter_marks nvrm (p # ps) =
     (case keep_library nvrm p of
        None \<Rightarrow> None
      | Some k \<Rightarrow> map_option (\<lambda>ms. (if k then Some p else None) # ms) (filter_marks nvrm ps))"

definition filter_libraries :: "nvc_driver_info \<Rightarrow> path list \<Rightarrow> path list option" where
  "filter_libraries info paths =
     map_option (\<lambda>ms. case array_pack ms of (a, n) \<Rightarrow> map the (take n a)) (filter_marks (nvrm_version info) paths)"

subsection \<open>Devices\<close>

abbreviation (input) "XDX_VIDEO_LIB_NUM \<equiv> 4 :: nat"
abbreviation (input) "LD_CONFIG_DIR \<equiv> ''/etc/ld.so.conf.d''"
abbreviation (input) "SMI_FRONT_DIR \<equiv> ''/usr/lib/python3/dist-packages/xdxsmi''"

definition device_mount_dxcore :: "nvc_context \<Rightarrow> nvc_container \<Rightarrow> unit ioE" where
  "device_mount_dxcore ctx cnt =
     (case dx_adapters (ctx_dxcore ctx) of
        [] \<Rightarrow> raise null_deref
      | a # _ \<Rightarrow>
          bindE (mount_driverstore_files (ctx_root ctx) cnt (driver_store_path a) (driver_store_components a))
            (\<lambda>_. okay ()))"

text \<open>
  The caller of library_search_in_dir has room for four names; a fifth is
  written past the end of the array, which the model treats as a crash.
\<close>

fun search_entries :: "path \<Rightarrow> nat \<Rightarrow> path list \<Rightarrow> string list \<Rightarrow> path list ioE" where
  "search_entries lib_dir room libs [] = okay libs"
| "search_entries lib_dir room libs (d # ds) =
     (if matches_driver d
      then bindE (or_set (call_unit C_alloc) ''Invoke malloc error!'') (\<lambda>_.
           if length libs \<ge> room then raise null_deref
           else search_entries lib_dir room (libs @ [lib_dir @ ''/'' @ d]) ds)
      else search_entries lib_dir room libs ds)"

definition library_search_in_dir :: "nat \<Rightarrow> path \<Rightarrow> path list ioE" where
  "library_search_in_dir room lib_dir =
     bindE (or_set (call_strs (C_readdir lib_dir)) ''Open dir error!'') (\<lambda>entries.
       search_entries lib_dir room [] entries)"

definition device_mount_native ::
  "(nvc_container \<Rightarrow> uint64 \<Rightarrow> unit ioE) \<Rightarrow> nvc_context \<Rightarrow> nvc_container \<Rightarrow> nvc_device \<Rightarrow> unit ioE" where
  "device_mount_native allow ctx cnt dev =
     bindE (library_search_in_dir XDX_VIDEO_LIB_NUM (cnt_dris_dir cnt)) (\<lambda>dri_libs.
     bindE (if \<not> flag_set (cnt_flags cnt) OPT_NO_DEVBIND
            then bindE (mount_device (ctx_root ctx) cnt (dev_node dev)) (\<lambda>m. okay (Some m)) else okay None) (\<lambda>dev_mnt.
     bindE (onerror (mount_config_file (ctx_root ctx) cnt LD_CONFIG_DIR) (unmount dev_mnt)) (\<lambda>ld_config_mnt.
       onerror
         (bindE (if flag_set (cnt_flags cnt) OPT_GRAPHICS_LIBS
                 then update_app_profile cnt (node_id (dev_node dev)) else okay ()) (\<lambda>_.
          bindE (if flag_set (cnt_flags cnt) OPT_UTILITY_LIBS
                 then bindE (mount_config_file (ctx_root ctx) cnt SMI_FRONT_DIR) (\<lambda>_. okay ()) else okay ()) (\<lambda>_.
          bindE (if flag_set (cnt_flags cnt) OPT_VIDEO_LIBS \<or> flag_set (cnt_flags cnt) OPT_GRAPHICS_LIBS
                 then bindE (mount_files (ctx_root ctx) cnt (cnt_dris_dir cnt) dri_libs) (\<lambda>_. okay ()) else okay ()) (\<lambda>_.
            if \<not> flag_set (cnt_flags cnt) OPT_NO_CGROUPS then allow cnt (node_id (dev_node dev)) else okay ()))))
         (bindS (unmount (Some ld_config_mnt)) (\<lambda>_. unmount dev_mnt)))))"

definition cap_device_mount ::
  "(nvc_container \<Rightarrow> uint64 \<Rightarrow> unit ioE) \<Rightarrow> nvc_context \<Rightarrow> nvc_container \<Rightarrow> path \<Rightarrow> unit ioE" where
  "cap_device_mount allow ctx cnt cap_path =
     bindE (nvc_nvcaps_device_from_proc_path (ctx_root ctx) cap_path) (\<lambda>node.
     bindE (if \<not> flag_set (cnt_flags cnt) OPT_NO_DEVBIND
            then bindE (mount_device (ctx_root ctx) cnt node) (\<lambda>m. okay (Some m)) else okay None) (\<lambda>dev_mnt.
       onfail (if \<not> flag_set (cnt_flags cnt) OPT_NO_CGROUPS then allow cnt (node_id node) else okay ())
         (unmount dev_mnt)))"

text \<open>
  setup_mig_minor_cgroups closes the stream on every path, a stream that could
  not be opened too, which crashes.  A line is at most PATH_MAX - 2 bytes long.
\<close>

abbreviation (input) "NV_CAPS_MIG_MINORS_PATH \<equiv> ''/proc/driver/nvidia-caps/mig-minors''"

fun mig_minor_lines ::
  "(nvc_container \<Rightarrow> uint64 \<Rightarrow> unit ioE) \<Rightarrow> nvc_container \<Rightarrow> uint32 \<Rightarrow> nvc_device_node \<Rightarrow> string list \<Rightarrow> unit ioE" where
  "mig_minor_lines allow cnt mig_major node [] = okay ()"
| "mig_minor_lines allow cnt mig_major node (l # ls) =
     (case scan_mig_minor l of
        None \<Rightarrow> mig_minor_lines allow cnt mig_major node ls
      | Some (gpu_minor, mig_minor) \<Rightarrow>
          if gpu_minor \<noteq> minor (node_id node) then mig_minor_lines allow cnt mig_major node ls
          else bindE (allow cnt (makedev mig_major mig_minor)) (\<lambda>_. mig_minor_lines allow cnt mig_major node ls))"

definition setup_mig_minor_cgroups ::
  "(nvc_container \<Rightarrow> uint64 \<Rightarrow> unit ioE) \<Rightarrow> nvc_container \<Rightarrow> uint32 \<Rightarrow> nvc_device_node \<Rightarrow> unit ioE" where
  "setup_mig_minor_cgroups allow cnt mig_major node =
     bindS (call_int (C_fopen NV_CAPS_MIG_MINORS_PATH)) (\<lambda>r. case r of
       Inl _ \<Rightarrow> raise null_deref
     | Inr fp \<Rightarrow>
         bindS (call_strs (C_getlines fp)) (\<lambda>ls.
           lastly (mig_minor_lines allow cnt mig_major node (case ls of Inl _ \<Rightarrow> [] | Inr ls \<Rightarrow> ls))
             (call_void (C_fclose fp))))"

subsection \<open>In the namespace of the container\<close>

text \<open>
  Every operation enters the mount namespace of the container and returns to
  its own at the end.  After a failure the return is asserted to succeed; a
  build with assertions aborts when it does not.
\<close>

definition in_namespace :: "nvc_context \<Rightarrow> nvc_container \<Rightarrow> unit ioE \<Rightarrow> unit ioE" where
  "in_namespace ctx cnt body =
     bindE (ns_enter (cnt_mnt_ns cnt) CLONE_NEWNS) (\<lambda>_.
     bindE (onerror body (ns_enter_at (ctx_mnt_ns ctx) CLONE_NEWNS)) (\<lambda>_.
       ns_enter_at (ctx_mnt_ns ctx) CLONE_NEWNS))"

definition mount_list :: "path list \<Rightarrow> path \<Rightarrow> nvc_container \<Rightarrow> path \<Rightarrow> path list \<Rightarrow> path list ioE" where
  "mount_list mnt root cnt dir files =
     (if files = [] then okay mnt
      else bindE (onerror (mount_files root cnt dir files) (unmount_all mnt)) (\<lambda>ms. okay (mnt @ ms)))"

definition container_libraries :: "path list \<Rightarrow> nvc_container \<Rightarrow> nvc_driver_info \<Rightarrow> path list ioE" where
  "container_libraries mnt cnt info =
     (if cnt_libs cnt = [] then okay mnt
      else bindE (onerror
        (bindE (array_copy (cnt_libs cnt)) (\<lambda>libs.
         case filter_libraries info (map the libs) of
           None \<Rightarrow> raise null_deref
         | Some libs \<Rightarrow> mount_files (cnt_rootfs cnt) cnt (cnt_libs_dir cnt) libs))
        (unmount_all mnt)) (\<lambda>ms. okay (mnt @ ms)))"

abbreviation (input) NV_DEVICE_MAJOR :: uint32 where "NV_DEVICE_MAJOR \<equiv> 226"
abbreviation (input) NV_MODESET_DEVICE_MINOR :: uint32 where "NV_MODESET_DEVICE_MINOR \<equiv> 254"

definition skips_device :: "nvc_context \<Rightarrow> nvc_container \<Rightarrow> nvc_device_node \<Rightarrow> bool" where
  "skips_device ctx cnt d \<longleftrightarrow>
     \<not> dx_initialized (ctx_dxcore ctx) \<and>
     (\<not> flag_set (cnt_flags cnt) OPT_COMPUTE_LIBS \<and> major (node_id d) \<noteq> NV_DEVICE_MAJOR \<or>
      \<not> flag_set (cnt_flags cnt) OPT_DISPLAY \<and> minor (node_id d) = NV_MODESET_DEVICE_MINOR)"

fun driver_devices ::
  "(nvc_container \<Rightarrow> uint64 \<Rightarrow> unit ioE) \<Rightarrow> nvc_context \<Rightarrow> nvc_container \<Rightarrow> path list \<Rightarrow> nvc_device_node list \<Rightarrow>
   path list ioE" where
  "driver_devices allow ctx cnt mnt [] = okay mnt"
| "driver_devices allow ctx cnt mnt (d # ds) =
     (if skips_device ctx cnt d then driver_devices allow ctx cnt mnt ds
      else
      bindE (if \<not> flag_set (cnt_flags cnt) OPT_NO_DEVBIND
             then bindE (onerror (mount_device (ctx_root ctx) cnt d) (unmount_all mnt)) (\<lambda>m. okay (mnt @ [m]))
             else okay mnt) (\<lambda>mnt.
      bindE (if \<not> flag_set (cnt_flags cnt) OPT_NO_CGROUPS
             then onerror (allow cnt (node_id d)) (unmount_all mnt) else okay ()) (\<lambda>_.
        driver_devices allow ctx cnt mnt ds)))"

definition driver_mount_body ::
  "(nvc_container \<Rightarrow> uint64 \<Rightarrow> unit ioE) \<Rightarrow> nvc_context \<Rightarrow> nvc_container \<Rightarrow> nvc_driver_info \<Rightarrow> path list ioE" where
  "driver_mount_body allow ctx cnt info =
     bindE (array_new (2 + length (drv_bins info) + length (drv_libs info) + length (cnt_libs cnt) +
              length (drv_libs32 info) + length (drv_ipcs info) + length (drv_devs info) +
              length (drv_firmwares info))) (\<lambda>_.
     bindE (mount_list [] (ctx_root ctx) cnt (cnt_bins_dir cnt) (drv_bins info)) (\<lambda>mnt.
     bindE (mount_list mnt (ctx_root ctx) cnt (cnt_libs_dir cnt) (drv_libs info)) (\<lambda>mnt.
     bindE (if flag_set (cnt_flags cnt) OPT_COMPAT32
            then mount_list mnt (ctx_root ctx) cnt (cnt_libs32_dir cnt) (drv_libs32 info) else okay mnt) (\<lambda>mnt.
     bindE (onerror (symlink_libraries cnt mnt) (unmount_all mnt)) (\<lambda>_.
     bindE (container_libraries mnt cnt info) (\<lambda>mnt.
       driver_devices allow ctx cnt mnt (drv_devs info)))))))"

definition nvc_driver_mount ::
  "(nvc_container \<Rightarrow> uint64 \<Rightarrow> unit ioE) \<Rightarrow> nvc_context option \<Rightarrow> nvc_container option \<Rightarrow> nvc_driver_info option \<Rightarrow>
   unit ioE" where
  "nvc_driver_mount allow ctx cnt info =
     bindE (validate_context ctx) (\<lambda>ctx.
     bindE (validate_args (cnt \<noteq> None \<and> info \<noteq> None)) (\<lambda>_.
       in_namespace ctx (the cnt) (bindE (driver_mount_body allow ctx (the cnt) (the info)) (\<lambda>_. okay ()))))"

definition nvc_device_mount ::
  "(nvc_container \<Rightarrow> uint64 \<Rightarrow> unit ioE) \<Rightarrow> nvc_context option \<Rightarrow> nvc_container option \<Rightarrow> nvc_device option \<Rightarrow>
   unit ioE" where
  "nvc_device_mount allow ctx cnt dev =
     bindE (validate_context ctx) (\<lambda>ctx.
     bindE (validate_args (cnt \<noteq> None \<and> dev \<noteq> None)) (\<lambda>_.
       in_namespace ctx (the cnt)
         (if dx_initialized (ctx_dxcore ctx) then device_mount_dxcore ctx (the cnt)
          else device_mount_native allow ctx (the cnt) (the dev))))"

subsection \<open>Capabilities of MIG devices\<close>

abbreviation (input) "NV_MIG_CAPS_PATH \<equiv> ''/proc/driver/nvidia/capabilities/mig''"
abbreviation (input) "NV_CAPS_DEVICE_DIR \<equiv> ''/dev/nvidia-caps''"

definition mount_caps_device ::
  "(nvc_container \<Rightarrow> uint64 \<Rightarrow> unit ioE) \<Rightarrow> nvc_context \<Rightarrow> nvc_container \<Rightarrow> path \<Rightarrow> unit ioE" where
  "mount_caps_device allow ctx cnt access =
     bindS chardev_major (\<lambda>m. if m \<noteq> -1 then cap_device_mount allow ctx cnt access else okay ())"

definition nvc_mig_device_access_caps_mount ::
  "(nvc_container \<Rightarrow> uint64 \<Rightarrow> unit ioE) \<Rightarrow> nvc_context option \<Rightarrow> nvc_container option \<Rightarrow> nvc_mig_device option \<Rightarrow>
   unit ioE" where
  "nvc_mig_device_access_caps_mount allow ctx cnt dev =
     bindE (validate_context ctx) (\<lambda>ctx.
     bindE (validate_args (cnt \<noteq> None \<and> dev \<noteq> None)) (\<lambda>_.
       in_namespace ctx (the cnt)
         (bindE (path_join (gi_caps_path (the dev)) ''access'') (\<lambda>gi_access.
          bindE (mount_procfs_mig (ctx_root ctx) (the cnt) gi_access) (\<lambda>proc_mnt_gi.
          bindE (onfail
            (bindE (mount_caps_device allow ctx (the cnt) gi_access) (\<lambda>_.
             bindE (path_join (ci_caps_path (the dev)) ''access'') (\<lambda>ci_access.
             bindE (mount_procfs_mig (ctx_root ctx) (the cnt) ci_access) (\<lambda>proc_mnt_ci.
               okay (ci_access, proc_mnt_ci)))))
            (unmount (Some proc_mnt_gi))) (\<lambda>(ci_access, proc_mnt_ci).
          onfail (mount_caps_device allow ctx (the cnt) ci_access)
            (bindS (unmount (Some proc_mnt_gi)) (\<lambda>_. unmount (Some proc_mnt_ci)))))))))"

text \<open>The two global capabilities differ in the name of the file; the directory of the devices stays mounted on failure.\<close>

definition global_caps_mount ::
  "(nvc_container \<Rightarrow> uint64 \<Rightarrow> unit ioE) \<Rightarrow> path option \<Rightarrow> string \<Rightarrow> nvc_context option \<Rightarrow> nvc_container option \<Rightarrow>
   unit ioE" where
  "global_caps_mount allow junk f ctx cnt =
     bindE (validate_context ctx) (\<lambda>ctx.
     bindE (validate_args (cnt \<noteq> None)) (\<lambda>_.
       in_namespace ctx (the cnt)
         (bindE (mount_procfs_mig (ctx_root ctx) (the cnt) NV_PROC_DRIVER_CAPS) (\<lambda>proc_mnt.
          onfail
            (bindS chardev_major (\<lambda>m. if m = -1 then okay () else
             bindE (mount_directory junk (ctx_root ctx) (the cnt) NV_CAPS_DEVICE_DIR) (\<lambda>_.
             bindE (path_join NV_MIG_CAPS_PATH f) (\<lambda>p.
             bindE (nvc_nvcaps_device_from_proc_path (ctx_root ctx) p) (\<lambda>node.
             if \<not> flag_set (cnt_flags (the cnt)) OPT_NO_CGROUPS then allow (the cnt) (node_id node) else okay ())))))
            (unmount (Some proc_mnt))))))"

definition nvc_mig_config_global_caps_mount ::
  "(nvc_container \<Rightarrow> uint64 \<Rightarrow> unit ioE) \<Rightarrow> path option \<Rightarrow> nvc_context option \<Rightarrow> nvc_container option \<Rightarrow> unit ioE" where
  "nvc_mig_config_global_caps_mount allow junk ctx cnt = global_caps_mount allow junk ''config'' ctx cnt"

definition nvc_mig_monitor_global_caps_mount ::
  "(nvc_container \<Rightarrow> uint64 \<Rightarrow> unit ioE) \<Rightarrow> path option \<Rightarrow> nvc_context option \<Rightarrow> nvc_container option \<Rightarrow> unit ioE" where
  "nvc_mig_monitor_global_caps_mount allow junk ctx cnt = global_caps_mount allow junk ''monitor'' ctx cnt"

definition nvc_device_mig_caps_mount ::
  "(nvc_container \<Rightarrow> uint64 \<Rightarrow> unit ioE) \<Rightarrow> nvc_context option \<Rightarrow> nvc_container option \<Rightarrow> nvc_device option \<Rightarrow>
   unit ioE" where
  "nvc_device_mig_caps_mount allow ctx cnt dev =
     bindE (validate_context ctx) (\<lambda>ctx.
     bindE (validate_args (cnt \<noteq> None \<and> dev \<noteq> None)) (\<lambda>_.
       in_namespace ctx (the cnt)
         (bindS chardev_major (\<lambda>m.
          if m \<noteq> -1 \<and> \<not> flag_set (cnt_flags (the cnt)) OPT_NO_CGROUPS
          then setup_mig_minor_cgroups allow (the cnt) (word_of_int m) (dev_node (the dev)) else okay ()))))"

subsection \<open>The mount namespace\<close>

definition stays :: "event \<Rightarrow> bool" where
  "stays e \<longleftrightarrow> (case fst e of NS (sc_setns _ _) \<Rightarrow> False | _ \<Rightarrow> True)"

lemma stays_simps [simp]:
  "stays (FS f, a)" "stays (DirOp d, a)" "stays (Cred c, a)" "stays (Cap k, a)" "stays (Proc p, a)"
  "stays (C_mount b1 b2 b3 b4 b5, a)" "stays (C_umount2 b6 b7, a)"
  by (simp_all add: stays_def)

lemma observes_stays: "observes m \<Longrightarrow> emits stays m"
  unfolding observes_def
  by (erule emits_weaken) (auto simp: stays_def split: call.splits ns_call.splits)

lemma setup_stays: "emits (\<lambda>e. cg_setup (fst e)) m \<Longrightarrow> emits stays m"
  by (erule emits_weaken)
     (auto simp: stays_def cg_setup_def elim!: library_call.elims stream_write.elims split: call.splits ns_call.splits)

lemma emits_onerror [emits_intros]: "emits P m \<Longrightarrow> emits P c \<Longrightarrow> emits P (onerror m c)"
  unfolding onerror_def by (intro emits_intros)

lemma file_call_stays: "emits (\<lambda>e. file_call (fst e)) m \<Longrightarrow> emits stays m"
  by (erule emits_weaken) (auto simp: stays_def elim!: file_call.elims)

lemmas stays_file_create = file_call_stays[OF emits_file_create]

lemmas stays_file_remove = file_call_stays[OF emits_file_remove]

lemma stays_unmount: "emits stays (unmount p)" "emits stays (unmount_all ps)"
proof -
  show *: "emits stays (unmount p)" for p
    unfolding unmount_def by (intro emits_intros stays_file_remove) simp_all
  show "emits stays (unmount_all ps)"
    by (induction ps) (auto intro!: emits_intros *)
qed

lemmas stays_lookups = observes_lookups[THEN observes_stays]

lemma stays_bind_mount: "emits stays (bind_mount src dst fl)" "emits stays (create_mountpoint cnt src dst)"
  unfolding bind_mount_def create_mountpoint_def
  by (intro emits_intros stays_lookups stays_file_create; simp)+

lemmas stays_rules = stays_lookups stays_file_create stays_file_remove stays_unmount stays_bind_mount

lemma stays_mount_files: "emits stays (mount_files root cnt dir paths)"
proof -
  have "emits stays (mount_files_loop cnt src dst mnt ps)" for src dst mnt ps
    by (induction cnt src dst mnt ps rule: mount_files_loop.induct)
       (auto intro!: emits_intros stays_rules simp: mount_file_def)
  then show ?thesis
    unfolding mount_files_def array_new_def by (intro emits_intros stays_rules) simp_all
qed

lemma stays_mount_driverstore_files: "emits stays (mount_driverstore_files root cnt dir fs)"
proof -
  have "emits stays (mount_driverstore_loop cnt src dst mnt ps)" for src dst mnt ps
    by (induction cnt src dst mnt ps rule: mount_driverstore_loop.induct)
       (auto intro!: emits_intros stays_rules simp: mount_driverstore_file_def)
  then show ?thesis
    unfolding mount_driverstore_files_def array_new_def by (intro emits_intros stays_rules) simp_all
qed

lemma stays_primitives:
  "emits stays (mount_device root cnt dev)" "emits stays (mount_procfs_mig root cnt p)"
  "emits stays (mount_config_file root cnt p)" "emits stays (update_app_profile cnt devid)"
  "emits stays (mount_directory junk root cnt p)" "emits stays (symlink_library src t l u g)"
  unfolding mount_device_def mount_procfs_mig_def mount_config_file_def update_app_profile_def
    mount_directory_def mount_with_flags_def symlink_library_def Let_def
  by (intro emits_intros stays_rules; simp)+

lemma stays_symlink_libraries: "emits stays (symlink_libraries cnt ps)"
  by (induction ps) (auto intro!: emits_intros stays_primitives simp: link_library_def Let_def)

lemma stays_library_search: "emits stays (library_search_in_dir n d)"
proof -
  have "emits stays (search_entries d n libs es)" for libs es
    by (induction d n libs es rule: search_entries.induct) (auto intro!: emits_intros)
  then show ?thesis
    unfolding library_search_in_dir_def by (intro emits_intros) simp_all
qed

lemma stays_chardev_major: "emits stays chardev_major"
  unfolding chardev_major_def by (intro observes_stays observes_chardev_major)

lemma stays_caps_device: "emits stays (nvc_nvcaps_device_from_proc_path root p)"
  unfolding nvc_nvcaps_device_from_proc_path_def
  by (auto intro!: emits_intros observes_stays[OF observes_cap_attrs])

lemmas stays_operations = stays_primitives stays_mount_files stays_mount_driverstore_files stays_symlink_libraries
  stays_library_search stays_chardev_major stays_caps_device observes_array_new[THEN observes_stays]

context device_cgroup
begin

lemma allow_stays: "emits stays (allow cnt d)"
  by (rule setup_stays) (rule allow_calls)

lemma native_stays: "emits stays (device_mount_native allow ctx cnt dev)"
  unfolding device_mount_native_def
  by (intro emits_intros stays_operations stays_rules allow_stays)

lemma caps_device_stays: "emits stays (mount_caps_device allow ctx cnt p)"
  unfolding mount_caps_device_def cap_device_mount_def
  by (intro emits_intros stays_operations stays_rules allow_stays)

lemma mig_minor_stays: "emits stays (setup_mig_minor_cgroups allow cnt maj node)"
proof -
  have "emits stays (mig_minor_lines allow cnt maj node ls)" for ls
    by (induction ls) (auto intro!: emits_intros allow_stays split: option.splits)
  then show ?thesis
    unfolding setup_mig_minor_cgroups_def by (intro emits_intros) simp_all
qed

lemma driver_body_stays: "emits stays (driver_mount_body allow ctx cnt info)"
proof -
  have devices: "emits stays (driver_devices allow ctx cnt mnt ds)" for mnt ds
    by (induction ds arbitrary: mnt) (auto intro!: emits_intros stays_operations stays_rules allow_stays)
  show ?thesis
    unfolding driver_mount_body_def mount_list_def container_libraries_def array_copy_def
    by (intro emits_intros stays_operations stays_rules devices)
qed

end

datatype ns_state = Host | Inside | Stuck

text \<open>
  The monitor follows the mount namespace of the process.  It rejects a mount or
  an unmount outside the namespace of the container, and an association other
  than the way in and the way back; a way back that fails leaves it stuck.
\<close>

definition ns_step :: "fd \<Rightarrow> ns_state \<Rightarrow> event \<Rightarrow> ns_state option" where
  "ns_step home s = (\<lambda>(c, a). case c of
     NS (sc_setns fd n) \<Rightarrow>
       (case s of
          Host \<Rightarrow> Some (if a = Done then Inside else Host)
        | Inside \<Rightarrow> if fd = home then Some (if a = Done then Host else Stuck) else None
        | Stuck \<Rightarrow> None)
   | NS (sc_mount _ _ _ _ _) \<Rightarrow> if s = Inside then Some s else None
   | NS (sc_umount2 _ _) \<Rightarrow> if s = Inside then Some s else None
   | _ \<Rightarrow> Some s)"

lemma ns_step_simps:
  "ns_step home s (FS f, a) = Some s" "ns_step home s (C_setns fd n, a) = (case s of
          Host \<Rightarrow> Some (if a = Done then Inside else Host)
        | Inside \<Rightarrow> if fd = home then Some (if a = Done then Host else Stuck) else None
        | Stuck \<Rightarrow> None)"
  by (simp_all add: ns_step_def)

lemma stays_inside: "emits stays m \<Longrightarrow> (\<And>r. Q r Inside) \<Longrightarrow> safe (ns_step home) Inside m Q"
  by (rule safe_ignored, erule emits_weaken)
     (auto simp: stays_def ns_step_def split: call.splits ns_call.splits)

definition returns_home :: "unit res \<Rightarrow> ns_state \<Rightarrow> bool" where
  "returns_home r s \<longleftrightarrow> (case r of Inr _ \<Rightarrow> s = Host | Inl e \<Rightarrow> e = null_deref \<or> s \<noteq> Inside)"

lemma safe_in_namespace:
  assumes "emits stays body"
  shows "safe (ns_step (ctx_mnt_ns ctx)) Host (in_namespace ctx cnt body) returns_home"
proof -
  have home: "safe (ns_step (ctx_mnt_ns ctx)) Inside (ns_enter_at (ctx_mnt_ns ctx) CLONE_NEWNS) Q"
    if "Q (Inr ()) Host" "\<And>e. Q (Inl e) Stuck" for Q
    unfolding ns_enter_at_def
    by (intro safe_intros) (use that in \<open>auto simp: ns_step_simps answer_def split: sum.splits\<close>)
  have rest: "safe (ns_step (ctx_mnt_ns ctx)) Inside
    (bindE (onerror body (ns_enter_at (ctx_mnt_ns ctx) CLONE_NEWNS)) (\<lambda>_. ns_enter_at (ctx_mnt_ns ctx) CLONE_NEWNS))
    returns_home"
    by (intro safe_bindE safe_onerror stays_inside[OF assms])
       (auto intro!: home simp: returns_home_def split: sum.splits)
  show ?thesis
    unfolding in_namespace_def ns_enter_def xopen_def
    by (intro safe_bindE safe_lastly safe_or_set safe_call_int)
       (auto intro!: safe_intros rest simp: ns_step_simps answer_def returns_home_def split: sum.splits)
qed

lemma safe_validate:
  "(\<And>e. Q (Inl e) s) \<Longrightarrow> (\<And>c. ctx = Some c \<Longrightarrow> safe \<delta> s (f c) Q) \<Longrightarrow> safe \<delta> s (bindE (validate_context ctx) f) Q"
  "(\<And>e. Q (Inl e) s) \<Longrightarrow> (b \<Longrightarrow> safe \<delta> s (g ()) Q) \<Longrightarrow> safe \<delta> s (bindE (validate_args b) g) Q"
  unfolding validate_context_def validate_args_def failx_def
  by (auto intro!: safe_bindE safe_raise safe_okay split: option.splits sum.splits)

lemma safe_operation:
  assumes "\<And>c. emits stays (body c)"
  shows "safe (ns_step (ctx_mnt_ns ctx)) Host (bindE (validate_context (Some ctx)) (\<lambda>ctx.
    bindE (validate_args b) (\<lambda>_. in_namespace ctx cnt (body ctx)))) returns_home"
  by (intro safe_validate) (auto intro!: safe_in_namespace assms simp: returns_home_def)

context device_cgroup
begin

lemma operations_return:
  "safe (ns_step (ctx_mnt_ns ctx)) Host (nvc_driver_mount allow (Some ctx) cnt info) returns_home"
  "safe (ns_step (ctx_mnt_ns ctx)) Host (nvc_device_mount allow (Some ctx) cnt dev) returns_home"
  "safe (ns_step (ctx_mnt_ns ctx)) Host (nvc_mig_device_access_caps_mount allow (Some ctx) cnt mdev) returns_home"
  "safe (ns_step (ctx_mnt_ns ctx)) Host (nvc_mig_config_global_caps_mount allow junk (Some ctx) cnt) returns_home"
  "safe (ns_step (ctx_mnt_ns ctx)) Host (nvc_mig_monitor_global_caps_mount allow junk (Some ctx) cnt) returns_home"
  "safe (ns_step (ctx_mnt_ns ctx)) Host (nvc_device_mig_caps_mount allow (Some ctx) cnt dev) returns_home"
  unfolding nvc_driver_mount_def nvc_device_mount_def nvc_mig_device_access_caps_mount_def
    nvc_mig_config_global_caps_mount_def nvc_mig_monitor_global_caps_mount_def nvc_device_mig_caps_mount_def
    global_caps_mount_def device_mount_dxcore_def
  by (rule safe_operation; intro emits_intros stays_operations stays_rules driver_body_stays native_stays
        caps_device_stays mig_minor_stays allow_stays)+

end


definition plain_device :: nvc_device where
  "plain_device = \<lparr>dev_model = [], dev_uuid = ''GPU-0'', dev_busid = [], dev_arch = [], dev_brand = [],
     dev_node = \<lparr>node_path = ''/dev/dri/card0'', node_id = 57856\<rparr>, mig_capable = False, mig_caps_path = [],
     mig_devices = []\<rparr>"


subsection \<open>The injection of the driver\<close>

definition plain_root :: "path \<Rightarrow> bool" where
  "plain_root root \<longleftrightarrow> take 1 root = ''/'' \<and> (root = ''/'' \<or> last root \<noteq> CHR ''/'')"

lemma rstrip_id: "last p \<noteq> CHR ''/'' \<Longrightarrow> rstrip p = p"
  by (cases p rule: rev_cases) (auto simp: rstrip_def)

lemma dirname_file:
  assumes "CHR ''/'' \<notin> set f" "f \<noteq> []" "a = [] \<or> last a \<noteq> CHR ''/''"
  shows "dirname (a @ CHR ''/'' # f) = (if a = [] then ''/'' else a)"
proof -
  have "last (a @ CHR ''/'' # f) \<noteq> CHR ''/''"
    using assms(1,2) by (auto simp: last_append dest: last_in_set)
  then have "rstrip (a @ CHR ''/'' # f) = a @ CHR ''/'' # f" by (rule rstrip_id)
  moreover have "strrchr (a @ CHR ''/'' # f) CHR ''/'' = Some (a, f)"
    using assms(1) by (simp add: strrchr_Some)
  moreover have "rstrip a = a"
    using assms(3) by (auto intro: rstrip_id) (simp add: rstrip_def)
  ultimately show ?thesis by (simp add: dirname_def Let_def)
qed

lemma mounted_dirname:
  assumes "mounted root p" "plain_root root"
  obtains cs where "list_all good_comp cs" "dirname p = below root cs" "dirname p \<noteq> []" "take 1 (dirname p) = ''/''"
proof -
  obtain cs f where p: "p = below root (cs @ [f])" "list_all good_comp cs" "good_comp f"
    using assms(1) by (auto simp: mounted_def)
  have f: "CHR ''/'' \<notin> set f" "f \<noteq> []" using p(3) by (auto simp: good_comp_def)
  show ?thesis
  proof (cases "root = ''/''")
    case True
    then have "p = render cs @ CHR ''/'' # f"
      by (cases cs) (simp_all add: p(1) below_def)
    then have "dirname p = (if cs = [] then ''/'' else render cs)"
      using dirname_file[OF f, of "render cs"] last_render[OF p(2)] by (cases cs) auto
    then have "dirname p = below root cs" "dirname p \<noteq> []" "take 1 (dirname p) = ''/''"
      using True by (cases cs; simp add: below_def)+
    then show ?thesis using that[OF p(2)] by blast
  next
    case False
    then have root: "root \<noteq> []" "last root \<noteq> CHR ''/''" "take 1 root = ''/''"
      using assms(2) by (auto simp: plain_root_def)
    then have "p = (root @ render cs) @ CHR ''/'' # f"
      by (simp add: p(1) below_def)
    moreover have "last (root @ render cs) \<noteq> CHR ''/''"
      using root last_render[OF p(2)] by (cases cs) auto
    ultimately have "dirname p = root @ render cs"
      using dirname_file[OF f, of "root @ render cs"] root(1) by auto
    then have "dirname p = below root cs" "dirname p \<noteq> []" "take 1 (dirname p) = ''/''"
      using root by (cases root; simp add: below_def)+
    then show ?thesis using that[OF p(2)] by blast
  qed
qed

lemma path_new_absolute:
  assumes "take 1 d = ''/''" "path_new d os tr = (Inr b, es)"
  shows "b = d \<and> length b < PATH_MAX"
proof -
  obtain c where d: "d = CHR ''/'' # c" using assms(1) by (cases d) auto
  show ?thesis
    using assms(2) unfolding path_new_def path_append_def d by (auto simp: str_empty_def Let_def split: if_split_asm)
qed

lemma safe_symlink_library:
  assumes "mounted root p" "plain_root root" "good_comp link" "\<And>r. Q r s"
  shows "safe (mount_step root) s (symlink_library p target link uid gid) Q"
proof -
  obtain cs where d: "list_all good_comp cs" "dirname p = below root cs" "dirname p \<noteq> []" "take 1 (dirname p) = ''/''"
    using mounted_dirname[OF assms(1,2)] by blast
  have root: "take 1 root = ''/''" using assms(2) by (simp add: plain_root_def)
  have join: "safe (mount_step root) s (path_join (dirname p) link) (\<lambda>r s'. s' = s \<and> (\<forall>q. r = Inr q \<longrightarrow> under root q))"
  proof (rule safe_observes_result[OF ignores_mount_step observes_path_join], intro conjI allI impI refl)
    fix r os tr es q
    assume run: "path_join (dirname p) link os tr = (r, es)" "r = Inr q"
    then obtain b es1 es2 where b: "path_new (dirname p) os tr = (Inr b, es1)" "path_append b link os (tr @ es1) = (Inr q, es2)"
      by (auto simp: path_join_def bindE_Inr)
    then have "b = dirname p" "length b < PATH_MAX"
      using path_new_absolute[OF d(4)] by blast+
    then have "under root b" using d(1,2) by (auto simp: under_def)
    from under_append[OF this assms(3) b(2) root] show "under root q" by (rule mounted_under)
  qed
  show ?thesis
    unfolding symlink_library_def
    by (intro safe_bindE safe_xstrdup)
       (auto intro!: assms(4) safe_bindE safe_conseq[OF join] keeps_mounts_safe[OF keeps_file_create] split: sum.splits)
qed

lemma safe_symlink_libraries:
  assumes "list_all (mounted root) ps" "plain_root root" "root = cnt_rootfs cnt" "\<And>r. Q r s"
  shows "safe (mount_step root) s (symlink_libraries cnt ps) Q"
  using assms(1)
proof (induction ps)
  case Nil
  show ?case unfolding symlink_libraries.simps by (intro safe_okay assms(4))
next
  case (Cons p ps)
  have links: "list_all good_comp [''libGL_xdxgpu.so'', ''libxdxgpu-ml.so'', ''libOpenCL.so.1'', ''libOpenCL.so'',
      ''libpciaccess.so.0'', ''libvlk_xdxgpu.so'']"
    by (simp add: good_comp_def)
  have link: "safe (mount_step root) s (link_library cnt p) Q'" if "\<And>r. Q' r s" for Q'
    unfolding link_library_def Let_def
    by (intro safe_if safe_bindE safe_symlink_library safe_okay that)
       (use Cons.prems assms(2) links that in \<open>auto intro!: safe_symlink_library split: sum.splits\<close>)
  show ?case
    using Cons unfolding symlink_libraries.simps
    by (intro safe_bindE link) (auto intro!: assms(4) split: sum.splits)
qed

text \<open>What a part of the injection does to the mounts made so far, of paths with \<open>P\<close>.\<close>

definition mounts_run :: "(path \<Rightarrow> bool) \<Rightarrow> path multiset \<Rightarrow> path list res \<Rightarrow> path multiset \<Rightarrow> bool" where
  "mounts_run P s r s' \<longleftrightarrow>
     (case r of Inl e \<Rightarrow> e = null_deref \<or> (\<exists>d. s' \<subseteq># add_mset d s)
      | Inr ms \<Rightarrow> list_all P ms \<and> s' = mset ms + s)"

lemma safe_rollback_run:
  assumes "take 1 root = ''/''" "list_all (under root) ps"
    "safe (mount_step root) (mset ps + s) m (\<lambda>r s'. case r of
       Inl e \<Rightarrow> e = null_deref \<or> (\<exists>d. s' \<subseteq># add_mset d (mset ps + s)) | Inr x \<Rightarrow> R x s')"
    "\<And>x s'. R x s' \<Longrightarrow> safe (mount_step root) s' (f x) (mounts_run P s)"
  shows "safe (mount_step root) (mset ps + s) (bindE (onerror m (unmount_all ps)) f) (mounts_run P s)"
proof (intro safe_bindE safe_onerror safe_conseq[OF assms(3)], goal_cases)
  case (1 r s')
  show ?case
  proof (cases r)
    case (Inl e)
    with 1 have "e = null_deref \<or> (\<exists>d. s' \<subseteq># add_mset d (mset ps + s))" by simp
    then have "e = null_deref \<or> (\<exists>d. s' - mset ps \<subseteq># add_mset d s)"
      by (auto simp: subset_eq_diff_conv add.commute)
    with Inl show ?thesis
      by (auto intro!: safe_unmount_all[OF assms(1,2)] simp: mounts_run_def)
  next
    case (Inr x)
    with 1 assms(4)[of x s'] show ?thesis by simp
  qed
qed

lemma safe_mount_list:
  assumes "take 1 (cnt_rootfs cnt) = ''/''" "list_all (mounted (cnt_rootfs cnt)) ps"
  shows "safe (mount_step (cnt_rootfs cnt)) (mset ps + s) (mount_list ps root cnt dir files)
    (mounts_run (mounted (cnt_rootfs cnt)) s)"
  unfolding mount_list_def
proof (rule safe_if)
  assume "files \<noteq> []"
  show "safe (mount_step (cnt_rootfs cnt)) (mset ps + s)
    (bindE (onerror (mount_files root cnt dir files) (unmount_all ps)) (\<lambda>ms. okay (ps @ ms)))
    (mounts_run (mounted (cnt_rootfs cnt)) s)"
  proof (intro safe_rollback_run assms(1) mounted_list_under[OF assms(2)] safe_okay,
         rule safe_conseq[OF safe_mount_files[OF assms(1)]])
    fix r s'
    assume "mounts_many (cnt_rootfs cnt) (mset ps + s) r s'"
    then show "case r of
       Inl e \<Rightarrow> e = null_deref \<or> (\<exists>d. s' \<subseteq># add_mset d (mset ps + s))
     | Inr x \<Rightarrow> list_all (mounted (cnt_rootfs cnt)) x \<and> s' = mset x + (mset ps + s)"
      by (auto simp: mounts_many_def split: sum.splits)
  qed (use assms in \<open>auto simp: mounts_run_def\<close>)
qed (use assms in \<open>auto intro!: safe_okay simp: mounts_run_def\<close>)

lemma observes_array_copy: "observes (array_copy a)"
  unfolding array_copy_def observes_def
  by (intro emits_intros observes_array_new[unfolded observes_def])

lemma safe_container_libraries:
  assumes "take 1 (cnt_rootfs cnt) = ''/''" "list_all (mounted (cnt_rootfs cnt)) ps"
  shows "safe (mount_step (cnt_rootfs cnt)) (mset ps + s) (container_libraries ps cnt info)
    (mounts_run (mounted (cnt_rootfs cnt)) s)"
  unfolding container_libraries_def
proof (rule safe_if)
  let ?m = "bindE (array_copy (cnt_libs cnt)) (\<lambda>libs. case filter_libraries info (map the libs) of
           None \<Rightarrow> raise null_deref
         | Some libs \<Rightarrow> mount_files (cnt_rootfs cnt) cnt (cnt_libs_dir cnt) libs)"
  let ?R = "\<lambda>r s'. case r of Inl e \<Rightarrow> e = null_deref \<or> (\<exists>d. s' \<subseteq># add_mset d (mset ps + s))
    | Inr x \<Rightarrow> list_all (mounted (cnt_rootfs cnt)) x \<and> s' = mset x + (mset ps + s)"
  have files: "safe (mount_step (cnt_rootfs cnt)) (mset ps + s) (mount_files (cnt_rootfs cnt) cnt (cnt_libs_dir cnt) fs) ?R" for fs
    by (rule safe_conseq[OF safe_mount_files[OF assms(1)]]) (auto simp: mounts_many_def split: sum.splits)
  have m: "safe (mount_step (cnt_rootfs cnt)) (mset ps + s) ?m ?R"
  proof (rule safe_bindE, rule observes_safe[OF observes_array_copy])
    fix r
    show "case r of Inl e \<Rightarrow> ?R (Inl e) (mset ps + s)
      | Inr libs \<Rightarrow> safe (mount_step (cnt_rootfs cnt)) (mset ps + s) (case filter_libraries info (map the libs) of
           None \<Rightarrow> raise null_deref
         | Some libs \<Rightarrow> mount_files (cnt_rootfs cnt) cnt (cnt_libs_dir cnt) libs) ?R"
      by (cases r) (auto intro!: safe_case_option safe_raise files)
  qed
  show "safe (mount_step (cnt_rootfs cnt)) (mset ps + s) (bindE (onerror ?m (unmount_all ps)) (\<lambda>ms. okay (ps @ ms)))
    (mounts_run (mounted (cnt_rootfs cnt)) s)"
    by (intro safe_rollback_run[OF assms(1) mounted_list_under[OF assms(2)] m] safe_okay)
       (use assms in \<open>auto simp: mounts_run_def\<close>)
qed (use assms in \<open>auto intro!: safe_okay simp: mounts_run_def\<close>)

lemma mset_subset_eq_add_mset: "s \<subseteq># add_mset d s"
  by (simp add: subset_mset.add_increasing)

lemma setup_keeps_mounts: "emits (\<lambda>e. cg_setup (fst e)) m \<Longrightarrow> keeps_mounts root m"
  unfolding keeps_mounts_def
  by (intro allI, erule emits_weaken)
     (auto simp: cg_setup_def mount_step_simps ignores_mount_step[unfolded ignores_def]
       elim!: library_call.elims stream_write.elims)

lemma mounts_run_weaken: "mounts_run (mounted root) s r s' \<Longrightarrow> mounts_run (under root) s r s'"
  by (auto simp: mounts_run_def mounted_list_under split: sum.splits)

context device_cgroup
begin

lemma allow_keeps_mounts: "keeps_mounts root (allow cnt d)"
  by (rule setup_keeps_mounts) (rule allow_calls)

lemma safe_driver_devices:
  assumes "take 1 (cnt_rootfs cnt) = ''/''" "list_all (under (cnt_rootfs cnt)) ps"
  shows "safe (mount_step (cnt_rootfs cnt)) (mset ps + s) (driver_devices allow ctx cnt ps ds)
    (mounts_run (under (cnt_rootfs cnt)) s)"
  using assms(2)
proof (induction ds arbitrary: ps)
  case Nil
  then show ?case unfolding driver_devices.simps by (intro safe_okay) (simp add: mounts_run_def)
next
  case (Cons d ds)
  have cgroup: "safe (mount_step (cnt_rootfs cnt)) (mset qs + s)
      (bindE (if \<not> flag_set (cnt_flags cnt) OPT_NO_CGROUPS
              then onerror (allow cnt (node_id d)) (unmount_all qs) else okay ()) (\<lambda>_.
         driver_devices allow ctx cnt qs ds)) (mounts_run (under (cnt_rootfs cnt)) s)"
    if qs: "list_all (under (cnt_rootfs cnt)) qs" for qs
  proof (cases "\<not> flag_set (cnt_flags cnt) OPT_NO_CGROUPS")
    case True
    show ?thesis
      unfolding if_P[OF True]
      by (rule safe_rollback_run[OF assms(1) qs, where R = "\<lambda>_ s'. s' = mset qs + s"], rule keeps_mounts_safe[OF allow_keeps_mounts])
         (use Cons.IH[OF qs] in \<open>auto split: sum.splits intro!: exI[of _ d]\<close>)
  next
    case False
    show ?thesis
      unfolding if_not_P[OF False]
      by (intro safe_bindE safe_okay) (use Cons.IH[OF qs] in simp)
  qed
  have device: "safe (mount_step (cnt_rootfs cnt)) (mset ps + s) (mount_device (ctx_root ctx) cnt d) (\<lambda>r s'. case r of
       Inl e \<Rightarrow> e = null_deref \<or> (\<exists>d. s' \<subseteq># add_mset d (mset ps + s))
     | Inr m \<Rightarrow> under (cnt_rootfs cnt) m \<and> s' = mset (ps @ [m]) + s)"
  proof -
    have "safe (mount_step (cnt_rootfs cnt)) (mset ps + s) (mount_device (ctx_root ctx) cnt d)
      (mounts_one (cnt_rootfs cnt) (mset ps + s))"
      using device.mounts[OF assms(1), of "mset ps + s" "(ctx_root ctx, d)"] by simp
    then show ?thesis
      by (rule safe_conseq)
        (auto simp: mounts_one_def split: sum.splits intro: subset_mset.order_trans[OF _ mset_subset_eq_add_mset])
  qed
  show ?case
    unfolding driver_devices.simps bindE_assoc
  proof (intro safe_if Cons.IH Cons.prems)
    show "safe (mount_step (cnt_rootfs cnt)) (mset ps + s)
      (bindE (if \<not> flag_set (cnt_flags cnt) OPT_NO_DEVBIND
             then bindE (onerror (mount_device (ctx_root ctx) cnt d) (unmount_all ps)) (\<lambda>m. okay (ps @ [m]))
             else okay ps) (\<lambda>mnt.
      bindE (if \<not> flag_set (cnt_flags cnt) OPT_NO_CGROUPS
             then onerror (allow cnt (node_id d)) (unmount_all mnt) else okay ()) (\<lambda>_.
        driver_devices allow ctx cnt mnt ds))) (mounts_run (under (cnt_rootfs cnt)) s)"
    proof (cases "\<not> flag_set (cnt_flags cnt) OPT_NO_DEVBIND")
      case True
      show ?thesis
        unfolding if_P[OF True] bindE_assoc bindE_okay
      proof (rule safe_rollback_run[OF assms(1) Cons.prems device], elim conjE, hypsubst, rule cgroup)
        fix m assume "under (cnt_rootfs cnt) m"
        then show "list_all (under (cnt_rootfs cnt)) (ps @ [m])" using Cons.prems by simp
      qed
    qed (use cgroup[OF Cons.prems] in \<open>simp add: bindE_okay\<close>)
  qed
qed

lemma safe_driver_mount_body:
  assumes "plain_root (cnt_rootfs cnt)"
  shows "safe (mount_step (cnt_rootfs cnt)) {#} (driver_mount_body allow ctx cnt info)
    (mounts_run (under (cnt_rootfs cnt)) {#})"
proof -
  let ?root = "cnt_rootfs cnt"
  let ?run = "mounts_run (under ?root) {#}"
  have root: "take 1 ?root = ''/''" using assms by (simp add: plain_root_def)
  have listed: "safe (mount_step ?root) (mset ps) (bindE m f) ?run"
    if "safe (mount_step ?root) (mset ps) m (mounts_run (mounted ?root) {#})"
      "\<And>ps. list_all (mounted ?root) ps \<Longrightarrow> safe (mount_step ?root) (mset ps) (f ps) ?run" for ps m f
    by (rule safe_bindE, rule safe_conseq[OF that(1)]) (auto simp: mounts_run_def intro!: that(2) split: sum.splits)
  have mount: "safe (mount_step ?root) (mset ps) (mount_list ps r cnt dir fs) (mounts_run (mounted ?root) {#})"
    if "list_all (mounted ?root) ps" for ps r dir fs
    using safe_mount_list[OF root that, of "{#}"] by simp
  have links: "safe (mount_step ?root) (mset ps) (bindE (onerror (symlink_libraries cnt ps) (unmount_all ps)) f) ?run"
    if "list_all (mounted ?root) ps" "safe (mount_step ?root) (mset ps) (f ()) ?run" for ps f
    using safe_rollback_run[OF root mounted_list_under[OF that(1)], where s = "{#}" and R = "\<lambda>_ s'. s' = mset ps",
        OF safe_symlink_libraries[OF that(1) assms refl]] that(2)
    by (auto split: sum.splits)
  have libs: "safe (mount_step ?root) (mset ps) (container_libraries ps cnt info) (mounts_run (mounted ?root) {#})"
    if "list_all (mounted ?root) ps" for ps
    using safe_container_libraries[OF root that, of "{#}"] by simp
  have devices: "safe (mount_step ?root) (mset ps) (driver_devices allow ctx cnt ps ds) ?run"
    if "list_all (mounted ?root) ps" for ps ds
    using safe_driver_devices[OF root mounted_list_under[OF that], of "{#}"] by simp
  have compat: "safe (mount_step ?root) (mset ps) (if b then mount_list ps r cnt dir fs else okay ps)
      (mounts_run (mounted ?root) {#})" if "list_all (mounted ?root) ps" for ps b r dir fs
    by (intro safe_if mount[OF that] safe_okay) (simp add: mounts_run_def that)
  have start: "safe (mount_step ?root) {#} (bindE (array_new n) (\<lambda>_. m)) ?run"
    if "safe (mount_step ?root) (mset []) m ?run" for n m
    by (intro safe_bindE safe_array_new) (use that in \<open>auto simp: mounts_run_def split: sum.splits\<close>)
  show ?thesis
    unfolding driver_mount_body_def
    by (rule start, (rule listed, rule mount, simp)+, (rule listed, rule compat, assumption)
        , rule links, assumption, rule listed, rule libs, assumption, rule devices, assumption)
qed

end

text \<open>A run in the namespace of the container: the way in, the body, the way back.\<close>

lemma in_namespace_run:
  assumes "in_namespace ctx cnt body os tr = (r, es)"
  shows "(\<exists>e. ns_enter (cnt_mnt_ns cnt) CLONE_NEWNS os tr = (Inl e, es) \<and> r = Inl e) \<or>
    (\<exists>e1 rb e2 e3 r3. ns_enter (cnt_mnt_ns cnt) CLONE_NEWNS os tr = (Inr (), e1) \<and> body os (tr @ e1) = (rb, e2) \<and>
       es = e1 @ e2 @ e3 \<and>
       (if rb = Inl null_deref then r = rb \<and> e3 = []
        else ns_enter_at (ctx_mnt_ns ctx) CLONE_NEWNS os (tr @ e1 @ e2) = (r3, e3) \<and>
          r = (case rb of Inl e \<Rightarrow> Inl e | Inr _ \<Rightarrow> r3)))"
proof -
  obtain r1 e1 where n: "ns_enter (cnt_mnt_ns cnt) CLONE_NEWNS os tr = (r1, e1)" by fastforce
  obtain rb e2 where b: "body os (tr @ e1) = (rb, e2)" by fastforce
  obtain r3 e3 where x: "ns_enter_at (ctx_mnt_ns ctx) CLONE_NEWNS os (tr @ e1 @ e2) = (r3, e3)" by fastforce
  have runs: "in_namespace ctx cnt body os tr =
    (case r1 of Inl e \<Rightarrow> (Inl e, e1)
     | Inr _ \<Rightarrow> if rb = Inl null_deref then (rb, e1 @ e2)
              else (case rb of Inl e \<Rightarrow> Inl e | Inr _ \<Rightarrow> r3, e1 @ e2 @ e3))"
    using n b x
    by (cases r1; cases rb) (auto simp: in_namespace_def onerror_def bindE_def bindS_def)
  show ?thesis
  proof (cases r1)
    case (Inl e)
    with runs assms n show ?thesis by auto
  next
    case (Inr u)
    have "es = e1 @ e2 @ (if rb = Inl null_deref then [] else e3)"
      "r = (if rb = Inl null_deref then rb else case rb of Inl e \<Rightarrow> Inl e | Inr _ \<Rightarrow> r3)"
      using runs assms Inr by (auto split: if_splits)
    with n b x Inr show ?thesis
      by (intro disjI2 exI[of _ e1] exI[of _ rb] exI[of _ e2] exI[of _ "if rb = Inl null_deref then [] else e3"] exI[of _ r3])
         auto
  qed
qed

lemma keeps_namespace:
  "keeps_mounts root (ns_enter p n)" "keeps_mounts root (ns_enter_at fd n)"
  unfolding keeps_mounts_def ns_enter_def ns_enter_at_def
  by (auto intro!: emits_intros simp: mount_step_simps ignoresD[OF ignores_mount_step])

lemma keeps_mounts_run: "keeps_mounts root m \<Longrightarrow> m os tr = (r, es) \<Longrightarrow> accepts (mount_step root) s es = Some s"
  using safeD[OF keeps_mounts_safe[of root m "\<lambda>_ s'. s' = s" s]] by auto

lemma way_back_failed:
  assumes "ns_enter_at fd n os tr = (Inl e, es)"
  shows "\<exists>c. es = [(C_setns fd n, Failed c)]"
  using assms by (auto simp: ns_enter_at_def run_simps answer_def split: sum.splits)

definition rolled_back :: "fd \<Rightarrow> unit res \<Rightarrow> trace \<Rightarrow> path multiset \<Rightarrow> bool" where
  "rolled_back home r es s \<longleftrightarrow>
     (case r of
        Inl e \<Rightarrow> e = null_deref \<or> size s \<le> 1 \<or> (\<exists>n c. last es = (C_setns home n, Failed c))
      | Inr _ \<Rightarrow> True)"

context device_cgroup
begin

lemma driver_mount_rolled_back:
  assumes "plain_root (cnt_rootfs cnt)" "nvc_driver_mount allow (Some ctx) (Some cnt) (Some info) os tr = (r, es)"
  shows "\<exists>s. accepts (mount_step (cnt_rootfs cnt)) {#} es = Some s \<and> rolled_back (ctx_mnt_ns ctx) r es s"
proof (cases "ctx_initialized ctx")
  case False
  with assms(2) have "es = []" "\<exists>e. r = Inl e"
    by (auto simp: nvc_driver_mount_def validate_context_def bindE_def bindS_def)
  then show ?thesis by (auto simp: rolled_back_def)
next
  case True
  let ?step = "mount_step (cnt_rootfs cnt)"
  let ?body = "bindE (driver_mount_body allow ctx cnt info) (\<lambda>_. okay ())"
  have run: "in_namespace ctx cnt ?body os tr = (r, es)"
    using assms(2) True by (simp add: nvc_driver_mount_def validate_context_def validate_args_def bindE_okay)
  from in_namespace_run[OF run] show ?thesis
  proof (elim disjE exE conjE)
    fix e assume "ns_enter (cnt_mnt_ns cnt) CLONE_NEWNS os tr = (Inl e, es)"
    from keeps_mounts_run[OF keeps_namespace(1) this] show ?thesis
      by (cases r) (auto simp: rolled_back_def)
  next
    fix e1 rb e2 e3 r3
    assume n: "ns_enter (cnt_mnt_ns cnt) CLONE_NEWNS os tr = (Inr (), e1)" and b: "?body os (tr @ e1) = (rb, e2)"
      and es: "es = e1 @ e2 @ e3"
      and rest: "if rb = Inl null_deref then r = rb \<and> e3 = []
        else ns_enter_at (ctx_mnt_ns ctx) CLONE_NEWNS os (tr @ e1 @ e2) = (r3, e3) \<and>
          r = (case rb of Inl e \<Rightarrow> Inl e | Inr _ \<Rightarrow> r3)"
    have "safe ?step {#} ?body (\<lambda>r s. case r of Inl e \<Rightarrow> e = null_deref \<or> size s \<le> 1 | Inr _ \<Rightarrow> True)"
      by (rule safe_bindE, rule safe_conseq[OF safe_driver_mount_body[OF assms(1)]])
         (auto simp: mounts_run_def intro!: safe_okay split: sum.splits dest!: size_mset_mono)
    from safeD[OF this b] obtain s where s: "accepts ?step {#} e2 = Some s"
      "case rb of Inl e \<Rightarrow> e = null_deref \<or> size s \<le> 1 | Inr _ \<Rightarrow> True" by blast
    have e1: "accepts ?step {#} e1 = Some {#}" by (rule keeps_mounts_run[OF keeps_namespace(1) n])
    have e3: "accepts ?step s e3 = Some s"
      using rest keeps_mounts_run[OF keeps_namespace(2)] by (auto split: if_splits)
    have "accepts ?step {#} es = Some s" using e1 s(1) e3 by (simp add: es)
    moreover have "rolled_back (ctx_mnt_ns ctx) r es s"
      using rest s(2) way_back_failed
      by (cases rb; cases r) (fastforce simp: rolled_back_def es split: if_splits)+
    ultimately show ?thesis by blast
  qed
qed

end


definition plain_info :: nvc_driver_info where
  "plain_info = \<lparr>nvrm_version = None, cuda_version = None, drv_bins = [], drv_libs = [''/usr/lib/libdrm.so.2''],
     drv_libs32 = [], drv_ipcs = [], drv_devs = [], drv_firmwares = []\<rparr>"


end
