(* ===== verification/Log.thy ===== *)
theory Log
  imports Mount
begin

text \<open>
  The log of utils.c.  The static variable \<open>logfile\<close> is the state: the stream of the open log,
  or none.  The release build defines NDEBUG, in which log_open goes on without a
  log when the file does not open; the argument \<open>ndebug\<close> tells.  The clock, the
  calendar and the thread are answered by the environment: gettimeofday with the
  microseconds since the epoch, gmtime and strftime with the text they print.
\<close>

unbundle bit_operations_syntax

type_synonym logfile = "fd option"

definition log_active :: "logfile \<Rightarrow> bool" where
  "log_active logfile \<longleftrightarrow> logfile \<noteq> None"

definition log_banner :: string where
  "log_banner = CHR 0x0A # ''-- WARNING, the following logs are for debugging purposes only --'' @ [CHR 0x0A, CHR 0x0A]"

text \<open>A failed assertion ends the process by the signal 6.\<close>

definition log_open :: "bool \<Rightarrow> path option \<Rightarrow> logfile \<Rightarrow> logfile ioE" where
  "log_open ndebug path logfile =
     (case path of
        None \<Rightarrow> okay logfile
      | Some p \<Rightarrow>
          if log_active logfile then okay logfile
          else bindS (call_int (C_fopen p)) (\<lambda>r. case r of
            Inl _ \<Rightarrow> if ndebug then okay None else raise (killed 6)
          | Inr fs \<Rightarrow>
              bindS (call_void (C_lib ''setbuf'' [fs] [])) (\<lambda>_.
              bindS (call_void (C_fprintf fs log_banner)) (\<lambda>_. okay (Some fs)))))"

definition log_close :: "logfile \<Rightarrow> logfile io" where
  "log_close logfile =
     (case logfile of None \<Rightarrow> ret None | Some fs \<Rightarrow> bindS (call_void (C_fclose fs)) (\<lambda>_. ret None))"

text \<open>The time of a line, \<open>%m%d %T\<close>, and the microseconds.\<close>

definition log_time :: "(string \<times> nat) io" where
  "log_time =
     bindS (call_int (C_lib ''gettimeofday'' [] [])) (\<lambda>tv. case tv of
       Inl _ \<Rightarrow> ret (''0000 00:00:00'', 0)
     | Inr us \<Rightarrow>
         bindS (call_str (C_lib ''strftime'' [us div 1000000] [])) (\<lambda>s.
         ret (case s of Inl _ \<Rightarrow> ''0000 00:00:00'' | Inr b \<Rightarrow> if length b < 16 \<and> b \<noteq> [] then b else ''0000 00:00:00'',
              nat us mod 1000000)))"

definition dec_pad :: "nat \<Rightarrow> nat \<Rightarrow> string" where
  "dec_pad w n = replicate (w - length (dec n)) CHR ''0'' @ dec n"

definition log_head :: "char \<Rightarrow> string \<Rightarrow> nat \<Rightarrow> string \<Rightarrow> nat \<Rightarrow> int \<Rightarrow> string" where
  "log_head level src line buf usec tid =
     level # buf @ ''.'' @ dec_pad 6 usec @ '' '' @ dec_int tid @ '' '' @ basename src @ '':'' @ dec line @ ''] ''"

definition log_write :: "logfile \<Rightarrow> char \<Rightarrow> string \<Rightarrow> nat \<Rightarrow> string \<Rightarrow> unit io" where
  "log_write logfile level src line text =
     (case logfile of
        None \<Rightarrow> ret ()
      | Some fs \<Rightarrow>
          bindS log_time (\<lambda>(buf, usec).
          bindS (call_id (C_lib ''gettid'' [] [])) (\<lambda>tid.
          bindS (call_void (C_fprintf fs (log_head level src line buf usec (sint tid)))) (\<lambda>_.
          bindS (call_void (C_fprintf fs text)) (\<lambda>_.
          call_void (C_fprintf fs [CHR 0x0A]))))))"

text \<open>The lines of the pipe as getline returns them, the newline included; the last character of each is cut.\<close>

fun log_lines :: "logfile \<Rightarrow> string list \<Rightarrow> unit io" where
  "log_lines logfile [] = ret ()"
| "log_lines logfile (l # ls) =
     bindS (if length l > 0 then log_write logfile CHR ''W'' ''utils.c'' 121 (takeWhile (\<lambda>c. c \<noteq> CHR 0x00) (butlast l))
            else ret ()) (\<lambda>_. log_lines logfile ls)"

text \<open>
  The output of a process, read from a pipe and logged line by line.  The result is the descriptors that are still
  open for the caller, the second reset once it is closed, beside the outcome.  The stream made of the first
  descriptor takes it over: fclose closes it.
\<close>

definition log_pipe_output :: "logfile \<Rightarrow> fd \<times> fd \<Rightarrow> ((fd \<times> fd) \<times> unit res) io" where
  "log_pipe_output logfile fds =
     (if \<not> log_active logfile then ret (fds, Inr ())
      else
      bindS (if snd fds \<ge> 0 then bindS (call_void (C_close (snd fds))) (\<lambda>_. ret (-1)) else ret (snd fds)) (\<lambda>fd1.
      bindS (or_set (call_unit (C_lib ''fdopen'' [fst fds] [])) ''open failed'') (\<lambda>r. case r of
        Inl e \<Rightarrow> ret ((fst fds, fd1), Inl e)
      | Inr _ \<Rightarrow>
          bindS (call_strs (C_getlines (fst fds))) (\<lambda>ls.
          bindS (log_lines logfile (case ls of Inl _ \<Rightarrow> [] | Inr ls \<Rightarrow> ls)) (\<lambda>_.
          bindS (or_set (call_unit (C_lib ''ferror'' [fst fds] [])) ''read error'') (\<lambda>r.
          bindS (call_void (C_lib ''fclose'' [fst fds] [])) (\<lambda>_. ret ((fst fds, fd1), r))))))))"

subsection \<open>The stream of the log\<close>

text \<open>
  The monitor: the log is opened when it is closed, written and closed when it is open, and only its own stream is
  written.
\<close>

definition log_step :: "logfile \<Rightarrow> event \<Rightarrow> logfile option" where
  "log_step s = (\<lambda>(c, a). case c of
     DirOp (sc_fopen _) \<Rightarrow> if s = None then Some (case a of RInt fs \<Rightarrow> Some fs | _ \<Rightarrow> None) else None
   | DirOp (sc_fprintf fs _) \<Rightarrow> if s = Some fs then Some s else None
   | DirOp (sc_fclose fs) \<Rightarrow> if s = Some fs then Some None else None
   | _ \<Rightarrow> Some s)"

text \<open>A program of the log: the calls the library makes, in any order.\<close>

datatype log_op =
    LogOpen "path option"
  | LogWrite char string nat string
  | LogPipe fd fd
  | LogClose

primrec log_do :: "bool \<Rightarrow> log_op \<Rightarrow> logfile \<Rightarrow> logfile ioE" where
  "log_do ndebug (LogOpen p) logfile = log_open ndebug p logfile"
| "log_do ndebug (LogWrite level src line text) logfile =
     bindS (log_write logfile level src line text) (\<lambda>_. okay logfile)"
| "log_do ndebug (LogPipe a b) logfile = bindS (log_pipe_output logfile (a, b)) (\<lambda>_. okay logfile)"
| "log_do ndebug LogClose logfile = bindS (log_close logfile) okay"

fun log_run :: "bool \<Rightarrow> log_op list \<Rightarrow> logfile \<Rightarrow> logfile ioE" where
  "log_run ndebug [] logfile = okay logfile"
| "log_run ndebug (c # cs) logfile = bindE (log_do ndebug c logfile) (log_run ndebug cs)"

lemma safe_log_time: "(\<And>x. Q x s) \<Longrightarrow> safe log_step s log_time Q"
  unfolding log_time_def by (intro safe_intros) (auto simp: log_step_def intro!: safe_intros)

lemma safe_log_write: "safe log_step logfile (log_write logfile level src line text) (\<lambda>_ s. s = logfile)"
  unfolding log_write_def
  by (intro safe_intros safe_log_time) (auto simp: log_step_def intro!: safe_intros)

lemma safe_log_lines: "safe log_step logfile (log_lines logfile ls) (\<lambda>_ s. s = logfile)"
proof (induction ls)
  case (Cons l ls)
  then show ?case
    by (auto intro!: safe_intros safe_conseq[OF safe_log_write])
qed (simp add: safe_def)

lemma safe_log_pipe_output: "safe log_step logfile (log_pipe_output logfile fds) (\<lambda>_ s. s = logfile)"
proof -
  have "safe log_step logfile (bindS (log_lines logfile ls) f) Q"
    if "safe log_step logfile (f ()) Q" for ls f and Q :: "(fd \<times> fd) \<times> unit res \<Rightarrow> logfile \<Rightarrow> bool"
    using that by (auto intro!: safe_bindS safe_conseq[OF safe_log_lines])
  note lines = this
  show ?thesis
    unfolding log_pipe_output_def
    by (intro safe_intros lines) (auto simp: log_step_def split: sum.splits intro!: safe_intros lines)
qed

lemma safe_log_open: "safe log_step logfile (log_open ndebug p logfile) (\<lambda>r s. case r of Inl _ \<Rightarrow> s = None | Inr l \<Rightarrow> s = l)"
  unfolding log_open_def
  by (intro safe_intros) (auto simp: log_step_def log_active_def split: sum.splits intro!: safe_intros)

lemma safe_log_close: "safe log_step logfile (log_close logfile) (\<lambda>l s. s = None \<and> l = None)"
  unfolding log_close_def by (intro safe_intros) (auto simp: log_step_def intro!: safe_intros)

lemma safe_log_do: "safe log_step logfile (log_do ndebug c logfile) (\<lambda>r s. case r of Inl _ \<Rightarrow> s = None | Inr l \<Rightarrow> s = l)"
  by (cases c)
     (auto intro!: safe_bindS safe_okay safe_log_open safe_conseq[OF safe_log_close] safe_conseq[OF safe_log_write]
        safe_conseq[OF safe_log_pipe_output])

lemma safe_log_run: "safe log_step logfile (log_run ndebug cs logfile) (\<lambda>r s. case r of Inl _ \<Rightarrow> s = None | Inr l \<Rightarrow> s = l)"
proof (induction cs arbitrary: logfile)
  case (Cons c cs)
  show ?case
    unfolding log_run.simps
    by (rule safe_bindE, rule safe_conseq[OF safe_log_do]) (metis (mono_tags, lifting) Cons.IH sum.case sum.exhaust)
qed (simp add: safe_okay)

text \<open>The calls the log makes.\<close>

definition log_call :: "call \<Rightarrow> bool" where
  "log_call c = (case c of
     FS (sc_close _) \<Rightarrow> True
   | DirOp d \<Rightarrow> True
   | Proc (sc_lib f _ _) \<Rightarrow> f \<in> {''setbuf'', ''gettimeofday'', ''strftime'', ''gettid'', ''fdopen'', ''ferror'', ''fclose''}
   | _ \<Rightarrow> False)"

lemma log_calls:
  "emits (\<lambda>e. log_call (fst e)) (log_write logfile level src line text)"
  "emits (\<lambda>e. log_call (fst e)) (log_lines logfile ls)"
  "emits (\<lambda>e. log_call (fst e)) (log_pipe_output logfile fds)"
proof -
  have time: "emits (\<lambda>e. log_call (fst e)) log_time"
    unfolding log_time_def by (intro emits_intros) (simp_all add: log_call_def)
  show "emits (\<lambda>e. log_call (fst e)) (log_write logfile level src line t)" for level src line t
    unfolding log_write_def by (intro emits_intros time) (simp_all add: log_call_def)
  note w = this
  show l: "emits (\<lambda>e. log_call (fst e)) (log_lines logfile ls)" for ls
    by (induction ls) (auto intro!: emits_intros w)
  show "emits (\<lambda>e. log_call (fst e)) (log_pipe_output logfile fds)"
    unfolding log_pipe_output_def by (intro emits_intros l) (simp_all add: log_call_def)
qed

text \<open>C29: The log is used by its protocol.  In whatever order the library opens, writes and closes the log and
  copies the output of processes into it, whatever the environment answers, the file is opened only while no log is
  open, every write goes to the stream that was opened last and has not been closed, it is closed at most once, and
  the variable that names the stream names the open one.\<close>

theorem log_discipline:
  "\<exists>s. accepts log_step None (snd (log_run ndebug cs None os tr)) = Some s \<and>
     (case fst (log_run ndebug cs None os tr) of Inl _ \<Rightarrow> s = None | Inr logfile \<Rightarrow> s = logfile)"
  using safe_log_run[of None ndebug cs] by (simp add: safe_def)

end
