(* ===== verification/Ldconfig.thy ===== *)
theory Ldconfig
  imports Log Perm
begin

text \<open>
  nvc_ldcache.c: the program that rebuilds the cache of the dynamic linker runs
  in a child process that gives up its root directory, resources, privileges
  and system calls first.  \<open>insecure\<close> is the value of NVC_INSECURE_MODE and
  \<open>with_seccomp\<close> the option of the build; \<open>logfile\<close> is the stream of the log, open
  when NVC_DEBUG_FILE names a file: the output of the program is then copied into
  it.  The child ends with the result \<open>exited\<close> or, when
  the program was started, \<open>replaced\<close>.
\<close>

unbundle bit_operations_syntax

abbreviation (input) MS_MOVE :: uint64 where "MS_MOVE \<equiv> 8192"
abbreviation (input) MS_REC :: uint64 where "MS_REC \<equiv> 16384"
abbreviation (input) MS_PRIVATE :: uint64 where "MS_PRIVATE \<equiv> 262144"
abbreviation (input) O_RDWR :: nat where "O_RDWR \<equiv> 2"

definition replaced :: error where
  "replaced = \<lparr>err_code = -1024, err_msg = None\<rparr>"

definition secure_mode :: "string option \<Rightarrow> bool" where
  "secure_mode insecure =
     (case insecure of
        None \<Rightarrow> True
      | Some s \<Rightarrow> str_equal s ''0'' \<or> str_case_equal s ''false'' \<or> str_case_equal s ''no'')"

text \<open>
  The outputs of the child go to the pipe of the log, or to nowhere when no log
  is open.  A child that cannot redirect its output, like a parent that cannot
  read it, says so in the log and goes on.  The results are the descriptor of
  /dev/null and the outcome.
\<close>

definition pipe :: "(nat + fd \<times> fd) io" where
  "pipe = bindS (call_reply C_pipe) (\<lambda>r. ret (case r of
     Value (a # b # _) _ \<Rightarrow> Inr (a, b) | NoReply e \<Rightarrow> Inl e | Fault e _ \<Rightarrow> Inl (nat e) | _ \<Rightarrow> Inl 0))"

definition redirect_output :: "fd option \<Rightarrow> (fd \<times> unit res) io" where
  "redirect_output out =
     bindS (xopen ''/dev/null'' O_RDWR) (\<lambda>r. case r of
       Inl e \<Rightarrow> ret (-1, Inl e)
     | Inr null \<Rightarrow>
         let fd = (case out of None \<Rightarrow> null | Some fd \<Rightarrow> fd) in
         bindS (or_set (bindE (call_unit (C_dup2 null 0)) (\<lambda>_.
                  bindE (call_unit (C_dup2 fd 1)) (\<lambda>_. call_unit (C_dup2 fd 2)))) ''file duplication failed'') (\<lambda>r.
         ret (null, r)))"

text \<open>What parent and child do after the fork; a child is 0.\<close>

definition attach_output :: "logfile \<Rightarrow> fd \<Rightarrow> fd \<Rightarrow> int \<Rightarrow> int ioE" where
  "attach_output logfile fd0 fd1 child =
     bindS (if child = 0 then
              bindS (redirect_output (if log_active logfile then Some fd1 else None)) (\<lambda>(null, r). ret (fd1, null, r))
            else bindS (log_pipe_output logfile (fd0, fd1)) (\<lambda>(fds, r). ret (snd fds, -1, r))) (\<lambda>(fd1, null, r).
     bindS (case r of
              Inl e \<Rightarrow> log_write logfile CHR ''E'' ''nvc_ldcache.c'' 82 (''could not capture process output: '' @ the (err_msg e))
            | Inr _ \<Rightarrow> ret ()) (\<lambda>_.
     bindS (xclose fd0) (\<lambda>_. bindS (xclose fd1) (\<lambda>_. bindS (xclose null) (\<lambda>_. okay child)))))"

definition create_process :: "logfile \<Rightarrow> int ioE" where
  "create_process logfile =
     bindE (if log_active logfile then or_set pipe ''process creation failed'' else okay (-1, -1)) (\<lambda>(fd0, fd1).
     bindE (onfail (or_set (call_int C_fork) ''process creation failed'') (bindS (xclose fd0) (\<lambda>_. xclose fd1)))
       (attach_output logfile fd0 fd1))"

subsection \<open>Confinement\<close>

definition confining :: "(nat + 'a) io \<Rightarrow> 'a ioE" where
  "confining m = or_set m ''process confinement failed''"

fun hide_mounts :: "path list \<Rightarrow> unit ioE" where
  "hide_mounts [] = okay ()"
| "hide_mounts (p # ps) = bindE (xmount None p (Some ''tmpfs'') MS_RDONLY None) (\<lambda>_. hide_mounts ps)"

text \<open>change_rootfs from the call of chroot on: whether supplementary groups can be dropped.\<close>

definition hide_host :: "bool \<Rightarrow> uint32 \<Rightarrow> uint32 \<Rightarrow> bool ioE" where
  "hide_host mount_proc uid gid =
     bindE (if mount_proc then xmount None ''/proc'' (Some ''proc'') MS_RDONLY None else okay ()) (\<lambda>_.
     bindS (file_read_line ''/proc/self/setgroups'' 8) (\<lambda>buf.
     let drop_groups = (case buf of Inl _ \<Rightarrow> True | Inr s \<Rightarrow> \<not> str_has_prefix s ''deny'') in
     bindE (hide_mounts (if mount_proc then [''/sys'', ''/dev''] else [''/proc'', ''/sys'', ''/dev''])) (\<lambda>_.
     bindE (xmount None ''/dev'' (Some ''tmpfs'') MS_REMOUNT None) (\<lambda>_.
     bindE (file_create ''/dev/fd'' (Some ''/proc/self/fd'') uid gid (MODE_LNK 511)) (\<lambda>_.
     bindE (xmount None ''/dev'' (Some ''tmpfs'') (MS_REMOUNT OR MS_RDONLY) None) (\<lambda>_.
       okay drop_groups))))))"

definition enter_rootfs :: "bool \<Rightarrow> uint32 \<Rightarrow> uint32 \<Rightarrow> bool ioE" where
  "enter_rootfs mount_proc uid gid =
     bindE (confining (call_unit (C_chroot ''.''))) (\<lambda>_. hide_host mount_proc uid gid)"

definition change_rootfs :: "path \<Rightarrow> bool \<Rightarrow> bool \<Rightarrow> uint32 \<Rightarrow> uint32 \<Rightarrow> bool ioE" where
  "change_rootfs rootfs no_pivot mount_proc uid gid =
     bindE (confining (call_unit (C_lib ''unshare'' [int CLONE_NEWNS] []))) (\<lambda>_.
     bindE (xmount None ''/'' None (MS_PRIVATE OR MS_REC) None) (\<lambda>_.
     bindE (xmount (Some rootfs) rootfs None (MS_BIND OR MS_REC) None) (\<lambda>_.
     if no_pivot then
       bindE (xmount (Some rootfs) ''/'' None MS_MOVE None) (\<lambda>_.
       bindE (xopen rootfs (O_PATH OR O_DIRECTORY)) (\<lambda>newroot.
         lastly (bindE (confining (call_unit (C_fchdir newroot))) (\<lambda>_. enter_rootfs mount_proc uid gid))
           (xclose newroot)))
     else
       bindE (xopen ''/'' (O_PATH OR O_DIRECTORY)) (\<lambda>oldroot.
       bindE (onfail (xopen rootfs (O_PATH OR O_DIRECTORY)) (xclose oldroot)) (\<lambda>newroot.
         lastly
           (bindE (confining (call_unit (C_fchdir newroot))) (\<lambda>_.
            bindE (confining (call_unit (C_pivot_root ''.'' ''.''))) (\<lambda>_.
            bindE (confining (call_unit (C_fchdir oldroot))) (\<lambda>_.
            bindE (confining (call_unit (C_umount2 ''.'' MNT_DETACH))) (\<lambda>_.
            bindE (confining (call_unit (C_fchdir newroot))) (\<lambda>_.
              enter_rootfs mount_proc uid gid))))))
           (bindS (xclose oldroot) (\<lambda>_. xclose newroot)))))))"

definition adjust_capabilities :: "bool \<Rightarrow> uint32 \<Rightarrow> bool \<Rightarrow> unit ioE" where
  "adjust_capabilities secure uid host_ldconfig =
     bindE
       (if secure \<and> \<not> host_ldconfig then perm_set_capabilities CAP_INHERITABLE None
        else
        bindS (perm_set_capabilities CAP_INHERITABLE (Some [CAP_DAC_OVERRIDE])) (\<lambda>r. case r of
          Inl e \<Rightarrow> if err_code e \<noteq> int EPERM then raise e else perm_set_capabilities CAP_INHERITABLE None
        | Inr _ \<Rightarrow>
            if uid = 0 then okay ()
            else
            bindS (perm_set_capabilities CAP_AMBIENT (Some [CAP_DAC_OVERRIDE])) (\<lambda>r. case r of
              Inl e \<Rightarrow> if err_code e \<noteq> int EPERM then raise e else okay ()
            | Inr _ \<Rightarrow> okay ())))
       (\<lambda>_. perm_set_bounds None)"

text \<open>PR_SET_SECUREBITS with SECBIT_NO_SETUID_FIXUP.\<close>

definition adjust_privileges :: "uint32 \<Rightarrow> uint32 \<Rightarrow> bool \<Rightarrow> unit ioE" where
  "adjust_privileges uid gid drop_groups =
     bindE (if uid = 0 then okay ()
            else bindS (call_unit (C_prctl 28 4)) (\<lambda>r. case r of
              Inl e \<Rightarrow> if e = EPERM then okay () else fail_errno e ''privilege change failed''
            | Inr _ \<Rightarrow> okay ())) (\<lambda>_.
       perm_drop_privileges uid gid drop_groups)"

text \<open>The resource, its soft and its hard limit: CPU time, address space, open files, file size.\<close>

abbreviation (input) "C_rlimit r n \<equiv> C_lib ''setrlimit'' [r, n, n] []"

definition limit_resources :: "unit ioE" where
  "limit_resources =
     or_set
       (bindE (call_unit (C_rlimit 0 10)) (\<lambda>_.
        bindE (call_unit (C_rlimit 9 (2 * 1024 * 1024 * 1024))) (\<lambda>_.
        bindE (call_unit (C_rlimit 7 64)) (\<lambda>_.
          call_unit (C_rlimit 1 (1024 * 1024))))))
       ''resource limiting failed''"

definition syscalls :: "string list" where
  "syscalls = [''access'', ''arch_prctl'', ''brk'', ''chdir'', ''chmod'', ''close'', ''execve'', ''execveat'',
     ''exit'', ''exit_group'', ''fcntl'', ''fdatasync'', ''fstat'', ''fsync'', ''ftruncate'', ''getcwd'',
     ''getdents'', ''getdents64'', ''getegid'', ''geteuid'', ''getgid'', ''getpgrp'', ''getpid'', ''gettid'',
     ''gettimeofday'', ''getuid'', ''_llseek'', ''lseek'', ''lstat'', ''mkdir'', ''mmap'', ''mprotect'',
     ''mremap'', ''munmap'', ''newfstatat'', ''open'', ''openat'', ''pread64'', ''read'', ''readlink'',
     ''readv'', ''rename'', ''rt_sigaction'', ''rt_sigprocmask'', ''rt_sigreturn'', ''stat'', ''symlink'',
     ''tgkill'', ''time'', ''uname'', ''unlink'', ''write'', ''writev'']"

fun allow_syscalls :: "string list \<Rightarrow> (nat + unit) io" where
  "allow_syscalls [] = okay ()"
| "allow_syscalls (s # ss) =
     bindE (call_unit (C_lib ''seccomp_rule_add'' [] [s])) (\<lambda>_. allow_syscalls ss)"

definition limit_syscalls :: "bool \<Rightarrow> bool \<Rightarrow> unit ioE" where
  "limit_syscalls with_seccomp secure =
     (if with_seccomp then
        bindS (bindE (call_unit (C_lib ''seccomp_init'' [int EPERM] [])) (\<lambda>_.
               bindE (allow_syscalls syscalls) (\<lambda>_.
                 call_unit (C_lib ''seccomp_load'' [] [])))) (\<lambda>r.
        bindS (call_void (C_lib ''seccomp_release'' [] [])) (\<lambda>_. case r of
          Inl _ \<Rightarrow> failx ''syscall limiting failed'' | Inr _ \<Rightarrow> okay ()))
      else if secure then failx ''running in secure mode with seccomp disabled''
      else okay ())"

subsection \<open>The update\<close>

definition ldconfig_argv :: "nvc_container \<Rightarrow> bool \<Rightarrow> string list" where
  "ldconfig_argv cnt host =
     [if host then tl (cnt_ldconfig cnt) else cnt_ldconfig cnt, ''-f'', ''/etc/ld.so.conf'', ''-C'',
      ''/etc/ld.so.cache'', cnt_libs_dir cnt, cnt_libs32_dir cnt]"

text \<open>The child: what it does before it executes the program, and its end.\<close>

definition confine_child :: "bool \<Rightarrow> bool \<Rightarrow> nvc_context \<Rightarrow> nvc_container \<Rightarrow> bool \<Rightarrow> unit ioE" where
  "confine_child secure with_seccomp ctx cnt host =
     bindE (ns_enter (cnt_mnt_ns cnt) CLONE_NEWNS) (\<lambda>_.
     bindE (adjust_capabilities secure (cnt_uid cnt) host) (\<lambda>_.
     bindE (change_rootfs (cnt_rootfs cnt) (ctx_no_pivot ctx) host (cnt_uid cnt) (cnt_gid cnt)) (\<lambda>drop_groups.
     bindE limit_resources (\<lambda>_.
     bindE (adjust_privileges (cnt_uid cnt) (cnt_gid cnt) drop_groups) (\<lambda>_.
       limit_syscalls with_seccomp secure)))))"

definition ldconfig_child ::
  "bool \<Rightarrow> bool \<Rightarrow> nvc_context \<Rightarrow> nvc_container \<Rightarrow> bool \<Rightarrow> fd \<Rightarrow> string list \<Rightarrow> unit ioE" where
  "ldconfig_child secure with_seccomp ctx cnt host fd argv =
     bindS (call_void (C_prctl 15 0)) (\<lambda>_.
     bindS (bindE (confine_child secure with_seccomp ctx cnt host) (\<lambda>_.
            or_set (call_unit (C_exec fd argv [])) ''process execution failed'')) (\<lambda>r. case r of
       Inl e \<Rightarrow> raise (exited (if err_code e = int ENOENT then 0 else 1))
     | Inr _ \<Rightarrow> raise replaced))"

text \<open>waitpid answers a status word: a signal in the low seven bits, an exit code in the second byte.\<close>

definition check_status :: "string \<Rightarrow> nat \<Rightarrow> unit ioE" where
  "check_status prog st =
     (if 0 < st mod 128 \<and> st mod 128 < 127
      then failx (''process '' @ prog @ '' terminated with signal '' @ dec (st mod 128))
      else if st mod 128 = 0 \<and> st div 256 mod 256 \<noteq> 0
      then failx (''process '' @ prog @ '' failed with error code: '' @ dec (st div 256 mod 256))
      else okay ())"

definition nvc_ldcache_update ::
  "logfile \<Rightarrow> string option \<Rightarrow> bool \<Rightarrow> nvc_context option \<Rightarrow> nvc_container option \<Rightarrow> unit ioE" where
  "nvc_ldcache_update logfile insecure with_seccomp ctx cnt =
     bindE (validate_context ctx) (\<lambda>ctx.
     bindE (validate_args (cnt \<noteq> None)) (\<lambda>_.
     let cnt = the cnt; host = (take 1 (cnt_ldconfig cnt) = ''@''); argv = ldconfig_argv cnt host in
     bindE (if host then xopen (hd argv) (O_RDONLY OR O_CLOEXEC) else okay (-1)) (\<lambda>fd.
     bindE (onfail (create_process logfile) (xclose fd)) (\<lambda>child.
     if child = 0 then ldconfig_child (secure_mode insecure) with_seccomp ctx cnt host fd argv
     else
     bindS (xclose fd) (\<lambda>_.
     bindE (or_set (call_int (C_waitpid child)) ''process reaping failed'') (\<lambda>st.
       check_status (hd argv) (nat st)))))))"

subsection \<open>Watching the confinement\<close>

text \<open>
  The stages a child goes through; \<open>InRootfs k\<close> counts the resource limits in
  force.  The monitor takes a step at each call that confines the process, in
  the order of the stages, and accepts the execution of a program in the last
  one only: filtered, or unprivileged in a build without seccomp.
\<close>

datatype stage = Outside | InNamespace | InRootfs nat | Unprivileged | Filtered

definition limits :: "int list list" where
  "limits = [[0, 10, 10], [9, 2147483648, 2147483648], [7, 64, 64], [1, 1048576, 1048576]]"

definition confine_step :: "bool \<Rightarrow> stage \<Rightarrow> event \<Rightarrow> stage option" where
  "confine_step with_seccomp s = (\<lambda>(c, a). case c of
     NS (sc_setns _ _) \<Rightarrow> advance (s = Outside) a s InNamespace
   | NS (sc_chroot p) \<Rightarrow> advance (s = InNamespace \<and> p = ''.'') a s (InRootfs 0)
   | Cred sc_no_new_privs \<Rightarrow> advance (s = InRootfs 4) a s Unprivileged
   | Proc (sc_lib f is _) \<Rightarrow>
       if f = ''setrlimit'' then
         (case s of InRootfs k \<Rightarrow> advance (k < 4 \<and> is = limits ! k) a s (InRootfs (Suc k)) | _ \<Rightarrow> None)
       else if f = ''seccomp_load'' then advance (s = Unprivileged) a s Filtered
       else Some s
   | Proc (sc_exec _ _ _) \<Rightarrow> if s = (if with_seccomp then Filtered else Unprivileged) then Some s else None
   | _ \<Rightarrow> Some s)"

text \<open>The calls that are not a stage of the confinement.\<close>

fun unconfining :: "call \<Rightarrow> bool" where
  "unconfining (Cap _) = True"
| "unconfining (FS _) = True"
| "unconfining (DirOp _) = True"
| "unconfining (Cred c) = (c \<noteq> sc_no_new_privs)"
| "unconfining (NS c) = (case c of sc_setns _ _ \<Rightarrow> False | sc_chroot _ \<Rightarrow> False | _ \<Rightarrow> True)"
| "unconfining (Proc c) = (case c of sc_lib f _ _ \<Rightarrow> f \<noteq> ''setrlimit'' \<and> f \<noteq> ''seccomp_load'' | sc_exec _ _ _ \<Rightarrow> False | _ \<Rightarrow> True)"

lemma confine_unconfining: "unconfining c \<Longrightarrow> confine_step w s (c, a) = Some s"
  by (auto simp: confine_step_def split: call.splits ns_call.splits cred_call.splits proc_call.splits)

lemma safe_unconfining:
  assumes "emits (\<lambda>e. unconfining (fst e)) m" "\<And>r. Q r s"
  shows "safe (confine_step w) s m Q"
  by (rule safe_ignored[OF emits_weaken[OF assms(1)]]) (auto simp: confine_unconfining assms(2))

lemma unconfining_file: "emits (\<lambda>e. file_call (fst e)) m \<Longrightarrow> emits (\<lambda>e. unconfining (fst e)) m"
  by (erule emits_weaken) (auto elim!: file_call.elims split: cred_call.splits)

lemma unconfining_observes: "observes m \<Longrightarrow> emits (\<lambda>e. unconfining (fst e)) m"
  unfolding observes_def
  by (erule emits_weaken) (auto elim!: readonly.elims split: cred_call.splits ns_call.splits proc_call.splits)

lemma unconfining_capabilities: "emits (\<lambda>e. unconfining (fst e)) (adjust_capabilities secure uid host)"
proof -
  have caps: "emits (\<lambda>e. unconfining (fst e)) (perm_set_capabilities f cs)" for f cs
    using perm_set_capabilities_calls by (rule emits_weaken) (auto simp: cap_call_def split: call.splits)
  have bounds: "emits (\<lambda>e. unconfining (fst e)) (set_bounds_loop cs l)" for cs l
    by (induction l) (auto intro!: emits_intros)
  have "emits (\<lambda>e. unconfining (fst e)) (perm_set_bounds None)"
    unfolding perm_set_bounds_def
    by (intro emits_intros unconfining_observes[OF observes_file(6)] bounds)
  with caps show ?thesis
    unfolding adjust_capabilities_def by (intro emits_intros)
qed

lemma unconfining_hide: "emits (\<lambda>e. unconfining (fst e)) (hide_mounts ps)"
  by (induction ps) (auto intro!: emits_intros)

text \<open>What create_process calls beside fork.\<close>

fun spawn_call :: "call \<Rightarrow> bool" where
  "spawn_call (Proc c) = (case c of sc_lib _ _ _ \<Rightarrow> log_call (Proc c) | sc_dup2 _ _ \<Rightarrow> True | sc_pipe \<Rightarrow> True | _ \<Rightarrow> False)"
| "spawn_call (FS _) = True"
| "spawn_call (DirOp _) = True"
| "spawn_call _ = False"

lemma spawn_logs: "log_call c \<Longrightarrow> spawn_call c"
proof (cases c)
  case (Proc p)
  assume "log_call c"
  with Proc show ?thesis by (cases p) (simp_all add: log_call_def)
qed (simp_all add: log_call_def)

lemma spawn_redirect: "emits (\<lambda>e. spawn_call (fst e)) (redirect_output out)"
  unfolding redirect_output_def xclose_def Let_def by (intro emits_intros) simp_all

lemma spawn_log: 
  "emits (\<lambda>e. spawn_call (fst e)) (log_write logfile level src line text)"
  "emits (\<lambda>e. spawn_call (fst e)) (log_pipe_output logfile fds)"
  by (rule emits_weaken[OF log_calls(1)], simp add: spawn_logs, rule emits_weaken[OF log_calls(3)], simp add: spawn_logs)

lemma spawn_pipe: "emits (\<lambda>e. spawn_call (fst e)) pipe"
  unfolding pipe_def by (intro emits_intros) simp_all

lemma spawn_unconfining: "spawn_call c \<Longrightarrow> unconfining c"
  by (cases c) (auto simp: log_call_def split: proc_call.splits)

lemma spawn_attach: "emits (\<lambda>e. spawn_call (fst e)) (attach_output logfile fd0 fd1 child)"
  unfolding attach_output_def xclose_def by (intro emits_intros spawn_redirect spawn_log) simp_all

lemma spawn_create_process: "emits (\<lambda>e. fst e = C_fork \<or> spawn_call (fst e)) (create_process logfile)"
proof -
  have w: "emits (\<lambda>e. fst e = C_fork \<or> spawn_call (fst e)) m" if "emits (\<lambda>e. spawn_call (fst e)) m" for m :: "'b io"
    using that by (rule emits_weaken) simp
  show ?thesis
    unfolding create_process_def xclose_def
    by (intro emits_intros w[OF spawn_attach] w[OF spawn_pipe]) simp_all
qed

lemma unconfining_hide_host: "emits (\<lambda>e. unconfining (fst e)) (hide_host host uid gid)"
  unfolding hide_host_def Let_def
  by (intro emits_intros unconfining_file[OF emits_file_create] unconfining_observes observes_file unconfining_hide) simp_all

lemma safe_bind_unconfining:
  assumes "emits (\<lambda>e. unconfining (fst e)) m" "\<And>e. Q (Inl e) s" "\<And>x. safe (confine_step w) s (f x) Q"
  shows "safe (confine_step w) s (bindE m f) Q"
  by (intro safe_bindE safe_unconfining assms(1)) (auto simp: assms(2,3) split: sum.splits)

lemma safe_bindS_unconfining:
  assumes "emits (\<lambda>e. unconfining (fst e)) m" "\<And>x. safe (confine_step w) s (f x) Q"
  shows "safe (confine_step w) s (bindS m f) Q"
  by (intro safe_bindS safe_unconfining assms)

lemma safe_lastly_unconfining:
  assumes "emits (\<lambda>e. unconfining (fst e)) c" "safe (confine_step w) s m Q"
  shows "safe (confine_step w) s (lastly m c) Q"
  unfolding lastly_def
  by (intro safe_bindS safe_conseq[OF assms(2)] safe_unconfining[OF assms(1)] safe_ret)

lemma safe_change_rootfs:
  assumes "\<And>e s. Q (Inl e) s" "\<And>b. Q (Inr b) (InRootfs 0)"
  shows "safe (confine_step w) InNamespace (change_rootfs rootfs no_pivot host uid gid) Q"
proof -
  have enter: "safe (confine_step w) InNamespace (enter_rootfs host uid gid) Q"
    unfolding enter_rootfs_def confining_def
  proof (intro safe_bindE safe_or_set safe_call)
    fix r :: "nat + unit"
    have "safe (confine_step w) (InRootfs 0) (hide_host host uid gid) Q"
      by (rule safe_unconfining[OF unconfining_hide_host]) (metis assms sum.exhaust)
    then show "\<exists>s'. confine_step w InNamespace (C_chroot ''.'', answer (\<lambda>_. Done) r) = Some s' \<and>
      (case r of Inl n \<Rightarrow> \<forall>e. case Inl e of Inl e \<Rightarrow> Q (Inl e) s' | Inr x \<Rightarrow> safe (confine_step w) s' (hide_host host uid gid) Q
       | Inr x \<Rightarrow> case Inr x of Inl e \<Rightarrow> Q (Inl e) s' | Inr x \<Rightarrow> safe (confine_step w) s' (hide_host host uid gid) Q)"
      by (auto simp: confine_step_def advance_def answer_def assms(1) split: sum.splits)
  qed
  show ?thesis
    unfolding change_rootfs_def confining_def xclose_def
    by (intro safe_bind_unconfining safe_lastly_unconfining safe_if enter emits_intros assms(1)) simp_all
qed

lemma safe_limit_resources:
  assumes "\<And>e s. Q (Inl e) s" "Q (Inr ()) (InRootfs 4)"
  shows "safe (confine_step w) (InRootfs 0) limit_resources Q"
proof -
  have limit: "safe (confine_step w) (InRootfs k) (call_unit (C_lib ''setrlimit'' is [])) R"
    if "k < 4" "is = limits ! k" "\<And>e. R (Inl e) (InRootfs k)" "R (Inr ()) (InRootfs (Suc k))" for k "is" R
    by (intro safe_call) (use that in \<open>auto simp: confine_step_def advance_def answer_def split: sum.splits\<close>)
  have "Q (Inr ()) (InRootfs (Suc (Suc (Suc (Suc 0)))))"
    using assms(2) by (simp add: numeral_eq_Suc)
  then show ?thesis
    unfolding limit_resources_def
    by (intro safe_or_set safe_bindE limit)
       (auto simp: limits_def assms split: sum.splits intro!: safe_bindE limit assms)
qed

lemma safe_adjust_privileges:
  assumes "\<And>e s. Q (Inl e) s" "Q (Inr ()) Unprivileged"
  shows "safe (confine_step w) (InRootfs 4) (adjust_privileges uid gid groups) Q"
proof -
  have groups: "emits (\<lambda>e. unconfining (fst e)) (drop_groups_step gid)"
    unfolding drop_groups_step_def by (intro emits_intros) simp_all
  have last: "safe (confine_step w) (InRootfs 4) (call_unit C_no_new_privs) R"
    if "\<And>e. R (Inl e) (InRootfs 4)" "R (Inr ()) Unprivileged" for R
    by (intro safe_call) (use that in \<open>auto simp: confine_step_def advance_def answer_def split: sum.splits\<close>)
  show ?thesis
    unfolding adjust_privileges_def perm_drop_privileges_def
    apply (intro safe_bind_unconfining)
    subgoal by (intro emits_intros) simp_all
    subgoal by (rule assms(1))
    subgoal
      apply (intro safe_or_set safe_bindS_unconfining safe_bind_unconfining safe_if safe_raise last emits_intros groups)
      apply (simp_all add: assms)
      done
    done
qed

lemma safe_limit_syscalls:
  assumes "\<And>e s. Q (Inl e) s" "Q (Inr ()) (if w then Filtered else Unprivileged)"
  shows "safe (confine_step w) Unprivileged (limit_syscalls w secure) Q"
proof (cases w)
  case True
  have rules: "emits (\<lambda>e. unconfining (fst e)) (allow_syscalls ss)" for ss
    by (induction ss) (auto intro!: emits_intros)
  have load: "safe (confine_step w) Unprivileged (call_unit (C_lib ''seccomp_load'' [] [])) R"
    if "\<And>e. R (Inl e) Unprivileged" "R (Inr ()) Filtered" for R
    by (intro safe_call) (use that in \<open>auto simp: confine_step_def advance_def answer_def split: sum.splits\<close>)
  show ?thesis
    unfolding limit_syscalls_def if_P[OF True] failx_def
    apply (rule safe_bindS)
    apply (intro safe_bind_unconfining rules load safe_bindS_unconfining safe_case_sum safe_raise safe_okay emits_intros)
    apply (use assms True in auto)
    done
next
  case False
  then show ?thesis
    unfolding limit_syscalls_def failx_def by (intro safe_if safe_raise safe_okay) (use assms in auto)
qed

lemma safe_confine_child:
  assumes "\<And>e s. Q (Inl e) s" "Q (Inr ()) (if w then Filtered else Unprivileged)"
  shows "safe (confine_step w) Outside (confine_child secure w ctx cnt host) Q"
proof -
  have rest: "safe (confine_step w) InNamespace
    (bindE (adjust_capabilities secure (cnt_uid cnt) host) (\<lambda>_.
     bindE (change_rootfs (cnt_rootfs cnt) (ctx_no_pivot ctx) host (cnt_uid cnt) (cnt_gid cnt)) (\<lambda>drop_groups.
     bindE limit_resources (\<lambda>_.
     bindE (adjust_privileges (cnt_uid cnt) (cnt_gid cnt) drop_groups) (\<lambda>_.
       limit_syscalls w secure))))) Q"
    apply (rule safe_bind_unconfining, rule unconfining_capabilities, rule assms(1))
    apply (rule safe_bindE, rule safe_change_rootfs, simp add: assms(1), simp)
    apply (rule safe_bindE, rule safe_limit_resources, simp add: assms(1), simp)
    apply (rule safe_bindE, rule safe_adjust_privileges, simp add: assms(1), simp)
    apply (rule safe_limit_syscalls, rule assms(1), rule assms(2))
    done
  show ?thesis
    unfolding confine_child_def ns_enter_def
    apply (rule safe_bindE)
    apply (rule safe_bind_unconfining)
      apply (intro emits_intros, simp)
     apply (simp add: assms(1))
    apply (rule safe_lastly_unconfining)
     apply (intro emits_intros, simp)
    apply (intro safe_or_set safe_call)
    subgoal for x r
      using rest by (cases r) (auto simp: confine_step_def advance_def assms(1))
    done
qed

lemma safe_ldconfig_child: "safe (confine_step w) Outside (ldconfig_child secure w ctx cnt host fd argv) (\<lambda>_ _. True)"
proof -
  have exec: "safe (confine_step w) (if w then Filtered else Unprivileged)
    (or_set (call_unit (C_exec fd argv [])) ''process execution failed'') Q" if "\<And>r s'. Q r s'" for Q
    by (intro safe_or_set safe_call) (auto simp: confine_step_def that split: sum.splits)
  have ending: "safe (confine_step w) s (case r of Inl e \<Rightarrow> raise (exited (if err_code e = int ENOENT then 0 else 1))
     | Inr _ \<Rightarrow> raise replaced) (\<lambda>_ _. True)" for s and r :: "unit res"
    by (intro safe_case_sum safe_raise TrueI)
  show ?thesis
    unfolding ldconfig_child_def
  proof (rule safe_bindS_unconfining)
    show "emits (\<lambda>e. unconfining (fst e)) (call_void (C_prctl 15 0))" by (intro emits_intros) simp_all
    show "safe (confine_step w) Outside
      (bindS (bindE (confine_child secure w ctx cnt host) (\<lambda>_.
            or_set (call_unit (C_exec fd argv [])) ''process execution failed'')) (\<lambda>r. case r of
       Inl e \<Rightarrow> raise (exited (if err_code e = int ENOENT then 0 else 1))
     | Inr _ \<Rightarrow> raise replaced)) (\<lambda>_ _. True)"
    proof (rule safe_bindS, rule safe_bindE, rule safe_confine_child, goal_cases)
      case (1 e s)
      show ?case unfolding sum.case by (intro safe_raise TrueI)
    next
      case 2
      show ?case unfolding sum.case(2) by (rule exec) (rule ending)
    qed
  qed
qed

lemma safe_ldcache_update: "safe (confine_step w) Outside (nvc_ldcache_update logfile insecure w ctx cnt) (\<lambda>_ _. True)"
proof -
  have process: "emits (\<lambda>e. unconfining (fst e)) (create_process logfile)"
    by (rule emits_weaken[OF spawn_create_process]) (auto simp: spawn_unconfining)
  show ?thesis
    unfolding nvc_ldcache_update_def Let_def check_status_def failx_def xclose_def
    apply (intro safe_bind_unconfining safe_bindS_unconfining safe_if safe_ldconfig_child safe_raise safe_okay
        emits_intros process TrueI)
    apply simp_all
    done
qed

text \<open>A run of the parent: what it did before the fork, the fork, the release of the descriptor and the wait.\<close>

lemma xclose_events: "xclose fd os tr = (u, es) \<Longrightarrow> \<exists>a. es = (if fd < 0 then [] else [(C_close fd, a)])"
  by (auto simp: xclose_def call_void_def run_simps split: if_splits)

lemma child_forks_not: "emits (\<lambda>e. fst e \<noteq> C_fork) (ldconfig_child secure w ctx cnt host fd argv)"
proof -
  let ?P = "\<lambda>e. fst e \<noteq> C_fork"
  have files: "emits ?P m" if "emits (\<lambda>e. file_call (fst e)) m" for m :: "'b io"
    using that by (rule emits_weaken) auto
  have looks: "emits ?P m" if "observes m" for m :: "'b io"
    using that unfolding observes_def by (rule emits_weaken) auto
  have caps: "emits ?P (perm_set_capabilities f cs)" for f cs
    using perm_set_capabilities_calls by (rule emits_weaken) (auto simp: cap_call_def)
  have bounds: "emits ?P (set_bounds_loop cs l)" for cs l
    by (induction l) (auto intro!: emits_intros)
  have hide: "emits ?P (hide_mounts ps)" for ps
    by (induction ps) (auto intro!: emits_intros)
  have rules: "emits ?P (allow_syscalls ss)" for ss
    by (induction ss) (auto intro!: emits_intros)
  have enter: "emits ?P (enter_rootfs host uid gid)" for uid gid
    unfolding enter_rootfs_def hide_host_def confining_def Let_def
    by (intro emits_intros files[OF emits_file_create] looks[OF observes_file(5)] hide) simp_all
  have root: "emits ?P (change_rootfs rootfs no_pivot host uid gid)" for rootfs no_pivot uid gid
    unfolding change_rootfs_def confining_def xclose_def
    by (intro emits_intros enter) simp_all
  show ?thesis
    unfolding ldconfig_child_def confine_child_def ns_enter_def adjust_capabilities_def perm_set_bounds_def
      limit_resources_def adjust_privileges_def perm_drop_privileges_def drop_groups_step_def limit_syscalls_def
    by (intro emits_intros caps bounds root rules looks[OF observes_file(6)]) simp_all
qed

text \<open>One process is started, or none.\<close>

lemma create_process_run:
  assumes "create_process logfile os tr = (r, es)"
  shows "(\<exists>e. r = Inl e \<and> (\<forall>c. (C_fork, RInt c) \<notin> set es)) \<or>
    (\<exists>child e1 e2. r = Inr child \<and> es = e1 @ (C_fork, RInt child) # e2 \<and> (\<forall>e \<in> set (e1 @ e2). fst e \<noteq> C_fork))"
proof -
  let ?pipe = "if log_active logfile then or_set pipe ''process creation failed'' else okay (-1, -1)"
  have nf: "emits (\<lambda>e. fst e \<noteq> C_fork) m" if "emits (\<lambda>e. spawn_call (fst e)) m" for m :: "'b io"
    using that by (rule emits_weaken) auto
  have closes: "emits (\<lambda>e. fst e \<noteq> C_fork) (bindS (xclose fd0) (\<lambda>_. xclose fd1))" for fd0 fd1
    unfolding xclose_def by (intro emits_intros) simp_all
  have pipes: "emits (\<lambda>e. fst e \<noteq> C_fork) ?pipe"
    by (intro emits_intros nf[OF spawn_pipe])
  have result: "fst (attach_output logfile fd0 fd1 child os tr) = Inr child" for fd0 fd1 child os tr
    by (simp add: attach_output_def fst_bindS split: prod.split)
  obtain rp e1 where p: "?pipe os tr = (rp, e1)" by fastforce
  note n1 = emits_events[OF pipes p]
  show ?thesis
  proof (cases rp)
    case (Inl e)
    with p n1 assms show ?thesis by (auto simp: create_process_def bindE_def bindS_def)
  next
    case (Inr fds)
    obtain fd0 fd1 where fds: "fds = (fd0, fd1)" by fastforce
    show ?thesis
    proof (cases "map_sum id int (os_int os (tr @ e1) C_fork)")
      case f: (Inl n)
      obtain u e2 where c: "bindS (xclose fd0) (\<lambda>_. xclose fd1) os (tr @ e1 @ [(C_fork, Failed n)]) = (u, e2)"
        by (metis surj_pair)
      from p Inr fds f c assms have run: "es = e1 @ (C_fork, Failed n) # e2 \<and> (\<exists>e. r = Inl e)"
        by (auto simp: create_process_def bindE_def bindS_def onfail_def or_set_def call_int_def split: prod.splits)
      have "(C_fork, RInt k) \<notin> set e1" "(C_fork, RInt k) \<notin> set e2" for k
        using n1 emits_events[OF closes c] by fastforce+
      with run show ?thesis by auto
    next
      case f: (Inr child)
      obtain e2 where c: "attach_output logfile fd0 fd1 child os (tr @ e1 @ [(C_fork, RInt child)]) = (Inr child, e2)"
        using result by (metis surj_pair fst_conv)
      have fork: "onfail (or_set (call_int C_fork) ''process creation failed'') (bindS (xclose fd0) (\<lambda>_. xclose fd1)) os (tr @ e1)
        = (Inr child, [(C_fork, RInt child)])"
        using f by (simp add: onfail_def or_set_def bindS_def call_int_def)
      have "bindE (onfail (or_set (call_int C_fork) ''process creation failed'') (bindS (xclose fd0) (\<lambda>_. xclose fd1)))
          (attach_output logfile fd0 fd1) os (tr @ e1) = (Inr child, (C_fork, RInt child) # e2)"
        unfolding bindE_Inr by (rule exI[of _ child], rule exI[of _ "[(C_fork, RInt child)]"], rule exI[of _ e2]) (use fork c in simp)
      then have "create_process logfile os tr = (Inr child, e1 @ (C_fork, RInt child) # e2)"
        unfolding create_process_def bindE_Inr[of ?pipe]
        by (intro exI[of _ "(fd0, fd1)"] exI[of _ e1] exI[of _ "(C_fork, RInt child) # e2"]) (use p Inr fds in simp)
      with assms have run: "r = Inr child" "es = e1 @ (C_fork, RInt child) # e2" by simp_all
      have "\<forall>e \<in> set (e1 @ e2). fst e \<noteq> C_fork" using n1 emits_events[OF nf[OF spawn_attach] c] by auto
      with run show ?thesis by blast
    qed
  qed
qed

lemma check_status_run:
  "check_status p st os tr = (r, es) \<Longrightarrow> es = [] \<and>
     (r = Inr () \<longleftrightarrow> st mod 128 = 127 \<or> st mod 128 = 0 \<and> st div 256 mod 256 = 0)"
proof -
  assume r: "check_status p st os tr = (r, es)"
  have "st mod 128 < 128" by simp
  with r show ?thesis by (auto simp: check_status_def split: if_splits)
qed

lemma update_parent_run:
  assumes "bindS (xclose fd) (\<lambda>_. bindE (or_set (call_int (C_waitpid child)) t) (\<lambda>st. check_status p (nat st))) os tr = (r, es)"
  shows "\<exists>a. es \<noteq> [] \<and> last es = (C_waitpid child, a) \<and>
    (r = Inr () \<longleftrightarrow> (\<exists>st. a = RInt st \<and> (nat st mod 128 = 127 \<or> nat st mod 128 = 0 \<and> nat st div 256 mod 256 = 0)))"
proof -
  obtain e1 where c: "xclose fd os tr = ((), e1)" by (metis old.unit.exhaust surj_pair)
  show ?thesis
  proof (cases "map_sum id int (os_int os (tr @ e1) (C_waitpid child))")
    case (Inl n)
    with assms c show ?thesis
      by (auto simp: bindE_def or_set_def bindS_def call_int_def)
  next
    case (Inr st)
    obtain r2 e2 where s: "check_status p (nat st) os (tr @ e1 @ [(C_waitpid child, RInt st)]) = (r2, e2)" by fastforce
    from check_status_run[OF s] Inr assms c s show ?thesis
      by (auto simp: bindE_def or_set_def bindS_def call_int_def)
  qed
qed

lemma bindE_cont: "m os tr = (Inr x, e1) \<Longrightarrow> bindE m f os tr = (r, es) \<Longrightarrow> \<exists>e2. es = e1 @ e2 \<and> f x os (tr @ e1) = (r, e2)"
  by (auto simp: bindE_def bindS_def split: prod.splits)

lemma update_parent_forks:
  assumes "bindS (xclose fd) (\<lambda>_. bindE (or_set (call_int (C_waitpid child)) t) (\<lambda>st. check_status p (nat st))) os tr = (r, es)"
  shows "\<forall>e \<in> set es. fst e \<noteq> C_fork"
proof -
  have "emits (\<lambda>e. fst e \<noteq> C_fork) (bindS (xclose fd) (\<lambda>_. bindE (or_set (call_int (C_waitpid child)) t) (\<lambda>st. check_status p (nat st))))"
    unfolding xclose_def check_status_def by (intro emits_intros) simp_all
  from emits_events[OF this assms] show ?thesis .
qed

lemma ldcache_update_reaps_aux:
  assumes "nvc_ldcache_update logfile insecure w (Some ctx) (Some cnt) os tr = (r, es)" "(C_fork, RInt child) \<in> set es" "child > 0"
  shows "\<exists>a. last es = (C_waitpid child, a) \<and>
    (r = Inr () \<longleftrightarrow> (\<exists>st. a = RInt st \<and> (nat st mod 128 = 127 \<or> nat st mod 128 = 0 \<and> nat st div 256 mod 256 = 0)))"
proof -
  let ?host = "take 1 (cnt_ldconfig cnt) = ''@''"
  let ?argv = "ldconfig_argv cnt ?host"
  let ?open = "if ?host then xopen (hd ?argv) (O_RDONLY OR O_CLOEXEC) else okay (-1)"
  let ?rest = "\<lambda>fd. bindE (onfail (create_process logfile) (xclose fd)) (\<lambda>child.
     if child = 0 then ldconfig_child (secure_mode insecure) w ctx cnt ?host fd ?argv
     else bindS (xclose fd) (\<lambda>_. bindE (or_set (call_int (C_waitpid child)) ''process reaping failed'') (\<lambda>st.
       check_status (hd ?argv) (nat st))))"
  have opens: "emits (\<lambda>e. fst e \<noteq> C_fork) ?open" by (intro emits_intros) simp_all
  have init: "ctx_initialized ctx"
    using assms(1,2) by (cases "ctx_initialized ctx") (auto simp: nvc_ldcache_update_def validate_context_def bindE_def bindS_def)
  then have run: "bindE ?open ?rest os tr = (r, es)"
    using assms(1) by (simp only: nvc_ldcache_update_def validate_context_def validate_args_def bindE_okay Let_def
      option.case option.sel not_True_eq_False if_False option.distinct simp_thms)
  obtain rf e1 where o: "?open os tr = (rf, e1)" by fastforce
  note no1 = emits_events[OF opens o]
  obtain fd where fd: "rf = Inr fd"
    using run o no1 assms(2) by (cases rf) (auto simp: bindE_def bindS_def)
  obtain e2 where rest: "?rest fd os (tr @ e1) = (r, e2)" and es: "es = e1 @ e2"
    using run o fd by (auto simp: bindE_def bindS_def split: prod.splits)
  obtain rc e3 where c: "create_process logfile os (tr @ e1) = (rc, e3)" by fastforce
  from create_process_run[OF c] show ?thesis
  proof (elim disjE exE conjE)
    fix e assume fail: "rc = Inl e" "\<forall>c. (C_fork, RInt c) \<notin> set e3"
    have closes: "emits (\<lambda>e. fst e \<noteq> C_fork) (xclose fd)" unfolding xclose_def by (intro emits_intros) simp_all
    obtain u e4 where x: "xclose fd os (tr @ e1 @ e3) = (u, e4)" by (metis surj_pair)
    have "e2 = e3 @ e4"
      using rest c x fail(1) by (auto simp: bindE_def onfail_def bindS_def split: prod.splits)
    with fail(2) no1 assms(2) emits_events[OF closes x] show ?thesis by (auto simp: es)
  next
    fix ch f1 f2
    assume ch: "rc = Inr ch" "e3 = f1 @ (C_fork, RInt ch) # f2" "\<forall>e \<in> set (f1 @ f2). fst e \<noteq> C_fork"
    have p: "onfail (create_process logfile) (xclose fd) os (tr @ e1) = (Inr ch, e3)"
      using c ch(1) by (simp add: onfail_def bindS_def)
    show ?thesis
    proof (cases "ch = 0")
      case True
      obtain e4 where e4: "e2 = e3 @ e4" "ldconfig_child (secure_mode insecure) w ctx cnt ?host fd ?argv os (tr @ e1 @ e3) = (r, e4)"
        using rest p True by (auto simp: bindE_def bindS_def split: prod.splits)
      from emits_events[OF child_forks_not e4(2)] no1 ch(3)
      have n: "\<forall>e \<in> set (e1 @ f1 @ f2 @ e4). fst e \<noteq> C_fork" by auto
      then have "(C_fork, RInt child) \<notin> set (e1 @ f1 @ f2 @ e4)" by fastforce
      with assms(2,3) True show ?thesis by (simp add: es e4(1) ch(2))
    next
      case False
      obtain e4 where e4: "e2 = e3 @ e4" "bindS (xclose fd) (\<lambda>_. bindE (or_set (call_int (C_waitpid ch)) ''process reaping failed'')
          (\<lambda>st. check_status (hd ?argv) (nat st))) os (tr @ e1 @ e3) = (r, e4)"
        using bindE_cont[OF p rest] False by auto
      from update_parent_forks[OF e4(2)] no1 ch(3)
      have n: "\<forall>e \<in> set (e1 @ f1 @ f2 @ e4). fst e \<noteq> C_fork" by auto
      then have "(C_fork, RInt child) \<notin> set (e1 @ f1 @ f2 @ e4)" by fastforce
      with assms(2) have "ch = child" by (auto simp: es e4(1) ch(2))
      with update_parent_run[OF e4(2)] show ?thesis by (auto simp: es e4(1))
    qed
  qed
qed


text \<open>C26: A child that was started is waited for: whenever the fork of nvc_ldcache_update yields
  a process, the last call of the run waits for it, and the update is reported as done exactly when
  that process was stopped or exited with status 0.\<close>

theorem ldcache_update_reaps:
  assumes "nvc_ldcache_update logfile insecure with_seccomp (Some ctx) (Some cnt) os tr = (r, es)"
    and "(C_fork, RInt child) \<in> set es" "child > 0"
  shows "\<exists>a. last es = (C_waitpid child, a) \<and>
    (r = Inr () \<longleftrightarrow>
       (\<exists>st. a = RInt st \<and> (nat st mod 128 = 127 \<or> nat st mod 128 = 0 \<and> nat st div 256 mod 256 = 0)))"
  by (rule ldcache_update_reaps_aux[OF assms])

theorem ldcache_update_reaps_witness:
  "\<exists>r es a. nvc_ldcache_update None None True (Some plain_context) (Some (container_zero\<lparr>cnt_ldconfig := ''/sbin/ldconfig''\<rparr>)) calm []
     = (r, es) \<and> (C_fork, RInt 3) \<in> set es \<and> last es = (C_waitpid 3, a)"
proof -
  let ?op = "nvc_ldcache_update None None True (Some plain_context) (Some (container_zero\<lparr>cnt_ldconfig := ''/sbin/ldconfig''\<rparr>))"
  have f: "(C_fork, RInt 3) \<in> set (snd (?op calm []))"
    by (simp add: nvc_ldcache_update_def validate_context_def validate_args_def plain_context_def create_process_def attach_output_def
      log_active_def log_pipe_output_def xclose_def eval_simps Let_def check_status_def)
  obtain r es where r: "?op calm [] = (r, es)" by fastforce
  from ldcache_update_reaps[OF r, of 3] f r show ?thesis by auto
qed

end
