(* ===== verification/Ldcache.thy ===== *)
theory Ldcache
  imports CgroupLegacy
begin

text \<open>
  ldcache.c, the reader of the cache of the dynamic linker.  The file is mapped
  and its bytes are read in place; \<open>ld_addr\<close> is the mapping and \<open>ld_ptr\<close> an offset
  into it.  The source trusts the counts and offsets it finds in the file; a
  read past the end of the file is undefined and ends the run like a null
  pointer does.
\<close>

unbundle bit_operations_syntax

subsection \<open>Bytes\<close>

definition u32_at :: "string \<Rightarrow> nat \<Rightarrow> uint32 option" where
  "u32_at data off =
     (if off + 4 \<le> length data
      then Some (word_of_nat (ord (data ! off) + 256 * ord (data ! (off + 1)) +
                  65536 * ord (data ! (off + 2)) + 16777216 * ord (data ! (off + 3))))
      else None)"

definition str_at :: "string \<Rightarrow> nat \<Rightarrow> string option" where
  "str_at data off =
     (if CHR 0x00 \<in> set (drop off data) then Some (takeWhile (\<lambda>c. c \<noteq> CHR 0x00) (drop off data)) else None)"

subsection \<open>The file format\<close>

definition MAGIC_LIBC5 :: string where "MAGIC_LIBC5 = ''ld.so-1.7.0''"
definition MAGIC_LIBC6 :: string where "MAGIC_LIBC6 = ''glibc-ld.so.cache''"
definition MAGIC_VERSION :: string where "MAGIC_VERSION = ''1.1''"

text \<open>Sizes and offsets of the structures: the headers are 16 and 48 bytes long, the entries 12 and 24.\<close>

record entry_libc6 =
  ent_flags :: uint32
  ent_key :: uint32
  ent_value :: uint32

record ldcache =
  ld_path :: path
  ld_addr :: "string option"
  ld_ptr :: nat

definition ldcache_init :: "path \<Rightarrow> ldcache" where
  "ldcache_init path = \<lparr>ld_path = path, ld_addr = None, ld_ptr = 0\<rparr>"

text \<open>The offset of the header: behind the entries of the old format, on a multiple of eight.\<close>

definition skip_libc5 :: "string \<Rightarrow> nat" where
  "skip_libc5 data =
     (if take 11 data = MAGIC_LIBC5 then
        (let p = 16 + 12 * unat (the (u32_at data 12)) in p + (8 - p mod 8) mod 8)
      else 0)"

definition ldcache_open :: "ldcache \<Rightarrow> ldcache ioE" where
  "ldcache_open ctx =
     bindE (file_map (ld_path ctx)) (\<lambda>data.
     let ptr = skip_libc5 data; h6 = drop ptr data in
     if length data \<le> 16 \<or> length data \<le> ptr + 48 \<or>
        take 17 h6 \<noteq> MAGIC_LIBC6 \<or> take 3 (drop 17 h6) \<noteq> MAGIC_VERSION
     then bindS (file_unmap (ld_path ctx)) (\<lambda>_. failx (''unsupported file format: '' @ ld_path ctx))
     else okay (ctx\<lparr>ld_addr := Some data, ld_ptr := ptr\<rparr>))"

definition ldcache_close :: "ldcache \<Rightarrow> ldcache ioE" where
  "ldcache_close ctx =
     bindE (file_unmap (ld_path ctx)) (\<lambda>_. okay (ctx\<lparr>ld_addr := None, ld_ptr := 0\<rparr>))"

subsection \<open>Lookup\<close>

abbreviation (input) LD_ELF :: uint32 where "LD_ELF \<equiv> 1"
abbreviation (input) LD_ARCH_MASK :: uint32 where "LD_ARCH_MASK \<equiv> 65280"

type_synonym select_fn = "path \<Rightarrow> path option \<Rightarrow> path \<Rightarrow> bool ioE"

text \<open>strncmp of the key at an offset with a name: it reads no further than the first difference.\<close>

definition key_has_prefix :: "string \<Rightarrow> nat \<Rightarrow> string \<Rightarrow> bool option" where
  "key_has_prefix mem off lib =
     (let key = drop off mem
      in if prefix lib key then Some True else if prefix key lib then None else Some False)"

text \<open>The inner loop, from name \<open>j\<close> on, for an entry.\<close>

fun match_names ::
  "select_fn \<Rightarrow> path \<Rightarrow> string \<Rightarrow> entry_libc6 \<Rightarrow> nat \<Rightarrow> string list \<Rightarrow> path option list \<Rightarrow> path option list ioE" where
  "match_names select root mem e j [] paths = okay paths"
| "match_names select root mem e j (lib # libs) paths =
     (case key_has_prefix mem (unat (ent_key e)) lib of
        None \<Rightarrow> raise null_deref
      | Some False \<Rightarrow> match_names select root mem e (Suc j) libs paths
      | Some True \<Rightarrow>
          (case str_at mem (unat (ent_value e)) of
             None \<Rightarrow> raise null_deref
           | Some val \<Rightarrow>
               bindE (path_resolve root val) (\<lambda>path.
               if paths ! j = Some path then match_names select root mem e (Suc j) libs paths
               else
               bindE (select root (paths ! j) path) (\<lambda>override.
               if override then bindE (xstrdup path) (\<lambda>p. okay (paths[j := Some p])) else okay paths))))"

definition entry_at :: "string \<Rightarrow> nat \<Rightarrow> entry_libc6 option" where
  "entry_at mem i =
     (case (u32_at mem (48 + 24 * i), u32_at mem (52 + 24 * i), u32_at mem (56 + 24 * i)) of
        (Some f, Some k, Some v) \<Rightarrow> Some \<lparr>ent_flags = f, ent_key = k, ent_value = v\<rparr>
      | _ \<Rightarrow> None)"

definition wanted :: "uint32 \<Rightarrow> uint32 \<Rightarrow> bool" where
  "wanted arch flags \<longleftrightarrow> flags AND LD_ELF \<noteq> 0 \<and> flags AND LD_ARCH_MASK = arch"

fun resolve_entries ::
  "select_fn \<Rightarrow> uint32 \<Rightarrow> path \<Rightarrow> string list \<Rightarrow> string \<Rightarrow> nat list \<Rightarrow> path option list \<Rightarrow> path option list ioE" where
  "resolve_entries select arch root libs mem [] paths = okay paths"
| "resolve_entries select arch root libs mem (i # is) paths =
     (case entry_at mem i of
        None \<Rightarrow> raise null_deref
      | Some e \<Rightarrow>
          if \<not> wanted arch (ent_flags e) then resolve_entries select arch root libs mem is paths
          else
          bindE (match_names select root mem e 0 libs paths) (\<lambda>paths.
            resolve_entries select arch root libs mem is paths))"

definition ldcache_resolve ::
  "ldcache \<Rightarrow> uint32 \<Rightarrow> path \<Rightarrow> string list \<Rightarrow> select_fn \<Rightarrow> path option list ioE" where
  "ldcache_resolve ctx arch root libs select =
     (case ld_addr ctx of
        None \<Rightarrow> raise null_deref
      | Some data \<Rightarrow>
          let mem = drop (ld_ptr ctx) data
          in (case u32_at mem 20 of
                None \<Rightarrow> raise null_deref
              | Some nlibs \<Rightarrow>
                  resolve_entries select arch root libs mem [0 ..< unat nlibs] (replicate (length libs) None)))"

subsection \<open>Writing a cache\<close>

text \<open>
  What ldconfig writes for a list of flags, names and paths: the header, one
  entry for each, and the strings the entries point at.
\<close>

definition le32 :: "nat \<Rightarrow> string" where
  "le32 n = map char_of [n mod 256, n div 256 mod 256, n div 65536 mod 256, n div 16777216 mod 256]"

type_synonym cached = "uint32 \<times> string \<times> string"

fun encode_entries :: "nat \<Rightarrow> cached list \<Rightarrow> string" where
  "encode_entries off [] = []"
| "encode_entries off ((f, k, v) # es) =
     le32 (unat f) @ le32 off @ le32 (off + length k + 1) @ replicate 12 (CHR 0x00) @
     encode_entries (off + length k + length v + 2) es"

definition encode_strings :: "cached list \<Rightarrow> string" where
  "encode_strings es = concat (map (\<lambda>(_, k, v). k @ CHR 0x00 # v @ [CHR 0x00]) es)"

definition encode_cache :: "cached list \<Rightarrow> string" where
  "encode_cache es =
     MAGIC_LIBC6 @ MAGIC_VERSION @ le32 (length es) @ replicate 24 (CHR 0x00) @
     encode_entries (48 + 24 * length es) es @ encode_strings es"

definition text_ok :: "string \<Rightarrow> bool" where
  "text_ok s \<longleftrightarrow> CHR 0x00 \<notin> set s"

subsection \<open>The lookup on the list\<close>

fun names_spec ::
  "select_fn \<Rightarrow> path \<Rightarrow> string \<Rightarrow> string \<Rightarrow> nat \<Rightarrow> string list \<Rightarrow> path option list \<Rightarrow> path option list ioE" where
  "names_spec select root key val j [] paths = okay paths"
| "names_spec select root key val j (lib # libs) paths =
     (if \<not> prefix lib key then names_spec select root key val (Suc j) libs paths
      else
      bindE (path_resolve root val) (\<lambda>path.
      if paths ! j = Some path then names_spec select root key val (Suc j) libs paths
      else
      bindE (select root (paths ! j) path) (\<lambda>override.
      if override then bindE (xstrdup path) (\<lambda>p. okay (paths[j := Some p])) else okay paths)))"

fun resolve_spec ::
  "select_fn \<Rightarrow> uint32 \<Rightarrow> path \<Rightarrow> string list \<Rightarrow> cached list \<Rightarrow> path option list \<Rightarrow> path option list ioE" where
  "resolve_spec select arch root libs [] paths = okay paths"
| "resolve_spec select arch root libs ((f, k, v) # es) paths =
     (if \<not> wanted arch f then resolve_spec select arch root libs es paths
      else bindE (names_spec select root k v 0 libs paths) (\<lambda>paths. resolve_spec select arch root libs es paths))"

subsection \<open>Reading what was written\<close>

lemma length_le32 [simp]: "length (le32 n) = 4"
  by (simp add: le32_def)

lemma length_encode_entries [simp]: "length (encode_entries off es) = 24 * length es"
  by (induction off es rule: encode_entries.induct) simp_all

lemma encode_entries_append:
  "encode_entries off (xs @ ys) = encode_entries off xs @ encode_entries (off + length (encode_strings xs)) ys"
  by (induction off xs rule: encode_entries.induct) (simp_all add: encode_strings_def add.assoc algebra_simps)

lemma encode_strings_append: "encode_strings (xs @ ys) = encode_strings xs @ encode_strings ys"
  by (simp add: encode_strings_def)

lemma byte_sum:
  assumes "n < 2 ^ 32"
  shows "n mod 256 + 256 * (n div 256 mod 256) + 65536 * (n div 65536 mod 256) + 16777216 * (n div 16777216 mod 256)
    = (n :: nat)"
proof -
  have d: "n div 65536 = n div 256 div 256" "n div 16777216 = n div 256 div 256 div 256"
    by (simp_all add: div_mult2_eq[symmetric])
  have "n div 256 div 256 div 256 < 256"
    using assms unfolding d(2)[symmetric] by (simp add: less_mult_imp_div_less)
  then have "n div 256 div 256 div 256 mod 256 = n div 256 div 256 div 256" by simp
  with div_mult_mod_eq[of n 256] div_mult_mod_eq[of "n div 256" 256] div_mult_mod_eq[of "n div 256 div 256" 256]
  show ?thesis unfolding d by linarith
qed

lemma ord_char_of [simp]: "ord (char_of n) = n mod 256"
  by (simp add: ord_def)

lemma u32_at_le32:
  assumes "n < 2 ^ 32"
  shows "u32_at (a @ le32 n @ b) (length a) = Some (word_of_nat n)"
proof -
  let ?d = "a @ le32 n @ b"
  have b: "ord (?d ! length a) = n mod 256" "ord (?d ! (length a + 1)) = n div 256 mod 256"
    "ord (?d ! (length a + 2)) = n div 65536 mod 256" "ord (?d ! (length a + 3)) = n div 16777216 mod 256"
    by (simp_all add: nth_append le32_def)
  have "length a + 4 \<le> length ?d" by simp
  then show ?thesis
    unfolding u32_at_def b byte_sum[OF assms] by (simp only: if_True)
qed

text \<open>The entry and the strings of one of the libraries, between those before and those behind it.\<close>

lemma entry_at_encode:
  assumes "length (encode_cache (xs @ (f, k, v) # ys)) < 2 ^ 32"
  defines "off \<equiv> 48 + 24 * length (xs @ (f, k, v) # ys) + length (encode_strings xs)"
  shows "entry_at (encode_cache (xs @ (f, k, v) # ys)) (length xs) =
    Some \<lparr>ent_flags = f, ent_key = word_of_nat off, ent_value = word_of_nat (off + length k + 1)\<rparr>"
    and "drop off (encode_cache (xs @ (f, k, v) # ys)) = k @ CHR 0x00 # v @ CHR 0x00 # encode_strings ys"
    and "drop (off + length k + 1) (encode_cache (xs @ (f, k, v) # ys)) = v @ CHR 0x00 # encode_strings ys"
    and "off + length k + 1 < 2 ^ 32"
proof -
  let ?es = "xs @ (f, k, v) # ys"
  let ?base = "48 + 24 * length ?es"
  define hd where "hd = MAGIC_LIBC6 @ MAGIC_VERSION @ le32 (length ?es) @ replicate 24 (CHR 0x00)"
  define pre where "pre = hd @ encode_entries ?base xs"
  define post where "post = encode_entries (off + length k + length v + 2) ys @ encode_strings ?es"
  have hd: "length hd = 48" by (simp add: hd_def MAGIC_LIBC6_def MAGIC_VERSION_def)
  have pre: "length pre = 48 + 24 * length xs" by (simp add: pre_def hd)
  have enc: "encode_cache ?es = pre @ le32 (unat f) @ le32 off @ le32 (off + length k + 1) @ replicate 12 (CHR 0x00) @ post"
    by (simp add: encode_cache_def pre_def post_def hd_def off_def encode_entries_append)
  have strs: "encode_cache ?es = (hd @ encode_entries ?base ?es @ encode_strings xs) @ k @ CHR 0x00 # v @ CHR 0x00 # encode_strings ys"
    by (simp add: encode_cache_def hd_def encode_strings_append) (simp add: encode_strings_def)
  have len: "length (hd @ encode_entries ?base ?es @ encode_strings xs) = off"
    by (simp add: hd off_def)
  show small: "off + length k + 1 < 2 ^ 32"
  proof -
    have "length (encode_cache ?es) = off + length (k @ CHR 0x00 # v @ CHR 0x00 # encode_strings ys)"
      unfolding strs using len by (metis length_append)
    then show ?thesis using assms(1) by simp
  qed
  show "drop off (encode_cache ?es) = k @ CHR 0x00 # v @ CHR 0x00 # encode_strings ys"
    unfolding strs using len by (metis append_eq_conv_conj)
  then have "drop (Suc (length k)) (drop off (encode_cache ?es)) = v @ CHR 0x00 # encode_strings ys" by simp
  then show "drop (off + length k + 1) (encode_cache ?es) = v @ CHR 0x00 # encode_strings ys"
    by (simp add: add.commute)
  have f: "unat f < 2 ^ 32" using unsigned_less[of f] by simp
  have "u32_at (encode_cache ?es) (48 + 24 * length xs) = Some f"
    unfolding enc using u32_at_le32[OF f, of pre] pre by simp
  moreover have "u32_at (encode_cache ?es) (52 + 24 * length xs) = Some (word_of_nat off)"
    unfolding enc using u32_at_le32[of off "pre @ le32 (unat f)"] pre small by (simp add: add.commute)
  moreover have "u32_at (encode_cache ?es) (56 + 24 * length xs) = Some (word_of_nat (off + length k + 1))"
    unfolding enc using u32_at_le32[OF small, of "pre @ le32 (unat f) @ le32 off"] pre by (simp add: add.commute)
  ultimately show "entry_at (encode_cache ?es) (length xs) =
    Some \<lparr>ent_flags = f, ent_key = word_of_nat off, ent_value = word_of_nat (off + length k + 1)\<rparr>"
    by (simp add: entry_at_def)
qed

lemma key_has_prefix_text:
  assumes "drop off mem = k @ CHR 0x00 # rest" "text_ok lib"
  shows "key_has_prefix mem off lib = Some (prefix lib k)"
proof -
  have "prefix lib (k @ CHR 0x00 # rest) \<longleftrightarrow> prefix lib k"
    using assms(2) by (auto simp: prefix_append prefix_Cons text_ok_def)
  moreover have "\<not> prefix (k @ CHR 0x00 # rest) lib"
    using assms(2) by (auto simp: prefix_def text_ok_def)
  ultimately show ?thesis by (simp add: key_has_prefix_def assms(1))
qed

lemma str_at_text:
  assumes "drop off mem = v @ CHR 0x00 # rest" "text_ok v"
  shows "str_at mem off = Some v"
proof -
  have "takeWhile (\<lambda>c. c \<noteq> CHR 0x00) (v @ CHR 0x00 # rest) = v"
    using assms(2) by (induction v) (auto simp: text_ok_def)
  then show ?thesis by (simp add: str_at_def assms(1))
qed

lemma match_names_spec:
  assumes "drop (unat (ent_key e)) mem = k @ CHR 0x00 # r1" "drop (unat (ent_value e)) mem = v @ CHR 0x00 # r2"
    "list_all text_ok libs" "text_ok v"
  shows "match_names select root mem e j libs paths = names_spec select root k v j libs paths"
  using assms(3)
proof (induction libs arbitrary: j paths)
  case (Cons lib libs)
  then have lib: "key_has_prefix mem (unat (ent_key e)) lib = Some (prefix lib k)"
    using key_has_prefix_text[OF assms(1)] by simp
  have IH: "match_names select root mem e (Suc j) libs paths = names_spec select root k v (Suc j) libs paths" for j paths
    using Cons by simp
  show ?case
    unfolding match_names.simps names_spec.simps lib str_at_text[OF assms(2,4)] IH
    by (cases "prefix lib k") simp_all
qed simp

lemma unat_word_small: "n < 2 ^ 32 \<Longrightarrow> unat (word_of_nat n :: uint32) = n"
  by (simp add: unsigned_of_nat take_bit_nat_eq_self)

lemma resolve_entries_spec:
  assumes "length (encode_cache (xs @ ys)) < 2 ^ 32" "list_all text_ok libs"
    "list_all (\<lambda>(_, k, v). text_ok k \<and> text_ok v) ys"
  shows "resolve_entries select arch root libs (encode_cache (xs @ ys)) [length xs ..< length xs + length ys] paths =
    resolve_spec select arch root libs ys paths"
  using assms(1,3)
proof (induction ys arbitrary: xs paths)
  case (Cons y ys)
  obtain f k v where y: "y = (f, k, v)" by (metis prod_cases3)
  let ?mem = "encode_cache (xs @ (f, k, v) # ys)"
  note enc = entry_at_encode[OF Cons.prems(1)[unfolded y]]
  let ?off = "48 + 24 * length (xs @ (f, k, v) # ys) + length (encode_strings xs)"
  let ?e = "\<lparr>ent_flags = f, ent_key = word_of_nat ?off, ent_value = word_of_nat (?off + length k + 1)\<rparr>"
  have words: "unat (ent_key ?e) = ?off" "unat (ent_value ?e) = ?off + length k + 1"
    unfolding entry_libc6.simps using enc(4) by (intro unat_word_small; linarith)+
  have rest: "resolve_entries select arch root libs ?mem [Suc (length xs) ..< Suc (length xs) + length ys] ps =
      resolve_spec select arch root libs ys ps" for ps
    using Cons.IH[of "xs @ [(f, k, v)]" ps] Cons.prems by (simp add: y)
  have names: "match_names select root ?mem ?e 0 libs paths = names_spec select root k v 0 libs paths"
  proof (rule match_names_spec)
    show "drop (unat (ent_key ?e)) ?mem = k @ CHR 0x00 # v @ CHR 0x00 # encode_strings ys"
      unfolding words by (rule enc(2))
    show "drop (unat (ent_value ?e)) ?mem = v @ CHR 0x00 # encode_strings ys"
      unfolding words by (rule enc(3))
  qed (use Cons.prems(2) assms(2) in \<open>simp_all add: y\<close>)
  have range: "[length xs ..< length xs + length (y # ys)] = length xs # [Suc (length xs) ..< Suc (length xs) + length ys]"
    by (subst upt_rec) simp
  show ?case
    unfolding range unfolding y resolve_entries.simps enc(1) option.case resolve_spec.simps names rest
    by simp
qed simp

lemma encode_cache_start:
  "take 17 (encode_cache es) = MAGIC_LIBC6" "take 3 (drop 17 (encode_cache es)) = MAGIC_VERSION"
  "take 11 (encode_cache es) \<noteq> MAGIC_LIBC5"
  "length (encode_cache es) = 48 + 24 * length es + length (encode_strings es)"
  by (simp_all add: encode_cache_def MAGIC_LIBC6_def MAGIC_VERSION_def MAGIC_LIBC5_def)

lemma encode_cache_count:
  assumes "length (encode_cache es) < 2 ^ 32"
  shows "u32_at (encode_cache es) 20 = Some (word_of_nat (length es))" "length es < 2 ^ 32"
proof -
  show n: "length es < 2 ^ 32" using assms by (simp add: encode_cache_start)
  show "u32_at (encode_cache es) 20 = Some (word_of_nat (length es))"
  proof -
    have "length (MAGIC_LIBC6 @ MAGIC_VERSION) = 20" by (simp add: MAGIC_LIBC6_def MAGIC_VERSION_def)
    with u32_at_le32[OF n, of "MAGIC_LIBC6 @ MAGIC_VERSION"] show ?thesis
      by (simp add: encode_cache_def)
  qed
qed

lemma ldcache_open_encoded:
  assumes "es \<noteq> []" "file_map p os tr = (Inr (encode_cache es), ev)"
  shows "ldcache_open (ldcache_init p) os tr = (Inr \<lparr>ld_path = p, ld_addr = Some (encode_cache es), ld_ptr = 0\<rparr>, ev)"
proof -
  have "skip_libc5 (encode_cache es) = 0" by (simp add: skip_libc5_def encode_cache_start)
  moreover have "length es > 0" using assms(1) by simp
  ultimately show ?thesis
    using assms(2) by (simp add: ldcache_open_def ldcache_init_def bindE_def bindS_def Let_def encode_cache_start)
qed


definition sample_cache :: "cached list" where
  "sample_cache = [(771, ''libdrm.so.2'', ''/usr/lib/libdrm.so.2'')]"

definition cached_file :: os where
  "cached_file = calm\<lparr>os_str := (\<lambda>tr c. case c of FS (sc_mmap _ _) \<Rightarrow> Inr (encode_cache sample_cache) | _ \<Rightarrow> Inl EINVAL)\<rparr>"


end
