(* ===== verification/Driver.thy ===== *)
theory Driver
  imports Rpc CgroupLegacy
begin

text \<open>
  driver.c: the service process that loads the management library of the
  driver, the handlers it answers queries with and the client functions that
  ask them.  A pointer of the service is the address of a slot of the table
  deviceHandles, whose own address is the parameter \<open>table\<close>; the handle the
  library stores in a slot is named by the address of the slot.
\<close>

abbreviation (input) MAX_DEVICES :: int where "MAX_DEVICES \<equiv> 64"
abbreviation (input) MAX_MIG_DEVICES :: int where "MAX_MIG_DEVICES \<equiv> 8"
abbreviation (input) "SONAME_LIBNVML \<equiv> ''libxdxgpu-ml.so''"

subsection \<open>Calls of the library\<close>

definition error_set_nvml :: "string option \<Rightarrow> int \<Rightarrow> string \<Rightarrow> error" where
  "error_set_nvml errmsg errcode text =
     error_vset errcode (Some (case errmsg of None \<Rightarrow> ''unknown error'' | Some m \<Rightarrow> m)) text"

text \<open>
  call_nvml and call_xdxml: \<open>NoReply\<close> is a symbol the library does not have,
  a \<open>Fault\<close> with a code other than 0 (success) an error of the library.
\<close>

definition call_lib :: "string \<Rightarrow> string \<Rightarrow> int list \<Rightarrow> (int list \<times> string list) ioE" where
  "call_lib text symbol ints =
     bindS (call_reply (C_lib symbol ints [])) (\<lambda>r os tr. case r of
       Value is ss \<Rightarrow> (Inr (is, ss), [])
     | Fault code _ \<Rightarrow>
         (if code = 0 then Inr ([], []) else Inl (error_set_nvml (os_libmsg os tr code) code text), [])
     | NoReply _ \<Rightarrow> (Inl (error_set_nvml (os_libmsg os tr 13) 13 text), []))"

abbreviation (input) "call_nvml \<equiv> call_lib ''nvml error''"
abbreviation (input) "call_xdxml \<equiv> call_lib ''xdxml error''"

text \<open>The first result of each kind; the library fills it in when it succeeds.\<close>

definition int_of :: "int list \<times> string list \<Rightarrow> int" where
  "int_of r = (case fst r of [] \<Rightarrow> 0 | i # _ \<Rightarrow> i)"

definition str_of :: "int list \<times> string list \<Rightarrow> string" where
  "str_of r = (case snd r of [] \<Rightarrow> [] | s # _ \<Rightarrow> s)"

text \<open>The frame of a handler: the reply it fills in, or the error it turns into one.\<close>

definition handler :: "reply ioE \<Rightarrow> reply io" where
  "handler body = bindS body (\<lambda>r. case r of Inl e \<Rightarrow> error_to_xdr e (Value [] []) | Inr res \<Rightarrow> ret res)"

subsection \<open>The service\<close>

record driver =
  drv_rpc :: rpc
  drv_initialized :: bool
  drv_root :: path
  drv_nvml_path :: path
  drv_uid :: uint32
  drv_gid :: uint32

text \<open>An rpc structure of zero bytes: its descriptors are those of the standard input.\<close>

definition rpc_null :: rpc where
  "rpc_null = \<lparr>rpc_initialized = False, rpc_fd_clt = 0, rpc_fd_svc = 0, rpc_pid = 0, rpc_clt = False, rpc_name = []\<rparr>"

definition preload_libraries :: "path \<Rightarrow> unit ioE" where
  "preload_libraries root =
     (if str_equal root ''/'' then okay ()
      else
      bindE (xdlopen ''libm.so.6'') (\<lambda>_.
      bindE (xdlopen ''librt.so.1'') (\<lambda>_.
      bindE (xdlopen ''libpthread.so.0'') (\<lambda>_.
        or_set (bindE (call_unit (C_chroot root)) (\<lambda>_. call_unit (C_chdir ''/''))) ''change root failed''))))"

definition driver_init_1_svc :: "driver \<Rightarrow> reply io" where
  "driver_init_1_svc ctx =
     handler
       (bindE (preload_libraries (drv_root ctx)) (\<lambda>_.
        bindS (call_id C_getegid) (\<lambda>egid.
        bindE (perm_drop_privileges (drv_uid ctx) (drv_gid ctx) (egid \<noteq> drv_gid ctx)) (\<lambda>_.
        bindE (perm_set_capabilities CAP_PERMITTED None) (\<lambda>_.
        bindE (xdlopen (drv_nvml_path ctx)) (\<lambda>_.
        bindE (call_xdxml ''xdxml_init'' []) (\<lambda>_.
          okay (Value [] []))))))))"

definition driver_shutdown_1_svc :: "driver \<Rightarrow> reply io" where
  "driver_shutdown_1_svc ctx =
     bindS (call_xdxml ''xdxml_shutdown'' []) (\<lambda>r.
     bindS (case r of
              Inl e \<Rightarrow> error_to_xdr e (Value [] [])
            | Inr _ \<Rightarrow> bindS (call_void (C_lib ''svc_exit'' [] [])) (\<lambda>_. ret (Value [] []))) (\<lambda>rep.
     bindS (xdlclose (Some (drv_nvml_path ctx))) (\<lambda>_. ret rep)))"

text \<open>
  driver_init and driver_shutdown return the structure they leave.  A value
  that says the process has ended (the child, after the service) is not a
  failure of the caller.
\<close>

definition gone :: "error \<Rightarrow> bool" where
  "gone e \<longleftrightarrow> err_msg e = None \<and> (err_code e \<le> -256 \<or> e = null_deref)"

definition driver_fail :: "driver \<Rightarrow> error \<Rightarrow> (unit res \<times> driver) io" where
  "driver_fail ctx e =
     (if gone e then ret (Inl e, ctx)
      else bindS (rpc_shutdown (drv_rpc ctx) True) (\<lambda>(_, rpc). ret (Inl e, ctx\<lparr>drv_rpc := rpc\<rparr>)))"

definition driver_init :: "dxcore_context \<Rightarrow> path \<Rightarrow> uint32 \<Rightarrow> uint32 \<Rightarrow> (unit res \<times> driver) io" where
  "driver_init dxcore root uid gid =
     (let ctx = \<lparr>drv_rpc = rpc_null, drv_initialized = False, drv_root = root, drv_nvml_path = SONAME_LIBNVML,
                 drv_uid = uid, drv_gid = gid\<rparr> in
      bindS (if dx_initialized dxcore
             then (case dx_adapters dxcore of
                     [] \<Rightarrow> raise null_deref
                   | a # _ \<Rightarrow> path_join (driver_store_path a) SONAME_LIBNVML)
             else okay SONAME_LIBNVML) (\<lambda>p. case p of
        Inl e \<Rightarrow> driver_fail ctx e
      | Inr nvml_path \<Rightarrow>
          let ctx = ctx\<lparr>drv_nvml_path := nvml_path\<rparr> in
          bindS (rpc_init (drv_rpc ctx) ''driver'') (\<lambda>(r, rpc).
          let ctx = ctx\<lparr>drv_rpc := rpc\<rparr> in
          case r of
            Inl e \<Rightarrow> driver_fail ctx e
          | Inr _ \<Rightarrow>
              bindS (call_rpc ''driver'' ''driver_init_1'' [] []) (\<lambda>c. case c of
                Inl e \<Rightarrow> driver_fail ctx e
              | Inr _ \<Rightarrow> ret (Inr (), ctx\<lparr>drv_initialized := True\<rparr>)))))"

definition driver_shutdown :: "driver \<Rightarrow> (unit res \<times> driver) io" where
  "driver_shutdown ctx =
     (if \<not> drv_initialized ctx then ret (Inr (), ctx)
      else
      bindS (call_rpc ''driver'' ''driver_shutdown_1'' [] []) (\<lambda>c.
      bindS (rpc_shutdown (drv_rpc ctx) (case c of Inl _ \<Rightarrow> True | Inr _ \<Rightarrow> False)) (\<lambda>(r, rpc). ret (case r of
        Inl e \<Rightarrow> (Inl e, ctx\<lparr>drv_rpc := rpc\<rparr>)
      | Inr _ \<Rightarrow> (Inr (), ctx\<lparr>drv_rpc := rpc, drv_initialized := False\<rparr>)))))"

subsection \<open>Queries: handlers\<close>

text \<open>A handler that answers the number or the text the library yields.\<close>

definition answer_int :: "(int list \<times> string list) ioE \<Rightarrow> reply io" where
  "answer_int m = handler (bindE m (\<lambda>r. okay (Value [int_of r] [])))"

definition answer_str :: "(int list \<times> string list) ioE \<Rightarrow> reply io" where
  "answer_str m = handler (bindE m (\<lambda>r. bindE (xstrdup (str_of r)) (\<lambda>s. okay (Value [] [s]))))"

definition driver_get_rm_version_1_svc :: "reply io" where
  "driver_get_rm_version_1_svc = answer_str (call_nvml ''nvmlSystemGetDriverVersion'' [])"

definition driver_get_cuda_version_1_svc :: "reply io" where
  "driver_get_cuda_version_1_svc =
     handler (bindE (call_nvml ''nvmlSystemGetCudaDriverVersion'' []) (\<lambda>r.
       let version = word_of_int (int_of r) :: uint32
       in okay (Value [uint (version div 1000), uint (version mod 100 div 10)] [])))"

definition driver_get_device_count_1_svc :: "reply io" where
  "driver_get_device_count_1_svc = answer_int (call_xdxml ''xdxml_device_get_count'' [])"

text \<open>A slot is a pointer and eight more for MIG devices, 72 bytes.\<close>

definition driver_get_device_1_svc :: "int \<Rightarrow> int \<Rightarrow> reply io" where
  "driver_get_device_1_svc table idx =
     handler
       (if idx \<ge> MAX_DEVICES then failx ''too many devices''
        else bindE (call_xdxml ''xdxml_device_get_handle_by_index'' [idx, table + 72 * idx]) (\<lambda>_.
          okay (Value [table + 72 * idx] [])))"

definition driver_get_device_minor_1_svc :: "int \<Rightarrow> reply io" where
  "driver_get_device_minor_1_svc dev = answer_int (call_xdxml ''xdxml_device_get_minor_number'' [dev])"

text \<open>\<open>%08lx:%02lx:%02lx.0\<close> of the domain, the bus and the device.\<close>

definition print_busid :: "int list \<Rightarrow> string" where
  "print_busid pci =
     (case pci of
        pdom # b # d # _ \<Rightarrow> hex_pad 8 (nat pdom) @ '':'' @ hex_pad 2 (nat b) @ '':'' @ hex_pad 2 (nat d) @ ''.0''
      | _ \<Rightarrow> [])"

definition driver_get_device_busid_1_svc :: "int \<Rightarrow> reply io" where
  "driver_get_device_busid_1_svc dev =
     handler (bindE (call_xdxml ''xdxml_device_get_pci_info'' [dev]) (\<lambda>r.
       bindE (xasprintf (print_busid (fst r))) (\<lambda>s. okay (Value [] [s]))))"

definition driver_get_device_uuid_1_svc :: "int \<Rightarrow> reply io" where
  "driver_get_device_uuid_1_svc dev = answer_str (call_xdxml ''xdxml_device_get_uuid'' [dev])"

definition driver_get_device_model_1_svc :: "int \<Rightarrow> reply io" where
  "driver_get_device_model_1_svc dev = answer_str (call_xdxml ''xdxml_device_get_product_name'' [dev])"

definition brand_name :: "int \<Rightarrow> string" where
  "brand_name brand =
     (let names = [(1, ''Quadro''), (2, ''Tesla''), (3, ''NVS''), (4, ''GRID''), (5, ''GeForce''), (6, ''TITAN''),
        (7, ''VApps''), (8, ''VPC''), (9, ''VCS''), (10, ''VWS''), (11, ''CloudGaming''), (12, ''QuadroRTX''),
        (13, ''NvidiaRTX''), (14, ''Nvidia''), (15, ''GeForceRTX''), (16, ''TitanRTX'')]
      in case map_of names brand of None \<Rightarrow> ''Unknown'' | Some s \<Rightarrow> s)"

definition driver_get_device_brand_1_svc :: "int \<Rightarrow> reply io" where
  "driver_get_device_brand_1_svc dev =
     handler (bindE (call_nvml ''nvmlDeviceGetBrand'' [dev]) (\<lambda>r.
       bindE (xstrdup (brand_name (int_of r))) (\<lambda>s. okay (Value [] [s]))))"

definition driver_get_device_arch_1_svc :: "int \<Rightarrow> reply io" where
  "driver_get_device_arch_1_svc dev =
     handler (bindE (call_nvml ''nvmlDeviceGetCudaComputeCapability'' [dev]) (\<lambda>r.
       okay (Value (map (\<lambda>i. uint (word_of_int i :: uint32)) (take 2 (fst r))) [])))"

text \<open>
  The MIG mode carries the error of the library as its first number; the two
  modes are then whatever the variables \<open>junk\<close> held.
\<close>

definition driver_get_device_mig_mode_1_svc :: "int \<times> int \<Rightarrow> int \<Rightarrow> reply io" where
  "driver_get_device_mig_mode_1_svc junk dev =
     bindS (call_nvml ''nvmlDeviceGetMigMode'' [dev]) (\<lambda>r. ret (case r of
       Inl e \<Rightarrow> Value [err_code e, fst junk, snd junk] []
     | Inr (is, _) \<Rightarrow> Value (0 # take 2 is) []))"

definition driver_get_device_max_mig_device_count_1_svc :: "int \<Rightarrow> reply io" where
  "driver_get_device_max_mig_device_count_1_svc dev = answer_int (call_nvml ''nvmlDeviceGetMaxMigDeviceCount'' [dev])"

definition driver_get_device_mig_device_1_svc :: "int \<Rightarrow> int \<Rightarrow> reply io" where
  "driver_get_device_mig_device_1_svc dev idx =
     handler
       (if idx \<ge> MAX_MIG_DEVICES then failx ''too many MIG devices''
        else bindS (call_nvml ''nvmlDeviceGetMigDeviceHandleByIndex'' [dev, idx, dev + 8 + 8 * idx]) (\<lambda>r. case r of
          Inl e \<Rightarrow> if err_code e = 6 then okay (Value [0] []) else raise e
        | Inr _ \<Rightarrow> okay (Value [dev + 8 + 8 * idx] [])))"

definition driver_get_device_gpu_instance_id_1_svc :: "int \<Rightarrow> reply io" where
  "driver_get_device_gpu_instance_id_1_svc dev = answer_int (call_nvml ''nvmlDeviceGetGpuInstanceId'' [dev])"

definition driver_get_device_compute_instance_id_1_svc :: "int \<Rightarrow> reply io" where
  "driver_get_device_compute_instance_id_1_svc dev = answer_int (call_nvml ''nvmlDeviceGetComputeInstanceId'' [dev])"

subsection \<open>Queries: clients\<close>

definition ask_int :: "string \<Rightarrow> int list \<Rightarrow> int ioE" where
  "ask_int func args = bindE (call_rpc ''driver'' func args []) (\<lambda>r. okay (int_of r))"

definition ask_str :: "string \<Rightarrow> int list \<Rightarrow> string ioE" where
  "ask_str func args = bindE (call_rpc ''driver'' func args []) (\<lambda>r. xstrdup (str_of r))"

text \<open>A version: two unsigned numbers.\<close>

definition ask_version :: "string \<Rightarrow> int list \<Rightarrow> string ioE" where
  "ask_version func args = bindE (call_rpc ''driver'' func args []) (\<lambda>(is, _).
     xasprintf (case is of a # b # _ \<Rightarrow> dec (nat a) @ ''.'' @ dec (nat b) | _ \<Rightarrow> ''0.0''))"

definition driver_get_rm_version :: "string ioE" where
  "driver_get_rm_version = ask_str ''driver_get_rm_version_1'' []"

definition driver_get_cuda_version :: "string ioE" where
  "driver_get_cuda_version = ask_version ''driver_get_cuda_version_1'' []"

definition driver_get_device_count :: "uint32 ioE" where
  "driver_get_device_count = bindE (ask_int ''driver_get_device_count_1'' []) (\<lambda>n. okay (word_of_int n))"

definition driver_get_device :: "nat \<Rightarrow> int ioE" where
  "driver_get_device idx = ask_int ''driver_get_device_1'' [int idx]"

definition driver_get_device_minor :: "int \<Rightarrow> uint32 ioE" where
  "driver_get_device_minor dev = bindE (ask_int ''driver_get_device_minor_1'' [dev]) (\<lambda>n. okay (word_of_int n))"

definition driver_get_device_busid :: "int \<Rightarrow> string ioE" where
  "driver_get_device_busid dev = ask_str ''driver_get_device_busid_1'' [dev]"

definition driver_get_device_uuid :: "int \<Rightarrow> string ioE" where
  "driver_get_device_uuid dev = ask_str ''driver_get_device_uuid_1'' [dev]"

definition driver_get_device_model :: "int \<Rightarrow> string ioE" where
  "driver_get_device_model dev = ask_str ''driver_get_device_model_1'' [dev]"

definition driver_get_device_brand :: "int \<Rightarrow> string ioE" where
  "driver_get_device_brand dev = ask_str ''driver_get_device_brand_1'' [dev]"

definition driver_get_device_arch :: "int \<Rightarrow> string ioE" where
  "driver_get_device_arch dev = ask_version ''driver_get_device_arch_1'' [dev]"

text \<open>A MIG mode with another error of the library fails without setting an error.\<close>

definition mig_mode :: "(int list \<Rightarrow> bool) \<Rightarrow> int \<Rightarrow> bool ioE" where
  "mig_mode decide dev =
     bindE (call_rpc ''driver'' ''driver_get_device_mig_mode_1'' [dev] []) (\<lambda>(is, _).
     let code = (case is of [] \<Rightarrow> 0 | c # _ \<Rightarrow> c) in
     if code = 0 then okay (decide is)
     else if code = 13 \<or> code = 3 then okay False
     else raise \<lparr>err_code = 0, err_msg = None\<rparr>)"

definition driver_get_device_mig_enabled :: "int \<Rightarrow> bool ioE" where
  "driver_get_device_mig_enabled dev =
     mig_mode (\<lambda>is. case is of _ # current # _ \<Rightarrow> current = 1 | _ \<Rightarrow> False) dev"

definition driver_get_device_mig_capable :: "int \<Rightarrow> bool ioE" where
  "driver_get_device_mig_capable dev = mig_mode (\<lambda>_. True) dev"

definition driver_get_device_max_mig_device_count :: "int \<Rightarrow> uint32 ioE" where
  "driver_get_device_max_mig_device_count dev =
     bindE (ask_int ''driver_get_device_max_mig_device_count_1'' [dev]) (\<lambda>n. okay (word_of_int n))"

text \<open>0 is the null pointer.\<close>

definition driver_get_device_mig_device :: "int \<Rightarrow> nat \<Rightarrow> int ioE" where
  "driver_get_device_mig_device dev idx = ask_int ''driver_get_device_mig_device_1'' [dev, int idx]"

definition driver_get_device_gpu_instance_id :: "int \<Rightarrow> uint32 ioE" where
  "driver_get_device_gpu_instance_id dev =
     bindE (ask_int ''driver_get_device_gpu_instance_id_1'' [dev]) (\<lambda>n. okay (word_of_int n))"

definition driver_get_device_compute_instance_id :: "int \<Rightarrow> uint32 ioE" where
  "driver_get_device_compute_instance_id dev =
     bindE (ask_int ''driver_get_device_compute_instance_id_1'' [dev]) (\<lambda>n. okay (word_of_int n))"

subsection \<open>The Go service\<close>

text \<open>nvcgo.c: the service that loads the Go library, with the functions it needs of it.\<close>

record nvcgo =
  go_rpc :: rpc
  go_initialized :: bool

definition nvcgo_init :: "(unit res \<times> nvcgo) io" where
  "nvcgo_init =
     (let fail = (\<lambda>rpc e. if gone e then ret (Inl e, \<lparr>go_rpc = rpc, go_initialized = False\<rparr>)
                 else bindS (rpc_shutdown rpc True) (\<lambda>(_, rpc). ret (Inl e, \<lparr>go_rpc = rpc, go_initialized = False\<rparr>))) in
      bindS (rpc_init rpc_null ''nvcgo'') (\<lambda>(r, rpc). case r of
        Inl e \<Rightarrow> fail rpc e
      | Inr _ \<Rightarrow>
          bindS (call_rpc ''nvcgo'' ''nvcgo_init_1'' [] []) (\<lambda>c. case c of
            Inl e \<Rightarrow> fail rpc e
          | Inr _ \<Rightarrow> ret (Inr (), \<lparr>go_rpc = rpc, go_initialized = True\<rparr>))))"

definition nvcgo_shutdown :: "nvcgo \<Rightarrow> (unit res \<times> nvcgo) io" where
  "nvcgo_shutdown ctx =
     (if \<not> go_initialized ctx then ret (Inr (), ctx)
      else
      bindS (call_rpc ''nvcgo'' ''nvcgo_shutdown_1'' [] []) (\<lambda>c.
      bindS (rpc_shutdown (go_rpc ctx) (case c of Inl _ \<Rightarrow> True | Inr _ \<Rightarrow> False)) (\<lambda>(r, rpc). ret (case r of
        Inl e \<Rightarrow> (Inl e, ctx\<lparr>go_rpc := rpc\<rparr>)
      | Inr _ \<Rightarrow> (Inr (), \<lparr>go_rpc = rpc, go_initialized = False\<rparr>)))))"

text \<open>A missing symbol closes the library before the error is asked for: its text is lost.\<close>

abbreviation (input) "SONAME_LIBNVCGO \<equiv> ''libxdxct-container-go.so.1''"

fun load_symbols :: "string list \<Rightarrow> unit ioE" where
  "load_symbols [] = okay ()"
| "load_symbols (s # ss) =
     bindS (call_unit (C_lib ''dlsym'' [] [s])) (\<lambda>r. case r of
       Inr _ \<Rightarrow> load_symbols ss
     | Inl n \<Rightarrow>
         bindS (call_void (C_dlclose SONAME_LIBNVCGO)) (\<lambda>_ os tr.
           (Inl (error_setx (''dlsym error: '' @ (case os_libmsg os tr (int n) of None \<Rightarrow> ''(null)'' | Some m \<Rightarrow> m))), [])))"

definition nvcgo_init_1_svc :: "reply io" where
  "nvcgo_init_1_svc =
     handler
       (bindE (xdlopen SONAME_LIBNVCGO) (\<lambda>_.
        bindE (load_symbols [''GetDeviceCGroupVersion'', ''GetDeviceCGroupMountPath'', ''GetDeviceCGroupRootPath'',
                 ''AddDeviceRules'']) (\<lambda>_.
          okay (Value [] []))))"

definition nvcgo_shutdown_1_svc :: "reply io" where
  "nvcgo_shutdown_1_svc =
     bindS (xdlclose (Some SONAME_LIBNVCGO)) (\<lambda>_.
     bindS (call_void (C_lib ''svc_exit'' [] [])) (\<lambda>_. ret (Value [] [])))"

subsection \<open>The contract of a service\<close>

text \<open>
  Both services are a process with a client: a structure that is initialised
  has a running process, stopping it waits for that process, and a stop that
  fails leaves the structure as it was.
\<close>

definition service_up :: "rpc \<Rightarrow> bool" where
  "service_up rpc \<longleftrightarrow> rpc_initialized rpc \<and> rpc_clt rpc \<and> rpc_pid rpc > 0"

definition reaped :: "int \<Rightarrow> trace \<Rightarrow> bool" where
  "reaped pid es \<longleftrightarrow> (\<exists>block n. (C_wait pid block, RInt n) \<in> set es \<and> (block = 0 \<or> n > 0))"

definition running :: "('s \<Rightarrow> bool) \<Rightarrow> ('s \<Rightarrow> rpc) \<Rightarrow> 's \<Rightarrow> bool" where
  "running up rpc_of s \<longleftrightarrow> (up s \<longrightarrow> service_up (rpc_of s))"

locale service =
  fixes up :: "'s \<Rightarrow> bool" and rpc_of :: "'s \<Rightarrow> rpc"
    and start :: "(unit res \<times> 's) io" and stop :: "'s \<Rightarrow> (unit res \<times> 's) io"
  assumes start_up: "gives start (\<lambda>(r, s). running up rpc_of s \<and> (r = Inr () \<longrightarrow> up s))"
    and stop_idle: "\<not> up s \<Longrightarrow> stop s = ret (Inr (), s)"
    and stop_up: "up s \<Longrightarrow> gives (stop s) (\<lambda>(r, s'). if r = Inr () then \<not> up s' else s' = s)"
    and stop_reaps: "up s \<Longrightarrow> rpc_pid (rpc_of s) > 0 \<Longrightarrow> stop s os tr = ((Inr (), s'), es) \<Longrightarrow>
      reaped (rpc_pid (rpc_of s)) es"
begin

lemma stop_running:
  assumes "running up rpc_of s"
  shows "gives (stop s) (\<lambda>(r, s'). running up rpc_of s' \<and> (r = Inr () \<longrightarrow> \<not> up s'))"
proof (cases "up s")
  case True
  show ?thesis
    by (rule gives_conseq[OF stop_up[OF True]]) (use assms in \<open>auto simp: running_def split: if_splits\<close>)
qed (simp add: stop_idle running_def gives_ret)

lemma stop_leaves_none:
  assumes "running up rpc_of s" "stop s os tr = ((Inr (), s'), es)"
  shows "\<not> up s' \<and> (up s \<longrightarrow> reaped (rpc_pid (rpc_of s)) es)"
  using givesD[OF stop_running[OF assms(1)] assms(2)] stop_reaps[OF _ _ assms(2)] assms(1)
  by (auto simp: running_def service_up_def)

end

subsection \<open>Both services keep it\<close>

lemma gives_call_int: "gives (call_int c) (\<lambda>r. case r of Inl _ \<Rightarrow> True | Inr n \<Rightarrow> 0 \<le> n)"
  unfolding gives_def call_int_def
proof (intro allI)
  fix os tr
  show "case fst (let r = map_sum id int (os_int os tr c) in (r, [(c, answer RInt r)])) of Inl _ \<Rightarrow> True | Inr n \<Rightarrow> 0 \<le> n"
    by (cases "os_int os tr c") simp_all
qed

lemma gives_rpc_init: "gives (rpc_init rpc_null prog) (\<lambda>(r, rpc). r = Inr () \<longrightarrow> service_up rpc)"
  unfolding rpc_init_def Let_def fail_errno_def
  apply (simp only: rpc_null_def rpc.simps if_False)
  apply (intro gives_after[of _ _ "call_id _"] gives_after[of _ _ socketpair] gives_case_sum gives_case_prod)
   apply (rule gives_bindS[of _ "\<lambda>r. \<exists>e. r = Inl e"], simp add: gives_def)
   apply (intro gives_after gives_ret, clarsimp)
  apply (rule gives_bindS[OF gives_call_int])
  apply (intro gives_case_sum gives_if gives_after[of _ _ "setup_service _ _"] gives_ret)
    apply (rule gives_bindS[of _ "\<lambda>r. \<exists>e. r = Inl e"], simp add: gives_def)
    apply (intro gives_after gives_ret, clarsimp)
   apply simp
  apply (intro gives_after[of _ _ "setup_client _"] gives_case_sum gives_ret gives_after[of _ _ "rpc_abort _"])
   apply (auto simp: service_up_def rpc_zero_def)
  done

lemma gives_driver_fail:
  "\<not> drv_initialized ctx \<Longrightarrow> gives (driver_fail ctx e) (\<lambda>(r, drv). r \<noteq> Inr () \<and> \<not> drv_initialized drv)"
  unfolding driver_fail_def by (intro gives_if gives_after gives_case_prod gives_ret) auto

lemma gives_driver_init:
  "gives (driver_init dx root uid gid) (\<lambda>(r, drv). running drv_initialized drv_rpc drv \<and> (r = Inr () \<longrightarrow> drv_initialized drv))"
proof -
  have fail: "gives (driver_fail ctx e) (\<lambda>(r, drv). running drv_initialized drv_rpc drv \<and> (r = Inr () \<longrightarrow> drv_initialized drv))"
    if "\<not> drv_initialized ctx" for ctx e
    by (rule gives_conseq[OF gives_driver_fail[OF that]]) (auto simp: running_def)
  show ?thesis
    unfolding driver_init_def Let_def
    apply (rule gives_after)
    apply (intro gives_case_sum)
     apply (rule fail, simp)
    apply (rule gives_bindS)
     apply (simp, rule gives_rpc_init)
    apply (intro gives_case_prod gives_case_sum)
     apply (rule fail, simp)
    apply (rule gives_after)
    apply (intro gives_case_sum gives_ret)
     apply (rule fail, simp)
    apply (auto simp: running_def)
    done
qed

lemma gives_nvcgo_init:
  "gives nvcgo_init (\<lambda>(r, go). running go_initialized go_rpc go \<and> (r = Inr () \<longrightarrow> go_initialized go))"
  unfolding nvcgo_init_def Let_def
  apply (rule gives_bindS[OF gives_rpc_init])
  apply (intro gives_case_prod gives_case_sum gives_if gives_after gives_ret)
        apply (auto simp: running_def)
  done

lemma gives_rpc_shutdown: "gives (rpc_shutdown rpc force) (\<lambda>(r, rpc'). r = Inr () \<or> rpc' = rpc)"
  unfolding rpc_shutdown_def by (intro gives_after gives_case_sum gives_ret) auto

lemma reap_process_reaped:
  assumes "reap_process rpc fd force os tr = (Inr (), es)"
  shows "reaped (rpc_pid rpc) es"
proof -
  let ?W = "\<lambda>block. call_int (C_wait (rpc_pid rpc) block)"
  from assms obtain w e1 e2 where w: "?W 1 os tr = (w, e1)"
    and rest: "(if (case w of Inl _ \<Rightarrow> True | Inr n \<Rightarrow> n \<le> 0) then
            bindS (if force then call_void (C_kill (rpc_pid rpc) SIGTERM) else ret ()) (\<lambda>_.
            bindE (call_int (C_poll fd REAP_TIMEOUT_MS)) (\<lambda>n.
            bindE (if n = 0 then call_unit (C_kill (rpc_pid rpc) SIGKILL) else okay ()) (\<lambda>_.
            bindE (?W 0) (\<lambda>_. okay ()))))
          else okay ()) os (tr @ e1) = (Inr (), e2)" and es: "es = e1 @ e2"
    unfolding reap_process_def or_set_Inr bindS_eq by blast
  show ?thesis
  proof (cases "case w of Inl _ \<Rightarrow> True | Inr n \<Rightarrow> n \<le> 0")
    case True
    with rest obtain n tr' where "?W 0 os tr' = (Inr n, [(C_wait (rpc_pid rpc) 0, RInt n)])"
      and "(C_wait (rpc_pid rpc) 0, RInt n) \<in> set e2"
      by (auto simp: bindS_eq bindE_Inr call_int_eq)
    then show ?thesis by (auto simp: reaped_def es)
  next
    case False
    then obtain n where "w = Inr n" "n > 0" by (cases w) auto
    with w have "(C_wait (rpc_pid rpc) 1, RInt n) \<in> set e1" by (simp add: call_int_eq)
    with \<open>n > 0\<close> show ?thesis by (auto simp: reaped_def es)
  qed
qed

lemma rpc_shutdown_reaped:
  assumes "rpc_shutdown rpc force os tr = ((Inr (), rpc'), es)" "rpc_pid rpc > 0"
  shows "reaped (rpc_pid rpc) es"
proof -
  from assms obtain r e1 e2 where "reap_process rpc (rpc_fd_clt rpc) force os tr = (r, e1)" "es = e1 @ e2"
    and "r = Inr ()"
    unfolding rpc_shutdown_def if_P[OF assms(2)] bindS_eq
    by (fastforce split: sum.splits)
  with reap_process_reaped[of rpc "rpc_fd_clt rpc" force os tr e1] show ?thesis by (auto simp: reaped_def)
qed

text \<open>The shape of both shutdown functions, once the structure is initialised.\<close>

lemma stop_shape:
  fixes up :: "'s \<Rightarrow> bool"
  assumes "stop = bindS ask (\<lambda>c. bindS (rpc_shutdown rpc (forced c)) (\<lambda>(r, rpc'). ret (case r of
      Inl e \<Rightarrow> (Inl e, kept rpc') | Inr _ \<Rightarrow> (Inr (), stopped rpc'))))"
    and "kept rpc = s" "\<And>rpc'. \<not> up (stopped rpc')"
  shows "gives stop (\<lambda>(r, s'). if r = Inr () then \<not> up s' else s' = s)"
    and "rpc_pid rpc > 0 \<Longrightarrow> stop os tr = ((Inr (), s'), es) \<Longrightarrow> reaped (rpc_pid rpc) es"
proof -
  show "gives stop (\<lambda>(r, s'). if r = Inr () then \<not> up s' else s' = s)"
    unfolding assms(1)
    apply (rule gives_after, rule gives_bindS[OF gives_rpc_shutdown], intro gives_case_prod gives_ret)
    apply (use assms(2,3) in \<open>auto split: sum.splits\<close>)
    done
  assume pid: "rpc_pid rpc > 0" and run: "stop os tr = ((Inr (), s'), es)"
  from run obtain c e1 rpc' e2 where "rpc_shutdown rpc (forced c) os (tr @ e1) = ((Inr (), rpc'), e2)" "es = e1 @ e2"
    unfolding assms(1) by (auto simp: bindS_eq split: sum.splits) (metis old.unit.exhaust sum.exhaust)+
  with rpc_shutdown_reaped[of rpc "forced c" os "tr @ e1" rpc' e2] pid show "reaped (rpc_pid rpc) es"
    by (auto simp: reaped_def)
qed

interpretation drv: service "drv_initialized :: driver \<Rightarrow> bool" drv_rpc "driver_init dx root uid gid" driver_shutdown
  for dx root uid gid
proof
  show "gives (driver_init dx root uid gid) (\<lambda>(r, s). running drv_initialized drv_rpc s \<and> (r = Inr () \<longrightarrow> drv_initialized s))"
    by (rule gives_driver_init)
next
  fix s :: driver assume s: "drv_initialized s"
  note shape = stop_shape[OF driver_shutdown_def[of s, simplified s, simplified], where up = drv_initialized and s = s]
  show "gives (driver_shutdown s) (\<lambda>(r, s'). if r = Inr () then \<not> drv_initialized s' else s' = s)"
    by (rule shape(1)) simp_all
  fix os tr s' es
  assume "rpc_pid (drv_rpc s) > 0" "driver_shutdown s os tr = ((Inr (), s'), es)"
  then show "reaped (rpc_pid (drv_rpc s)) es" by (rule shape(2)[rotated 2]) simp_all
qed (simp add: driver_shutdown_def)

interpretation go: service "go_initialized :: nvcgo \<Rightarrow> bool" go_rpc nvcgo_init nvcgo_shutdown
proof
  show "gives nvcgo_init (\<lambda>(r, s). running go_initialized go_rpc s \<and> (r = Inr () \<longrightarrow> go_initialized s))"
    by (rule gives_nvcgo_init)
next
  fix s :: nvcgo assume s: "go_initialized s"
  note shape = stop_shape[OF nvcgo_shutdown_def[of s, simplified s, simplified], where up = go_initialized and s = s]
  show "gives (nvcgo_shutdown s) (\<lambda>(r, s'). if r = Inr () then \<not> go_initialized s' else s' = s)"
    by (rule shape(1)) simp_all
  fix os tr s' es
  assume "rpc_pid (go_rpc s) > 0" "nvcgo_shutdown s os tr = ((Inr (), s'), es)"
  then show "reaped (rpc_pid (go_rpc s)) es" by (rule shape(2)[rotated 2]) simp_all
qed (simp add: nvcgo_shutdown_def)

subsection \<open>When the library is loaded\<close>

text \<open>
  The stages the service goes through before it runs code of the driver: the
  root directory (1) and the working directory (2) are changed unless the root
  is the host's, the identity is dropped for good (3), the permitted
  capabilities are replaced (4).  Only the last stage may call a library or
  load one, except for the C libraries that are loaded before the root is changed.
\<close>

definition preloaded :: "string list" where
  "preloaded = [''libm.so.6'', ''librt.so.1'', ''libpthread.so.0'']"

definition load_step :: "path \<Rightarrow> nat \<Rightarrow> event \<Rightarrow> nat option" where
  "load_step root s = (\<lambda>(c, a). case c of
     NS (sc_chroot p) \<Rightarrow> advance (s = 0 \<and> p = root) a s 1
   | NS (sc_chdir p) \<Rightarrow> advance (s = 1 \<and> p = ''/'') a s 2
   | Cred sc_no_new_privs \<Rightarrow> advance (s = (if root = ''/'' then 0 else 2)) a s 3
   | Cap (sc_cap_set_proc _) \<Rightarrow> advance (s = 3) a s 4
   | Proc (sc_dlopen p) \<Rightarrow> if s = 4 \<or> s = 0 \<and> root \<noteq> ''/'' \<and> p \<in> set preloaded then Some s else None
   | Proc (sc_lib _ _ _) \<Rightarrow> if s = 4 then Some s else None
   | _ \<Rightarrow> Some s)"

fun unstaged :: "call \<Rightarrow> bool" where
  "unstaged (NS c) = (case c of sc_chroot _ \<Rightarrow> False | sc_chdir _ \<Rightarrow> False | _ \<Rightarrow> True)"
| "unstaged (Cred c) = (c \<noteq> sc_no_new_privs)"
| "unstaged (Cap c) = (case c of sc_cap_set_proc _ \<Rightarrow> False | _ \<Rightarrow> True)"
| "unstaged (Proc c) = (case c of sc_dlopen _ \<Rightarrow> False | sc_lib _ _ _ \<Rightarrow> False | _ \<Rightarrow> True)"
| "unstaged _ = True"

lemma load_unstaged: "unstaged c \<Longrightarrow> load_step root s (c, a) = Some s"
  by (auto simp: load_step_def split: call.splits ns_call.splits cred_call.splits cap_call.splits proc_call.splits)

lemma load_safe_unstaged:
  assumes "emits (\<lambda>e. unstaged (fst e)) m" "\<And>r. Q r s"
  shows "safe (load_step root) s m Q"
  by (rule safe_ignored[OF emits_weaken[OF assms(1)]]) (auto simp: load_unstaged assms(2))

lemma load_bindE_unstaged:
  assumes "emits (\<lambda>e. unstaged (fst e)) m" "\<And>e. Q (Inl e) s" "\<And>x. safe (load_step root) s (f x) Q"
  shows "safe (load_step root) s (bindE m f) Q"
  by (intro safe_bindE load_safe_unstaged assms(1)) (auto simp: assms(2,3) split: sum.splits)

lemma load_bindS_unstaged:
  assumes "emits (\<lambda>e. unstaged (fst e)) m" "\<And>x. safe (load_step root) s (f x) Q"
  shows "safe (load_step root) s (bindS m f) Q"
  by (intro safe_bindS load_safe_unstaged assms)

lemma load_last:
  assumes "\<And>e. R (Inl e) s" "R (Inr ()) s'" "\<And>a. load_step root s (c, a) = advance True a s s'"
  shows "safe (load_step root) s (call_unit c) R"
  apply (intro safe_call)
  subgoal for r using assms by (cases r) (auto simp: advance_def)
  done

lemma safe_preload:
  assumes "\<And>e s. Q (Inl e) s" "Q (Inr ()) (if root = ''/'' then 0 else 2)"
  shows "safe (load_step root) 0 (preload_libraries root) Q"
proof -
  have lib: "safe (load_step root) 0 (xdlopen p) R"
    if "root \<noteq> ''/''" "p \<in> set preloaded" "\<And>e. R (Inl e) 0" "R (Inr ()) 0" for p R
    unfolding xdlopen_def
    apply (intro safe_bindS safe_call)
    subgoal for r
      using that by (auto simp: load_step_def safe_def split: sum.splits)
    done
  have pre: "''libm.so.6'' \<in> set preloaded" "''librt.so.1'' \<in> set preloaded" "''libpthread.so.0'' \<in> set preloaded"
    by (simp_all add: preloaded_def)
  have root: "safe (load_step root) 0 (or_set (bindE (call_unit (C_chroot root)) (\<lambda>_. call_unit (C_chdir ''/''))) t) Q"
    if "root \<noteq> ''/''" for t
    apply (intro safe_or_set safe_bindE load_last[where s' = 1])
      apply (use that assms in \<open>auto simp: load_step_def intro!: load_last[where s' = 2]\<close>)
    done
  show ?thesis
  proof (cases "root = ''/''")
    case True
    with assms(2) show ?thesis by (simp add: preload_libraries_def str_equal_def safe_okay)
  next
    case False
    show ?thesis
      unfolding preload_libraries_def str_equal_def if_not_P[OF False]
      apply (rule safe_bindE, rule lib[OF False pre(1)]; unfold sum.case, (rule assms(1))?)
      apply (rule safe_bindE, rule lib[OF False pre(2)]; unfold sum.case, (rule assms(1))?)
      apply (rule safe_bindE, rule lib[OF False pre(3)]; unfold sum.case, (rule assms(1))?)
      apply (rule root[OF False])
      done
  qed
qed

lemma load_drop:
  assumes "\<And>e s. Q (Inl e) s" "Q (Inr ()) 3" "s = (if root = ''/'' then 0 else 2)"
  shows "safe (load_step root) s (perm_drop_privileges uid gid dg) Q"
proof -
  have groups: "emits (\<lambda>e. unstaged (fst e)) (drop_groups_step gid)"
    unfolding drop_groups_step_def by (intro emits_intros) simp_all
  show ?thesis
    unfolding perm_drop_privileges_def
    apply (intro safe_or_set load_bindS_unstaged load_bindE_unstaged safe_if safe_raise load_last[where s' = 3] emits_intros groups)
    apply (simp_all add: assms load_step_def)
    done
qed

lemma load_caps:
  assumes "\<And>e s. Q (Inl e) s" "Q (Inr ()) 4"
  shows "safe (load_step root) 3 (perm_set_capabilities CAP_PERMITTED None) Q"
  unfolding perm_set_capabilities_def install_caps_def restrict_effective_def
  apply (simp only: cap_flag.distinct option.case if_False if_True refl effective_loop.simps)
  apply (intro safe_or_set load_bindE_unstaged load_last[where s' = 4] emits_intros)
  apply (simp_all add: assms load_step_def)
  done


lemma safe_driver_init_svc: "safe (load_step (drv_root ctx)) 0 (driver_init_1_svc ctx) (\<lambda>_ _. True)"
proof -
  have call: "safe (load_step root) 4 (call_xdxml f is) Q" if "\<And>r. Q r 4" for f "is" Q root
    unfolding call_lib_def
    by (intro safe_bindS safe_call) (use that in \<open>auto simp: load_step_def safe_def split: reply.splits\<close>)
  have open_lib: "safe (load_step root) 4 (xdlopen p) Q" if "\<And>r. Q r 4" for p Q root
    unfolding xdlopen_def
    by (intro safe_bindS safe_call) (use that in \<open>auto simp: load_step_def safe_def split: sum.splits\<close>)
  have fail: "safe (load_step root) s (error_to_xdr e r) (\<lambda>_ _. True)" for root s e r
    by (rule load_safe_unstaged[OF emits_weaken[OF error_to_xdr_calls]]) auto
  show ?thesis
    unfolding driver_init_1_svc_def handler_def
    apply (rule safe_bindS)
    apply (rule safe_bindE, rule safe_preload; unfold sum.case, (rule fail)?)
    apply (rule load_bindS_unstaged, intro emits_intros, simp)
    apply (rule safe_bindE, rule load_drop; (rule refl | unfold sum.case, (rule fail)?))
    apply (rule safe_bindE, rule load_caps; unfold sum.case, (rule fail)?)
    apply (rule safe_bindE, rule open_lib)
    subgoal premises p for x r
    proof (cases r)
      case (Inl e)
      then show ?thesis by (simp only: sum.case fail)
    next
      case (Inr u)
      show ?thesis unfolding Inr sum.case
        by (rule safe_bindE, rule call) (auto simp: fail intro!: safe_okay safe_ret split: sum.splits)
    qed
    done
qed

text \<open>C11: The service runs no code of the driver before it is confined: whatever the system answers,
  it loads a library other than the three C libraries, or calls one, only after the root and the
  working directory are changed (unless the root is the host's), no-new-privileges is set and the
  capabilities are replaced, in this order and each of them successfully.\<close>

theorem driver_library_confined:
  "accepts (load_step (drv_root ctx)) 0 (snd (driver_init_1_svc ctx os tr)) \<noteq> None"
proof -
  obtain r es where r: "driver_init_1_svc ctx os tr = (r, es)" by fastforce
  from safeD[OF safe_driver_init_svc r] r show ?thesis by auto
qed

end
