(* ===== verification/Info.thy ===== *)
theory Info
  imports Libraries Ldcache Driver Container
begin

text \<open>
  nvc_info.c: what the library reports of the driver and of its devices, and
  the part of elftool.c it uses to probe a library.  libelf is answered by the
  environment, \<open>env\<close> is the value of PATH.  A list of the driver information is
  the packed array of the source.
\<close>

subsection \<open>Probing a library\<close>

definition elftool_open :: "path \<Rightarrow> fd ioE" where
  "elftool_open path =
     bindE (xopen path O_RDONLY) (\<lambda>fd.
     bindS (call_unit (C_lib ''elf_begin'' [fd] [])) (\<lambda>r. case r of
       Inr _ \<Rightarrow> okay fd
     | Inl _ \<Rightarrow> bindS (xclose fd) (\<lambda>_. failx (''elf file read error: '' @ path))))"

definition elftool_close :: "fd \<Rightarrow> unit io" where
  "elftool_close fd = bindS (call_void (C_lib ''elf_end'' [fd] [])) (\<lambda>_. xclose fd)"

definition select_libraries :: select_fn where
  "select_libraries root orig_path alt_path =
     bindE (path_join root alt_path) (\<lambda>path.
     bindE (elftool_open path) (\<lambda>et.
     let skip = (case orig_path of
                   None \<Rightarrow> False
                 | Some orig \<Rightarrow> str_has_prefix orig ''/opt/xdxgpu/lib/x86_64-linux-gnu'' \<and>
                     str_has_prefix alt_path ''/usr/lib/x86_64-linux-gnu'') in
     bindS (elftool_close et) (\<lambda>_. okay (\<not> skip))))"

definition select_wsl_libraries :: select_fn where
  "select_wsl_libraries root orig_path alt_path =
     okay (case orig_path of None \<Rightarrow> True | Some orig \<Rightarrow> strstr orig ''/wsl/lib/'' = None)"

subsection \<open>Libraries\<close>

abbreviation (input) LIB_ARCH :: uint32 where "LIB_ARCH \<equiv> 0x0300"
abbreviation (input) LIB32_ARCH :: uint32 where "LIB32_ARCH \<equiv> 0"

text \<open>find_library_paths of nvc_info.c.  A run that has crashed closes nothing.\<close>

definition find_driver_libraries ::
  "dxcore_context \<Rightarrow> path \<Rightarrow> path \<Rightarrow> string list \<Rightarrow> (path option list \<times> path option list) ioE" where
  "find_driver_libraries dxcore root ldcache libs =
     (let select = (if dx_initialized dxcore then select_wsl_libraries else select_libraries) in
      bindE (path_resolve_full root ldcache) (\<lambda>path.
      bindE (ldcache_open (ldcache_init path)) (\<lambda>ld.
      bindS (bindE (array_new (length libs)) (\<lambda>_.
             bindE (ldcache_resolve ld LIB_ARCH root libs select) (\<lambda>libs64.
             bindE (array_new (length libs)) (\<lambda>_.
             bindE (ldcache_resolve ld LIB32_ARCH root libs select) (\<lambda>libs32.
               okay (libs64, libs32)))))) (\<lambda>r.
      if r = Inl null_deref then ret r
      else bindS (ldcache_close ld) (\<lambda>c. case c of Inl e \<Rightarrow> raise e | Inr _ \<Rightarrow> ret r)))))"

definition packed :: "'a option list \<Rightarrow> 'a list" where
  "packed arr = (let (a, n) = array_pack arr in map the (take n a))"

definition driver_libs :: "bool \<Rightarrow> string list" where
  "driver_libs wsl = utility_libs @ compute_libs @ video_libs @ graphics_libs @ (if wsl then dxcore_libs else [])"

definition lookup_libraries :: "dxcore_context \<Rightarrow> nvc_driver_info \<Rightarrow> path \<Rightarrow> path \<Rightarrow> nvc_driver_info ioE" where
  "lookup_libraries dxcore info root ldcache =
     bindE (find_driver_libraries dxcore root ldcache (driver_libs (dx_initialized dxcore))) (\<lambda>(libs, libs32).
       okay (info\<lparr>drv_libs := packed libs, drv_libs32 := packed libs32\<rparr>))"

subsection \<open>Binaries\<close>

text \<open>Whether a directory has a binary: a failure of any step is a no.\<close>

definition probe_bin :: "path \<Rightarrow> path \<Rightarrow> string \<Rightarrow> path option io" where
  "probe_bin root dir bin =
     bindS (path_join dir bin) (\<lambda>t. case t of
       Inl _ \<Rightarrow> ret None
     | Inr tmp \<Rightarrow>
         bindS (path_resolve root tmp) (\<lambda>p. case p of
           Inl _ \<Rightarrow> ret None
         | Inr path \<Rightarrow> bindS (file_exists_at root path) (\<lambda>r. ret (if r = Inr True then Some path else None))))"

text \<open>The driver stores are all searched, the last one that has the binary wins.\<close>

fun store_bin :: "path \<Rightarrow> string \<Rightarrow> dxcore_adapter list \<Rightarrow> path option \<Rightarrow> path option ioE" where
  "store_bin root bin [] found = okay found"
| "store_bin root bin (ad # ads) found =
     bindS (probe_bin root (driver_store_path ad) bin) (\<lambda>p. case p of
       None \<Rightarrow> store_bin root bin ads found
     | Some path \<Rightarrow> bindE (xstrdup path) (\<lambda>s. store_bin root bin ads (Some s)))"

fun store_bins :: "path \<Rightarrow> dxcore_adapter list \<Rightarrow> string list \<Rightarrow> path option list ioE" where
  "store_bins root ads [] = okay []"
| "store_bins root ads (bin # bins) =
     bindE (store_bin root bin ads None) (\<lambda>b.
     bindE (store_bins root ads bins) (\<lambda>bs. okay (b # bs)))"

text \<open>A directory of PATH is searched for the binaries that are not found yet.\<close>

fun dir_bins :: "path \<Rightarrow> path \<Rightarrow> (string \<times> path option) list \<Rightarrow> path option list ioE" where
  "dir_bins root dir [] = okay []"
| "dir_bins root dir ((bin, Some b) # rest) = bindE (dir_bins root dir rest) (\<lambda>bs. okay (Some b # bs))"
| "dir_bins root dir ((bin, None) # rest) =
     bindS (probe_bin root dir bin) (\<lambda>p.
     bindE (case p of None \<Rightarrow> okay None | Some path \<Rightarrow> bindE (xstrdup path) (\<lambda>s. okay (Some s))) (\<lambda>b.
     bindE (dir_bins root dir rest) (\<lambda>bs. okay (b # bs))))"

fun path_bins :: "path \<Rightarrow> string list \<Rightarrow> path list \<Rightarrow> path option list \<Rightarrow> path option list ioE" where
  "path_bins root bins [] found = okay found"
| "path_bins root bins (dir # dirs) found =
     bindE (dir_bins root (if dir = [] then ''.'' else dir) (zip bins found)) (\<lambda>found.
       path_bins root bins dirs found)"

definition find_binary_paths :: "string option \<Rightarrow> dxcore_context \<Rightarrow> path \<Rightarrow> string list \<Rightarrow> path option list ioE" where
  "find_binary_paths env dxcore root bins =
     (case env of
        None \<Rightarrow> failx ''environment variable PATH not found''
      | Some e \<Rightarrow>
          bindE (xstrdup e) (\<lambda>e.
          bindE (array_new (length bins)) (\<lambda>arr.
          bindE (if dx_initialized dxcore then store_bins root (dx_adapters dxcore) bins else okay arr) (\<lambda>found.
            path_bins root bins (tokens '':'' e) found))))"

definition lookup_binaries :: "string option \<Rightarrow> dxcore_context \<Rightarrow> nvc_driver_info \<Rightarrow> path \<Rightarrow> nvc_driver_info ioE" where
  "lookup_binaries env dxcore info root =
     bindE (find_binary_paths env dxcore root utility_bins) (\<lambda>bins. okay (info\<lparr>drv_bins := packed bins\<rparr>))"

definition lookup_paths ::
  "string option \<Rightarrow> dxcore_context \<Rightarrow> nvc_driver_info \<Rightarrow> path \<Rightarrow> path \<Rightarrow> nvc_driver_info ioE" where
  "lookup_paths env dxcore info root ldcache =
     bindE (lookup_libraries dxcore info root ldcache) (\<lambda>info. lookup_binaries env dxcore info root)"

subsection \<open>Devices of the driver\<close>

abbreviation (input) NV_DEVICE_MAJOR :: uint32 where "NV_DEVICE_MAJOR \<equiv> 226"
abbreviation (input) XDX_RENDER_DEVICE_MINOR :: uint32 where "XDX_RENDER_DEVICE_MINOR \<equiv> 128"
abbreviation (input) "XDX_RENDER_DEVICE_PATH \<equiv> ''/dev/dri/renderD128''"
abbreviation (input) "MSFT_DXG_DEVICE_PATH \<equiv> ''/dev/dxg''"

text \<open>
  The length of the array counts the render node only: the node of the Windows
  layer is written behind the end of an empty array, where nothing reads it.
\<close>

definition lookup_devices :: "dxcore_context \<Rightarrow> nvc_driver_info \<Rightarrow> nvc_driver_info ioE" where
  "lookup_devices dxcore info =
     bindE (if dx_initialized dxcore then bindE (xstat MSFT_DXG_DEVICE_PATH) (\<lambda>_. okay [])
            else okay [\<lparr>node_path = XDX_RENDER_DEVICE_PATH,
                        node_id = makedev NV_DEVICE_MAJOR XDX_RENDER_DEVICE_MINOR\<rparr>]) (\<lambda>devs.
     bindE xcalloc (\<lambda>_. okay (info\<lparr>drv_devs := devs\<rparr>)))"

definition driver_info_zero :: nvc_driver_info where
  "driver_info_zero = \<lparr>nvrm_version = None, cuda_version = None, drv_bins = [], drv_libs = [], drv_libs32 = [],
     drv_ipcs = [], drv_devs = [], drv_firmwares = []\<rparr>"

definition default_driver_opts :: string where
  "default_driver_opts = []"

definition nvc_driver_info_new :: "string option \<Rightarrow> nvc_context option \<Rightarrow> string option \<Rightarrow> nvc_driver_info ioE" where
  "nvc_driver_info_new env ctx opts =
     bindE (validate_context ctx) (\<lambda>ctx.
     bindE (of_res (options_parse (case opts of None \<Rightarrow> default_driver_opts | Some s \<Rightarrow> s) driver_opts)) (\<lambda>flags.
     if sint flags < 0 then raise unset_error
     else
     bindE xcalloc (\<lambda>_.
     bindE (lookup_paths env (ctx_dxcore ctx) driver_info_zero (ctx_root ctx) (ctx_ldcache ctx)) (\<lambda>info.
       lookup_devices (ctx_dxcore ctx) info))))"

subsection \<open>MIG devices\<close>

text \<open>
  fill_mig_device_info: its only call is commented out.  A null pointer for a
  device ends the list.  \<open>parent\<close> is the index of the GPU.
\<close>

definition gpu_inst_caps :: "uint64 \<Rightarrow> uint32 \<Rightarrow> path" where
  "gpu_inst_caps node gi =
     NV_PROC_DRIVER_CAPS @ ''/gpu'' @ dec_int (sint (minor node)) @ ''/mig/gi'' @ dec_int (sint gi)"

fun mig_devices_loop :: "nat \<Rightarrow> int \<Rightarrow> uint64 \<Rightarrow> nat list \<Rightarrow> nvc_mig_device list ioE" where
  "mig_devices_loop parent dev node [] = okay []"
| "mig_devices_loop parent dev node (i # is) =
     bindE (driver_get_device_mig_device dev i) (\<lambda>mig.
     if mig = 0 then okay []
     else
     bindE (driver_get_device_gpu_instance_id mig) (\<lambda>gi.
     bindE (driver_get_device_compute_instance_id mig) (\<lambda>ci.
     bindE (driver_get_device_uuid mig) (\<lambda>uuid.
     bindE (xasprintf (gpu_inst_caps node gi)) (\<lambda>gi_caps.
     bindE (xasprintf (gpu_inst_caps node gi @ ''/ci'' @ dec_int (sint ci))) (\<lambda>ci_caps.
     bindE (mig_devices_loop parent dev node is) (\<lambda>rest.
       okay (\<lparr>mig_parent = parent, mig_uuid = uuid, mig_gi = unat gi, mig_ci = unat ci, gi_caps_path = gi_caps,
              ci_caps_path = ci_caps\<rparr> # rest))))))))"

definition fill_mig_device_info :: "nat \<Rightarrow> bool \<Rightarrow> int \<Rightarrow> nvc_device \<Rightarrow> nvc_device ioE" where
  "fill_mig_device_info parent mig_enabled dev gpu =
     (if \<not> mig_enabled then okay (gpu\<lparr>mig_devices := []\<rparr>)
      else
      bindE (driver_get_device_max_mig_device_count dev) (\<lambda>count.
      bindE xcalloc (\<lambda>_.
      bindE (mig_devices_loop parent dev (node_id (dev_node gpu)) [0 ..< unat count]) (\<lambda>migs.
        okay (gpu\<lparr>mig_devices := migs\<rparr>)))))"

subsection \<open>Devices\<close>

text \<open>A string the source leaves null is empty here.\<close>

definition device_zero :: nvc_device where
  "device_zero = \<lparr>dev_model = [], dev_uuid = [], dev_busid = [], dev_arch = [], dev_brand = [],
     dev_node = \<lparr>node_path = [], node_id = 0\<rparr>, mig_capable = False, mig_caps_path = [], mig_devices = []\<rparr>"

definition init_nvc_device :: "nvc_context \<Rightarrow> nat \<Rightarrow> nvc_device ioE" where
  "init_nvc_device ctx index =
     bindE (driver_get_device index) (\<lambda>dev.
     bindE (driver_get_device_model dev) (\<lambda>model.
     bindE (driver_get_device_minor dev) (\<lambda>_.
     bindE (driver_get_device_busid dev) (\<lambda>busid.
     bindE (driver_get_device_uuid dev) (\<lambda>uuid.
     let gpu = device_zero\<lparr>dev_model := model, dev_busid := busid, dev_uuid := uuid\<rparr> in
     if dx_initialized (ctx_dxcore ctx) then okay gpu
     else
     bindE (driver_get_device_minor dev) (\<lambda>mn.
     bindE (xasprintf (''/dev/dri/card'' @ dec_int (sint mn))) (\<lambda>path.
       okay (gpu\<lparr>dev_node := \<lparr>node_path = path, node_id = makedev NV_DEVICE_MAJOR mn\<rparr>\<rparr>))))))))"

fun init_devices :: "nvc_context \<Rightarrow> nat list \<Rightarrow> nvc_device list ioE" where
  "init_devices ctx [] = okay []"
| "init_devices ctx (i # is) =
     bindE (init_nvc_device ctx i) (\<lambda>gpu. bindE (init_devices ctx is) (\<lambda>gpus. okay (gpu # gpus)))"

text \<open>The options are not looked at.\<close>

definition nvc_device_info_new :: "nvc_context option \<Rightarrow> string option \<Rightarrow> nvc_device_info ioE" where
  "nvc_device_info_new ctx opts =
     bindE (validate_context ctx) (\<lambda>ctx.
     bindE xcalloc (\<lambda>_.
     bindE driver_get_device_count (\<lambda>n.
     bindE xcalloc (\<lambda>_.
     bindE (init_devices ctx [0 ..< unat n]) (\<lambda>gpus. okay \<lparr>gpus = gpus\<rparr>)))))"

subsection \<open>Properties\<close>

text \<open>The count a reply carries, none when it carries no number.\<close>

definition reply_count :: "reply \<Rightarrow> nat" where
  "reply_count r = (case r of Value (i # _) _ \<Rightarrow> unat (word_of_int i :: uint32) | _ \<Rightarrow> 0)"

definition node_ok :: "bool \<Rightarrow> nvc_device \<Rightarrow> bool" where
  "node_ok wsl gpu \<longleftrightarrow>
     (if wsl then dev_node gpu = \<lparr>node_path = [], node_id = 0\<rparr>
      else major (node_id (dev_node gpu)) = 226 \<and>
        node_path (dev_node gpu) = ''/dev/dri/card'' @ dec_int (sint (minor (node_id (dev_node gpu)))))"

lemma init_nvc_device_node:
  "init_nvc_device ctx i os tr = (Inr gpu, es) \<Longrightarrow> node_ok (dx_initialized (ctx_dxcore ctx)) gpu"
  unfolding init_nvc_device_def Let_def
  by (auto simp: bindE_Inr xasprintf_Inr node_ok_def device_zero_def major_makedev minor_makedev split: if_splits)

lemma init_devices_nodes:
  "init_devices ctx is os tr = (Inr gs, es) \<Longrightarrow>
    length gs = length is \<and> list_all (node_ok (dx_initialized (ctx_dxcore ctx))) gs"
  by (induction "is" arbitrary: gs tr es) (auto simp: bindE_Inr dest: init_nvc_device_node)

lemma call_rpc_Inr:
  assumes "call_rpc n f is ss os tr = (Inr (vals, strs), es)"
  shows "\<exists>r. (C_lib f is ss, RReply r) \<in> set es \<and> (r = Value vals strs \<or> vals = [] \<and> strs = [] \<and> (\<exists>m. r = Fault 0 m))"
  using assms unfolding call_rpc_def
  by (cases "os_reply os tr (C_lib f is ss)") (auto simp: bindS_eq call_reply_eq split: if_splits)

lemma device_count_reply:
  assumes "driver_get_device_count os tr = (Inr n, es)"
  shows "\<exists>r. (C_lib ''driver_get_device_count_1'' [] [], RReply r) \<in> set es \<and> unat n = reply_count r"
proof -
  from assms obtain vals strs where v: "call_rpc ''driver'' ''driver_get_device_count_1'' [] [] os tr = (Inr (vals, strs), es)"
    and n: "n = word_of_int (int_of (vals, strs))"
    by (auto simp: driver_get_device_count_def ask_int_def bindE_Inr)
  from call_rpc_Inr[OF v] n show ?thesis
    by (auto simp: reply_count_def int_of_def split: list.splits)
qed

text \<open>C32: The device information is complete and its nodes are consistent: when it is made, the
  context was initialised, there is one entry for each device the driver service counted, and,
  outside the Windows layer, the path of each entry's node names the minor number of its device
  number, whose major number is that of the display devices; in the Windows layer no entry has a node.\<close>

theorem device_info_nodes:
  assumes "nvc_device_info_new ctx opts os tr = (Inr info, es)"
  shows "\<exists>c r. ctx = Some c \<and> ctx_initialized c \<and>
    (C_lib ''driver_get_device_count_1'' [] [], RReply r) \<in> set es \<and> length (gpus info) = reply_count r \<and>
    list_all (node_ok (dx_initialized (ctx_dxcore c))) (gpus info)"
proof -
  from assms obtain c n gs e0 e1 e2 e3 tr1 tr2 where c: "ctx = Some c" "ctx_initialized c"
    and n: "driver_get_device_count os tr1 = (Inr n, e1)" "es = e0 @ e1 @ e3"
    and g: "init_devices c [0 ..< unat n] os tr2 = (Inr gs, e2)" "info = \<lparr>gpus = gs\<rparr>"
    by (auto simp: nvc_device_info_new_def validate_context_def bindE_Inr split: option.splits if_splits)
  from device_count_reply[OF n(1)] n(2) init_devices_nodes[OF g(1)] c g(2) show ?thesis by auto
qed

definition one_card :: os where
  "one_card = calm\<lparr>os_reply := (\<lambda>tr c. case c of
     Proc (sc_lib f is ss) \<Rightarrow>
       if f = ''driver_get_device_count_1'' then Value [1] []
       else if f = ''driver_get_device_minor_1'' then Value [3] [] else Value [64] [''GPU'']
   | _ \<Rightarrow> NoReply 0)\<rparr>"

theorem device_info_nodes_witness:
  "\<exists>info es. nvc_device_info_new (Some plain_context) None one_card [] = (Inr info, es) \<and> length (gpus info) = 1 \<and>
     list_all (node_ok False) (gpus info)"
proof -
  have run: "case fst (nvc_device_info_new (Some plain_context) None one_card []) of Inl _ \<Rightarrow> False | Inr i \<Rightarrow> length (gpus i) = 1"
    by (simp add: nvc_device_info_new_def validate_context_def plain_context_def xcalloc_def driver_get_device_count_def
      ask_int_def ask_str_def call_rpc_def int_of_def str_of_def init_nvc_device_def driver_get_device_def
      driver_get_device_model_def driver_get_device_minor_def driver_get_device_busid_def driver_get_device_uuid_def
      xstrdup_def xasprintf_def one_card_def eval_simps Let_def)
  then obtain info es where r: "nvc_device_info_new (Some plain_context) None one_card [] = (Inr info, es)" "length (gpus info) = 1"
    by (cases "nvc_device_info_new (Some plain_context) None one_card []") (auto split: sum.splits)
  from device_info_nodes[OF r(1)] r show ?thesis by (auto simp: plain_context_def)
qed

end
