(* ===== verification/Dxcore.thy ===== *)
theory Dxcore
  imports CgroupLegacy "HOL-Library.Sublist"
begin

text \<open>
  dxcore.c: the adapters of the Windows subsystem for Linux.  The functions of
  libdxcore are answered by the environment: D3DKMTEnumAdapters2 with the
  handles of the adapters, D3DKMTQueryAdapterInfo with a version, a size or a
  path.  The log is not part of the model.
\<close>

abbreviation (input) DXCORE_MAX_PATH :: nat where "DXCORE_MAX_PATH \<equiv> 260"
abbreviation (input) MAX_DXCORE_DRIVERSTORE_LIBRAIRIES :: nat where "MAX_DXCORE_DRIVERSTORE_LIBRAIRIES \<equiv> 16"

definition dxcore_nvidia_driver_store_components :: "string list" where
  "dxcore_nvidia_driver_store_components =
     [''libcuda.so.1.1'', ''libcuda_loader.so'', ''libnvidia-ptxjitcompiler.so.1'', ''libnvidia-ml.so.1'',
      ''libnvidia-ml_loader.so'', ''nvidia-smi'', ''nvcubins.bin'']"

subsection \<open>Queries\<close>

text \<open>A status other than 0 is a failure, whatever its value; \<open>None\<close> stands for it.\<close>

definition dxcore_call :: "string \<Rightarrow> int list \<Rightarrow> (int list \<times> string list) option io" where
  "dxcore_call func args =
     bindS (call_reply (C_lib func args [])) (\<lambda>r. ret (case r of
       Value is ss \<Rightarrow> Some (is, ss)
     | Fault code _ \<Rightarrow> if code = 0 then Some ([], []) else None
     | NoReply _ \<Rightarrow> None))"

abbreviation (input) "DXCORE_QUERYDRIVERVERSION \<equiv> (13 :: int)"
abbreviation (input) "DXCORE_QUERYREGISTRY \<equiv> (48 :: int)"
abbreviation (input) "DXCORE_QUERYREGISTRY_DRIVERSTOREPATH \<equiv> (2 :: int)"

definition dxcore_query_adapter_info_helper :: "uint32 \<Rightarrow> int \<Rightarrow> int list \<Rightarrow> (int list \<times> string list) option io" where
  "dxcore_query_adapter_info_helper h kind data = dxcore_call ''D3DKMTQueryAdapterInfo'' (uint h # kind # data)"

text \<open>A field the library does not fill in keeps the 0 it was initialised with.\<close>

definition first_u32 :: "int list \<Rightarrow> uint32" where
  "first_u32 is = (case is of [] \<Rightarrow> 0 | i # _ \<Rightarrow> word_of_int i)"

definition dxcore_query_adapter_wddm_version :: "uint32 \<Rightarrow> uint32 option io" where
  "dxcore_query_adapter_wddm_version h =
     bindS (dxcore_query_adapter_info_helper h DXCORE_QUERYDRIVERVERSION []) (\<lambda>r.
       ret (case r of None \<Rightarrow> None | Some (is, _) \<Rightarrow> Some (first_u32 is)))"

text \<open>
  The registry is asked twice, for the size of the path and for the path.  The
  path has characters of one byte each; it is cut at the announced size.
\<close>

definition dxcore_query_adapter_driverstore :: "uint32 \<Rightarrow> path option io" where
  "dxcore_query_adapter_driverstore h =
     bindS (dxcore_query_adapter_info_helper h DXCORE_QUERYREGISTRY [DXCORE_QUERYREGISTRY_DRIVERSTOREPATH, 0]) (\<lambda>r.
     case r of
       None \<Rightarrow> ret None
     | Some (is, _) \<Rightarrow>
         let bytes = unat (first_u32 is); outputSize = bytes div 4 in
         if bytes > DXCORE_MAX_PATH * 4 then ret None
         else
         bindS (call_unit C_alloc) (\<lambda>a. case a of
           Inl _ \<Rightarrow> ret None
         | Inr _ \<Rightarrow>
             bindS (dxcore_query_adapter_info_helper h DXCORE_QUERYREGISTRY
                      [DXCORE_QUERYREGISTRY_DRIVERSTOREPATH, int bytes]) (\<lambda>r. case r of
               None \<Rightarrow> ret None
             | Some (_, ss) \<Rightarrow>
                 bindS (call_unit C_alloc) (\<lambda>a. case a of
                   Inl _ \<Rightarrow> ret None
                 | Inr _ \<Rightarrow>
                     let path = take outputSize (case ss of [] \<Rightarrow> [] | s # _ \<Rightarrow> s) in
                     bindS (call_int (C_open path (O_PATH OR O_DIRECTORY))) (\<lambda>f. case f of
                       Inl _ \<Rightarrow> ret None
                     | Inr fd \<Rightarrow> bindS (call_void (C_close fd)) (\<lambda>_. ret (Some path)))))))"

subsection \<open>Adapters\<close>

text \<open>A lookup that fails counts as a component that is there.\<close>

fun present_components :: "path \<Rightarrow> string list \<Rightarrow> string list io" where
  "present_components store [] = ret []"
| "present_components store (c # cs) =
     bindS (file_exists_at store c) (\<lambda>r.
     bindS (present_components store cs) (\<lambda>rest.
       ret (if r = Inr False then rest else c # rest)))"

definition dxcore_populate_driverstore_library :: "dxcore_adapter \<Rightarrow> dxcore_adapter option io" where
  "dxcore_populate_driverstore_library ad =
     bindS (present_components (driver_store_path ad) dxcore_nvidia_driver_store_components) (\<lambda>cs.
       ret (if cs = [] then None else Some (ad\<lparr>driver_store_components := cs\<rparr>)))"

definition dxcore_add_adapter :: "dxcore_context \<Rightarrow> uint32 \<Rightarrow> dxcore_context io" where
  "dxcore_add_adapter ctx h =
     bindS (dxcore_query_adapter_wddm_version h) (\<lambda>v. case v of
       None \<Rightarrow> ret ctx
     | Some wddm \<Rightarrow>
         if wddm < 2700 then ret ctx
         else
         bindS (dxcore_query_adapter_driverstore h) (\<lambda>p. case p of
           None \<Rightarrow> ret ctx
         | Some store \<Rightarrow>
             bindS (call_unit C_alloc) (\<lambda>a. case a of
               Inl _ \<Rightarrow> ret ctx
             | Inr _ \<Rightarrow>
                 bindS (dxcore_populate_driverstore_library
                          \<lparr>hAdapter = h, wddmVersion = wddm, driver_store_path = store, driver_store_components = []\<rparr>)
                   (\<lambda>r. ret (case r of
                      None \<Rightarrow> ctx
                    | Some ad \<Rightarrow> ctx\<lparr>dx_adapters := dx_adapters ctx @ [ad]\<rparr>)))))"

fun add_adapters :: "dxcore_context \<Rightarrow> uint32 list \<Rightarrow> dxcore_context io" where
  "add_adapters ctx [] = ret ctx"
| "add_adapters ctx (h # hs) = bindS (dxcore_add_adapter ctx h) (\<lambda>ctx. add_adapters ctx hs)"

text \<open>
  The list of adapters is allocated without a check.  Reading an adapter from a
  null list, or one behind the number the list was allocated for, is undefined.
\<close>

definition dxcore_enum_adapters :: "dxcore_context \<Rightarrow> dxcore_context ioE" where
  "dxcore_enum_adapters ctx =
     bindS (dxcore_call ''D3DKMTEnumAdapters2'' [0, 0]) (\<lambda>r. case r of
       None \<Rightarrow> okay ctx
     | Some (is, _) \<Rightarrow>
         let n = first_u32 is in
         bindS (call_unit C_alloc) (\<lambda>a.
         let room = (case a of Inl _ \<Rightarrow> 0 | Inr _ \<Rightarrow> unat n) in
         bindS (dxcore_call ''D3DKMTEnumAdapters2'' [uint n, if a = Inr () then 1 else 0]) (\<lambda>r. case r of
           None \<Rightarrow> okay ctx
         | Some (hs, _) \<Rightarrow>
             bindS (add_adapters ctx (map word_of_int (take room hs))) (\<lambda>ctx.
               if length hs > room then raise null_deref else okay ctx))))"

text \<open>The list is freed; its elements are gone.\<close>

definition dxcore_deinit_context :: "dxcore_context \<Rightarrow> dxcore_context" where
  "dxcore_deinit_context ctx = ctx\<lparr>dx_adapters := [], dx_initialized := False\<rparr>"

text \<open>Whether the layer is there, and its state.\<close>

definition dxcore_init_context :: "(bool \<times> dxcore_context) ioE" where
  "dxcore_init_context =
     (let ctx = \<lparr>dx_initialized = False, dx_adapters = []\<rparr>;
          failed = (\<lambda>ctx. okay (False, dxcore_deinit_context ctx));
          closing = bindS (call_void (C_dlclose ''libdxcore.so'')) (\<lambda>_. failed ctx) in
      bindS (call_unit (C_dlopen ''libdxcore.so'')) (\<lambda>l. case l of
        Inl _ \<Rightarrow> failed ctx
      | Inr _ \<Rightarrow>
          bindS (call_unit (C_lib ''dlsym'' [] [''D3DKMTEnumAdapters2''])) (\<lambda>s. case s of
            Inl _ \<Rightarrow> closing
          | Inr _ \<Rightarrow>
              bindS (call_unit (C_lib ''dlsym'' [] [''D3DKMTQueryAdapterInfo''])) (\<lambda>s. case s of
                Inl _ \<Rightarrow> closing
              | Inr _ \<Rightarrow>
                  bindE (dxcore_enum_adapters ctx) (\<lambda>ctx.
                  bindS (call_void (C_dlclose ''libdxcore.so'')) (\<lambda>_. okay (True, ctx\<lparr>dx_initialized := True\<rparr>)))))))"

subsection \<open>Well-formed adapters\<close>

definition adapter_ok :: "dxcore_adapter \<Rightarrow> bool" where
  "adapter_ok ad \<longleftrightarrow>
     2700 \<le> wddmVersion ad \<and> length (driver_store_path ad) \<le> DXCORE_MAX_PATH \<and>
     driver_store_components ad \<noteq> [] \<and>
     length (driver_store_components ad) \<le> MAX_DXCORE_DRIVERSTORE_LIBRAIRIES \<and>
     subseq (driver_store_components ad) dxcore_nvidia_driver_store_components"

definition adapters_ok :: "bool \<Rightarrow> dxcore_context \<Rightarrow> bool" where
  "adapters_ok b ctx \<longleftrightarrow> dx_initialized ctx = b \<and> list_all adapter_ok (dx_adapters ctx)"

lemma gives_driverstore:
  "gives (dxcore_query_adapter_driverstore h) (\<lambda>r. \<forall>p. r = Some p \<longrightarrow> length p \<le> DXCORE_MAX_PATH)"
  unfolding dxcore_query_adapter_driverstore_def
  by (intro gives_intros) auto

lemma gives_components: "gives (present_components store cs) (\<lambda>ds. subseq ds cs)"
proof (induction cs)
  case (Cons c cs)
  show ?case
    unfolding present_components.simps
    by (rule gives_after, rule gives_bindS[OF Cons.IH], rule gives_ret) auto
qed (simp add: gives_def)

lemma gives_add_adapter:
  assumes "adapters_ok b ctx"
  shows "gives (dxcore_add_adapter ctx h) (adapters_ok b)"
proof -
  have store: "length cs \<le> 16" if "subseq cs dxcore_nvidia_driver_store_components" for cs
    using list_emb_length[OF that] by (simp add: dxcore_nvidia_driver_store_components_def)
  have new: "gives (dxcore_populate_driverstore_library ad) (\<lambda>r. \<forall>ad'. r = Some ad' \<longrightarrow> adapter_ok ad')"
    if "2700 \<le> wddmVersion ad" "length (driver_store_path ad) \<le> DXCORE_MAX_PATH" for ad
    unfolding dxcore_populate_driverstore_library_def
    by (rule gives_bindS[OF gives_components], rule gives_ret) (auto simp: adapter_ok_def that store)
  show ?thesis
    unfolding dxcore_add_adapter_def
    apply (rule gives_after)
    apply (intro gives_case_option gives_if gives_ret assms)
    apply (rule gives_bindS[OF gives_driverstore])
    apply (intro gives_case_option gives_case_sum gives_ret gives_after[of _ _ "call_unit _"] assms)
    apply (rule gives_bindS[OF new])
      apply (simp_all add: not_less)
    apply (rule gives_ret)
    apply (use assms in \<open>auto simp: adapters_ok_def split: option.split\<close>)
    done
qed

lemma gives_add_adapters: "adapters_ok b ctx \<Longrightarrow> gives (add_adapters ctx hs) (adapters_ok b)"
proof (induction hs arbitrary: ctx)
  case (Cons h hs)
  show ?case
    unfolding add_adapters.simps by (rule gives_bindS[OF gives_add_adapter[OF Cons.prems]]) (rule Cons.IH)
qed (simp add: gives_def)

lemma gives_enum_adapters:
  assumes "adapters_ok b ctx"
  shows "gives (dxcore_enum_adapters ctx) (\<lambda>r. case r of Inl _ \<Rightarrow> True | Inr ctx' \<Rightarrow> adapters_ok b ctx')"
  unfolding dxcore_enum_adapters_def
  apply (intro gives_after[of _ _ "dxcore_call _ _"] gives_after[of _ _ "call_unit _"] gives_case_option gives_case_prod
      gives_Let)
    apply (rule gives_okay, simp add: assms)+
  apply (rule gives_bindS[OF gives_add_adapters[OF assms]])
  apply (intro gives_if gives_raise gives_okay)
   apply simp_all
  done

lemma gives_init_context:
  "gives dxcore_init_context (\<lambda>r. case r of
     Inl _ \<Rightarrow> True | Inr (found, ctx) \<Rightarrow> adapters_ok found ctx \<and> (\<not> found \<longrightarrow> dx_adapters ctx = []))"
proof -
  have start: "adapters_ok False \<lparr>dx_initialized = False, dx_adapters = []\<rparr>"
    by (simp add: adapters_ok_def)
  show ?thesis
    unfolding dxcore_init_context_def dxcore_deinit_context_def Let_def
    apply (intro gives_after[of _ _ "call_unit _"] gives_after[of _ _ "call_void _"] gives_case_sum gives_okay)
       apply (simp_all add: adapters_ok_def)
    apply (rule gives_bindE[where R = "adapters_ok False"])
     apply (rule gives_conseq[OF gives_enum_adapters[OF start]], simp split: sum.splits)
    apply (rule gives_after, rule gives_okay)
    apply (auto simp: adapters_ok_def)
    done
qed

text \<open>C33: The state the Windows layer is left in is well formed: it is initialised exactly when the
  layer was found, an absent layer has no adapters, and every adapter has a supported driver model,
  a store path of at most 260 characters and, out of the table of components and in its order, at
  least one and at most as many as its array has room for.\<close>

theorem dxcore_init_typed:
  assumes "dxcore_init_context os tr = (Inr (found, ctx), es)"
  shows "dx_initialized ctx = found \<and> (\<not> found \<longrightarrow> dx_adapters ctx = []) \<and> list_all adapter_ok (dx_adapters ctx)"
  using givesD[OF gives_init_context assms] by (simp add: adapters_ok_def)

definition wsl :: os where
  "wsl = calm\<lparr>os_reply := (\<lambda>tr c. case c of
     Proc (sc_lib f is ss) \<Rightarrow>
       if f = ''D3DKMTEnumAdapters2'' then (if hd is = 0 then Value [1] [] else Value [7] [])
       else if is = [7, 13] then Value [2900] []
       else Value [20] [''/drv'']
   | _ \<Rightarrow> NoReply 0)\<rparr>"

theorem dxcore_init_typed_witness:
  "\<exists>ctx es. dxcore_init_context wsl [] = (Inr (True, ctx), es) \<and> length (dx_adapters ctx) = 1 \<and>
     list_all adapter_ok (dx_adapters ctx)"
proof -
  have run: "case fst (dxcore_init_context wsl []) of Inl _ \<Rightarrow> False | Inr (found, ctx) \<Rightarrow> found \<and> length (dx_adapters ctx) = 1"
    by (simp add: dxcore_init_context_def dxcore_enum_adapters_def dxcore_call_def dxcore_add_adapter_def
      dxcore_query_adapter_wddm_version_def dxcore_query_adapter_info_helper_def dxcore_query_adapter_driverstore_def
      dxcore_populate_driverstore_library_def dxcore_nvidia_driver_store_components_def file_exists_at_def xopen_def
      first_u32_def wsl_def eval_simps Let_def)
  then obtain ctx es where r: "dxcore_init_context wsl [] = (Inr (True, ctx), es)" "length (dx_adapters ctx) = 1"
    by (cases "dxcore_init_context wsl []") (auto split: sum.splits)
  from dxcore_init_typed[OF r(1)] r show ?thesis by blast
qed

end
