(* ===== verification/Nvc.thy ===== *)
theory Nvc
  imports Dxcore Driver Container Modprobe Log
begin

text \<open>
  nvc.c: the library context, its initialisation and its shutdown.  The state of
  the library is the context together with the two global structures of the
  services, \<open>driver\<close> of driver.c and \<open>nvcgo\<close> of nvcgo.c, the value of NVC_DEBUG_FILE
  and the log it names.  \<open>with_nvcgo\<close> says whether the Go service is part of the
  build, which is the release build as far as the log is concerned.
\<close>

record library =
  lib_ctx :: "nvc_context option"
  lib_driver :: driver
  lib_nvcgo :: nvcgo
  lib_debug :: "path option"
  lib_log :: logfile

definition nvc_config_new :: "nvc_config option io" where
  "nvc_config_new = bindS (call_unit C_alloc) (\<lambda>r. ret (case r of
     Inl _ \<Rightarrow> None
   | Inr _ \<Rightarrow> Some \<lparr>cfg_root = None, cfg_ldcache = None, cfg_uid = -1, cfg_gid = -1\<rparr>))"

definition context_zero :: nvc_context where
  "context_zero = \<lparr>ctx_initialized = False, ctx_root = [], ctx_ldcache = [], ctx_uid = 0, ctx_gid = 0, ctx_mnt_ns = 0,
     ctx_no_pivot = False, ctx_dxcore = \<lparr>dx_initialized = False, dx_adapters = []\<rparr>\<rparr>"

definition nvc_context_new :: "nvc_context option io" where
  "nvc_context_new = bindS (call_unit C_alloc) (\<lambda>r. ret (case r of Inl _ \<Rightarrow> None | Inr _ \<Rightarrow> Some context_zero))"

text \<open>The message of the error of a context.\<close>

definition nvc_error :: "error option \<Rightarrow> string option" where
  "nvc_error err =
     (case err of
        None \<Rightarrow> None
      | Some e \<Rightarrow> if err_code e \<noteq> 0 \<and> err_msg e = None then Some ''unknown error'' else err_msg e)"

subsection \<open>User namespaces\<close>

definition scan_map :: "string \<Rightarrow> (uint32 \<times> uint32 \<times> uint32) option" where
  "scan_map s =
     (case scan_u32 s of
        None \<Rightarrow> None
      | Some (start, r1) \<Rightarrow>
          (case scan_u32 r1 of
             None \<Rightarrow> None
           | Some (pstart, r2) \<Rightarrow>
               (case scan_u32 r2 of None \<Rightarrow> None | Some (len, _) \<Rightarrow> Some (start, pstart, len))))"

text \<open>What a map file decides: \<open>Some b\<close> is the answer, \<open>None\<close> goes on to the next file.\<close>

definition check_map :: "path \<Rightarrow> bool option ioE" where
  "check_map path =
     bindS (file_read_line path 64) (\<lambda>r. case r of
       Inl e \<Rightarrow> if err_code e = int ENOENT then okay (Some False) else raise e
     | Inr buf \<Rightarrow>
         if str_empty (Some buf) then okay (Some True)
         else
         (case scan_map buf of
            None \<Rightarrow> failx (''invalid map file: '' @ path)
          | Some (start, pstart, len) \<Rightarrow>
              okay (if start \<noteq> 0 \<or> pstart \<noteq> 0 \<or> len \<noteq> -1 then Some True else None)))"

definition init_within_userns :: "bool ioE" where
  "init_within_userns =
     bindE (check_map ''/proc/self/uid_map'') (\<lambda>u. case u of
       Some b \<Rightarrow> okay b
     | None \<Rightarrow>
         bindE (check_map ''/proc/self/gid_map'') (\<lambda>g. case g of
           Some b \<Rightarrow> okay b
         | None \<Rightarrow>
             bindS (file_read_line ''/proc/self/setgroups'' 64) (\<lambda>r. case r of
               Inl e \<Rightarrow> if err_code e = int ENOENT then okay False else raise e
             | Inr buf \<Rightarrow> okay (str_has_prefix buf ''deny''))))"

subsection \<open>Capability device nodes\<close>

text \<open>A format of literals, each followed by \<open>%d\<close>: the numbers, when all of it is read.\<close>

fun scan_ints :: "string list \<Rightarrow> string \<Rightarrow> int list option" where
  "scan_ints [] s = Some []"
| "scan_ints (l # ls) s =
     (case scan_lit l s of
        None \<Rightarrow> None
      | Some r \<Rightarrow>
          (case scan_int r of
             None \<Rightarrow> None
           | Some (i, r') \<Rightarrow> (case scan_ints ls r' of None \<Rightarrow> None | Some is \<Rightarrow> Some (i # is))))"

datatype cap_line = Skipped | Node path | Unexpected

text \<open>What a line of mig-minors stands for; the blank before the last number is skipped with the number.\<close>

definition mig_cap_line :: "int \<Rightarrow> string \<Rightarrow> cap_line" where
  "mig_cap_line num_gpus line =
     (let caps = ''/proc/driver/nvidia/capabilities''; gpu_dir = (\<lambda>g. caps @ ''/gpu'' @ dec_int g @ ''/mig'') in
      case scan_ints [''gpu'', ''/gi'', ''/ci'', ''/access''] line of
        Some (gpu # gi # ci # _) \<Rightarrow>
          if gpu \<ge> num_gpus then Skipped
          else Node (gpu_dir gpu @ ''/gi'' @ dec_int gi @ ''/ci'' @ dec_int ci @ ''/access'')
      | _ \<Rightarrow>
      (case scan_ints [''gpu'', ''/gi'', ''/access''] line of
        Some (gpu # gi # _) \<Rightarrow>
          if gpu \<ge> num_gpus then Skipped else Node (gpu_dir gpu @ ''/gi'' @ dec_int gi @ ''/access'')
      | _ \<Rightarrow>
      (case scan_ints [''config''] line of
        Some _ \<Rightarrow> Node (caps @ ''/mig/config'')
      | None \<Rightarrow>
      (case scan_ints [''monitor''] line of
        Some _ \<Rightarrow> Node (caps @ ''/mig/monitor'')
      | None \<Rightarrow> Unexpected))))"

fun mknodes_loop :: "int \<Rightarrow> string list \<Rightarrow> unit ioE" where
  "mknodes_loop num_gpus [] = okay ()"
| "mknodes_loop num_gpus (line # lines) =
     (case mig_cap_line num_gpus line of
        Unexpected \<Rightarrow> failx (''unexpected line in mig-monitors file: '' @ line)
      | Skipped \<Rightarrow> mknodes_loop num_gpus lines
      | Node path \<Rightarrow>
          bindS (file_exists path) (\<lambda>r.
          if r = Inr False then mknodes_loop num_gpus lines
          else
          bindS (nvidia_cap_mknod path) (\<lambda>made.
          if \<not> made then failx (''error running mknod for nvcap: '' @ path)
          else mknodes_loop num_gpus lines)))"

definition mig_nvcaps_mknodes :: "int \<Rightarrow> unit ioE" where
  "mig_nvcaps_mknodes num_gpus =
     (let minors = ''/proc/driver/nvidia-caps/mig-minors'' in
      bindS (file_exists minors) (\<lambda>x.
      if x = Inr False then okay ()
      else
      bindS (call_int (C_fopen minors)) (\<lambda>f. case f of
        Inl _ \<Rightarrow> failx (''unable to open: '' @ minors)
      | Inr fp \<Rightarrow>
          bindS (call_strs (C_getlines fp)) (\<lambda>ls.
            lastly (mknodes_loop num_gpus (case ls of Inl _ \<Rightarrow> [] | Inr ls \<Rightarrow> ls)) (call_void (C_fclose fp))))))"

subsection \<open>Kernel modules\<close>

abbreviation (input) CAP_SYS_MODULE :: nat where "CAP_SYS_MODULE \<equiv> 16"

fun mknod_devices :: "int list \<Rightarrow> unit io" where
  "mknod_devices [] = ret ()"
| "mknod_devices (i # is) = bindS (nvidia_mknod i) (\<lambda>_. mknod_devices is)"

text \<open>What the child does before it exits: failures are logged only.\<close>

definition load_modules :: "path \<Rightarrow> uint16 \<Rightarrow> unit ioE" where
  "load_modules root num_matches =
     bindS (if str_equal root ''/'' then ret (Inr ())
            else bindE (call_unit (C_chroot root)) (\<lambda>_. call_unit (C_chdir ''/''))) (\<lambda>r. case r of
       Inl _ \<Rightarrow> raise (exited 1)
     | Inr _ \<Rightarrow>
         bindS (perm_set_capabilities CAP_INHERITABLE (Some [CAP_SYS_MODULE])) (\<lambda>c. case c of
           Inl _ \<Rightarrow> raise (exited 1)
         | Inr _ \<Rightarrow>
             bindE (nvidia_modprobe False) (\<lambda>ok.
             bindS (if \<not> ok then ret ()
                    else
                    bindS (mknod_devices (128 # map int [0 ..< unat num_matches])) (\<lambda>_.
                    bindS (mig_nvcaps_mknodes (uint num_matches)) (\<lambda>_. ret ()))) (\<lambda>_.
             bindE nvidia_uvm_modprobe (\<lambda>ok.
             bindS (if \<not> ok then ret True else nvidia_uvm_mknod 0) (\<lambda>_.
             bindE nvidia_modeset_modprobe (\<lambda>ok.
             bindS (if \<not> ok then ret True else nvidia_modeset_mknod) (\<lambda>_.
               raise (exited 0)))))))))"

text \<open>A failed enumeration is logged; what it has counted is used all the same.\<close>

definition load_kernel_modules :: "path \<Rightarrow> unit ioE" where
  "load_kernel_modules root =
     bindE init_within_userns (\<lambda>userns.
     if userns then okay ()
     else
     bindS (pci_enum_match_id nv_display) (\<lambda>(_, num_matches).
     bindE (or_set (call_int C_fork) ''process creation failed'') (\<lambda>pid.
     if pid = 0 then load_modules root num_matches
     else bindS (call_void (C_waitpid pid)) (\<lambda>_. okay ()))))"

subsection \<open>Initialisation\<close>

text \<open>
  The operations below return the state they leave with their result, since a
  failure keeps what was done before it.
\<close>

definition default_library_opts :: string where
  "default_library_opts = []"

abbreviation (input) "LDCACHE_PATH \<equiv> ''/etc/ld.so.cache''"
abbreviation (input) "PROC_OVERFLOW_UID \<equiv> ''/proc/sys/kernel/overflowuid''"
abbreviation (input) "PROC_OVERFLOW_GID \<equiv> ''/proc/sys/kernel/overflowgid''"

text \<open>A user or group identifier, or the overflow identifier of the kernel.\<close>

definition config_owner :: "uint32 \<Rightarrow> path \<Rightarrow> uint32 ioE" where
  "config_owner given overflow = (if given \<noteq> -1 then okay given else file_read_uint32 overflow)"

text \<open>copy_config, a step at a time: each stores into the context what the one before it left.\<close>

definition then_set :: "'a ioE \<Rightarrow> ('a \<Rightarrow> 's \<Rightarrow> 's) \<Rightarrow> 's \<Rightarrow> (unit res \<times> 's) io" where
  "then_set m store s = bindS m (\<lambda>r. ret (case r of Inl e \<Rightarrow> (Inl e, s) | Inr x \<Rightarrow> (Inr (), store x s)))"

definition and_then :: "(unit res \<times> 's) io \<Rightarrow> ('s \<Rightarrow> (unit res \<times> 's) io) \<Rightarrow> (unit res \<times> 's) io" where
  "and_then m f = bindS m (\<lambda>(r, s). case r of Inl e \<Rightarrow> ret (Inl e, s) | Inr _ \<Rightarrow> f s)"

definition nvc_copy_config :: "nvc_config \<Rightarrow> nvc_context \<Rightarrow> (unit res \<times> nvc_context) io" where
  "nvc_copy_config cfg ctx =
     and_then
       (then_set (xstrdup (case cfg_root cfg of None \<Rightarrow> ''/'' | Some r \<Rightarrow> r)) (\<lambda>s. ctx_root_update (\<lambda>_. s)) ctx) (\<lambda>ctx.
     and_then
       (then_set (xstrdup (case cfg_ldcache cfg of None \<Rightarrow> LDCACHE_PATH | Some l \<Rightarrow> l)) (\<lambda>s. ctx_ldcache_update (\<lambda>_. s)) ctx)
       (\<lambda>ctx.
     and_then (then_set (config_owner (cfg_uid cfg) PROC_OVERFLOW_UID) (\<lambda>u. ctx_uid_update (\<lambda>_. u)) ctx)
       (\<lambda>ctx. then_set (config_owner (cfg_gid cfg) PROC_OVERFLOW_GID) (\<lambda>g. ctx_gid_update (\<lambda>_. g)) ctx)))"

text \<open>The Windows layer; a layer without adapters is an error.\<close>

definition init_dxcore :: "nvc_context \<Rightarrow> (unit res \<times> nvc_context) io" where
  "init_dxcore ctx =
     bindS dxcore_init_context (\<lambda>r. ret (case r of
       Inl e \<Rightarrow> (Inl e, ctx)
     | Inr (found, dx) \<Rightarrow>
         let ctx = ctx\<lparr>ctx_dxcore := dx\<lparr>dx_initialized := found\<rparr>\<rparr> in
         if found \<and> dx_adapters dx = []
         then (Inl (error_setx ''WSL environment detected but no adapters were found''), ctx)
         else (Inr (), ctx)))"

definition init_context :: "int32 \<Rightarrow> nvc_config \<Rightarrow> nvc_context \<Rightarrow> (unit res \<times> nvc_context) io" where
  "init_context flags cfg ctx =
     and_then (nvc_copy_config cfg ctx) (\<lambda>ctx.
     and_then (then_set (bindE (xsnprintf PATH_MAX ''/proc/self/ns/mnt'') (\<lambda>path. xopen path (O_RDONLY OR O_CLOEXEC)))
                 (\<lambda>fd. ctx_mnt_ns_update (\<lambda>_. fd)) ctx) (\<lambda>ctx.
     and_then (init_dxcore ctx) (\<lambda>ctx.
       if flag_set flags OPT_LOAD_KMODS \<and> \<not> dx_initialized (ctx_dxcore ctx)
       then then_set (load_kernel_modules (ctx_root ctx)) (\<lambda>_ c. c) ctx
       else ret (Inr (), ctx))))"

definition start_services :: "bool \<Rightarrow> nvc_context \<Rightarrow> library \<Rightarrow> (unit res \<times> library) io" where
  "start_services with_nvcgo ctx lib =
     bindS (driver_init (ctx_dxcore ctx) (ctx_root ctx) (ctx_uid ctx) (ctx_gid ctx)) (\<lambda>(r, drv).
     let lib = lib\<lparr>lib_driver := drv\<rparr> in
     case r of
       Inl e \<Rightarrow> ret (Inl e, lib)
     | Inr _ \<Rightarrow>
         if \<not> with_nvcgo then ret (Inr (), lib)
         else bindS nvcgo_init (\<lambda>(r, go). ret (r, lib\<lparr>lib_nvcgo := go\<rparr>)))"

text \<open>The label \<open>fail\<close> of nvc_init; the strings are freed.  A process that has ended cleans up nothing.\<close>

definition init_fail :: "nvc_context \<Rightarrow> library \<Rightarrow> error \<Rightarrow> (unit res \<times> library) io" where
  "init_fail ctx lib e =
     (if gone e then ret (Inl e, lib\<lparr>lib_ctx := Some ctx\<rparr>)
      else bindS (xclose (ctx_mnt_ns ctx)) (\<lambda>_.
        ret (Inl e, lib\<lparr>lib_ctx := Some (ctx\<lparr>ctx_root := [], ctx_ldcache := []\<rparr>)\<rparr>)))"

definition init_flags :: "nvc_config \<Rightarrow> string option \<Rightarrow> int32 res" where
  "init_flags cfg opts =
     (if str_empty (cfg_ldcache cfg) \<or> str_empty (cfg_root cfg) then Inl (error_setx ''invalid argument'')
      else
      (case options_parse (case opts of None \<Rightarrow> default_library_opts | Some s \<Rightarrow> s) library_opts of
         Inl e \<Rightarrow> Inl e
       | Inr flags \<Rightarrow> if sint flags < 0 then Inl unset_error else Inr flags))"

definition open_log :: "library \<Rightarrow> library io" where
  "open_log lib = bindS (log_open True (lib_debug lib) (lib_log lib)) (\<lambda>r. ret (case r of
     Inl _ \<Rightarrow> lib | Inr logfile \<Rightarrow> lib\<lparr>lib_log := logfile\<rparr>))"

definition nvc_init :: "bool \<Rightarrow> library \<Rightarrow> nvc_config option \<Rightarrow> string option \<Rightarrow> (unit res \<times> library) io" where
  "nvc_init with_nvcgo lib cfg opts =
     (let cfg = (case cfg of None \<Rightarrow> \<lparr>cfg_root = None, cfg_ldcache = None, cfg_uid = -1, cfg_gid = -1\<rparr> | Some c \<Rightarrow> c) in
      case lib_ctx lib of
        None \<Rightarrow> ret (Inl unset_error, lib)
      | Some ctx \<Rightarrow>
          if ctx_initialized ctx then ret (Inr (), lib)
          else
          (case init_flags cfg opts of
             Inl e \<Rightarrow> ret (Inl e, lib)
           | Inr flags \<Rightarrow>
               bindS (open_log lib) (\<lambda>lib.
               bindS (init_context flags cfg
                        (ctx\<lparr>ctx_root := [], ctx_ldcache := [], ctx_uid := 0, ctx_gid := 0, ctx_mnt_ns := -1\<rparr>))
                 (\<lambda>(r, ctx). case r of
                    Inl e \<Rightarrow> init_fail ctx lib e
                  | Inr _ \<Rightarrow>
                      bindS (start_services with_nvcgo ctx lib) (\<lambda>(r, lib). case r of
                        Inl e \<Rightarrow> init_fail ctx lib e
                      | Inr _ \<Rightarrow> ret (Inr (), lib\<lparr>lib_ctx := Some (ctx\<lparr>ctx_initialized := True\<rparr>)\<rparr>))))))"

subsection \<open>Shutdown\<close>

definition nvc_shutdown :: "bool \<Rightarrow> library \<Rightarrow> (unit res \<times> library) io" where
  "nvc_shutdown with_nvcgo lib =
     (case lib_ctx lib of
        None \<Rightarrow> ret (Inl unset_error, lib)
      | Some ctx \<Rightarrow>
          bindS (if with_nvcgo then nvcgo_shutdown (lib_nvcgo lib) else ret (Inr (), lib_nvcgo lib)) (\<lambda>(g, go).
          bindS (driver_shutdown (lib_driver lib)) (\<lambda>(d, drv).
          let rv = (case d of Inl e \<Rightarrow> Inl e | Inr _ \<Rightarrow> g); lib = lib\<lparr>lib_driver := drv, lib_nvcgo := go\<rparr> in
          if \<not> ctx_initialized ctx then ret (rv, lib)
          else
          let dx = (if dx_initialized (ctx_dxcore ctx) then dxcore_deinit_context (ctx_dxcore ctx) else ctx_dxcore ctx) in
          bindS (xclose (ctx_mnt_ns ctx)) (\<lambda>_.
          bindS (log_close (lib_log lib)) (\<lambda>logfile.
            ret (rv, lib\<lparr>lib_ctx := Some (ctx\<lparr>ctx_dxcore := dx, ctx_root := [], ctx_ldcache := [], ctx_uid := 0,
              ctx_gid := 0, ctx_mnt_ns := -1, ctx_initialized := False\<rparr>), lib_log := logfile\<rparr>))))))"

subsection \<open>The states of the library\<close>

text \<open>
  A session: the program makes a context, initialises it, shuts it down, frees
  it, in any order and as often as it likes, and does other things in between.
  A call that ends the process has no next state.
\<close>

definition library_start :: library where
  "library_start = \<lparr>lib_ctx = None,
     lib_driver = \<lparr>drv_rpc = rpc_null, drv_initialized = False, drv_root = [], drv_nvml_path = [], drv_uid = 0, drv_gid = 0\<rparr>,
     lib_nvcgo = \<lparr>go_rpc = rpc_null, go_initialized = False\<rparr>, lib_debug = None, lib_log = None\<rparr>"

definition returns :: "unit res \<Rightarrow> bool" where
  "returns r \<longleftrightarrow> (case r of Inl e \<Rightarrow> \<not> gone e | Inr _ \<Rightarrow> True)"

inductive lib_step :: "bool \<Rightarrow> os \<Rightarrow> library \<times> trace \<Rightarrow> library \<times> trace \<Rightarrow> bool" for with_nvcgo os where
  new: "lib_ctx lib = None \<Longrightarrow> nvc_context_new os tr = (c, es) \<Longrightarrow>
        lib_step with_nvcgo os (lib, tr) (lib\<lparr>lib_ctx := c\<rparr>, tr @ es)"
| init: "nvc_init with_nvcgo lib cfg opts os tr = ((r, lib'), es) \<Longrightarrow> returns r \<Longrightarrow>
        lib_step with_nvcgo os (lib, tr) (lib', tr @ es)"
| stop: "nvc_shutdown with_nvcgo lib os tr = ((r, lib'), es) \<Longrightarrow> returns r \<Longrightarrow>
        lib_step with_nvcgo os (lib, tr) (lib', tr @ es)"
| free: "lib_step with_nvcgo os (lib, tr) (lib\<lparr>lib_ctx := None\<rparr>, tr)"
| other: "lib_step with_nvcgo os (lib, tr) (lib, tr @ es)"

definition context_ok :: "bool \<Rightarrow> library \<Rightarrow> nvc_context \<Rightarrow> bool" where
  "context_ok with_nvcgo lib ctx \<longleftrightarrow>
     (ctx_initialized ctx \<longrightarrow>
        drv_initialized (lib_driver lib) \<and> (with_nvcgo \<longrightarrow> go_initialized (lib_nvcgo lib)) \<and> 0 \<le> ctx_mnt_ns ctx \<and>
        list_all adapter_ok (dx_adapters (ctx_dxcore ctx)) \<and>
        (dx_initialized (ctx_dxcore ctx) \<longleftrightarrow> dx_adapters (ctx_dxcore ctx) \<noteq> []))"

definition library_ok :: "bool \<Rightarrow> library \<Rightarrow> bool" where
  "library_ok with_nvcgo lib \<longleftrightarrow>
     running drv_initialized drv_rpc (lib_driver lib) \<and> running go_initialized go_rpc (lib_nvcgo lib) \<and>
     pred_option (context_ok with_nvcgo lib) (lib_ctx lib)"

lemma gives_and_then:
  assumes "gives m (\<lambda>(r, s). if r = Inr () then R s else Q (r, s))" "\<And>s. R s \<Longrightarrow> gives (f s) Q"
  shows "gives (and_then m f) Q"
  unfolding and_then_def
  apply (rule gives_bindS[OF assms(1)])
  apply (intro gives_case_prod gives_case_sum gives_ret assms(2))
   apply (auto split: if_splits)
  done

lemma gives_then_set:
  assumes "\<And>e. Q (Inl e, s)" "gives m (\<lambda>r. case r of Inl _ \<Rightarrow> True | Inr x \<Rightarrow> Q (Inr (), store x s))"
  shows "gives (then_set m store s) Q"
  unfolding then_set_def by (rule gives_bindS[OF assms(2)], rule gives_ret) (auto split: sum.splits intro: assms(1))

text \<open>What the initialisation of the context leaves.\<close>

definition context_ready :: "nvc_context \<Rightarrow> bool" where
  "context_ready ctx \<longleftrightarrow> \<not> ctx_initialized ctx \<and> 0 \<le> ctx_mnt_ns ctx \<and>
     list_all adapter_ok (dx_adapters (ctx_dxcore ctx)) \<and>
     (dx_initialized (ctx_dxcore ctx) \<longleftrightarrow> dx_adapters (ctx_dxcore ctx) \<noteq> [])"

abbreviation (input) fresh :: "unit res \<times> nvc_context \<Rightarrow> bool" where
  "fresh \<equiv> \<lambda>(_, ctx). \<not> ctx_initialized ctx"

lemma gives_copy_config: "\<not> ctx_initialized ctx \<Longrightarrow> gives (nvc_copy_config cfg ctx) fresh"
  unfolding nvc_copy_config_def
  by (intro gives_and_then[where R = "\<lambda>ctx. \<not> ctx_initialized ctx"] gives_then_set gives_any) (auto split: sum.splits)

lemma gives_init_dxcore:
  assumes "\<not> ctx_initialized ctx" "0 \<le> ctx_mnt_ns ctx"
  shows "gives (init_dxcore ctx) (\<lambda>(r, ctx). if r = Inr () then context_ready ctx else \<not> ctx_initialized ctx)"
  unfolding init_dxcore_def
  by (rule gives_bindS[OF gives_init_context], rule gives_ret)
     (use assms in \<open>auto simp: context_ready_def adapters_ok_def Let_def split: sum.splits\<close>)

lemma gives_init_context_stage:
  assumes "\<not> ctx_initialized ctx"
  shows "gives (init_context flags cfg ctx) (\<lambda>(r, ctx). if r = Inr () then context_ready ctx else \<not> ctx_initialized ctx)"
proof -
  have ns: "gives (bindE (xsnprintf PATH_MAX ''/proc/self/ns/mnt'') (\<lambda>path. xopen path fl))
    (\<lambda>r. case r of Inl _ \<Rightarrow> True | Inr fd \<Rightarrow> 0 \<le> fd)" for fl
    apply (rule gives_bindE[of _ _ "\<lambda>_. True"])
     apply (rule gives_any, simp split: sum.splits)
    unfolding xopen_def or_set_def
    apply (rule gives_bindS[OF gives_call_int])
    apply (intro gives_case_sum gives_okay)
     apply (simp_all add: gives_def)
    done
  show ?thesis
    unfolding init_context_def
    apply (rule gives_and_then[where R = "\<lambda>ctx. \<not> ctx_initialized ctx"])
     apply (rule gives_conseq[OF gives_copy_config[OF assms]], auto)[1]
    apply (rule gives_and_then[where R = "\<lambda>ctx. \<not> ctx_initialized ctx \<and> 0 \<le> ctx_mnt_ns ctx"])
     apply (rule gives_then_set, simp, rule gives_conseq[OF ns], simp split: sum.splits)
    apply (rule gives_and_then[where R = context_ready])
     apply (rule gives_conseq[OF gives_init_dxcore], simp, simp, auto split: if_splits)[1]
    apply (rule gives_if)
     apply (rule gives_then_set, simp add: context_ready_def, rule gives_any, simp split: sum.split)
    apply (rule gives_ret, simp)
    done
qed


lemma gives_start_services:
  assumes "running drv_initialized drv_rpc (lib_driver lib)" "running go_initialized go_rpc (lib_nvcgo lib)"
  shows "gives (start_services with_nvcgo ctx lib) (\<lambda>(r, lib').
    running drv_initialized drv_rpc (lib_driver lib') \<and> running go_initialized go_rpc (lib_nvcgo lib') \<and>
    (r = Inr () \<longrightarrow> drv_initialized (lib_driver lib') \<and> (with_nvcgo \<longrightarrow> go_initialized (lib_nvcgo lib'))))"
  unfolding start_services_def Let_def
  apply (rule gives_bindS[OF drv.start_up])
  apply (intro gives_case_prod gives_case_sum gives_if gives_ret)
    apply (use assms in simp)
   apply (use assms in simp)
  apply (rule gives_bindS[OF go.start_up])
  apply (intro gives_case_prod gives_ret)
  apply simp
  done

lemma gives_init_fail:
  assumes "\<not> ctx_initialized ctx" "running drv_initialized drv_rpc (lib_driver lib)" "running go_initialized go_rpc (lib_nvcgo lib)"
  shows "gives (init_fail ctx lib e) (\<lambda>(_, lib'). library_ok w lib')"
  unfolding init_fail_def
  by (intro gives_if gives_after gives_ret) (use assms in \<open>simp_all add: library_ok_def context_ok_def\<close>)

lemma gives_open_log:
  "gives (open_log lib) (\<lambda>l. lib_ctx l = lib_ctx lib \<and> lib_driver l = lib_driver lib \<and> lib_nvcgo l = lib_nvcgo lib)"
  unfolding open_log_def by (intro gives_after gives_ret) (simp split: sum.split)

lemma gives_nvc_init:
  assumes "library_ok w lib"
  shows "gives (nvc_init w lib cfg opts) (\<lambda>(_, lib'). library_ok w lib')"
proof -
  have services: "running drv_initialized drv_rpc (lib_driver lib)" "running go_initialized go_rpc (lib_nvcgo lib)"
    using assms by (simp_all add: library_ok_def)
  show ?thesis
    unfolding nvc_init_def Let_def
    apply (intro gives_case_option gives_if gives_case_sum gives_ret)
       apply (use assms in simp_all)[3]
    apply (rule gives_bindS[OF gives_open_log])
    apply (rule gives_bindS[OF gives_init_context_stage], simp)
    apply (intro gives_case_prod gives_case_sum)
     apply (rule gives_init_fail, simp_all add: services)[1]
    apply (rule gives_bindS[OF gives_start_services], simp add: services, simp add: services)
    apply (intro gives_case_prod gives_case_sum gives_ret)
     apply (rule gives_init_fail, simp_all add: context_ready_def)[1]
    apply (auto simp: library_ok_def context_ok_def context_ready_def)
    done
qed

lemma gives_nvc_shutdown:
  assumes "library_ok w lib"
  shows "gives (nvc_shutdown w lib) (\<lambda>(_, lib'). library_ok w lib')"
proof -
  have services: "running drv_initialized drv_rpc (lib_driver lib)" "running go_initialized go_rpc (lib_nvcgo lib)"
    using assms by (simp_all add: library_ok_def)
  have go_stop: "gives (if w then nvcgo_shutdown (lib_nvcgo lib) else ret (Inr (), lib_nvcgo lib))
    (\<lambda>(r, go). running go_initialized go_rpc go)"
    by (intro gives_if gives_ret gives_conseq[OF go.stop_running]) (use services in auto)
  show ?thesis
    unfolding nvc_shutdown_def Let_def
    apply (intro gives_case_option gives_ret)
     apply (use assms in simp)
    apply (rule gives_bindS[OF go_stop])
    apply (rule gives_case_prod)
    apply (rule gives_bindS[OF drv.stop_running[OF services(1)]])
    apply (intro gives_case_prod gives_if gives_after gives_ret)
     apply (auto simp: library_ok_def context_ok_def)
    done
qed

lemma lib_step_ok: "lib_step w os a b \<Longrightarrow> library_ok w (fst a) \<Longrightarrow> library_ok w (fst b)"
proof (induction rule: lib_step.induct)
  case (new lib tr c es)
  have "gives nvc_context_new (\<lambda>c. c = None \<or> c = Some context_zero)"
    unfolding nvc_context_new_def by (intro gives_after gives_ret) (simp split: sum.split)
  from givesD[OF this new(2)] new(3) show ?case
    by (auto simp: library_ok_def context_ok_def context_zero_def)
next
  case (init lib cfg opts tr r lib' es)
  from givesD[OF gives_nvc_init init(1)] init(3) show ?case by auto
next
  case (stop lib tr r lib' es)
  from givesD[OF gives_nvc_shutdown stop(1)] stop(3) show ?case by auto
qed (auto simp: library_ok_def)

lemma library_start_ok: "library_ok w library_start"
  by (simp add: library_ok_def library_start_def running_def)

lemma shutdown_run:
  assumes "nvc_shutdown w lib os tr = ((r, lib'), es)" "lib_ctx lib \<noteq> None"
  shows "\<exists>g go d drv e1 e2 e3.
    (if w then nvcgo_shutdown (lib_nvcgo lib) else ret (Inr (), lib_nvcgo lib)) os tr = ((g, go), e1) \<and>
    driver_shutdown (lib_driver lib) os (tr @ e1) = ((d, drv), e2) \<and> es = e1 @ e2 @ e3 \<and>
    r = (case d of Inl e \<Rightarrow> Inl e | Inr _ \<Rightarrow> g) \<and> lib_driver lib' = drv \<and> lib_nvcgo lib' = go \<and>
    pred_option (\<lambda>c. \<not> ctx_initialized c) (lib_ctx lib')"
proof -
  from assms(2) obtain ctx where ctx: "lib_ctx lib = Some ctx" by auto
  obtain g go e1 where g: "(if w then nvcgo_shutdown (lib_nvcgo lib) else ret (Inr (), lib_nvcgo lib)) os tr = ((g, go), e1)"
    by (metis surj_pair)
  obtain d drv e2 where d: "driver_shutdown (lib_driver lib) os (tr @ e1) = ((d, drv), e2)"
    by (metis surj_pair)
  obtain e3 where c: "xclose (ctx_mnt_ns ctx) os (tr @ e1 @ e2) = ((), e3)"
    by (metis old.unit.exhaust surj_pair)
  obtain l e4 where k: "log_close (lib_log lib) os (tr @ e1 @ e2 @ e3) = (l, e4)"
    by (metis surj_pair)
  show ?thesis
    using assms(1) unfolding nvc_shutdown_def ctx option.case Let_def
    by (cases "ctx_initialized ctx") (auto simp: bindS_run[of "log_close (lib_log lib)", OF k] bindS_run[of "if w then nvcgo_shutdown (lib_nvcgo lib) else ret (Inr (), lib_nvcgo lib)", OF g] bindS_run[of "driver_shutdown (lib_driver lib)", OF d]
      bindS_run[of "xclose (ctx_mnt_ns ctx)", OF c] ctx g d)
qed

text \<open>Shutting an initialised library down closes its log; a failed initialisation leaves open what it has opened.\<close>

lemma gives_log_close: "gives (log_close l) (\<lambda>l. l = None)"
  unfolding log_close_def by (intro gives_intros; simp)

lemma shutdown_closes_log:
  assumes "lib_ctx lib = Some ctx" "ctx_initialized ctx"
  shows "gives (nvc_shutdown w lib) (\<lambda>(_, lib'). lib_log lib' = None)"
  unfolding nvc_shutdown_def Let_def assms(1) option.case
  apply (rule gives_after, rule gives_case_prod, rule gives_after, rule gives_case_prod)
  apply (simp only: assms(2) not_True_eq_False if_False)
  apply (rule gives_after, rule gives_bindS[OF gives_log_close], rule gives_ret, simp)
  done

lemma reachable_ok:
  assumes "(lib_step w os)\<^sup>*\<^sup>* (library_start, tr0) (lib, tr)"
  shows "library_ok w lib"
  using rtranclp_induct[OF assms, of "\<lambda>(l, _). library_ok w l"] library_start_ok lib_step_ok by force

text \<open>C8: The state of the library is consistent in every session, however its operations are
  ordered and whatever the system answers: a service that is marked initialised has a client and a
  process, and an initialised context has its driver service (and its Go service, if built in)
  running, the descriptor of its namespace, and a Windows layer with adapters exactly when the layer
  is in use, every adapter well formed.\<close>

theorem library_invariant:
  assumes "(lib_step with_nvcgo os)\<^sup>*\<^sup>* (library_start, tr0) (lib, tr)"
  shows "library_ok with_nvcgo lib"
  by (rule reachable_ok[OF assms])

text \<open>C9: Shutting the library down ends its services: in every state a session can reach, the
  context is no longer initialised afterwards, and a shutdown that succeeds has waited for the
  process of each service that was running, and none is marked initialised any more.\<close>

theorem library_shutdown_reaps:
  assumes "(lib_step with_nvcgo os)\<^sup>*\<^sup>* (library_start, tr0) (lib, tr)"
    and "nvc_shutdown with_nvcgo lib os tr = ((r, lib'), es)" "lib_ctx lib \<noteq> None"
  shows "pred_option (\<lambda>c. \<not> ctx_initialized c) (lib_ctx lib') \<and>
    (r = Inr () \<longrightarrow>
       \<not> drv_initialized (lib_driver lib') \<and> (with_nvcgo \<longrightarrow> \<not> go_initialized (lib_nvcgo lib')) \<and>
       (drv_initialized (lib_driver lib) \<longrightarrow> reaped (rpc_pid (drv_rpc (lib_driver lib))) es) \<and>
       (with_nvcgo \<and> go_initialized (lib_nvcgo lib) \<longrightarrow> reaped (rpc_pid (go_rpc (lib_nvcgo lib))) es))"
proof -
  from reachable_ok[OF assms(1)] have services: "running drv_initialized drv_rpc (lib_driver lib)" "running go_initialized go_rpc (lib_nvcgo lib)"
    by (simp_all add: library_ok_def)
  from shutdown_run[OF assms(2,3)] obtain g go d drv e1 e2 e3 where
    g: "(if with_nvcgo then nvcgo_shutdown (lib_nvcgo lib) else ret (Inr (), lib_nvcgo lib)) os tr = ((g, go), e1)"
    and d: "driver_shutdown (lib_driver lib) os (tr @ e1) = ((d, drv), e2)" and es: "es = e1 @ e2 @ e3"
    and r: "r = (case d of Inl e \<Rightarrow> Inl e | Inr _ \<Rightarrow> g)" and lib': "lib_driver lib' = drv" "lib_nvcgo lib' = go"
      "pred_option (\<lambda>c. \<not> ctx_initialized c) (lib_ctx lib')"
    by blast
  show ?thesis
  proof (intro conjI impI lib'(3))
    assume r0: "r = Inr ()"
    with r have g0: "g = Inr ()" and d0: "d = Inr ()" by (simp_all split: sum.splits)
    have D: "\<not> drv_initialized drv \<and> (drv_initialized (lib_driver lib) \<longrightarrow> reaped (rpc_pid (drv_rpc (lib_driver lib))) e2)"
      by (rule drv.stop_leaves_none[OF services(1) d[unfolded d0]])
    have G: "\<not> go_initialized go \<and> (go_initialized (lib_nvcgo lib) \<longrightarrow> reaped (rpc_pid (go_rpc (lib_nvcgo lib))) e1)"
      if with_nvcgo
      by (rule go.stop_leaves_none[OF services(2)]) (use g g0 that in simp)
    from D G show "\<not> drv_initialized (lib_driver lib')" "with_nvcgo \<Longrightarrow> \<not> go_initialized (lib_nvcgo lib')"
      "drv_initialized (lib_driver lib) \<Longrightarrow> reaped (rpc_pid (drv_rpc (lib_driver lib))) es"
      "with_nvcgo \<and> go_initialized (lib_nvcgo lib) \<Longrightarrow> reaped (rpc_pid (go_rpc (lib_nvcgo lib))) es"
      by (auto simp: lib' es reaped_def)
  qed
qed


definition asked :: os where
  "asked = calm\<lparr>os_reply := (\<lambda>tr c. if c = C_socketpair then Value [5, 6] [] else Value [] []),
     os_unit := (\<lambda>tr c. if c = C_dlopen ''libdxcore.so'' then Inl 2 else Inr ()),
     os_int := (\<lambda>tr c. Inr 9)\<rparr>"

abbreviation (input) "owned \<equiv> \<lparr>cfg_root = None, cfg_ldcache = None, cfg_uid = 1000, cfg_gid = 1000\<rparr>"

lemma asked_flags: "init_flags owned None = Inr 0"
  by (simp add: init_flags_def str_empty_def options_parse_def library_opts_def default_library_opts_def)

lemma asked_context: "fst (init_context 0 owned (context_zero\<lparr>ctx_mnt_ns := -1\<rparr>) asked tr) =
  (Inr (), context_zero\<lparr>ctx_root := ''/'', ctx_ldcache := LDCACHE_PATH, ctx_uid := 1000, ctx_gid := 1000, ctx_mnt_ns := 9\<rparr>)"
  by (simp add: init_context_def and_then_def then_set_def nvc_copy_config_def config_owner_def context_zero_def flag_set_def
      xstrdup_def xopen_def xsnprintf_def init_dxcore_def dxcore_init_context_def dxcore_deinit_context_def
      asked_def eval_simps Let_def)

lemma asked_services: "case fst (start_services True ctx lib asked tr) of (r, lib') \<Rightarrow>
  r = Inr () \<and> drv_initialized (lib_driver lib') \<and> go_initialized (lib_nvcgo lib')"
  if "ctx_dxcore ctx = \<lparr>dx_initialized = False, dx_adapters = []\<rparr>"
  by (simp add: start_services_def that driver_init_def rpc_init_def rpc_null_def rpc_zero_def socketpair_def setup_client_def
      xclose_def call_rpc_def nvcgo_init_def asked_def eval_simps Let_def)


lemma asked_session:
  "\<exists>lib tr ctx. (lib_step True asked)\<^sup>*\<^sup>* (library_start, []) (lib, tr) \<and> lib_ctx lib = Some ctx \<and> ctx_initialized ctx \<and>
     drv_initialized (lib_driver lib) \<and> go_initialized (lib_nvcgo lib)"
proof -
  let ?lib = "library_start\<lparr>lib_ctx := Some context_zero\<rparr>"
  obtain es0 where es0: "nvc_context_new asked [] = (Some context_zero, es0)"
    by (simp add: nvc_context_new_def asked_def eval_simps)
  obtain r1 ctx es1 where i1: "init_context 0 owned (context_zero\<lparr>ctx_mnt_ns := -1\<rparr>) asked es0 = ((r1, ctx), es1)"
    by (metis surj_pair)
  with asked_context[of es0] have c: "r1 = Inr ()" "ctx_dxcore ctx = \<lparr>dx_initialized = False, dx_adapters = []\<rparr>"
    by (simp_all add: context_zero_def)
  obtain r2 lib2 es2 where i2: "start_services True ctx ?lib asked (es0 @ es1) = ((r2, lib2), es2)"
    by (metis surj_pair)
  with asked_services[OF c(2), of ?lib "es0 @ es1"]
  have l: "r2 = Inr ()" "drv_initialized (lib_driver lib2)" "go_initialized (lib_nvcgo lib2)" by simp_all
  have z: "context_zero\<lparr>ctx_root := [], ctx_ldcache := [], ctx_uid := 0, ctx_gid := 0, ctx_mnt_ns := -1\<rparr> =
    context_zero\<lparr>ctx_mnt_ns := -1\<rparr>" "ctx_initialized context_zero = False" by (simp_all add: context_zero_def)
  let ?lib' = "lib2\<lparr>lib_ctx := Some (ctx\<lparr>ctx_initialized := True\<rparr>)\<rparr>"
  have log: "open_log ?lib asked es0 = (?lib, [])"
    by (simp add: open_log_def log_open_def library_start_def eval_simps)
  have "nvc_init True ?lib (Some owned) None asked es0 = ((Inr (), ?lib'), es1 @ es2)"
    unfolding nvc_init_def
    by (simp add: z asked_flags bindS_run[of "open_log ?lib", OF log] bindS_run[of "init_context 0 owned (context_zero\<lparr>ctx_mnt_ns := -1\<rparr>)", OF i1] c
      bindS_run[of "start_services True ctx ?lib", OF i2] l)
  then have "lib_step True asked (?lib, es0) (?lib', es0 @ es1 @ es2)"
    by (rule lib_step.init) (simp add: returns_def)
  moreover have "lib_step True asked (library_start, []) (?lib, [] @ es0)"
    by (rule lib_step.new[OF _ es0]) (simp add: library_start_def)
  ultimately have "(lib_step True asked)\<^sup>*\<^sup>* (library_start, []) (?lib', es0 @ es1 @ es2)" by simp
  with l show ?thesis by fastforce
qed

theorem library_invariant_witness:
  "\<exists>lib tr. (lib_step True asked)\<^sup>*\<^sup>* (library_start, []) (lib, tr) \<and> drv_initialized (lib_driver lib) \<and> library_ok True lib"
  using asked_session library_invariant[of True asked "[]"] by blast

theorem library_shutdown_reaps_witness:
  "\<exists>lib tr r lib' es. (lib_step True asked)\<^sup>*\<^sup>* (library_start, []) (lib, tr) \<and> drv_initialized (lib_driver lib) \<and>
     nvc_shutdown True lib asked tr = ((r, lib'), es) \<and> pred_option (\<lambda>c. \<not> ctx_initialized c) (lib_ctx lib')"
proof -
  obtain lib tr ctx where lib: "(lib_step True asked)\<^sup>*\<^sup>* (library_start, []) (lib, tr)" "lib_ctx lib = Some ctx"
    "drv_initialized (lib_driver lib)" using asked_session by blast
  obtain r lib' es where r: "nvc_shutdown True lib asked tr = ((r, lib'), es)" by (metis surj_pair)
  from library_shutdown_reaps[OF lib(1) r] lib(2,3) r lib(1) show ?thesis by fastforce
qed

end
