(* ===== verification/Cli.thy ===== *)
theory Cli
  imports Devices Dsl MountOps Ldconfig Info Nvc
begin

text \<open>
  cli/configure.c, cli/list.c, cli/info.c, the option parsers of cli/main.c and
  the printing functions of cli/common.c: the commands that use the library.
  The library is linked in its version 1 form (libnvc.c binds its functions);
  argp calls the parsers, whose keys are the argument \<open>key\<close>.  \<open>cli_debug\<close> is not of the
  source: it is the value of NVC_DEBUG_FILE that the parser sets.  A message on the
  standard error or the standard output is a call \<open>C_puts\<close>; the text of errno that
  warn appends is left out.
\<close>

record cli_context =
  cli_uid :: uint32
  cli_gid :: uint32
  cli_root :: "path option"
  cli_ldcache :: "path option"
  cli_load_kmods :: bool
  cli_no_pivot :: bool
  cli_init_flags :: "string option"
  csv_output :: bool
  cli_pid :: int
  cli_rootfs :: "path option"
  cli_reqs :: "string list"
  cli_ldconfig :: "path option"
  cli_container_flags :: "string option"
  cli_compat32 :: bool
  list_bins :: bool
  list_libs :: bool
  list_ipcs :: bool
  list_firmwares :: bool
  cli_devices :: "string option"
  cli_mig_config :: "string option"
  cli_mig_monitor :: "string option"
  cli_debug :: "path option"

text \<open>
  What the build and the process environment supply: the parts that are linked
  in, the three operations on the device cgroup, the variables PATH and
  NVC_INSECURE_MODE, and the bytes an out-of-range read of select_gpu_device and
  an uninitialised pointer of the capability mounts yield.
\<close>

record build =
  with_nvcgo :: bool
  with_seccomp :: bool
  cg_version :: "nvc_container \<Rightarrow> int ioE"
  cg_path :: "nvc_container \<Rightarrow> path ioE"
  cg_allow :: "nvc_container \<Rightarrow> uint64 \<Rightarrow> unit ioE"
  env_path :: "string option"
  env_insecure :: "string option"
  stray_bytes :: string
  stray_pointer :: "path option"

subsection \<open>Messages\<close>

definition warnx :: "string \<Rightarrow> unit io" where
  "warnx text = call_void (C_puts text)"

definition message :: "error \<Rightarrow> string" where
  "message e = (case err_msg e of None \<Rightarrow> ''(null)'' | Some m \<Rightarrow> m)"

text \<open>A step whose failure is reported; a process that has ended reports nothing.\<close>

definition reported :: "string \<Rightarrow> 'a ioE \<Rightarrow> 'a ioE" where
  "reported what m =
     bindS m (\<lambda>r. case r of
       Inl e \<Rightarrow> if gone e then raise e else bindS (warnx (what @ '': '' @ message e)) (\<lambda>_. raise e)
     | Inr x \<Rightarrow> okay x)"

subsection \<open>Option parsers\<close>

datatype argp_key = Opt nat | KEY_ARG nat string | KEY_SUCCESS | KEY_END nat

text \<open>errx ends the process with status 1, as argp_usage does.\<close>

definition fatal :: "'a ioE \<Rightarrow> 'a ioE" where
  "fatal m = bindS m (\<lambda>r. case r of
     Inl e \<Rightarrow> bindS (warnx (''input error: '' @ message e)) (\<lambda>_. raise (exited 1))
   | Inr x \<Rightarrow> okay x)"

definition argp_usage :: "'a ioE" where
  "argp_usage = bindS (warnx ''usage'') (\<lambda>_. raise (exited 1))"

text \<open>\<open>None\<close> is ARGP_ERR_UNKNOWN.\<close>

definition join_flag :: "cli_context \<Rightarrow> string \<Rightarrow> cli_context option ioE" where
  "join_flag ctx flag =
     fatal (bindE (str_join (cli_container_flags ctx) flag '' '') (\<lambda>s. okay (Some (ctx\<lparr>cli_container_flags := Some s\<rparr>))))"

abbreviation (input) MAX_REQS :: nat where "MAX_REQS \<equiv> 32"

definition configure_parser :: "argp_key \<Rightarrow> string \<Rightarrow> cli_context \<Rightarrow> cli_context option ioE" where
  "configure_parser key arg ctx =
     (case key of
        Opt k \<Rightarrow>
          if k = ord CHR ''p'' then fatal (bindE (str_to_pid arg) (\<lambda>pid. okay (Some (ctx\<lparr>cli_pid := pid\<rparr>))))
          else if k = ord CHR ''d'' then
            fatal (bindE (str_join (cli_devices ctx) arg '','') (\<lambda>s. okay (Some (ctx\<lparr>cli_devices := Some s\<rparr>))))
          else if k = ord CHR ''r'' then
            fatal (if length (cli_reqs ctx) \<ge> MAX_REQS then failx ''too many requirements''
                   else okay (Some (ctx\<lparr>cli_reqs := cli_reqs ctx @ [arg]\<rparr>)))
          else if k = ord CHR ''l'' then okay (Some (ctx\<lparr>cli_ldconfig := Some arg\<rparr>))
          else if k = ord CHR ''c'' then join_flag ctx ''compute''
          else if k = ord CHR ''u'' then join_flag ctx ''utility''
          else if k = ord CHR ''v'' then join_flag ctx ''video''
          else if k = ord CHR ''g'' then join_flag ctx ''graphics''
          else if k = ord CHR ''D'' then join_flag ctx ''display''
          else if k = ord CHR ''n'' then join_flag ctx ''ngx''
          else if k = 0x80 then join_flag ctx ''compat32''
          else if k = 0x81 then
            fatal (bindE (str_join (cli_mig_config ctx) arg '','') (\<lambda>s. okay (Some (ctx\<lparr>cli_mig_config := Some s\<rparr>))))
          else if k = 0x82 then
            fatal (bindE (str_join (cli_mig_monitor ctx) arg '','') (\<lambda>s. okay (Some (ctx\<lparr>cli_mig_monitor := Some s\<rparr>))))
          else if k = 0x83 then join_flag ctx ''no-cgroups''
          else if k = 0x84 then join_flag ctx ''no-devbind''
          else okay None
      | KEY_ARG num a \<Rightarrow>
          if num > 0 then argp_usage
          else fatal (if take 1 a \<noteq> ''/'' \<or> str_equal a ''/'' then failx ''invalid rootfs directory''
                      else okay (Some (ctx\<lparr>cli_rootfs := Some a\<rparr>)))
      | KEY_SUCCESS \<Rightarrow>
          if cli_pid ctx > 0 then join_flag ctx ''supervised''
          else bindS (call_id C_getppid) (\<lambda>p. join_flag (ctx\<lparr>cli_pid := sint p\<rparr>) ''standalone'')
      | KEY_END num \<Rightarrow> if num < 1 then argp_usage else okay (Some ctx))"

definition list_parser :: "argp_key \<Rightarrow> string \<Rightarrow> nat \<Rightarrow> cli_context \<Rightarrow> cli_context option ioE" where
  "list_parser key arg argc ctx =
     (case key of
        Opt k \<Rightarrow>
          if k = ord CHR ''d'' then
            fatal (bindE (str_join (cli_devices ctx) arg '','') (\<lambda>s. okay (Some (ctx\<lparr>cli_devices := Some s\<rparr>))))
          else if k = ord CHR ''l'' then okay (Some (ctx\<lparr>list_libs := True\<rparr>))
          else if k = ord CHR ''b'' then okay (Some (ctx\<lparr>list_bins := True\<rparr>))
          else if k = ord CHR ''i'' then okay (Some (ctx\<lparr>list_ipcs := True\<rparr>))
          else if k = ord CHR ''f'' then okay (Some (ctx\<lparr>list_firmwares := True\<rparr>))
          else if k = 0x80 then okay (Some (ctx\<lparr>cli_compat32 := True\<rparr>))
          else if k = 0x81 then
            fatal (bindE (str_join (cli_mig_config ctx) arg '','') (\<lambda>s. okay (Some (ctx\<lparr>cli_mig_config := Some s\<rparr>))))
          else if k = 0x82 then
            fatal (bindE (str_join (cli_mig_monitor ctx) arg '','') (\<lambda>s. okay (Some (ctx\<lparr>cli_mig_monitor := Some s\<rparr>))))
          else okay None
      | KEY_END _ \<Rightarrow>
          if argc \<noteq> 1 then okay (Some ctx)
          else fatal (bindE (xstrdup ''all'') (\<lambda>s.
            okay (Some (ctx\<lparr>cli_devices := Some s, cli_mig_config := None, cli_mig_monitor := None, cli_compat32 := True,
              list_libs := True, list_bins := True, list_ipcs := True, list_firmwares := True\<rparr>))))
      | _ \<Rightarrow> okay None)"

definition info_parser :: "argp_key \<Rightarrow> cli_context \<Rightarrow> cli_context option" where
  "info_parser key ctx = (if key = Opt 0x80 then Some (ctx\<lparr>csv_output := True\<rparr>) else None)"

text \<open>The options before the command, of main.c; the command itself is chosen in the theory Program.\<close>

definition parser :: "argp_key \<Rightarrow> string option \<Rightarrow> cli_context \<Rightarrow> cli_context option ioE" where
  "parser key arg ctx =
     (case key of
        Opt k \<Rightarrow>
          if k = ord CHR ''d'' then
            bindS (call_void (C_lib ''setenv'' [1] [''NVC_DEBUG_FILE'', case arg of None \<Rightarrow> [] | Some a \<Rightarrow> a])) (\<lambda>_.
              okay (Some (ctx\<lparr>cli_debug := arg\<rparr>)))
          else if k = ord CHR ''k'' then
            fatal (bindE (str_join (cli_init_flags ctx) ''load-kmods'' '' '') (\<lambda>s.
              okay (Some (ctx\<lparr>cli_load_kmods := True, cli_init_flags := Some s\<rparr>))))
          else if k = ord CHR ''n'' then okay (Some (ctx\<lparr>cli_no_pivot := True\<rparr>))
          else if k = ord CHR ''u'' then
            (case arg of
               Some a \<Rightarrow> fatal (bindE (str_to_ugid a) (\<lambda>(u, g). okay (Some (ctx\<lparr>cli_uid := u, cli_gid := g\<rparr>))))
             | None \<Rightarrow>
                 bindS (call_id C_geteuid) (\<lambda>u. bindS (call_id C_getegid) (\<lambda>g.
                   okay (Some (ctx\<lparr>cli_uid := u, cli_gid := g\<rparr>)))))
          else if k = ord CHR ''r'' then okay (Some (ctx\<lparr>cli_root := arg\<rparr>))
          else if k = ord CHR ''l'' then okay (Some (ctx\<lparr>cli_ldcache := arg\<rparr>))
          else okay None
      | _ \<Rightarrow> okay None)"

end
