(* ===== verification/Commands.thy ===== *)
theory Commands
  imports Cli
begin

text \<open>
  The three commands.  Each limits the capabilities of the process, opens the
  library, does its work in phases with the effective capabilities of each,
  and shuts the library down on every path that has opened it.  The result is
  the exit status (\<open>Inr\<close> for 0, \<open>Inl\<close> for 1, or the end of the process) with the
  state the library is left in.
\<close>

subsection \<open>Phases\<close>

definition limit_capabilities :: "unit ioE" where
  "limit_capabilities =
     reported ''permission error''
       (bindE (perm_set_capabilities CAP_PERMITTED (Some pcaps)) (\<lambda>_.
        bindE (perm_set_capabilities CAP_INHERITABLE None) (\<lambda>_.
          perm_set_bounds (Some bcaps))))"

definition enter_phase :: "bool \<Rightarrow> nvc_phase \<Rightarrow> unit ioE" where
  "enter_phase run_as_root phase =
     (if run_as_root then reported ''permission error'' (perm_set_capabilities CAP_EFFECTIVE (Some (ecaps phase)))
      else okay ())"

text \<open>Allocation of the structures; \<open>with_container\<close> says whether the command configures a container.\<close>

definition allocate ::
  "bool \<Rightarrow> cli_context \<Rightarrow> library \<Rightarrow> ((nvc_config \<times> nvc_container_config option) res \<times> library) io" where
  "allocate with_container cli lib =
     (let fail = (\<lambda>lib. bindS (warnx ''memory allocation failed'') (\<lambda>_. ret (Inl unset_error, lib))) in
      bindS nvc_context_new (\<lambda>c. case c of
        None \<Rightarrow> fail lib
      | Some ctx \<Rightarrow>
          let lib = lib\<lparr>lib_ctx := Some ctx\<rparr> in
          bindS nvc_config_new (\<lambda>g. case g of
            None \<Rightarrow> fail lib
          | Some cfg \<Rightarrow>
              if \<not> with_container then ret (Inr (cfg, None), lib)
              else
              bindS (nvc_container_config_new (cli_pid cli) (case cli_rootfs cli of None \<Rightarrow> [] | Some r \<Rightarrow> r)) (\<lambda>k. case k of
                None \<Rightarrow> fail lib
              | Some cc \<Rightarrow> ret (Inr (cfg, Some cc), lib\<lparr>lib_ctx := Some (ctx\<lparr>ctx_no_pivot := cli_no_pivot cli\<rparr>)\<rparr>)))))"

text \<open>Outside root an identity that is not given is the caller's own.\<close>

definition own_id :: "bool \<Rightarrow> uint32 \<Rightarrow> call \<Rightarrow> uint32 io" where
  "own_id run_as_root given c = (if \<not> run_as_root \<and> given = -1 then call_id c else ret given)"

definition open_library ::
  "build \<Rightarrow> bool \<Rightarrow> bool \<Rightarrow> cli_context \<Rightarrow> library \<Rightarrow> (nvc_container_config option res \<times> library) io" where
  "open_library b run_as_root with_container cli lib =
     bindS (enter_phase run_as_root (if cli_load_kmods cli then NVC_INIT_KMODS else NVC_INIT)) (\<lambda>p. case p of
       Inl e \<Rightarrow> ret (Inl e, lib)
     | Inr _ \<Rightarrow>
         bindS (allocate with_container cli lib) (\<lambda>(a, lib). case a of
           Inl e \<Rightarrow> ret (Inl e, lib)
         | Inr (cfg, cc) \<Rightarrow>
             bindS (own_id run_as_root (cli_uid cli) C_geteuid) (\<lambda>uid.
             bindS (own_id run_as_root (cli_gid cli) C_getegid) (\<lambda>gid.
             bindS (nvc_init (with_nvcgo b) lib
                      (Some (cfg\<lparr>cfg_uid := uid, cfg_gid := gid, cfg_root := cli_root cli, cfg_ldcache := cli_ldcache cli\<rparr>))
                      (cli_init_flags cli)) (\<lambda>(r, lib).
             bindS (reported ''initialization error'' (of_res r)) (\<lambda>r. ret (case r of
               Inl e \<Rightarrow> (Inl e, lib) | Inr _ \<Rightarrow> (Inr cc, lib))))))))"

text \<open>The label \<open>fail\<close> of each command.\<close>

definition close_library :: "build \<Rightarrow> library \<Rightarrow> unit res \<Rightarrow> (unit res \<times> library) io" where
  "close_library b lib r =
     (if \<not> returns r then ret (r, lib)
      else bindS (nvc_shutdown (with_nvcgo b) lib) (\<lambda>(_, lib). ret (r, lib\<lparr>lib_ctx := None\<rparr>)))"

definition run_library ::
  "build \<Rightarrow> bool \<Rightarrow> bool \<Rightarrow> cli_context \<Rightarrow> (logfile \<Rightarrow> nvc_context \<Rightarrow> nvc_container_config option \<Rightarrow> unit ioE) \<Rightarrow> library \<Rightarrow>
   (unit res \<times> library) io" where
  "run_library b run_as_root with_container cli body lib =
     bindS (open_library b run_as_root with_container cli lib) (\<lambda>(r, lib). case r of
       Inl e \<Rightarrow> close_library b lib (Inl e)
     | Inr cc \<Rightarrow>
         (case lib_ctx lib of
            None \<Rightarrow> ret (Inl null_deref, lib)
          | Some nvc \<Rightarrow> bindS (body (lib_log lib) nvc cc) (\<lambda>r. close_library b lib r)))"

definition query_information :: "build \<Rightarrow> nvc_context \<Rightarrow> (nvc_driver_info \<times> nvc_device_info) ioE" where
  "query_information b nvc =
     reported ''detection error''
       (bindE (nvc_driver_info_new (env_path b) (Some nvc) None) (\<lambda>drv.
        bindE (nvc_device_info_new (Some nvc) None) (\<lambda>dev. okay (drv, dev))))"

subsection \<open>Visible devices\<close>

text \<open>A device string that was not given selects nothing.\<close>

definition visible_devices ::
  "build \<Rightarrow> cli_context \<Rightarrow> nvc_device_info \<Rightarrow> (devices \<times> devices \<times> devices) ioE" where
  "visible_devices b cli dev =
     bindE (reported ''memory allocation failed'' (new_devices dev)) (\<lambda>ds.
     bindE (reported ''memory allocation failed'' (new_devices dev)) (\<lambda>cs.
     bindE (reported ''memory allocation failed'' (new_devices dev)) (\<lambda>ms.
     bindE (reported ''device error'' (of_res
              (case cli_devices cli of
                 None \<Rightarrow> Inr ds
               | Some s \<Rightarrow> if gpus dev = [] then Inr ds else select_devices (stray_bytes b) s dev ds))) (\<lambda>ds.
     bindE (reported ''mig-config error'' (of_res
              (case cli_mig_config cli of None \<Rightarrow> Inr cs | Some s \<Rightarrow> select_mig_config_devices s dev ds cs))) (\<lambda>cs.
     bindE (reported ''mig-monitor error'' (of_res
              (case cli_mig_monitor cli of None \<Rightarrow> Inr ms | Some s \<Rightarrow> select_mig_monitor_devices s dev ds ms))) (\<lambda>ms.
       okay (ds, cs, ms)))))))"

subsection \<open>Requirements\<close>

text \<open>A version the driver does not report, or a device that is not there, satisfies every requirement;
  an architecture or a brand that is null in the source is empty here.\<close>

definition check_cuda_version :: "nvc_driver_info \<Rightarrow> dsl_comparator \<Rightarrow> string \<Rightarrow> bool option" where
  "check_cuda_version drv cmp version =
     (case cuda_version drv of None \<Rightarrow> Some True | Some v \<Rightarrow> dsl_compare_version v cmp version)"

definition check_driver_version :: "nvc_driver_info \<Rightarrow> dsl_comparator \<Rightarrow> string \<Rightarrow> bool option" where
  "check_driver_version drv cmp version =
     (case nvrm_version drv of None \<Rightarrow> Some True | Some v \<Rightarrow> dsl_compare_version v cmp version)"

definition check_device_arch :: "nvc_device option \<Rightarrow> dsl_comparator \<Rightarrow> string \<Rightarrow> bool option" where
  "check_device_arch dev cmp arch =
     (case dev of
        None \<Rightarrow> Some True
      | Some d \<Rightarrow> if dev_arch d = [] then Some True else dsl_compare_version (dev_arch d) cmp arch)"

definition check_device_brand :: "nvc_device option \<Rightarrow> dsl_comparator \<Rightarrow> string \<Rightarrow> bool option" where
  "check_device_brand dev cmp brand =
     (case dev of
        None \<Rightarrow> Some True
      | Some d \<Rightarrow> if dev_brand d = [] then Some True else dsl_compare_string (dev_brand d) cmp brand)"

definition rules :: "nvc_driver_info \<Rightarrow> nvc_device option \<Rightarrow> dsl_rule list" where
  "rules drv dev =
     [(''cuda'', check_cuda_version drv), (''driver'', check_driver_version drv),
      (''arch'', check_device_arch dev), (''brand'', check_device_brand dev)]"

fun evaluate_all :: "dsl_rule list \<Rightarrow> string list \<Rightarrow> unit ioE" where
  "evaluate_all rs [] = okay ()"
| "evaluate_all rs (req # reqs) =
     bindE (reported ''requirement error'' (dsl_evaluate req rs)) (\<lambda>_. evaluate_all rs reqs)"

text \<open>What the requirements are evaluated for: each visible device, or none when there is none.\<close>

definition requirement_data :: "nvc_device_info \<Rightarrow> devices \<Rightarrow> nvc_device option list" where
  "requirement_data dev ds =
     (let each = map (\<lambda>i. Some (gpus dev ! i)) (d_gpus ds) @
                 map (\<lambda>m. Some (gpus dev ! mig_parent (mig_of dev m))) (d_migs ds)
      in if each = [] then [None] else each)"

fun check_requirements :: "nvc_driver_info \<Rightarrow> string list \<Rightarrow> nvc_device option list \<Rightarrow> unit ioE" where
  "check_requirements drv reqs [] = okay ()"
| "check_requirements drv reqs (d # ds) =
     bindE (evaluate_all (rules drv d) reqs) (\<lambda>_. check_requirements drv reqs ds)"

subsection \<open>The configure command\<close>

fun mount_each :: "('a \<Rightarrow> unit ioE) \<Rightarrow> 'a list \<Rightarrow> unit ioE" where
  "mount_each f [] = okay ()"
| "mount_each f (x # xs) = bindE (reported ''mount error'' (f x)) (\<lambda>_. mount_each f xs)"

definition mount_selected ::
  "build \<Rightarrow> nvc_context \<Rightarrow> nvc_container \<Rightarrow> nvc_driver_info \<Rightarrow> nvc_device_info \<Rightarrow> devices \<times> devices \<times> devices \<Rightarrow> unit ioE" where
  "mount_selected b nvc cnt drv dev = (\<lambda>(ds, cs, ms).
     let caps = (\<lambda>op sel.
           if d_all sel \<and> d_gpus sel \<noteq> [] then
             bindE (reported ''mount error'' op) (\<lambda>_.
               mount_each (\<lambda>i. nvc_device_mig_caps_mount (cg_allow b) (Some nvc) (Some cnt) (Some (gpus dev ! i))) (d_gpus sel))
           else okay ()) in
     bindE (reported ''mount error'' (nvc_driver_mount (cg_allow b) (Some nvc) (Some cnt) (Some drv))) (\<lambda>_.
     bindE (mount_each (\<lambda>i. nvc_device_mount (cg_allow b) (Some nvc) (Some cnt) (Some (gpus dev ! i))) (d_gpus ds)) (\<lambda>_.
     bindE (if \<not> d_all cs \<and> \<not> d_all ms
            then mount_each (\<lambda>m. nvc_mig_device_access_caps_mount (cg_allow b) (Some nvc) (Some cnt) (Some (mig_of dev m)))
                   (d_migs ds)
            else okay ()) (\<lambda>_.
     bindE (caps (nvc_mig_config_global_caps_mount (cg_allow b) (stray_pointer b) (Some nvc) (Some cnt)) cs) (\<lambda>_.
       caps (nvc_mig_monitor_global_caps_mount (cg_allow b) (stray_pointer b) (Some nvc) (Some cnt)) ms)))))"

definition configure_body :: "build \<Rightarrow> cli_context \<Rightarrow> logfile \<Rightarrow> nvc_context \<Rightarrow> nvc_container_config option \<Rightarrow> unit ioE" where
  "configure_body b cli logfile nvc cc =
     bindE (enter_phase True NVC_CONTAINER) (\<lambda>_.
     bindE (reported ''container error''
              (nvc_container_new (cg_version b) (cg_path b) (Some nvc)
                 (map_option (\<lambda>c. c\<lparr>cc_ldconfig := cli_ldconfig cli\<rparr>) cc) (cli_container_flags cli))) (\<lambda>cnt.
     bindE (enter_phase True NVC_INFO) (\<lambda>_.
     bindE (query_information b nvc) (\<lambda>(drv, dev).
     bindE (visible_devices b cli dev) (\<lambda>selected.
     bindE (check_requirements drv (cli_reqs cli) (requirement_data dev (fst selected))) (\<lambda>_.
     bindE (enter_phase True NVC_MOUNT) (\<lambda>_.
     bindE (mount_selected b nvc cnt drv dev selected) (\<lambda>_.
     bindE (enter_phase True NVC_LDCACHE) (\<lambda>_.
     bindE (reported ''ldcache error'' (nvc_ldcache_update logfile (env_insecure b) (with_seccomp b) (Some nvc) (Some cnt))) (\<lambda>_.
       enter_phase True NVC_SHUTDOWN))))))))))"

definition configure_command :: "build \<Rightarrow> cli_context \<Rightarrow> library \<Rightarrow> (unit res \<times> library) io" where
  "configure_command b cli lib =
     bindS limit_capabilities (\<lambda>r. case r of
       Inl e \<Rightarrow> ret (Inl e, lib)
     | Inr _ \<Rightarrow> run_library b True True cli (configure_body b cli) lib)"

subsection \<open>The list command\<close>

fun print_lines :: "string list \<Rightarrow> unit ioE" where
  "print_lines [] = okay ()"
| "print_lines (l # ls) = bindS (call_void (C_puts l)) (\<lambda>_. print_lines ls)"

text \<open>The printing of a capability device; a failure prints nothing.\<close>

definition print_nvcaps_device_from_proc_file :: "nvc_context \<Rightarrow> path \<Rightarrow> path \<Rightarrow> unit ioE" where
  "print_nvcaps_device_from_proc_file ctx cap_dir cap_file =
     bindS (path_join cap_dir cap_file) (\<lambda>p. case p of
       Inl _ \<Rightarrow> okay ()
     | Inr cap_path \<Rightarrow>
         bindS (nvc_nvcaps_device_from_proc_path (ctx_root ctx) cap_path) (\<lambda>n. case n of
           Inl _ \<Rightarrow> okay ()
         | Inr node \<Rightarrow> print_lines [node_path node]))"

definition mig_minor_nodes :: "uint32 \<Rightarrow> string list \<Rightarrow> string list" where
  "mig_minor_nodes gpu lines =
     concat (map (\<lambda>l. case scan_mig_minor l of
       None \<Rightarrow> []
     | Some (g, m) \<Rightarrow> if g \<noteq> gpu then [] else [NV_CAPS_DEVICE_DIR @ ''/nvidia-cap'' @ dec_int (sint m)]) lines)"

text \<open>A file that cannot be opened is closed nevertheless: fclose of a null pointer.\<close>

definition print_all_mig_minor_devices :: "nvc_device_node \<Rightarrow> unit ioE" where
  "print_all_mig_minor_devices node =
     bindS (call_int (C_fopen NV_CAPS_MIG_MINORS_PATH)) (\<lambda>r. case r of
       Inl _ \<Rightarrow> raise null_deref
     | Inr fp \<Rightarrow>
         bindS (call_strs (C_getlines fp)) (\<lambda>ls.
           lastly (print_lines (mig_minor_nodes (minor (node_id node)) (case ls of Inl _ \<Rightarrow> [] | Inr ls \<Rightarrow> ls)))
             (call_void (C_fclose fp))))"

fun for_each :: "('a \<Rightarrow> unit ioE) \<Rightarrow> 'a list \<Rightarrow> unit ioE" where
  "for_each f [] = okay ()"
| "for_each f (x # xs) = bindE (f x) (\<lambda>_. for_each f xs)"

definition when_dev_style :: "unit ioE \<Rightarrow> unit ioE" where
  "when_dev_style m = bindS nvc_nvcaps_style (\<lambda>s. if s = NVC_NVCAPS_STYLE_DEV then m else okay ())"

definition list_mig_access :: "nvc_context \<Rightarrow> nvc_mig_device \<Rightarrow> unit ioE" where
  "list_mig_access nvc mig =
     bindE (print_lines [gi_caps_path mig @ ''/access'', ci_caps_path mig @ ''/access'']) (\<lambda>_.
     when_dev_style
       (bindE (print_nvcaps_device_from_proc_file nvc (gi_caps_path mig) ''access'') (\<lambda>_.
          print_nvcaps_device_from_proc_file nvc (ci_caps_path mig) ''access'')))"

definition list_mig_caps :: "nvc_context \<Rightarrow> nvc_device_info \<Rightarrow> devices \<Rightarrow> path \<Rightarrow> unit ioE" where
  "list_mig_caps nvc dev sel cap_file =
     (if \<not> (d_all sel \<and> d_gpus sel \<noteq> []) then okay ()
      else
      bindE (print_lines [NV_MIG_CAPS_PATH @ ''/'' @ cap_file]) (\<lambda>_.
      bindE (when_dev_style (print_nvcaps_device_from_proc_file nvc NV_MIG_CAPS_PATH cap_file)) (\<lambda>_.
        for_each (\<lambda>i.
          bindE (print_lines [mig_caps_path (gpus dev ! i)]) (\<lambda>_.
          when_dev_style
            (bindE (print_lines [NV_CAPS_DEVICE_DIR]) (\<lambda>_.
               print_all_mig_minor_devices (dev_node (gpus dev ! i)))))) (d_gpus sel))))"

text \<open>A path that is null in the source is empty here and is not printed.\<close>

definition list_devices ::
  "cli_context \<Rightarrow> nvc_context \<Rightarrow> nvc_driver_info \<Rightarrow> nvc_device_info \<Rightarrow> devices \<times> devices \<times> devices \<Rightarrow> unit ioE" where
  "list_devices cli nvc drv dev = (\<lambda>(ds, cs, ms).
     bindE (if cli_devices cli = None then okay ()
            else
            bindE (print_lines (filter (\<lambda>p. p \<noteq> []) (map node_path (drv_devs drv)))) (\<lambda>_.
            bindE (print_lines (filter (\<lambda>p. p \<noteq> []) (map (\<lambda>i. node_path (dev_node (gpus dev ! i))) (d_gpus ds)))) (\<lambda>_.
              if \<not> d_all cs \<and> \<not> d_all ms then for_each (\<lambda>m. list_mig_access nvc (mig_of dev m)) (d_migs ds) else okay ())))
       (\<lambda>_.
     bindE (list_mig_caps nvc dev cs ''config'') (\<lambda>_. list_mig_caps nvc dev ms ''monitor'')))"

definition list_components :: "cli_context \<Rightarrow> nvc_driver_info \<Rightarrow> string list" where
  "list_components cli drv =
     (if list_bins cli then drv_bins drv else []) @
     (if list_libs cli then drv_libs drv @ (if cli_compat32 cli then drv_libs32 drv else []) else []) @
     (if list_ipcs cli then drv_ipcs drv else []) @
     (if list_firmwares cli then drv_firmwares drv else [])"

definition list_body :: "build \<Rightarrow> cli_context \<Rightarrow> bool \<Rightarrow> nvc_context \<Rightarrow> unit ioE" where
  "list_body b cli run_as_root nvc =
     bindE (enter_phase run_as_root NVC_INFO) (\<lambda>_.
     bindE (query_information b nvc) (\<lambda>(drv, dev).
     bindE (visible_devices b cli dev) (\<lambda>selected.
     bindE (list_devices cli nvc drv dev selected) (\<lambda>_.
     bindE (print_lines (list_components cli drv)) (\<lambda>_.
       enter_phase run_as_root NVC_SHUTDOWN)))))"

definition as_root :: "(bool \<Rightarrow> library \<Rightarrow> (unit res \<times> library) io) \<Rightarrow> library \<Rightarrow> (unit res \<times> library) io" where
  "as_root f lib =
     bindS (call_id C_geteuid) (\<lambda>euid.
     bindS (if euid = 0 then limit_capabilities else okay ()) (\<lambda>r. case r of
       Inl e \<Rightarrow> ret (Inl e, lib)
     | Inr _ \<Rightarrow> f (euid = 0) lib))"

definition list_command :: "build \<Rightarrow> cli_context \<Rightarrow> library \<Rightarrow> (unit res \<times> library) io" where
  "list_command b cli = as_root (\<lambda>root. run_library b root False cli (\<lambda>_ nvc _. list_body b cli root nvc))"

subsection \<open>The info command\<close>

definition pad15 :: "string \<Rightarrow> string" where
  "pad15 s = s @ replicate (15 - length s) CHR '' ''"

definition device_report :: "bool \<Rightarrow> nat \<times> nvc_device \<Rightarrow> string list" where
  "device_report csv = (\<lambda>(i, gpu).
     let mn = dec (unat (minor (node_id (dev_node gpu)))) in
     if csv then [dec i @ '','' @ mn @ '','' @ dev_model gpu @ '','' @ dev_busid gpu]
     else [pad15 ''Device Index:'' @ '' '' @ dec i, pad15 ''Device Minor:'' @ '' '' @ mn,
           pad15 ''Model:'' @ '' '' @ dev_model gpu, pad15 ''Bus Location:'' @ '' '' @ dev_busid gpu,
           pad15 ''Device UUID:'' @ '' '' @ dev_uuid gpu])"

definition info_body :: "build \<Rightarrow> cli_context \<Rightarrow> bool \<Rightarrow> nvc_context \<Rightarrow> unit ioE" where
  "info_body b cli run_as_root nvc =
     bindE (enter_phase run_as_root NVC_INFO) (\<lambda>_.
     bindE (query_information b nvc) (\<lambda>(drv, dev).
     bindE (print_lines
              ((if csv_output cli
                then ['''', ''Device Index,Device Minor,Model,Brand,GPU UUID,Bus Location,Architecture''] else []) @
               concat (map (device_report (csv_output cli)) (enumerate 0 (gpus dev))))) (\<lambda>_.
       enter_phase run_as_root NVC_SHUTDOWN)))"

definition info_command :: "build \<Rightarrow> cli_context \<Rightarrow> library \<Rightarrow> (unit res \<times> library) io" where
  "info_command b cli = as_root (\<lambda>root. run_library b root False cli (\<lambda>_ nvc _. info_body b cli root nvc))"

end
