(* ===== verification/Requirements.thy ===== *)
theory Requirements
  imports Commands
begin

text \<open>
  What spans the components: a container is configured only when its
  requirements are satisfied.  First the stages of the commands that make no call
  which touches a container, then the order of the stages of the configure
  command, then what the requirements are worth.
\<close>

subsection \<open>Calls that touch a container\<close>

fun touches :: "call \<Rightarrow> bool" where
  "touches (NS c) = (case c of
     sc_setns _ _ \<Rightarrow> True | sc_mount _ _ _ _ _ \<Rightarrow> True | sc_umount2 _ _ \<Rightarrow> True | sc_pivot_root _ _ \<Rightarrow> True | _ \<Rightarrow> False)"
| "touches c = False"

definition outside :: "event \<Rightarrow> bool" where
  "outside e \<longleftrightarrow> \<not> touches (fst e)"

lemma outside_simps [simp]:
  "outside (FS f, a)" "outside (DirOp d, a)" "outside (Cred c, a)" "outside (Cap k, a)" "outside (Proc p, a)"
  "outside (C_chroot q, a)" "outside (C_chdir q, a)"
  by (simp_all add: outside_def)

lemma observes_outside: "observes m \<Longrightarrow> emits outside m"
  unfolding observes_def
  by (erule emits_weaken) (auto simp: outside_def elim!: touches.elims split: ns_call.splits)

lemma query_outside: "emits (\<lambda>e. cg_query (fst e)) m \<Longrightarrow> emits outside m"
  by (erule emits_weaken) (auto simp: outside_def cg_query_def elim!: touches.elims split: ns_call.splits)

lemma cap_call_outside: "emits (\<lambda>e. cap_call (fst e)) m \<Longrightarrow> emits outside m"
  by (erule emits_weaken) (auto simp: outside_def cap_call_def elim!: touches.elims)

lemmas outside_lookups = observes_lookups[THEN observes_outside]

named_theorems outside_intros \<open>fragments that do not touch a container\<close>

lemmas [outside_intros] = outside_lookups observes_slurp[THEN observes_outside] observes_params[THEN observes_outside]
  observes_chardev_major[THEN observes_outside] observes_cap_attrs[THEN observes_outside]
  perm_set_capabilities_calls[THEN cap_call_outside]

lemma outside_set_bounds [outside_intros]: "emits outside (perm_set_bounds caps)"
proof -
  have "emits outside (set_bounds_loop caps cs)" for cs
    by (induction cs) (auto intro!: emits_intros)
  then show ?thesis unfolding perm_set_bounds_def by (intro emits_intros outside_intros)
qed

subsection \<open>Kernel modules\<close>

lemma outside_assigned: "emits outside (assigned n vs)"
  by (induction n vs rule: assigned.induct) (auto simp: indeterminate_def intro!: emits_intros)

lemma outside_read_cfg: "emits outside (read_cfg_loop fd n)"
proof (induction fd n rule: read_cfg_loop.induct)
  case (1 fd n)
  then show ?case
    by (subst read_cfg_loop.simps) (auto intro!: emits_intros)
qed

lemma outside_pci [outside_intros]: "emits outside (pci_enum_match_id m)"
proof -
  have e: "emits outside (match_entry m name count)" for m name count
    unfolding match_entry_def pci_sysfs_read_cfg_def
    by (intro emits_intros outside_assigned outside_read_cfg) simp_all
  have "emits outside (match_loop m names count)" for m names count
    by (induction m names count rule: match_loop.induct) (auto intro!: emits_intros e)
  then show ?thesis
    unfolding pci_enum_match_id_def find_matches_def by (intro emits_intros) simp_all
qed

lemma outside_module_loaded [outside_intros]: "emits outside (is_kernel_module_loaded n)"
  unfolding is_kernel_module_loaded_def by (intro emits_intros outside_intros)

lemma outside_modprobe_helper [outside_intros]: "emits outside (modprobe_helper b n t)"
  unfolding modprobe_helper_def run_modprobe_def silence_current_process_def is_tegra_def modprobe_path_def
  by (intro emits_intros outside_intros) simp_all

lemma outside_mknod_helper [outside_intros]: "emits outside (mknod_helper a b c d)"
  unfolding mknod_helper_def get_file_state_helper_def make_node_def own_node_def
  by (intro emits_intros outside_intros) simp_all

lemma outside_modules [outside_intros]: "emits outside (load_kernel_modules root)"
proof -
  have d: "emits outside (mknod_devices is)" for "is"
    by (induction "is") (auto simp: nvidia_mknod_def intro!: emits_intros outside_intros)
  have c: "emits outside (nvidia_cap_mknod p)" for p
    unfolding nvidia_cap_mknod_def by (intro emits_intros outside_intros) simp_all
  have l: "emits outside (mknodes_loop n ls)" for n ls
    by (induction n ls rule: mknodes_loop.induct) (auto intro!: emits_intros outside_intros c split: cap_line.splits)
  have m: "emits outside (mig_nvcaps_mknodes n)" for n
    unfolding mig_nvcaps_mknodes_def Let_def by (intro emits_intros outside_intros l) simp_all
  have k: "emits outside (load_modules root n)" for n
    unfolding load_modules_def nvidia_modprobe_def nvidia_uvm_modprobe_def nvidia_modeset_modprobe_def nvidia_uvm_mknod_def
      nvidia_modeset_mknod_def with_major_def
    by (intro emits_intros outside_intros d m) simp_all
  have u: "emits outside init_within_userns"
    unfolding init_within_userns_def check_map_def by (intro emits_intros outside_intros)
  show ?thesis
    unfolding load_kernel_modules_def by (intro emits_intros outside_intros k u) simp_all
qed

subsection \<open>The library\<close>

lemma outside_call_rpc [outside_intros]: "emits outside (call_rpc n f is ss)"
  by (rule emits_call_rpc) simp_all

lemma outside_rpc [outside_intros]: "emits outside (rpc_init rpc prog)" "emits outside (rpc_shutdown rpc force)"
proof -
  have r: "emits outside (reap_process rpc fd force)" for rpc fd force
    unfolding reap_process_def by (intro emits_intros) simp_all
  show "emits outside (rpc_init rpc prog)"
    unfolding rpc_init_def socketpair_def rpc_abort_def setup_service_def setup_client_def Let_def
    by (intro emits_intros r) (simp_all add: emits_def)
  show "emits outside (rpc_shutdown rpc force)"
    unfolding rpc_shutdown_def by (intro emits_intros r) simp_all
qed

lemma outside_services [outside_intros]:
  "emits outside (driver_init dx root u g)" "emits outside (driver_shutdown drv)"
  "emits outside nvcgo_init" "emits outside (nvcgo_shutdown go)"
  unfolding driver_init_def driver_shutdown_def nvcgo_init_def nvcgo_shutdown_def driver_fail_def Let_def
  by (intro emits_intros outside_intros)+

lemma outside_dxcore [outside_intros]: "emits outside dxcore_init_context"
proof -
  have p: "emits outside (present_components d cs)" for d cs
    by (induction cs) (auto intro!: emits_intros outside_intros)
  have a: "emits outside (dxcore_add_adapter ctx h)" for ctx h
    unfolding dxcore_add_adapter_def dxcore_query_adapter_wddm_version_def dxcore_query_adapter_driverstore_def
      dxcore_query_adapter_info_helper_def dxcore_call_def dxcore_populate_driverstore_library_def Let_def
    by (intro emits_intros p) simp_all
  have l: "emits outside (add_adapters ctx hs)" for ctx hs
    by (induction ctx hs rule: add_adapters.induct) (auto intro!: emits_intros a)
  show ?thesis
    unfolding dxcore_init_context_def dxcore_enum_adapters_def dxcore_call_def Let_def
    by (intro emits_intros l) simp_all
qed

lemma outside_nvc_init [outside_intros]: "emits outside (nvc_init go lib cfg opts)"
  unfolding nvc_init_def open_log_def log_open_def init_context_def nvc_copy_config_def and_then_def then_set_def init_dxcore_def start_services_def
    init_fail_def config_owner_def Let_def
  by (intro emits_intros outside_intros) simp_all

lemma outside_nvc_shutdown [outside_intros]: "emits outside (nvc_shutdown go lib)"
  unfolding nvc_shutdown_def log_close_def Let_def by (intro emits_intros outside_intros) simp_all

subsection \<open>Information\<close>

lemma outside_elftool [outside_intros]: "emits outside (select_libraries root orig alt)" "emits outside (select_wsl_libraries root orig alt)"
  unfolding select_libraries_def select_wsl_libraries_def elftool_open_def elftool_close_def Let_def
  by (intro emits_intros; simp)+

lemma outside_ldcache:
  assumes "\<And>root orig alt. emits outside (select root orig alt)"
  shows "emits outside (ldcache_resolve ld arch root libs select)"
proof -
  have k: "emits outside (match_names select root mem e j ls paths)" for mem e j ls paths
    by (induction ls arbitrary: j paths)
       (auto intro!: emits_intros outside_intros assms split: option.splits bool.splits)
  have "emits outside (resolve_entries select arch root libs mem is paths)" for mem "is" paths
    by (induction "is" arbitrary: paths) (auto intro!: emits_intros k split: option.splits)
  then show ?thesis
    unfolding ldcache_resolve_def Let_def by (intro emits_intros)
qed

lemma outside_bins:
  "emits outside (probe_bin root dir bin)" "emits outside (store_bin root bin ads found)"
  "emits outside (store_bins root ads bins)" "emits outside (path_bins root bins dirs fs)"
proof -
  have p: "emits outside (probe_bin root dir bin)" for root dir bin
    unfolding probe_bin_def by (intro emits_intros outside_intros)
  have s: "emits outside (store_bin root bin ads found)" for root bin ads found
    by (induction ads arbitrary: found) (auto intro!: emits_intros p)
  have d: "emits outside (dir_bins root dir bs)" for root dir bs
    by (induction root dir bs rule: dir_bins.induct) (auto intro!: emits_intros p)
  show "emits outside (probe_bin root dir bin)" "emits outside (store_bin root bin ads found)" by (rule p s)+
  show "emits outside (store_bins root ads bins)"
    by (induction bins) (auto intro!: emits_intros s)
  show "emits outside (path_bins root bins dirs fs)"
    by (induction dirs arbitrary: fs) (auto intro!: emits_intros d)
qed

lemma outside_driver_info [outside_intros]: "emits outside (nvc_driver_info_new env ctx opts)"
  unfolding nvc_driver_info_new_def lookup_paths_def lookup_libraries_def lookup_binaries_def lookup_devices_def of_res_def
    find_driver_libraries_def find_binary_paths_def ldcache_open_def ldcache_close_def array_new_def Let_def
  by (intro emits_intros outside_intros outside_bins outside_ldcache; simp add: outside_intros)

lemma outside_device_info [outside_intros]: "emits outside (nvc_device_info_new ctx opts)"
proof -
  have i: "emits outside (init_nvc_device c n)" for c n
    unfolding init_nvc_device_def driver_get_device_def driver_get_device_model_def driver_get_device_minor_def
      driver_get_device_busid_def driver_get_device_uuid_def ask_int_def ask_str_def Let_def
    by (intro emits_intros outside_intros) simp_all
  have "emits outside (init_devices c ns)" for c ns
    by (induction ns) (auto intro!: emits_intros i)
  then show ?thesis
    unfolding nvc_device_info_new_def driver_get_device_count_def ask_int_def
    by (intro emits_intros outside_intros) simp_all
qed

subsection \<open>Commands\<close>

lemma outside_reported [outside_intros]: "emits outside m \<Longrightarrow> emits outside (reported w m)"
  unfolding reported_def warnx_def by (intro emits_intros) simp_all

lemma outside_phases [outside_intros]:
  "emits outside limit_capabilities" "emits outside (enter_phase root ph)"
  "emits outside (query_information b nvc)" "emits outside (close_library b lib r)"
  unfolding limit_capabilities_def enter_phase_def query_information_def close_library_def
  by (intro emits_intros outside_intros)+

lemma outside_visible [outside_intros]: "emits outside (visible_devices b cli dev)"
  unfolding visible_devices_def new_devices_def of_res_def
  by (intro emits_intros outside_intros) simp_all

lemma outside_open [outside_intros]: "emits outside (open_library b root cont cli lib)"
  unfolding open_library_def allocate_def own_id_def nvc_context_new_def nvc_config_new_def nvc_container_config_new_def
    of_res_def warnx_def Let_def
  by (intro emits_intros outside_intros) simp_all

lemma outside_requirements [outside_intros]: "emits outside (check_requirements drv reqs ds)"
proof -
  have e: "emits outside (evaluate_all rs reqs)" for rs reqs
    by (induction reqs) (auto simp: dsl_evaluate_def Let_def intro!: emits_intros outside_intros split: option.splits bool.splits)
  show ?thesis by (induction ds) (auto intro!: emits_intros e)
qed

subsection \<open>The order of the stages\<close>

definition satisfied :: "dsl_rule list \<Rightarrow> string \<Rightarrow> bool" where
  "satisfied rs req \<longleftrightarrow> or_loop rs True (tokens '' '' req) = Some True"

lemma reported_Inr: "reported w m os tr = (Inr x, es) \<longleftrightarrow> m os tr = (Inr x, es)"
  unfolding reported_def
  by (cases "m os tr"; cases "fst (m os tr)") (auto simp: bindS_eq warnx_def call_void_def)

lemma fst_xstrdup: "fst (xstrdup s os tr) = (case os_unit os tr C_alloc of Inl e \<Rightarrow> Inl (error_set (os_strerror os) e ''memory allocation failed'') | Inr _ \<Rightarrow> Inr s)"
  by (simp add: xstrdup_def fst_bindE fst_or_set call_defs split: sum.splits)

lemma dsl_evaluate_satisfied:
  assumes "dsl_evaluate req rs os tr = (Inr (), es)"
  shows "satisfied rs req"
proof (rule ccontr)
  assume "\<not> satisfied rs req"
  then consider "or_loop rs True (tokens '' '' req) = None" | "or_loop rs True (tokens '' '' req) = Some False"
    unfolding satisfied_def by (cases "or_loop rs True (tokens '' '' req)") auto
  then have "fst (dsl_evaluate req rs os tr) \<noteq> Inr ()"
    by cases (simp_all add: dsl_evaluate_def fst_bindE fst_xstrdup Let_def split: sum.splits)
  with assms show False by simp
qed

lemma evaluate_all_satisfied:
  "evaluate_all rs reqs os tr = (Inr (), es) \<Longrightarrow> \<forall>req \<in> set reqs. satisfied rs req"
  by (induction reqs arbitrary: tr es) (auto simp: bindE_Inr reported_Inr dest!: dsl_evaluate_satisfied)

lemma check_requirements_satisfied:
  "check_requirements drv reqs ds os tr = (Inr (), es) \<Longrightarrow> \<forall>d \<in> set ds. \<forall>req \<in> set reqs. satisfied (rules drv d) req"
  by (induction ds arbitrary: tr es) (auto simp: bindE_Inr dest: evaluate_all_satisfied)

text \<open>Where the first event outside a predicate comes from.\<close>

lemma later_bindE:
  assumes "bindE m f os tr = (r, es)" "emits P m" "\<not> list_all P es"
  shows "\<exists>x es1 es2. m os tr = (Inr x, es1) \<and> f x os (tr @ es1) = (r, es2) \<and> es = es1 @ es2 \<and> \<not> list_all P es2"
proof -
  obtain x es1 where m: "m os tr = (x, es1)" by fastforce
  have p: "list_all P es1" using emits_events[OF assms(2) m] by (simp add: list_all_iff)
  show ?thesis
  proof (cases x)
    case (Inl e)
    with m assms(1,3) p show ?thesis by (simp add: bindE_run_Inl)
  next
    case (Inr y)
    obtain r2 es2 where f: "f y os (tr @ es1) = (r2, es2)" by fastforce
    with m Inr assms(1,3) p show ?thesis by (auto simp: bindE_run_Inr)
  qed
qed

lemma later_bindS:
  assumes "bindS m f os tr = (r, es)" "emits P m" "\<not> list_all P es"
  shows "\<exists>x es1 es2. m os tr = (x, es1) \<and> f x os (tr @ es1) = (r, es2) \<and> es = es1 @ es2 \<and> \<not> list_all P es2"
proof -
  obtain x es1 where m: "m os tr = (x, es1)" by fastforce
  have p: "list_all P es1" using emits_events[OF assms(2) m] by (simp add: list_all_iff)
  obtain r2 es2 where f: "f x os (tr @ es1) = (r2, es2)" by fastforce
  with m assms(1,3) p show ?thesis by (auto simp: bindS_run)
qed

definition requirements_met :: "build \<Rightarrow> cli_context \<Rightarrow> os \<Rightarrow> trace \<Rightarrow> trace \<Rightarrow> bool" where
  "requirements_met b cli os tr es \<longleftrightarrow>
     (\<exists>nvc es1 es2 drv dev sel. prefix es1 es2 \<and> prefix es2 es \<and> list_all outside es2 \<and>
        fst (query_information b nvc os (tr @ es1)) = Inr (drv, dev) \<and>
        fst (visible_devices b cli dev os (tr @ es2)) = Inr sel \<and>
        (\<forall>d \<in> set (requirement_data dev (fst sel)). \<forall>req \<in> set (cli_reqs cli). satisfied (rules drv d) req))"

lemma requirements_met_later:
  assumes "list_all outside es1" "requirements_met b cli os (tr @ es1) es2"
  shows "requirements_met b cli os tr (es1 @ es2)"
  using assms(2) unfolding requirements_met_def
  apply (elim exE)
  subgoal for nvc es1' es2' drv dev sel
    by (intro exI[of _ nvc] exI[of _ "es1 @ es1'"] exI[of _ "es1 @ es2'"] exI[of _ drv] exI[of _ dev] exI[of _ sel])
       (simp add: assms(1))
  done

lemma requirements_met_append:
  "requirements_met b cli os tr es \<Longrightarrow> requirements_met b cli os tr (es @ es')"
  unfolding requirements_met_def by (meson prefix_prefix)

text \<open>A fragment that touches the container only after the requirements are met.\<close>

definition guarded :: "build \<Rightarrow> cli_context \<Rightarrow> 'a io \<Rightarrow> bool" where
  "guarded b cli m \<longleftrightarrow>
     (\<forall>os tr r es. m os tr = (r, es) \<longrightarrow> \<not> list_all outside es \<longrightarrow> requirements_met b cli os tr es)"

lemma guarded_quiet: "emits outside m \<Longrightarrow> guarded b cli m"
  unfolding guarded_def emits_def by (metis snd_conv)

lemma guarded_bindS:
  assumes "emits outside m" "\<And>x. guarded b cli (f x)"
  shows "guarded b cli (bindS m f)"
  unfolding guarded_def
proof (intro allI impI)
  fix os tr r es
  assume "bindS m f os tr = (r, es)" "\<not> list_all outside es"
  with later_bindS[OF _ assms(1)] obtain x es1 es2
    where m: "m os tr = (x, es1)" and f: "f x os (tr @ es1) = (r, es2)" "es = es1 @ es2" "\<not> list_all outside es2" by metis
  have "list_all outside es1" using emits_events[OF assms(1) m] by (simp add: list_all_iff)
  with f assms(2)[of x] requirements_met_later show "requirements_met b cli os tr es"
    unfolding guarded_def by metis
qed

lemma guarded_bindE:
  "emits outside m \<Longrightarrow> (\<And>x. guarded b cli (f x)) \<Longrightarrow> guarded b cli (bindE m f)"
  unfolding bindE_def
  by (rule guarded_bindS) (auto intro!: guarded_quiet emits_intros split: sum.splits)

lemma guarded_then:
  assumes "guarded b cli m" "\<And>x. emits outside (f x)"
  shows "guarded b cli (bindS m f)"
  unfolding guarded_def
proof (intro allI impI)
  fix os tr r es
  assume "bindS m f os tr = (r, es)" and out: "\<not> list_all outside es"
  then obtain x es1 es2 where m: "m os tr = (x, es1)" and f: "f x os (tr @ es1) = (r, es2)" and es: "es = es1 @ es2"
    by (auto simp: bindS_eq)
  have "list_all outside es2" using emits_events[OF assms(2) f] by (simp add: list_all_iff)
  with assms(1) m out show "requirements_met b cli os tr es"
    unfolding guarded_def es using requirements_met_append by fastforce
qed

lemma guarded_checked:
  "guarded b cli (bindE (query_information b nvc) (\<lambda>(drv, dev).
     bindE (visible_devices b cli dev) (\<lambda>sel.
     bindE (check_requirements drv (cli_reqs cli) (requirement_data dev (fst sel))) (\<lambda>_. k drv dev sel))))"
  (is "guarded b cli (bindE ?q (\<lambda>(drv, dev). bindE (?v dev) (\<lambda>sel. bindE (?c drv dev sel) _)))")
  unfolding guarded_def
proof (intro allI impI)
  fix os tr r es
  assume run: "bindE ?q (\<lambda>(drv, dev). bindE (?v dev) (\<lambda>sel. bindE (?c drv dev sel) (\<lambda>_. k drv dev sel))) os tr = (r, es)"
    and out: "\<not> list_all outside es"
  from later_bindE[OF run outside_phases(3) out] obtain drv dev es1 es1' where
    q: "?q os tr = (Inr (drv, dev), es1)" and 1: "es = es1 @ es1'" "\<not> list_all outside es1'"
    and run1: "bindE (?v dev) (\<lambda>sel. bindE (?c drv dev sel) (\<lambda>_. k drv dev sel)) os (tr @ es1) = (r, es1')"
    by fastforce
  from later_bindE[OF run1 outside_visible 1(2)] obtain sel es2 es2' where
    v: "?v dev os (tr @ es1) = (Inr sel, es2)" and 2: "es1' = es2 @ es2'" "\<not> list_all outside es2'"
    and run2: "bindE (?c drv dev sel) (\<lambda>_. k drv dev sel) os (tr @ es1 @ es2) = (r, es2')"
    by auto
  from later_bindE[OF run2 outside_requirements 2(2)] obtain es3 where
    "?c drv dev sel os (tr @ es1 @ es2) = (Inr (), es3)" by auto
  from check_requirements_satisfied[OF this] q v 1(1) show "requirements_met b cli os tr es"
    unfolding requirements_met_def
    using emits_events[OF outside_phases(3) q]
    by (intro exI[of _ nvc] exI[of _ "[]"] exI[of _ es1] exI[of _ drv] exI[of _ dev] exI[of _ sel]) (simp add: list_all_iff)
qed

definition cgroup_build :: "build \<Rightarrow> bool" where
  "cgroup_build b \<longleftrightarrow> (cg_version b, cg_path b) \<in>
     {(get_device_cgroup_version_legacy, find_device_cgroup_path_legacy), (get_device_cgroup_version, find_device_cgroup_path)}"

lemma outside_container: "cgroup_build b \<Longrightarrow> emits outside (nvc_container_new (cg_version b) (cg_path b) ctx cfg opts)"
  unfolding cgroup_build_def using legacy.container_new_queries nvcgo.container_new_queries
  by (auto intro!: query_outside)

lemma guarded_body: "cgroup_build b \<Longrightarrow> guarded b cli (configure_body b cli logfile nvc cc)"
  unfolding configure_body_def
  by (intro guarded_bindE guarded_checked outside_intros outside_container)

lemma guarded_configure: "cgroup_build b \<Longrightarrow> guarded b cli (configure_command b cli lib)"
  unfolding configure_command_def run_library_def
  apply (rule guarded_bindS, rule outside_intros)
  subgoal for r
    apply (cases r)
     apply (simp add: guarded_quiet emits_ret)
    apply simp
    apply (rule guarded_bindS, rule outside_intros)
    subgoal for x
      by (cases x) (auto intro: guarded_quiet outside_intros emits_ret guarded_then[OF guarded_body]
          split: sum.splits option.splits)
    done
  done


definition legacy_build :: build where
  "legacy_build = \<lparr>with_nvcgo = False, with_seccomp = False, cg_version = get_device_cgroup_version_legacy,
     cg_path = find_device_cgroup_path_legacy, cg_allow = setup_device_cgroup_legacy, env_path = Some ''/bin'',
     env_insecure = None, stray_bytes = [], stray_pointer = None\<rparr>"



subsection \<open>What the requirements are worth\<close>

definition unversioned :: "nvc_driver_info \<Rightarrow> bool" where
  "unversioned drv \<longleftrightarrow> nvrm_version drv = None \<and> cuda_version drv = None"

definition unbranded :: "nvc_device \<Rightarrow> bool" where
  "unbranded d \<longleftrightarrow> dev_arch d = [] \<and> dev_brand d = []"

lemma driver_info_unversioned:
  assumes "nvc_driver_info_new env ctx opts os tr = (Inr drv, es)"
  shows "unversioned drv"
  using assms
  unfolding nvc_driver_info_new_def lookup_paths_def lookup_libraries_def lookup_binaries_def lookup_devices_def
  by (auto simp: bindE_Inr unversioned_def driver_info_zero_def split: if_splits)

lemma init_nvc_device_unbranded:
  assumes "init_nvc_device ctx i os tr = (Inr d, es)"
  shows "unbranded d"
  using assms unfolding init_nvc_device_def
  by (auto simp: bindE_Inr unbranded_def device_zero_def Let_def split: if_splits)

lemma init_devices_unbranded:
  "init_devices ctx is os tr = (Inr ds, es) \<Longrightarrow> list_all unbranded ds"
  by (induction "is" arbitrary: tr es ds) (auto simp: bindE_Inr dest: init_nvc_device_unbranded)

lemma device_info_unbranded:
  assumes "nvc_device_info_new ctx opts os tr = (Inr dev, es)"
  shows "list_all unbranded (gpus dev)"
  using assms unfolding nvc_device_info_new_def by (auto simp: bindE_Inr dest: init_devices_unbranded)

lemma evaluate_rule_True:
  assumes "\<forall>(name, f) \<in> set rs. \<forall>c v. f c v = Some True"
  shows "evaluate_rule t rs \<noteq> Some False"
proof -
  have f: "f c v \<noteq> Some False" if "find_rule n rs = Some (m, f)" for n m f c v
    using that assms by (induction rs) (auto split: if_splits)
  show ?thesis
    unfolding evaluate_rule_def Let_def by (auto dest: f[THEN notE] split: option.splits)
qed

lemma rules_True:
  assumes "unversioned drv" "pred_option unbranded d"
  shows "evaluate_rule t (rules drv d) \<noteq> Some False"
  using assms
  by (intro evaluate_rule_True)
     (auto simp: rules_def check_cuda_version_def check_driver_version_def check_device_arch_def check_device_brand_def
       unversioned_def unbranded_def split: option.splits)

text \<open>C27: no rule of the requirements is ever found false on the information the library reports: it
  reports neither versions nor architectures nor brands, and a rule on something that is not
  reported holds, so a requirement that can be parsed never keeps a container from being
  configured.\<close>

theorem requirements_vacuous:
  "case fst (query_information b nvc os tr) of
     Inl _ \<Rightarrow> True
   | Inr (drv, dev) \<Rightarrow> list_all (\<lambda>d. evaluate_rule t (rules drv d) \<noteq> Some False) (None # map Some (gpus dev))"
proof (cases "fst (query_information b nvc os tr)")
  case (Inr x)
  then obtain drv dev es where r: "query_information b nvc os tr = (Inr (drv, dev), es)" and x: "x = (drv, dev)"
    by (metis prod.collapse)
  then have "unversioned drv" "list_all unbranded (gpus dev)"
    unfolding query_information_def reported_Inr
    by (auto simp: bindE_Inr dest: driver_info_unversioned device_info_unbranded)
  then show ?thesis using Inr x by (auto simp: list_all_iff dest: rules_True[THEN notE, rotated 2])
qed simp

end
