(* ===== verification/LibNvc.thy ===== *)
theory LibNvc
  imports Requirements
begin

text \<open>
  cli/libnvc.c: how the command line binds the functions of the library.  On most
  systems they are those it is linked with; on a Tegra system without the management
  library they come from a shared library of major version 0, whose structures are
  wrapped.  That library is code of its own: its functions are parameters.
\<close>

subsection \<open>The table\<close>

datatype binding = Linked | From_v0 | Wrapped

text \<open>The members of \<open>struct libnvc\<close>, in their order; the first nineteen exist in both versions.\<close>

definition libnvc_members :: "string list" where
  "libnvc_members = [''config_free'', ''config_new'', ''container_config_free'', ''container_config_new'',
     ''container_free'', ''container_new'', ''context_free'', ''context_new'', ''device_info_free'',
     ''device_info_new'', ''device_mount'', ''driver_info_free'', ''driver_info_new'', ''driver_mount'', ''error'',
     ''init'', ''ldcache_update'', ''shutdown'', ''version'', ''nvcaps_style'', ''nvcaps_device_from_proc_path'',
     ''mig_device_access_caps_mount'', ''mig_config_global_caps_mount'', ''mig_monitor_global_caps_mount'',
     ''device_mig_caps_mount'']"

definition v0_members :: "string list" where
  "v0_members = take 19 libnvc_members"

definition wrapped_members :: "string list" where
  "wrapped_members = [''device_info_free'', ''device_info_new'', ''device_mount'', ''driver_info_free'',
     ''driver_info_new'', ''driver_mount'']"

text \<open>The table and the two static variables; \<open>None\<close> is a null pointer, or the value -1.\<close>

record libnvc =
  libnvc_entry :: "string \<Rightarrow> binding option"
  tegra_cached :: "bool option"
  nvml_cached :: "bool option"

definition libnvc_zero :: libnvc where
  "libnvc_zero = \<lparr>libnvc_entry = (\<lambda>_. None), tegra_cached = None, nvml_cached = None\<rparr>"

subsection \<open>Which library\<close>

text \<open>
  An error is not remembered and counts as no.  A family file that is empty is
  read as a null pointer, which strncasecmp then reads.
\<close>

definition cli_is_tegra :: "libnvc \<Rightarrow> (bool res \<times> libnvc) io" where
  "cli_is_tegra st =
     (case tegra_cached st of
        Some b \<Rightarrow> ret (Inr b, st)
      | None \<Rightarrow>
          bindS (file_exists ''/etc/nv_tegra_release'') (\<lambda>r. case r of
            Inl _ \<Rightarrow> ret (Inr False, st)
          | Inr True \<Rightarrow> ret (Inr True, st\<lparr>tegra_cached := Some True\<rparr>)
          | Inr False \<Rightarrow>
              bindS (file_read_text ''/sys/devices/soc0/family'') (\<lambda>t. ret (case t of
                Inl _ \<Rightarrow> (Inr False, st)
              | Inr None \<Rightarrow> (Inl null_deref, st)
              | Inr (Some family) \<Rightarrow>
                  (let b = str_case_equal (take 5 family) ''tegra''
                   in (Inr b, st\<lparr>tegra_cached := Some b\<rparr>))))))"

definition nvml_available :: "libnvc \<Rightarrow> (bool \<times> libnvc) io" where
  "nvml_available st =
     (case nvml_cached st of
        Some b \<Rightarrow> ret (b, st)
      | None \<Rightarrow>
          bindS (call_unit (C_dlopen ''libnvidia-ml.so.1'')) (\<lambda>r. case r of
            Inl _ \<Rightarrow> ret (False, st\<lparr>nvml_cached := Some False\<rparr>)
          | Inr _ \<Rightarrow>
              bindS (call_void (C_dlclose ''libnvidia-ml.so.1'')) (\<lambda>_. ret (True, st\<lparr>nvml_cached := Some True\<rparr>))))"

subsection \<open>Binding\<close>

abbreviation (input) "libnvc_v0_soname \<equiv> ''libxdxct-container.so.0''"

definition warn_dl :: "nat \<Rightarrow> unit io" where
  "warn_dl n = bindS (\<lambda>os tr. (os_libmsg os tr (int n), [])) (\<lambda>m.
     warnx (''Error: '' @ (case m of None \<Rightarrow> ''(null)'' | Some t \<Rightarrow> t)))"

text \<open>The loop of dlsym; a member whose symbol is missing is null.\<close>

fun bind_members :: "string list \<Rightarrow> libnvc \<Rightarrow> (bool \<times> libnvc) io" where
  "bind_members [] st = ret (True, st)"
| "bind_members (f # fs) st =
     bindS (call_unit (C_lib ''dlsym'' [] [''nvc_'' @ f])) (\<lambda>r. case r of
       Inr _ \<Rightarrow> bind_members fs (st\<lparr>libnvc_entry := (libnvc_entry st)(f \<mapsto> From_v0)\<rparr>)
     | Inl n \<Rightarrow>
         bindS (warn_dl n) (\<lambda>_.
         bindS (call_void (C_dlclose libnvc_v0_soname)) (\<lambda>_.
           ret (False, st\<lparr>libnvc_entry := (libnvc_entry st)(f := None)\<rparr>))))"

definition load_libnvc_v0 :: "libnvc \<Rightarrow> (bool \<times> libnvc) io" where
  "load_libnvc_v0 st =
     bindS (call_unit (C_dlopen libnvc_v0_soname)) (\<lambda>h. case h of
       Inl n \<Rightarrow> bindS (warn_dl n) (\<lambda>_. ret (False, st))
     | Inr _ \<Rightarrow>
         bindS (bind_members v0_members st) (\<lambda>(ok, st). ret (
           if ok then (True, st\<lparr>libnvc_entry := (\<lambda>f. if f \<in> set wrapped_members then Some Wrapped else libnvc_entry st f)\<rparr>)
           else (False, st))))"

definition load_libnvc_v1 :: "libnvc \<Rightarrow> (bool \<times> libnvc) io" where
  "load_libnvc_v1 st =
     ret (True, st\<lparr>libnvc_entry := (\<lambda>f. if f \<in> set libnvc_members then Some Linked else libnvc_entry st f)\<rparr>)"

definition load_libnvc :: "libnvc \<Rightarrow> (bool res \<times> libnvc) io" where
  "load_libnvc st =
     bindS (cli_is_tegra st) (\<lambda>(t, st). case t of
       Inl e \<Rightarrow> ret (Inl e, st)
     | Inr tegra \<Rightarrow>
         bindS (if tegra then nvml_available st else ret (True, st)) (\<lambda>(nvml, st).
         bindS (if tegra \<and> \<not> nvml then load_libnvc_v0 st else load_libnvc_v1 st) (\<lambda>(ok, st). ret (Inr ok, st))))"

subsection \<open>The wrappers\<close>

text \<open>
  A structure of version 0 is its address and what it holds; the wrapper copies
  the members both versions have and keeps the address for the calls that follow.
\<close>

record libnvc_v0_wrapper_driver_info =
  wdrv_v1 :: nvc_driver_info
  wdrv_v0 :: int

record libnvc_v0_wrapper_device_info =
  wdev_v1 :: nvc_device_info
  wdev_v0 :: int

definition libnvc_v0_wrapper_driver_info_free :: "(int \<Rightarrow> unit io) \<Rightarrow> libnvc_v0_wrapper_driver_info option \<Rightarrow> unit io" where
  "libnvc_v0_wrapper_driver_info_free v0_free info =
     (case info of None \<Rightarrow> ret () | Some i \<Rightarrow> v0_free (wdrv_v0 i))"

definition libnvc_v0_wrapper_driver_info_new ::
  "(int \<times> nvc_driver_info) option io \<Rightarrow> (int \<Rightarrow> unit io) \<Rightarrow> libnvc_v0_wrapper_driver_info option io" where
  "libnvc_v0_wrapper_driver_info_new v0_new v0_free =
     bindS v0_new (\<lambda>r. case r of
       None \<Rightarrow> ret None
     | Some (p, info) \<Rightarrow>
         bindS (call_unit C_alloc) (\<lambda>a. case a of
           Inl _ \<Rightarrow> bindS (v0_free p) (\<lambda>_. ret None)
         | Inr _ \<Rightarrow> ret (Some \<lparr>wdrv_v1 = info\<lparr>drv_devs := [], drv_firmwares := []\<rparr>, wdrv_v0 = p\<rparr>)))"

definition libnvc_v0_wrapper_driver_mount :: "(int \<Rightarrow> unit ioE) \<Rightarrow> libnvc_v0_wrapper_driver_info \<Rightarrow> unit ioE" where
  "libnvc_v0_wrapper_driver_mount v0_mount info = v0_mount (wdrv_v0 info)"

definition libnvc_v0_wrapper_device_info_free :: "(int \<Rightarrow> unit io) \<Rightarrow> libnvc_v0_wrapper_device_info option \<Rightarrow> unit io" where
  "libnvc_v0_wrapper_device_info_free v0_free info =
     (case info of None \<Rightarrow> ret () | Some i \<Rightarrow> v0_free (wdev_v0 i))"

text \<open>A device is copied up to the member mig_capable; the rest is zero.\<close>

definition without_mig :: "nvc_device \<Rightarrow> nvc_device" where
  "without_mig d = d\<lparr>mig_capable := False, mig_caps_path := [], mig_devices := []\<rparr>"

definition libnvc_v0_wrapper_device_info_new ::
  "(int \<times> nvc_device_info) option io \<Rightarrow> (int \<Rightarrow> unit io) \<Rightarrow> libnvc_v0_wrapper_device_info option io" where
  "libnvc_v0_wrapper_device_info_new v0_new v0_free =
     bindS v0_new (\<lambda>r. case r of
       None \<Rightarrow> ret None
     | Some (p, info) \<Rightarrow>
         bindS (call_unit C_alloc) (\<lambda>a. case a of
           Inl _ \<Rightarrow> bindS (v0_free p) (\<lambda>_. ret None)
         | Inr _ \<Rightarrow>
             bindS (call_unit C_alloc) (\<lambda>a. case a of
               Inl _ \<Rightarrow> bindS (libnvc_v0_wrapper_device_info_free v0_free (Some \<lparr>wdev_v1 = info, wdev_v0 = p\<rparr>)) (\<lambda>_. ret None)
             | Inr _ \<Rightarrow> ret (Some \<lparr>wdev_v1 = \<lparr>gpus = map without_mig (gpus info)\<rparr>, wdev_v0 = p\<rparr>))))"

definition libnvc_v0_wrapper_device_mount :: "nvc_device \<Rightarrow> unit ioE" where
  "libnvc_v0_wrapper_device_mount dev = okay ()"

subsection \<open>What is bound\<close>

lemma unit_sum_exhaust: "\<forall>e. (x :: 'e + unit) \<noteq> Inl e \<Longrightarrow> x \<noteq> Inr () \<Longrightarrow> False"
  by (cases x) auto

lemma bind_members_True:
  assumes "bind_members fs st os tr = ((True, st'), es)"
  shows "libnvc_entry st' = (\<lambda>f. if f \<in> set fs then Some From_v0 else libnvc_entry st f)"
  using assms
proof (induction fs arbitrary: st tr es)
  case (Cons f fs)
  obtain r e1 where "call_unit (C_lib ''dlsym'' [] [''nvc_'' @ f]) os tr = (r, e1)" by fastforce
  with Cons.prems obtain es' tr' where
    "bind_members fs (st\<lparr>libnvc_entry := (libnvc_entry st)(f \<mapsto> From_v0)\<rparr>) os tr' = ((True, st'), es')"
    by (cases r) (auto simp: bindS_eq)
  from Cons.IH[OF this] show ?case by (auto simp: fun_eq_iff)
qed (simp add: fun_eq_iff)

lemma load_v0_True:
  assumes "load_libnvc_v0 st os tr = ((True, st'), es)"
  shows "libnvc_entry st' = (\<lambda>f. if f \<in> set wrapped_members then Some Wrapped
    else if f \<in> set v0_members then Some From_v0 else libnvc_entry st f)"
  using assms unfolding load_libnvc_v0_def
  by (auto simp: bindS_eq fun_eq_iff split: sum.splits if_splits dest: unit_sum_exhaust dest!: bind_members_True)

lemma queries_keep_table:
  "libnvc_entry (snd (fst (cli_is_tegra st os tr))) = libnvc_entry st"
  "libnvc_entry (snd (fst (nvml_available st os tr))) = libnvc_entry st"
  by (simp_all add: cli_is_tegra_def nvml_available_def fst_bindS Let_def split: option.split sum.split bool.split)

definition bound :: "libnvc \<Rightarrow> string set" where
  "bound st = {f. libnvc_entry st f \<noteq> None}"

lemma load_libnvc_run:
  assumes "load_libnvc libnvc_zero os tr = ((Inr True, st), es)"
  shows "bound st = set (if libnvc_entry st ''init'' = Some Linked then libnvc_members else v0_members)"
proof -
  obtain t st1 es1 where t: "cli_is_tegra libnvc_zero os tr = ((t, st1), es1)" by (metis surj_pair)
  with assms obtain b c st2 tr1 tr2 es2 es3 tr3 where
    1: "cli_is_tegra libnvc_zero os tr1 = ((Inr b, st1), es1)"
    and 2: "(if b then nvml_available st1 else ret (True, st1)) os tr2 = ((c, st2), es2)"
    and 3: "(if b \<and> \<not> c then load_libnvc_v0 st2 else load_libnvc_v1 st2) os tr3 = ((True, st), es3)"
    unfolding load_libnvc_def by (cases t) (auto simp: bindS_eq)
  have zero: "libnvc_entry st2 = (\<lambda>_. None)"
    using queries_keep_table(1)[of libnvc_zero os tr1] 1 2 queries_keep_table(2)[of st1 os tr2]
    by (auto simp: libnvc_zero_def split: if_splits)
  have sub: "set wrapped_members \<subseteq> set v0_members" "''init'' \<notin> set wrapped_members" "''init'' \<in> set libnvc_members"
    by (simp_all add: wrapped_members_def v0_members_def libnvc_members_def)
  show ?thesis
  proof (cases "b \<and> \<not> c")
    case True
    with 3 have "libnvc_entry st = (\<lambda>f. if f \<in> set wrapped_members then Some Wrapped
      else if f \<in> set v0_members then Some From_v0 else None)"
      using load_v0_True[of st2 os tr3 st es3] unfolding zero by simp
    with sub show ?thesis by (auto simp: bound_def split: if_splits)
  next
    case False
    with 3 zero sub show ?thesis by (auto simp: bound_def load_libnvc_v1_def split: if_splits)
  qed
qed

text \<open>When load_libnvc succeeds, the members of the table that are bound are all of them, or, when the functions come
  from the library of version 0, exactly the nineteen both versions have; no member that a command always uses is
  null.\<close>

theorem load_libnvc_binds:
  "case fst (load_libnvc libnvc_zero os tr) of
     (Inr True, st) \<Rightarrow> bound st = set (if libnvc_entry st ''init'' = Some Linked then libnvc_members else v0_members)
   | _ \<Rightarrow> True"
proof -
  obtain r st es where run: "load_libnvc libnvc_zero os tr = ((r, st), es)" by (metis surj_pair)
  show ?thesis
  proof (cases "r = Inr True")
    case True
    with run have "bound st = set (if libnvc_entry st ''init'' = Some Linked then libnvc_members else v0_members)"
      by (intro load_libnvc_run) simp
    with True run show ?thesis by (simp only: fst_conv prod.case sum.case bool.case)
  qed (auto simp: run split: sum.split bool.split)
qed

subsection \<open>The members that are not bound are not needed\<close>

definition mig_free :: "nvc_device_info \<Rightarrow> bool" where
  "mig_free dev \<longleftrightarrow> list_all (\<lambda>d. \<not> mig_capable d \<and> mig_devices d = []) (gpus dev)"

lemma wrapper_mig_free:
  assumes "libnvc_v0_wrapper_device_info_new v0_new v0_free os tr = (Some info, es)"
  shows "mig_free (wdev_v1 info)"
  using assms unfolding libnvc_v0_wrapper_device_info_new_def
  by (auto simp: bindS_eq mig_free_def list_all_iff without_mig_def split: option.splits sum.splits dest: unit_sum_exhaust)

lemma mig_free_none: "mig_free dev \<Longrightarrow> all_migs dev = []"
  unfolding mig_free_def list_all_iff all_migs_def by (simp add: concat_eq_Nil_conv)

lemma not_capable: "mig_free dev \<Longrightarrow> i < length (gpus dev) \<Longrightarrow> \<not> mig_capable (gpus dev ! i)"
  by (auto simp: mig_free_def list_all_iff)

lemma select_mig_free:
  assumes "mig_free dev" "select_devices oob s dev (fresh_devices dev) = Inr d"
  shows "devices_ok dev d"
proof -
  have "parents_ok dev" using mig_free_none[OF assms(1)] by (simp add: parents_ok_def)
  then show ?thesis
    using select_loop_outcome[OF fresh_devices_ok, of dev oob "Some s"] assms(2) by (auto simp: select_devices_def)
qed

lemma mig_caps_none:
  assumes "mig_free dev" "devices_ok dev ds" "mig_caps_loop what ts dev ds (fresh_devices dev) = Inr cs"
  shows "d_gpus cs = []"
  using assms(3)
proof (induction ts)
  case (Cons t ts)
  have m: "d_migs ds = []" and g: "\<And>i. i \<in> set (d_gpus ds) \<Longrightarrow> \<not> mig_capable (gpus dev ! i)"
    using assms(1,2) mig_free_none[OF assms(1)] not_capable[OF assms(1)] by (auto simp: devices_ok_def devices_base_def)
  from mig_caps_all_ok[OF assms(2) fresh_devices_ok, of what] m g
  have "\<exists>d. mig_caps_all what dev ds (fresh_devices dev) = Inr d \<and> d_gpus d = []"
    by (metis (no_types, lifting) Un_empty_left empty_Collect_eq empty_set fresh_devices_def list.set(1) set_empty devices.select_convs(2))
  with Cons show ?case by (auto simp: on_error_def split: if_splits sum.split_asm)
qed (auto simp: fresh_devices_def)

lemma new_devices_Inr: "new_devices dev os tr = (Inr d, es) \<Longrightarrow> d = fresh_devices dev"
  by (auto simp: new_devices_def fresh_devices_def bindE_Inr)

lemma v0_mig_unused_run:
  assumes "libnvc_v0_wrapper_device_info_new v0_new v0_free os0 tr0 = (Some info, es0)"
    and "visible_devices b cli (wdev_v1 info) os tr = (Inr (ds, cs, ms), es)"
  shows "d_migs ds = [] \<and> d_gpus cs = [] \<and> d_gpus ms = []"
proof -
  let ?dev = "wdev_v1 info"
  have free: "mig_free ?dev" by (rule wrapper_mig_free[OF assms(1)])
  have "devices_ok ?dev ds \<and>
    (cs = fresh_devices ?dev \<or> (\<exists>s. select_mig_config_devices s ?dev ds (fresh_devices ?dev) = Inr cs)) \<and>
    (ms = fresh_devices ?dev \<or> (\<exists>s. select_mig_monitor_devices s ?dev ds (fresh_devices ?dev) = Inr ms))"
    using assms(2) fresh_devices_ok[of ?dev] select_mig_free[OF free] unfolding visible_devices_def
    by (auto simp: bindE_Inr reported_Inr of_res_def dest!: new_devices_Inr split: option.split_asm if_splits)
  moreover from this have "d_migs ds = []"
    using mig_free_none[OF free] by (auto simp: devices_ok_def devices_base_def)
  ultimately show ?thesis
    using mig_caps_none[OF free, of ds] 
    by (auto simp: select_mig_config_devices_def select_mig_monitor_devices_def fresh_devices_def)
qed

text \<open>C38: With the wrapped library of version 0 no MIG device is ever selected, whatever the options and the old
  library say: the lists for MIG access, configuration and monitoring are empty, so the commands never reach the
  six functions that this library leaves null.\<close>

theorem v0_mig_unused:
  "case fst (libnvc_v0_wrapper_device_info_new v0_new v0_free os0 tr0) of
     None \<Rightarrow> True
   | Some info \<Rightarrow>
       (case fst (visible_devices b cli (wdev_v1 info) os tr) of
          Inl _ \<Rightarrow> True
        | Inr (ds, cs, ms) \<Rightarrow> d_migs ds = [] \<and> d_gpus cs = [] \<and> d_gpus ms = [])"
  using v0_mig_unused_run[of v0_new v0_free os0 tr0 _ _ b cli os tr]
  by (auto split: option.split sum.split) (metis prod.collapse)+

end
