(* ===== verification/Program.thy ===== *)
theory Program
  imports LibNvc
begin

text \<open>
  cli/main.c: the tables of options, the choice of the command and the entry of
  the program.  The library argp, which reads the command line, is a parameter: a
  function from the table of options and the command line to the callbacks it
  makes, in order.  It calls a parser with the keys of \<open>argp_key\<close>, hands over the
  arguments that are left, prints the version, or ends the process itself, for
  the help or a usage error.  The keys that no parser of the program knows and
  whose answer argp ignores are left out.
\<close>

subsection \<open>Tables\<close>

record argp_option =
  opt_name :: string
  opt_key :: nat
  opt_arg :: "string option"
  opt_optional :: bool

definition flag :: "string \<Rightarrow> nat \<Rightarrow> argp_option" where
  "flag name key = \<lparr>opt_name = name, opt_key = key, opt_arg = None, opt_optional = False\<rparr>"

definition with_arg :: "string \<Rightarrow> nat \<Rightarrow> string \<Rightarrow> argp_option" where
  "with_arg name key arg = \<lparr>opt_name = name, opt_key = key, opt_arg = Some arg, opt_optional = False\<rparr>"

text \<open>The entries that are headings or descriptions of commands are not options.\<close>

definition usage :: "argp_option list" where
  "usage =
     [with_arg ''debug'' (ord CHR ''d'') ''FILE'',
      flag ''load-kmods'' (ord CHR ''k''),
      flag ''no-pivot'' (ord CHR ''n''),
      (with_arg ''user'' (ord CHR ''u'') ''UID[:GID]'')\<lparr>opt_optional := True\<rparr>,
      with_arg ''root'' (ord CHR ''r'') ''PATH'',
      with_arg ''ldcache'' (ord CHR ''l'') ''FILE'']"

definition info_usage :: "argp_option list" where
  "info_usage = [flag ''csv'' 0x80]"

definition list_usage :: "argp_option list" where
  "list_usage =
     [with_arg ''device'' (ord CHR ''d'') ''ID'',
      flag ''libraries'' (ord CHR ''l''),
      flag ''binaries'' (ord CHR ''b''),
      flag ''ipcs'' (ord CHR ''i''),
      flag ''firmwares'' (ord CHR ''f''),
      flag ''compat32'' 0x80,
      with_arg ''mig-config'' 0x81 ''ID'',
      with_arg ''mig-monitor'' 0x82 ''ID'']"

definition configure_usage :: "argp_option list" where
  "configure_usage =
     [with_arg ''pid'' (ord CHR ''p'') ''PID'',
      with_arg ''device'' (ord CHR ''d'') ''ID'',
      with_arg ''require'' (ord CHR ''r'') ''EXPR'',
      with_arg ''ldconfig'' (ord CHR ''l'') ''PATH'',
      flag ''compute'' (ord CHR ''c''),
      flag ''utility'' (ord CHR ''u''),
      flag ''video'' (ord CHR ''v''),
      flag ''graphics'' (ord CHR ''g''),
      flag ''display'' (ord CHR ''D''),
      flag ''ngx'' (ord CHR ''n''),
      flag ''compat32'' 0x80,
      with_arg ''mig-config'' 0x81 ''ID'',
      with_arg ''mig-monitor'' 0x82 ''ID'',
      flag ''no-cgroups'' 0x83,
      flag ''no-devbind'' 0x84]"

datatype command = InfoCmd | ListCmd | ConfigureCmd

record command_entry =
  cmd_name :: string
  cmd_argp :: "argp_option list"
  cmd_func :: command

definition commands :: "command_entry list" where
  "commands =
     [\<lparr>cmd_name = ''info'', cmd_argp = info_usage, cmd_func = InfoCmd\<rparr>,
      \<lparr>cmd_name = ''list'', cmd_argp = list_usage, cmd_func = ListCmd\<rparr>,
      \<lparr>cmd_name = ''configure'', cmd_argp = configure_usage, cmd_func = ConfigureCmd\<rparr>]"

subsection \<open>argp\<close>

datatype argp_event =
    Callback argp_key "string option"
  | Args "string list"
  | Version
  | Quit nat

type_synonym argp = "argp_option list \<Rightarrow> string list \<Rightarrow> argp_event list"

text \<open>
  An option the parser does not know ends the process.  An argument it does not
  know is offered again, with those behind it, by the key ARGP_KEY_ARGS, and ends
  the process when that is not known either.  For the other keys the answer is
  ignored.  \<open>unknown\<close> is the state after the answer.
\<close>

definition unknown :: "argp_key \<Rightarrow> 's option \<Rightarrow> 's \<Rightarrow> 's ioE" where
  "unknown key r s =
     (case r of
        Some s' \<Rightarrow> okay s'
      | None \<Rightarrow> (case key of Opt _ \<Rightarrow> argp_usage | _ \<Rightarrow> okay s))"

definition the_arg :: "string option \<Rightarrow> string" where
  "the_arg arg = (case arg of None \<Rightarrow> [] | Some a \<Rightarrow> a)"

definition command_parser :: "command \<Rightarrow> nat \<Rightarrow> argp_key \<Rightarrow> string option \<Rightarrow> cli_context \<Rightarrow> cli_context option ioE" where
  "command_parser cmd argc key arg ctx =
     (case cmd of
        InfoCmd \<Rightarrow> okay (info_parser key ctx)
      | ListCmd \<Rightarrow> list_parser key (the_arg arg) argc ctx
      | ConfigureCmd \<Rightarrow> configure_parser key (the_arg arg) ctx)"

subsection \<open>The version\<close>

record build_info =
  NVC_VERSION :: string
  lib_version :: string
  BUILD_DATE :: string
  BUILD_REVISION :: string
  BUILD_COMPILER :: string
  BUILD_PLATFORM :: string
  BUILD_FLAGS :: string

definition print_version :: "build_info \<Rightarrow> unit ioE" where
  "print_version v =
     print_lines [''cli-version: '' @ NVC_VERSION v, ''lib-version: '' @ lib_version v, ''build date: '' @ BUILD_DATE v,
       ''build revision: '' @ BUILD_REVISION v, ''build compiler: '' @ BUILD_COMPILER v,
       ''build platform: '' @ BUILD_PLATFORM v, ''build flags: '' @ BUILD_FLAGS v]"

text \<open>The entry point of the library when it is run as a program.\<close>

definition nvc_entrypoint :: "build_info \<Rightarrow> unit ioE" where
  "nvc_entrypoint v =
     bindE (print_lines [''version: '' @ NVC_VERSION v, ''build date: '' @ BUILD_DATE v,
       ''build revision: '' @ BUILD_REVISION v, ''build compiler: '' @ BUILD_COMPILER v,
       ''build platform: '' @ BUILD_PLATFORM v, ''build flags: '' @ BUILD_FLAGS v]) (\<lambda>_. raise (exited 0))"

subsection \<open>The command line\<close>

text \<open>The callbacks of a command, whose parsers do not know ARGP_KEY_ARGS; the version hook and the exits are argp's.\<close>

fun parse_command :: "build_info \<Rightarrow> command \<Rightarrow> nat \<Rightarrow> argp_event list \<Rightarrow> cli_context \<Rightarrow> cli_context ioE" where
  "parse_command v cmd argc [] ctx = okay ctx"
| "parse_command v cmd argc (Callback key arg # evs) ctx =
     bindE (command_parser cmd argc key arg ctx) (\<lambda>r.
     bindE (unknown key r ctx) (\<lambda>ctx. parse_command v cmd argc evs ctx))"
| "parse_command v cmd argc (Args _ # evs) ctx = argp_usage"
| "parse_command v cmd argc (Version # evs) ctx = bindE (print_version v) (\<lambda>_. raise (exited 0))"
| "parse_command v cmd argc (Quit n # evs) ctx = raise (exited n)"

definition lookup_command :: "argp \<Rightarrow> build_info \<Rightarrow> string list \<Rightarrow> cli_context \<Rightarrow> (cli_context \<times> command) ioE" where
  "lookup_command argp v argv ctx =
     (case argv of
        [] \<Rightarrow> raise null_deref
      | name # _ \<Rightarrow>
          (case find (\<lambda>c. str_equal name (cmd_name c)) commands of
             Some c \<Rightarrow>
               bindE (parse_command v (cmd_func c) (length argv) (argp (cmd_argp c) argv) ctx) (\<lambda>ctx. okay (ctx, cmd_func c))
           | None \<Rightarrow> argp_usage))"

text \<open>The parser of the program, with the command it has found.\<close>

definition is_end :: "argp_key \<Rightarrow> bool" where
  "is_end key = (case key of KEY_END _ \<Rightarrow> True | _ \<Rightarrow> False)"

fun parse_main ::
  "argp \<Rightarrow> build_info \<Rightarrow> argp_event list \<Rightarrow> cli_context \<times> command option \<Rightarrow> (cli_context \<times> command option) ioE" where
  "parse_main argp v [] s = okay s"
| "parse_main argp v (Callback key arg # evs) (ctx, cmd) =
     (if is_end key then (if cmd = None then argp_usage else parse_main argp v evs (ctx, cmd))
      else
      bindE (parser key arg ctx) (\<lambda>r.
      bindE (unknown key r ctx) (\<lambda>ctx. parse_main argp v evs (ctx, cmd))))"
| "parse_main argp v (Args argv # evs) (ctx, cmd) =
     bindE (lookup_command argp v argv ctx) (\<lambda>(ctx, c). parse_main argp v evs (ctx, Some c))"
| "parse_main argp v (Version # evs) s = bindE (print_version v) (\<lambda>_. raise (exited 0))"
| "parse_main argp v (Quit n # evs) s = raise (exited n)"

subsection \<open>The program\<close>

definition cli_context_zero :: cli_context where
  "cli_context_zero = \<lparr>cli_uid = -1, cli_gid = -1, cli_root = None, cli_ldcache = None, cli_load_kmods = False,
     cli_no_pivot = False, cli_init_flags = None, csv_output = False, cli_pid = 0, cli_rootfs = None, cli_reqs = [],
     cli_ldconfig = None, cli_container_flags = None, cli_compat32 = False, list_bins = False, list_libs = False,
     list_ipcs = False, list_firmwares = False, cli_devices = None, cli_mig_config = None, cli_mig_monitor = None, cli_debug = None\<rparr>"

text \<open>
  A command runs on the functions the table is bound to: those of the library of
  version 0 are a parameter.  The result is that of the process: the status of
  the command, or how it ended before.
\<close>

definition run_command ::
  "build \<Rightarrow> (command \<Rightarrow> cli_context \<Rightarrow> unit ioE) \<Rightarrow> libnvc \<Rightarrow> command \<Rightarrow> cli_context \<Rightarrow> unit ioE" where
  "run_command b v0 st cmd ctx =
     (if libnvc_entry st ''init'' \<noteq> Some Linked then v0 cmd ctx
      else
      let lib = library_start\<lparr>lib_debug := cli_debug ctx\<rparr> in
      bindS (case cmd of
          InfoCmd \<Rightarrow> info_command b ctx lib
        | ListCmd \<Rightarrow> list_command b ctx lib
        | ConfigureCmd \<Rightarrow> configure_command b ctx lib) (\<lambda>(r, _). ret r))"

text \<open>\<open>debug\<close> is NVC_DEBUG_FILE as the process finds it.\<close>

definition command_line :: "argp \<Rightarrow> build_info \<Rightarrow> path option \<Rightarrow> string list \<Rightarrow> (cli_context \<times> command option) ioE" where
  "command_line argp v debug argv = parse_main argp v (argp usage argv) (cli_context_zero\<lparr>cli_debug := debug\<rparr>, None)"

definition main ::
  "argp \<Rightarrow> build_info \<Rightarrow> path option \<Rightarrow> build \<Rightarrow> (command \<Rightarrow> cli_context \<Rightarrow> unit ioE) \<Rightarrow> string list \<Rightarrow> unit ioE" where
  "main argp v debug b v0 argv =
     bindS (load_libnvc libnvc_zero) (\<lambda>(r, st). case r of
       Inl e \<Rightarrow> raise e
     | Inr False \<Rightarrow> raise (exited 255)
     | Inr True \<Rightarrow>
         bindE (command_line argp v debug argv) (\<lambda>(ctx, cmd).
         case cmd of None \<Rightarrow> raise null_deref | Some c \<Rightarrow> run_command b v0 st c ctx))"

subsection \<open>Every option is known\<close>

definition known :: "(argp_key \<Rightarrow> string option \<Rightarrow> cli_context \<Rightarrow> cli_context option ioE) \<Rightarrow> argp_option \<Rightarrow> bool" where
  "known p opt \<longleftrightarrow> (\<forall>arg ctx os tr. fst (p (Opt (opt_key opt)) arg ctx os tr) \<noteq> Inr None)"

lemma gives_known: "known p opt \<longleftrightarrow> (\<forall>arg ctx. gives (p (Opt (opt_key opt)) arg ctx) (\<lambda>r. r \<noteq> Inr None))"
  by (simp add: known_def gives_def)

lemma gives_fatal: "gives m Q \<Longrightarrow> (\<And>e. Q (Inl e)) \<Longrightarrow> gives (fatal m) Q"
  unfolding fatal_def by (rule gives_bindS, assumption) (auto intro!: gives_intros split: sum.split)

lemma gives_quiet: "(\<And>e. Q (Inl e)) \<Longrightarrow> (\<And>x. gives (f x) Q) \<Longrightarrow> gives (bindE m f) Q"
  by (rule gives_bindE[of _ _ "\<lambda>_. True"]) (auto intro!: gives_any split: sum.split)

lemma gives_failx: "(\<And>e. Q (Inl e)) \<Longrightarrow> gives (failx t) Q"
  unfolding failx_def by (rule gives_raise)

lemma gives_usage: "(\<And>e. Q (Inl e)) \<Longrightarrow> gives argp_usage Q"
  unfolding argp_usage_def by (intro gives_intros)

lemma gives_join: "(\<And>e. Q (Inl e)) \<Longrightarrow> (\<And>s. Q (Inr (Some (ctx\<lparr>cli_container_flags := Some s\<rparr>)))) \<Longrightarrow> gives (join_flag ctx f) Q"
  unfolding join_flag_def by (intro gives_fatal gives_quiet gives_okay)

lemmas parser_intros = gives_fatal gives_quiet gives_failx gives_usage gives_join gives_intros

text \<open>C34: Every option of the tables of the program and of its commands has a key of its own and is known to the parser of
  that table: none of them ends in the answer that the option is unknown.\<close>

theorem options_known:
  "distinct (map opt_key usage) \<and> list_all (known parser) usage \<and>
   list_all (\<lambda>c. distinct (map opt_key (cmd_argp c)) \<and> list_all (known (command_parser (cmd_func c) argc)) (cmd_argp c)) commands"
proof -
  have "distinct (map opt_key usage)" "distinct (map opt_key info_usage)" "distinct (map opt_key list_usage)"
      "distinct (map opt_key configure_usage)"
    by (simp_all add: usage_def info_usage_def list_usage_def configure_usage_def flag_def with_arg_def ord_def)
  moreover have "list_all (known parser) usage"
    by (simp add: usage_def flag_def with_arg_def gives_known parser_def ord_def) (intro conjI allI impI parser_intros; simp)
  moreover have "list_all (known (command_parser InfoCmd argc)) info_usage"
    by (simp add: info_usage_def flag_def gives_known command_parser_def info_parser_def) (intro allI gives_okay; simp)
  moreover have "list_all (known (command_parser ListCmd argc)) list_usage"
    by (simp add: list_usage_def flag_def with_arg_def gives_known command_parser_def list_parser_def ord_def)
       (intro conjI allI impI parser_intros; simp)
  moreover have "list_all (known (command_parser ConfigureCmd argc)) configure_usage"
    by (simp add: configure_usage_def flag_def with_arg_def gives_known command_parser_def configure_parser_def ord_def)
       (intro conjI allI impI parser_intros; simp)
  ultimately show ?thesis by (simp add: commands_def)
qed

subsection \<open>The requirements of the command line\<close>

text \<open>The arguments of the option require among the callbacks of a command, and on the whole command line.\<close>

fun required :: "argp_event list \<Rightarrow> string list" where
  "required [] = []"
| "required (Callback key arg # evs) = (if key = Opt (ord CHR ''r'') then the_arg arg # required evs else required evs)"
| "required (_ # evs) = required evs"

fun line_requirements :: "argp \<Rightarrow> argp_event list \<Rightarrow> string list" where
  "line_requirements argp [] = []"
| "line_requirements argp (Args argv # evs) =
     (if argv \<noteq> [] \<and> hd argv = ''configure'' then required (argp configure_usage argv) else []) @ line_requirements argp evs"
| "line_requirements argp (_ # evs) = line_requirements argp evs"

definition parsed :: "(cli_context \<Rightarrow> bool) \<Rightarrow> cli_context option res \<Rightarrow> bool" where
  "parsed P r = (case r of Inr (Some c) \<Rightarrow> P c | _ \<Rightarrow> True)"

lemma parsed_simps [simp]: "parsed P (Inl e)" "parsed P (Inr None)" "parsed P (Inr (Some c)) = P c"
  by (simp_all add: parsed_def)

lemma configure_parser_reqs:
  "gives (configure_parser key arg ctx)
     (parsed (\<lambda>c. cli_reqs c = cli_reqs ctx @ (if key = Opt (ord CHR ''r'') then [arg] else [])))"
  unfolding configure_parser_def
  by (cases key) (simp only: argp_key.case, intro parser_intros; simp add: ord_def)+

lemma list_parser_reqs: "gives (list_parser key arg argc ctx) (parsed (\<lambda>c. cli_reqs c = cli_reqs ctx))"
  unfolding list_parser_def
  by (cases key) (simp only: argp_key.case, intro parser_intros; simp)+

lemma main_parser_reqs: "gives (parser key arg ctx) (parsed (\<lambda>c. cli_reqs c = cli_reqs ctx))"
  unfolding parser_def
  by (cases key) (simp only: argp_key.case, intro parser_intros; simp)+

lemma info_parser_reqs: "parsed (\<lambda>c. cli_reqs c = cli_reqs ctx) (Inr (info_parser key ctx))"
  by (simp add: info_parser_def)

lemma command_parser_reqs:
  "gives (command_parser cmd argc key arg ctx)
     (parsed (\<lambda>c. cli_reqs c = cli_reqs ctx @ (if cmd = ConfigureCmd \<and> key = Opt (ord CHR ''r'') then [the_arg arg] else [])))"
  using configure_parser_reqs[of key "the_arg arg" ctx] list_parser_reqs[of key "the_arg arg" argc ctx]
  by (cases cmd) (auto simp: command_parser_def intro!: gives_okay info_parser_reqs)

lemma configure_known_require: "known (command_parser ConfigureCmd argc) (with_arg ''require'' (ord CHR ''r'') ''EXPR'')"
  by (simp add: with_arg_def gives_known command_parser_def configure_parser_def ord_def)
     (intro conjI allI impI parser_intros; simp)

text \<open>One callback, with the answer to what the parser does not know.\<close>

lemma callback_reqs:
  assumes "command_parser cmd argc key arg ctx os tr = (Inr r, es)" "unknown key r ctx os tr' = (Inr c, es')"
  shows "cli_reqs c = cli_reqs ctx @ (if cmd = ConfigureCmd \<and> key = Opt (ord CHR ''r'') then [the_arg arg] else [])"
proof (cases r)
  case None
  with assms(2) have "c = ctx" "key \<noteq> Opt (ord CHR ''r'')"
    by (auto simp: unknown_def argp_usage_def bindS_eq split: argp_key.splits)
  then show ?thesis by simp
next
  case (Some c')
  with assms(2) have "c = c'" by (simp add: unknown_def)
  with Some givesD[OF command_parser_reqs assms(1)] show ?thesis by simp
qed

lemma parse_command_reqs:
  "parse_command v cmd argc evs ctx os tr = (Inr c, es) \<Longrightarrow>
     cli_reqs c = cli_reqs ctx @ (if cmd = ConfigureCmd then required evs else [])"
proof (induction v cmd argc evs ctx arbitrary: tr es rule: parse_command.induct)
  case (2 v cmd argc key arg evs ctx)
  then obtain r c' e1 e2 tr1 tr2 tr3 e3 where 1: "command_parser cmd argc key arg ctx os tr1 = (Inr r, e1)"
    "unknown key r ctx os tr2 = (Inr c', e2)" "parse_command v cmd argc evs c' os tr3 = (Inr c, e3)"
    by (auto simp: bindE_Inr)
  from "2.IH"[OF 1(3)] callback_reqs[OF 1(1,2)] show ?case by simp
qed (auto simp: bindE_Inr argp_usage_def bindS_eq)

lemma find_command:
  "find (\<lambda>c. str_equal name (cmd_name c)) commands = Some c \<Longrightarrow>
     (cmd_func c = ConfigureCmd \<longleftrightarrow> name = ''configure'') \<and> (name = ''configure'' \<longrightarrow> cmd_argp c = configure_usage)"
  by (auto simp: commands_def str_equal_def split: if_splits)

lemma parse_main_reqs:
  "parse_main argp v evs (ctx, cmd) os tr = (Inr (c, cmd'), es) \<Longrightarrow>
     cli_reqs c = cli_reqs ctx @ line_requirements argp evs"
proof (induction argp v evs "(ctx, cmd)" arbitrary: ctx cmd tr es rule: parse_main.induct)
  case (2 argp v key arg evs ctx cmd)
  show ?case
  proof (cases "is_end key")
    case True
    with 2 show ?thesis by (auto simp: argp_usage_def bindS_eq split: if_splits)
  next
    case False
    with 2(3) obtain r c' e1 e2 tr1 tr2 tr3 e3 where 1: "parser key arg ctx os tr1 = (Inr r, e1)"
      "unknown key r ctx os tr2 = (Inr c', e2)" "parse_main argp v evs (c', cmd) os tr3 = (Inr (c, cmd'), e3)"
      by (auto simp: bindE_Inr)
    have "cli_reqs c' = cli_reqs ctx"
    proof (cases r)
      case None
      with 1(2) show ?thesis by (auto simp: unknown_def argp_usage_def bindS_eq split: argp_key.splits)
    next
      case (Some c'')
      with 1(2) givesD[OF main_parser_reqs 1(1)] show ?thesis by (simp add: unknown_def)
    qed
    moreover from "2.hyps"(2)[OF False 1(3)] have "cli_reqs c = cli_reqs c' @ line_requirements argp evs" .
    ultimately show ?thesis by simp
  qed
next
  case (3 argp v argv evs ctx cmd)
  from 3(2) obtain c1 k e1 tr1 e2 where 1: "lookup_command argp v argv ctx os tr = (Inr (c1, k), e1)"
    "parse_main argp v evs (c1, Some k) os tr1 = (Inr (c, cmd'), e2)"
    by (auto simp: bindE_Inr)
  from 1(1) obtain name rest en tr2 e3 where 2: "argv = name # rest"
    "find (\<lambda>c. str_equal name (cmd_name c)) commands = Some en" "k = cmd_func en"
    "parse_command v (cmd_func en) (length argv) (argp (cmd_argp en) argv) ctx os tr2 = (Inr c1, e3)"
    by (auto simp: lookup_command_def argp_usage_def bindS_eq bindE_Inr split: list.splits option.splits)
  from parse_command_reqs[OF 2(4)] find_command[OF 2(2)] 2(1)
  have "cli_reqs c1 = cli_reqs ctx @ (if argv \<noteq> [] \<and> hd argv = ''configure'' then required (argp configure_usage argv) else [])"
    by auto
  with "3.hyps"[OF 1(2)] show ?case by simp
qed (auto simp: bindE_Inr)

text \<open>argp ends a command line with the key ARGP_KEY_END; from then on there is a command.\<close>

lemma parse_main_command:
  assumes "parse_main argp v evs (ctx, cmd) os tr = (Inr (c, cmd'), es)" "Callback (KEY_END n) a \<in> set evs \<or> cmd \<noteq> None"
  shows "cmd' \<noteq> None"
  using assms
proof (induction argp v evs "(ctx, cmd)" arbitrary: ctx cmd tr es rule: parse_main.induct)
  case (2 argp v key arg evs ctx cmd)
  show ?case
  proof (cases "is_end key")
    case True
    with "2.prems"(1) have "cmd \<noteq> None" "parse_main argp v evs (ctx, cmd) os tr = (Inr (c, cmd'), es)"
      by (auto simp: argp_usage_def bindS_eq split: if_splits)
    with "2.hyps"(1)[OF True] show ?thesis by blast
  next
    case False
    with "2.prems"(1) obtain c' tr1 e1 where "parse_main argp v evs (c', cmd) os tr1 = (Inr (c, cmd'), e1)"
      by (auto simp: bindE_Inr)
    moreover have "Callback (KEY_END n) a \<in> set evs \<or> cmd \<noteq> None" using "2.prems"(2) False by (auto simp: is_end_def)
    ultimately show ?thesis using "2.hyps"(2)[OF False] by blast
  qed
qed (auto simp: bindE_Inr)

lemma main_has_command:
  assumes "Callback (KEY_END n) a \<in> set (argp usage argv)"
  shows "gives (command_line argp v debug argv) (\<lambda>r. case r of Inr (_, None) \<Rightarrow> False | _ \<Rightarrow> True)"
  unfolding gives_def
proof (intro allI)
  fix os tr
  obtain r es where run: "command_line argp v debug argv os tr = (r, es)" by fastforce
  show "case fst (command_line argp v debug argv os tr) of Inr (_, None) \<Rightarrow> False | _ \<Rightarrow> True"
  proof (cases "\<exists>c. r = Inr (c, None)")
    case True
    then obtain c where "parse_main argp v (argp usage argv) (cli_context_zero\<lparr>cli_debug := debug\<rparr>, None) os tr = (Inr (c, None), es)"
      using run unfolding command_line_def by blast
    from parse_main_command[OF this] assms show ?thesis by blast
  next
    case False
    with run show ?thesis by (simp split: sum.split prod.split option.split)
  qed
qed

subsection \<open>What a run of the program touches\<close>

lemma outside_fatal: "emits outside m \<Longrightarrow> emits outside (fatal m)"
  unfolding fatal_def warnx_def by (intro emits_intros) simp_all

lemma outside_usage: "emits outside argp_usage"
  unfolding argp_usage_def warnx_def by (intro emits_intros) simp_all

lemma outside_strings: "emits outside (str_join s t j)" "emits outside (str_to_pid a)" "emits outside (str_to_ugid a)"
  "emits outside (xstrdup t)"
proof -
  have "emits outside (str_to_gid a b c)" for a b c
    unfolding str_to_gid_def by (intro emits_intros) simp_all
  then show "emits outside (str_to_ugid a)"
    unfolding str_to_ugid_def by (intro emits_intros) simp_all
  show "emits outside (str_to_pid a)" "emits outside (xstrdup t)"
    unfolding str_to_pid_def xstrdup_def by (intro emits_intros; simp)+
qed (rule outside_intros)

lemma outside_join_flag: "emits outside (join_flag ctx f)"
  unfolding join_flag_def by (intro emits_intros outside_fatal outside_strings)

lemmas outside_parsers = outside_fatal outside_usage outside_strings outside_join_flag

lemma outside_command_parser: "emits outside (command_parser cmd argc key arg ctx)"
proof -
  have "emits outside (configure_parser key a ctx)" for a
    unfolding configure_parser_def by (cases key) (simp only: argp_key.case, intro emits_intros outside_parsers; simp)+
  moreover have "emits outside (list_parser key a argc ctx)" for a
    unfolding list_parser_def by (cases key) (simp only: argp_key.case, intro emits_intros outside_parsers; simp)+
  ultimately show ?thesis by (cases cmd) (simp_all add: command_parser_def emits_okay)
qed

lemma outside_parser: "emits outside (parser key arg ctx)"
  unfolding parser_def by (cases key) (simp only: argp_key.case, intro emits_intros outside_parsers; simp)+

lemma outside_print_lines: "emits outside (print_lines ls)"
  by (induction ls) (auto intro!: emits_intros)

lemma outside_unknown: "emits outside (unknown key r s)"
  unfolding unknown_def by (cases key) (auto intro!: emits_intros outside_usage split: option.split)

lemma outside_parse_command: "emits outside (parse_command v cmd argc evs ctx)"
  by (induction v cmd argc evs ctx rule: parse_command.induct)
     (auto simp: print_version_def simp del: print_lines.simps
        intro!: emits_intros outside_usage outside_command_parser outside_unknown outside_print_lines)

lemma outside_lookup_command: "emits outside (lookup_command argp v argv ctx)"
  unfolding lookup_command_def by (intro emits_intros outside_usage outside_parse_command)

lemma outside_parse_main: "emits outside (parse_main argp v evs s)"
  by (induction argp v evs s rule: parse_main.induct)
     (auto simp: print_version_def simp del: print_lines.simps
        intro!: emits_intros outside_parser outside_unknown outside_usage outside_lookup_command outside_print_lines)

lemma outside_load: "emits outside (load_libnvc st)"
proof -
  have b: "emits outside (bind_members fs st)" for fs st
    by (induction fs st rule: bind_members.induct) (auto simp: warn_dl_def warnx_def intro!: emits_intros split: sum.splits)
  have v0: "emits outside (load_libnvc_v0 st)" for st
    unfolding load_libnvc_v0_def warn_dl_def warnx_def by (intro emits_intros b) simp_all
  have tegra: "emits outside (cli_is_tegra st)" for st
    unfolding cli_is_tegra_def
    by (auto intro!: emits_intros outside_intros simp: Let_def split: bool.split option.split)
  show ?thesis
    unfolding load_libnvc_def load_libnvc_v1_def nvml_available_def
    by (intro emits_intros tegra v0) simp_all
qed

lemma outside_run_library:
  "(\<And>l nvc cc. emits outside (body l nvc cc)) \<Longrightarrow> emits outside (run_library b root cont cli body lib)"
  unfolding run_library_def by (intro emits_intros outside_intros)

lemma outside_as_root: "(\<And>root. emits outside (f root lib)) \<Longrightarrow> emits outside (as_root f lib)"
  unfolding as_root_def by (intro emits_intros outside_intros) simp_all

lemma outside_info: "emits outside (info_command b cli lib)"
  unfolding info_command_def info_body_def
  by (intro outside_as_root outside_run_library emits_intros outside_intros outside_print_lines)

lemma outside_list: "emits outside (list_command b cli lib)"
proof -
  have node: "emits outside (print_nvcaps_device_from_proc_file nvc d f)" for nvc d f
    unfolding print_nvcaps_device_from_proc_file_def nvc_nvcaps_device_from_proc_path_def
    by (intro emits_intros outside_intros outside_print_lines) simp_all
  have major: "emits outside chardev_major"
    unfolding chardev_major_def by (intro observes_outside observes_chardev_major)
  have style: "emits outside m \<Longrightarrow> emits outside (when_dev_style m)" for m
    unfolding when_dev_style_def nvc_nvcaps_style_def by (intro emits_intros outside_intros major) simp_all
  have minors: "emits outside (print_all_mig_minor_devices n)" for n
    unfolding print_all_mig_minor_devices_def by (intro emits_intros outside_print_lines) simp_all
  have each: "(\<And>x. emits outside (f x)) \<Longrightarrow> emits outside (for_each f xs)" for f :: "'b \<Rightarrow> unit ioE" and xs
    by (induction xs) (auto intro!: emits_intros)
  have caps: "emits outside (list_mig_caps nvc dev sel f)" for nvc dev sel f
    unfolding list_mig_caps_def by (intro emits_intros outside_print_lines style node minors each)
  show ?thesis
    unfolding list_command_def list_body_def list_devices_def list_mig_access_def
    by (intro outside_as_root outside_run_library emits_intros outside_intros outside_print_lines caps each style node)
qed

lemma guarded_run:
  assumes "cgroup_build b" "libnvc_entry st ''init'' = Some Linked"
  shows "if cmd = ConfigureCmd then guarded b ctx (run_command b v0 st cmd ctx) else emits outside (run_command b v0 st cmd ctx)"
proof (cases cmd)
  case ConfigureCmd
  then show ?thesis
    unfolding run_command_def using assms guarded_configure[OF assms(1)]
    by (auto intro!: guarded_then emits_intros)
qed (use assms in \<open>auto simp: run_command_def intro!: emits_intros outside_info outside_list\<close>)

lemma main_touches:
  assumes b: "cgroup_build b" and linked: "libnvc_entry (snd (fst (load_libnvc libnvc_zero os tr))) ''init'' = Some Linked"
    and run: "main argp v debug b v0 argv os tr = (r, es)" "\<not> list_all outside es"
  shows "\<exists>ctx. fst (command_line argp v debug argv os (tr @ snd (load_libnvc libnvc_zero os tr))) = Inr (ctx, Some ConfigureCmd) \<and>
    requirements_met b ctx os tr es"
proof -
  let ?k = "\<lambda>st. bindE (command_line argp v debug argv) (\<lambda>(ctx, cmd).
         case cmd of None \<Rightarrow> raise null_deref | Some c \<Rightarrow> run_command b v0 st c ctx)"
  obtain x es1 es2 where 1: "load_libnvc libnvc_zero os tr = (x, es1)" "es = es1 @ es2" "\<not> list_all outside es2"
    and x: "(case x of (r, st) \<Rightarrow> case r of Inl e \<Rightarrow> raise e | Inr False \<Rightarrow> raise (exited 255) | Inr True \<Rightarrow> ?k st)
      os (tr @ es1) = (r, es2)"
    using later_bindS[OF run(1)[unfolded main_def] outside_load run(2)] by blast
  obtain st where st: "x = (Inr True, st)"
    using x 1(3) by (auto split: prod.splits sum.splits bool.splits)
  have "?k st os (tr @ es1) = (r, es2)" using x st by simp
  from later_bindE[OF this _ 1(3)] outside_parse_main obtain ctx cmd es3 es4 where
    2: "command_line argp v debug argv os (tr @ es1) = (Inr (ctx, cmd), es3)" "es2 = es3 @ es4" "\<not> list_all outside es4"
    and c: "(case cmd of None \<Rightarrow> raise null_deref | Some c \<Rightarrow> run_command b v0 st c ctx) os ((tr @ es1) @ es3) = (r, es4)"
    unfolding command_line_def by fastforce
  obtain k where k: "cmd = Some k" using c 2(3) by (cases cmd) auto
  have entry: "libnvc_entry st ''init'' = Some Linked" using linked 1(1) st by simp
  have g: "k = ConfigureCmd" "guarded b ctx (run_command b v0 st k ctx)"
    using guarded_run[OF b entry, of k ctx v0] c k 2(3) emits_events[of outside "run_command b v0 st k ctx"]
    by (auto simp: list_all_iff split: if_splits)
  have out: "list_all outside es1" "list_all outside es3"
    using emits_events[OF outside_load 1(1)] emits_events[OF outside_parse_main 2(1)[unfolded command_line_def]]
    by (auto simp: list_all_iff)
  from g(2) c k 2(3) have "requirements_met b ctx os ((tr @ es1) @ es3) es4" unfolding guarded_def by auto
  from requirements_met_later[OF out(1) requirements_met_later[OF out(2) this]] 1 2 g(1) k show ?thesis by auto
qed


definition sample_argp :: argp where
  "sample_argp options argv =
     (if options = usage then [Callback (KEY_ARG 0 ''configure'') (Some ''configure''), Args [''configure'', ''--require=cuda>=8.0'', ''/rootfs''],
       Callback (KEY_END 1) None]
      else [Callback (Opt (ord CHR ''r'')) (Some ''cuda>=8.0''), Callback (KEY_ARG 0 ''/rootfs'') (Some ''/rootfs''),
            Callback (KEY_END 1) None, Callback KEY_SUCCESS None])"

definition sample_info :: build_info where
  "sample_info = \<lparr>NVC_VERSION = ''1.8.0'', lib_version = ''1.8.0'', BUILD_DATE = [], BUILD_REVISION = [], BUILD_COMPILER = [],
     BUILD_PLATFORM = [], BUILD_FLAGS = []\<rparr>"


end
