(* ===== verification/Xdr.thy ===== *)
theory Xdr
  imports Driver Cgroup
begin

text \<open>
  The external data representation of the remote calls, nvc_rpc.h and nvc_xdr.c
  (the interface nvc_rpc.x): the types of arguments and results and the procedure
  that encodes and decodes each.  A procedure of the source works in the direction
  of its stream; here it is the pair of both directions.  The procedures for the
  basic types belong to the RPC library and are the parameter \<open>x\<close>.
\<close>

subsection \<open>Procedures\<close>

text \<open>
  Encoding yields the bytes or fails; decoding yields the value and the bytes behind it.
  A string is a pointer, which may be null.
\<close>

record 'a xdrproc =
  xdr_put :: "'a \<Rightarrow> string option"
  xdr_get :: "string \<Rightarrow> ('a \<times> string) option"

type_synonym ptr_t = "64 word"

record xdr_lib =
  x_int :: "int32 xdrproc"
  x_u_int :: "uint32 xdrproc"
  x_int64 :: "64 word xdrproc"
  x_u_long :: "uint64 xdrproc"
  x_string :: "string option xdrproc"

definition xdr_void :: "unit xdrproc" where
  "xdr_void = \<lparr>xdr_put = (\<lambda>_. Some []), xdr_get = (\<lambda>s. Some ((), s))\<rparr>"

text \<open>Two members of a structure, one after the other.\<close>

definition xdr_then :: "'a xdrproc \<Rightarrow> 'b xdrproc \<Rightarrow> ('a \<times> 'b) xdrproc" where
  "xdr_then p q =
     \<lparr>xdr_put = (\<lambda>(a, b). case xdr_put p a of
        None \<Rightarrow> None | Some s \<Rightarrow> (case xdr_put q b of None \<Rightarrow> None | Some t \<Rightarrow> Some (s @ t))),
      xdr_get = (\<lambda>s. case xdr_get p s of
        None \<Rightarrow> None | Some (a, r) \<Rightarrow> (case xdr_get q r of None \<Rightarrow> None | Some (b, r') \<Rightarrow> Some ((a, b), r')))\<rparr>"

text \<open>
  A result: the error code 0 with the value, or another code with its message.
  A structure with the code 0 holds the value, so \<open>Failure 0\<close> stands for nothing.
\<close>

datatype 'a xdr_result = Success 'a | Failure int32 "string option"

definition xdr_union :: "xdr_lib \<Rightarrow> 'a xdrproc \<Rightarrow> 'a xdr_result xdrproc" where
  "xdr_union x p =
     \<lparr>xdr_put = (\<lambda>v. case v of
        Success a \<Rightarrow> xdr_put (xdr_then (x_int x) p) (0, a)
      | Failure errcode errmsg \<Rightarrow>
          if errcode = 0 then None else xdr_put (xdr_then (x_int x) (x_string x)) (errcode, errmsg)),
      xdr_get = (\<lambda>s. case xdr_get (x_int x) s of
        None \<Rightarrow> None
      | Some (errcode, r) \<Rightarrow>
          if errcode = 0 then map_option (\<lambda>(a, r'). (Success a, r')) (xdr_get p r)
          else map_option (\<lambda>(errmsg, r'). (Failure errcode errmsg, r')) (xdr_get (x_string x) r))\<rparr>"

subsection \<open>Results\<close>

type_synonym driver_cuda_version = "uint32 \<times> uint32"
type_synonym driver_device_arch = "uint32 \<times> uint32"
type_synonym driver_device_mig_mode = "int32 \<times> uint32 \<times> uint32"
type_synonym driver_init_res = "unit xdr_result"
type_synonym driver_shutdown_res = "unit xdr_result"
type_synonym driver_get_rm_version_res = "(string option) xdr_result"
type_synonym driver_get_cuda_version_res = "driver_cuda_version xdr_result"
type_synonym driver_get_device_count_res = "uint32 xdr_result"
type_synonym driver_get_device_res = "ptr_t xdr_result"
type_synonym driver_get_device_minor_res = "uint32 xdr_result"
type_synonym driver_get_device_busid_res = "(string option) xdr_result"
type_synonym driver_get_device_uuid_res = "(string option) xdr_result"
type_synonym driver_get_device_arch_res = "driver_device_arch xdr_result"
type_synonym driver_get_device_model_res = "(string option) xdr_result"
type_synonym driver_get_device_brand_res = "(string option) xdr_result"
type_synonym driver_get_device_mig_mode_res = "driver_device_mig_mode xdr_result"
type_synonym driver_get_device_max_mig_device_count_res = "uint32 xdr_result"
type_synonym driver_get_device_mig_device_res = "ptr_t xdr_result"
type_synonym driver_get_device_gpu_instance_id_res = "uint32 xdr_result"
type_synonym driver_get_device_compute_instance_id_res = "uint32 xdr_result"
type_synonym nvcgo_init_res = "unit xdr_result"
type_synonym nvcgo_shutdown_res = "unit xdr_result"
type_synonym nvcgo_get_device_cgroup_version_res = "uint32 xdr_result"
type_synonym nvcgo_find_device_cgroup_path_res = "(string option) xdr_result"
type_synonym nvcgo_setup_device_cgroup_res = "unit xdr_result"

definition xdr_ptr_t :: "xdr_lib \<Rightarrow> ptr_t xdrproc" where
  "xdr_ptr_t x = x_int64 x"

definition xdr_driver_cuda_version :: "xdr_lib \<Rightarrow> driver_cuda_version xdrproc" where
  "xdr_driver_cuda_version x = xdr_then (x_u_int x) (x_u_int x)"

definition xdr_driver_device_arch :: "xdr_lib \<Rightarrow> driver_device_arch xdrproc" where
  "xdr_driver_device_arch x = xdr_then (x_u_int x) (x_u_int x)"

definition xdr_driver_device_mig_mode :: "xdr_lib \<Rightarrow> driver_device_mig_mode xdrproc" where
  "xdr_driver_device_mig_mode x = xdr_then (x_int x) (xdr_then (x_u_int x) (x_u_int x))"

definition xdr_driver_init_res :: "xdr_lib \<Rightarrow> driver_init_res xdrproc" where
  "xdr_driver_init_res x = xdr_union x xdr_void"

definition xdr_driver_shutdown_res :: "xdr_lib \<Rightarrow> driver_shutdown_res xdrproc" where
  "xdr_driver_shutdown_res x = xdr_union x xdr_void"

definition xdr_driver_get_rm_version_res :: "xdr_lib \<Rightarrow> driver_get_rm_version_res xdrproc" where
  "xdr_driver_get_rm_version_res x = xdr_union x (x_string x)"

definition xdr_driver_get_cuda_version_res :: "xdr_lib \<Rightarrow> driver_get_cuda_version_res xdrproc" where
  "xdr_driver_get_cuda_version_res x = xdr_union x (xdr_driver_cuda_version x)"

definition xdr_driver_get_device_count_res :: "xdr_lib \<Rightarrow> driver_get_device_count_res xdrproc" where
  "xdr_driver_get_device_count_res x = xdr_union x (x_u_int x)"

definition xdr_driver_get_device_res :: "xdr_lib \<Rightarrow> driver_get_device_res xdrproc" where
  "xdr_driver_get_device_res x = xdr_union x (xdr_ptr_t x)"

definition xdr_driver_get_device_minor_res :: "xdr_lib \<Rightarrow> driver_get_device_minor_res xdrproc" where
  "xdr_driver_get_device_minor_res x = xdr_union x (x_u_int x)"

definition xdr_driver_get_device_busid_res :: "xdr_lib \<Rightarrow> driver_get_device_busid_res xdrproc" where
  "xdr_driver_get_device_busid_res x = xdr_union x (x_string x)"

definition xdr_driver_get_device_uuid_res :: "xdr_lib \<Rightarrow> driver_get_device_uuid_res xdrproc" where
  "xdr_driver_get_device_uuid_res x = xdr_union x (x_string x)"

definition xdr_driver_get_device_arch_res :: "xdr_lib \<Rightarrow> driver_get_device_arch_res xdrproc" where
  "xdr_driver_get_device_arch_res x = xdr_union x (xdr_driver_device_arch x)"

definition xdr_driver_get_device_model_res :: "xdr_lib \<Rightarrow> driver_get_device_model_res xdrproc" where
  "xdr_driver_get_device_model_res x = xdr_union x (x_string x)"

definition xdr_driver_get_device_brand_res :: "xdr_lib \<Rightarrow> driver_get_device_brand_res xdrproc" where
  "xdr_driver_get_device_brand_res x = xdr_union x (x_string x)"

definition xdr_driver_get_device_mig_mode_res :: "xdr_lib \<Rightarrow> driver_get_device_mig_mode_res xdrproc" where
  "xdr_driver_get_device_mig_mode_res x = xdr_union x (xdr_driver_device_mig_mode x)"

definition xdr_driver_get_device_max_mig_device_count_res :: "xdr_lib \<Rightarrow> driver_get_device_max_mig_device_count_res xdrproc" where
  "xdr_driver_get_device_max_mig_device_count_res x = xdr_union x (x_u_int x)"

definition xdr_driver_get_device_mig_device_res :: "xdr_lib \<Rightarrow> driver_get_device_mig_device_res xdrproc" where
  "xdr_driver_get_device_mig_device_res x = xdr_union x (xdr_ptr_t x)"

definition xdr_driver_get_device_gpu_instance_id_res :: "xdr_lib \<Rightarrow> driver_get_device_gpu_instance_id_res xdrproc" where
  "xdr_driver_get_device_gpu_instance_id_res x = xdr_union x (x_u_int x)"

definition xdr_driver_get_device_compute_instance_id_res :: "xdr_lib \<Rightarrow> driver_get_device_compute_instance_id_res xdrproc" where
  "xdr_driver_get_device_compute_instance_id_res x = xdr_union x (x_u_int x)"

definition xdr_nvcgo_init_res :: "xdr_lib \<Rightarrow> nvcgo_init_res xdrproc" where
  "xdr_nvcgo_init_res x = xdr_union x xdr_void"

definition xdr_nvcgo_shutdown_res :: "xdr_lib \<Rightarrow> nvcgo_shutdown_res xdrproc" where
  "xdr_nvcgo_shutdown_res x = xdr_union x xdr_void"

definition xdr_nvcgo_get_device_cgroup_version_res :: "xdr_lib \<Rightarrow> nvcgo_get_device_cgroup_version_res xdrproc" where
  "xdr_nvcgo_get_device_cgroup_version_res x = xdr_union x (x_u_int x)"

definition xdr_nvcgo_find_device_cgroup_path_res :: "xdr_lib \<Rightarrow> nvcgo_find_device_cgroup_path_res xdrproc" where
  "xdr_nvcgo_find_device_cgroup_path_res x = xdr_union x (x_string x)"

definition xdr_nvcgo_setup_device_cgroup_res :: "xdr_lib \<Rightarrow> nvcgo_setup_device_cgroup_res xdrproc" where
  "xdr_nvcgo_setup_device_cgroup_res x = xdr_union x xdr_void"

subsection \<open>Arguments\<close>

type_synonym driver_get_device_1_argument = "ptr_t \<times> uint32"
type_synonym driver_get_device_minor_1_argument = "ptr_t \<times> ptr_t"
type_synonym driver_get_device_busid_1_argument = "ptr_t \<times> ptr_t"
type_synonym driver_get_device_uuid_1_argument = "ptr_t \<times> ptr_t"
type_synonym driver_get_device_arch_1_argument = "ptr_t \<times> ptr_t"
type_synonym driver_get_device_model_1_argument = "ptr_t \<times> ptr_t"
type_synonym driver_get_device_brand_1_argument = "ptr_t \<times> ptr_t"
type_synonym driver_get_device_mig_mode_1_argument = "ptr_t \<times> ptr_t"
type_synonym driver_get_device_max_mig_device_count_1_argument = "ptr_t \<times> ptr_t"
type_synonym driver_get_device_mig_device_1_argument = "ptr_t \<times> ptr_t \<times> uint32"
type_synonym driver_get_device_gpu_instance_id_1_argument = "ptr_t \<times> ptr_t"
type_synonym driver_get_device_compute_instance_id_1_argument = "ptr_t \<times> ptr_t"
type_synonym nvcgo_get_device_cgroup_version_1_argument = "ptr_t \<times> string option \<times> int32"
type_synonym nvcgo_find_device_cgroup_path_1_argument = "ptr_t \<times> int32 \<times> string option \<times> int32 \<times> int32"
type_synonym nvcgo_setup_device_cgroup_1_argument = "ptr_t \<times> int32 \<times> string option \<times> uint64"

definition xdr_driver_get_device_1_argument :: "xdr_lib \<Rightarrow> driver_get_device_1_argument xdrproc" where
  "xdr_driver_get_device_1_argument x = xdr_then (xdr_ptr_t x) (x_u_int x)"

definition xdr_driver_get_device_minor_1_argument :: "xdr_lib \<Rightarrow> driver_get_device_minor_1_argument xdrproc" where
  "xdr_driver_get_device_minor_1_argument x = xdr_then (xdr_ptr_t x) (xdr_ptr_t x)"

definition xdr_driver_get_device_busid_1_argument :: "xdr_lib \<Rightarrow> driver_get_device_busid_1_argument xdrproc" where
  "xdr_driver_get_device_busid_1_argument x = xdr_then (xdr_ptr_t x) (xdr_ptr_t x)"

definition xdr_driver_get_device_uuid_1_argument :: "xdr_lib \<Rightarrow> driver_get_device_uuid_1_argument xdrproc" where
  "xdr_driver_get_device_uuid_1_argument x = xdr_then (xdr_ptr_t x) (xdr_ptr_t x)"

definition xdr_driver_get_device_arch_1_argument :: "xdr_lib \<Rightarrow> driver_get_device_arch_1_argument xdrproc" where
  "xdr_driver_get_device_arch_1_argument x = xdr_then (xdr_ptr_t x) (xdr_ptr_t x)"

definition xdr_driver_get_device_model_1_argument :: "xdr_lib \<Rightarrow> driver_get_device_model_1_argument xdrproc" where
  "xdr_driver_get_device_model_1_argument x = xdr_then (xdr_ptr_t x) (xdr_ptr_t x)"

definition xdr_driver_get_device_brand_1_argument :: "xdr_lib \<Rightarrow> driver_get_device_brand_1_argument xdrproc" where
  "xdr_driver_get_device_brand_1_argument x = xdr_then (xdr_ptr_t x) (xdr_ptr_t x)"

definition xdr_driver_get_device_mig_mode_1_argument :: "xdr_lib \<Rightarrow> driver_get_device_mig_mode_1_argument xdrproc" where
  "xdr_driver_get_device_mig_mode_1_argument x = xdr_then (xdr_ptr_t x) (xdr_ptr_t x)"

definition xdr_driver_get_device_max_mig_device_count_1_argument :: "xdr_lib \<Rightarrow> driver_get_device_max_mig_device_count_1_argument xdrproc" where
  "xdr_driver_get_device_max_mig_device_count_1_argument x = xdr_then (xdr_ptr_t x) (xdr_ptr_t x)"

definition xdr_driver_get_device_mig_device_1_argument :: "xdr_lib \<Rightarrow> driver_get_device_mig_device_1_argument xdrproc" where
  "xdr_driver_get_device_mig_device_1_argument x = xdr_then (xdr_ptr_t x) (xdr_then (xdr_ptr_t x) (x_u_int x))"

definition xdr_driver_get_device_gpu_instance_id_1_argument :: "xdr_lib \<Rightarrow> driver_get_device_gpu_instance_id_1_argument xdrproc" where
  "xdr_driver_get_device_gpu_instance_id_1_argument x = xdr_then (xdr_ptr_t x) (xdr_ptr_t x)"

definition xdr_driver_get_device_compute_instance_id_1_argument :: "xdr_lib \<Rightarrow> driver_get_device_compute_instance_id_1_argument xdrproc" where
  "xdr_driver_get_device_compute_instance_id_1_argument x = xdr_then (xdr_ptr_t x) (xdr_ptr_t x)"

definition xdr_nvcgo_get_device_cgroup_version_1_argument :: "xdr_lib \<Rightarrow> nvcgo_get_device_cgroup_version_1_argument xdrproc" where
  "xdr_nvcgo_get_device_cgroup_version_1_argument x = xdr_then (xdr_ptr_t x) (xdr_then (x_string x) (x_int x))"

definition xdr_nvcgo_find_device_cgroup_path_1_argument :: "xdr_lib \<Rightarrow> nvcgo_find_device_cgroup_path_1_argument xdrproc" where
  "xdr_nvcgo_find_device_cgroup_path_1_argument x = xdr_then (xdr_ptr_t x) (xdr_then (x_int x) (xdr_then (x_string x) (xdr_then (x_int x) (x_int x))))"

definition xdr_nvcgo_setup_device_cgroup_1_argument :: "xdr_lib \<Rightarrow> nvcgo_setup_device_cgroup_1_argument xdrproc" where
  "xdr_nvcgo_setup_device_cgroup_1_argument x = xdr_then (xdr_ptr_t x) (xdr_then (x_int x) (xdr_then (x_string x) (x_u_long x)))"

subsection \<open>Faithful procedures\<close>

text \<open>What is encoded, with anything behind it, decodes to the same value and leaves what is behind it.\<close>

definition faithful_on :: "('a \<Rightarrow> bool) \<Rightarrow> 'a xdrproc \<Rightarrow> bool" where
  "faithful_on P p \<longleftrightarrow> (\<forall>v s r. P v \<longrightarrow> xdr_put p v = Some s \<longrightarrow> xdr_get p (s @ r) = Some (v, r))"

abbreviation faithful :: "'a xdrproc \<Rightarrow> bool" where
  "faithful \<equiv> faithful_on (\<lambda>_. True)"

named_theorems faithful_intros

lemma faithful_void [faithful_intros]: "faithful xdr_void"
  by (simp add: faithful_on_def xdr_void_def)

lemma faithful_then_on:
  assumes "faithful_on P p" "faithful_on Q q"
  shows "faithful_on (\<lambda>(a, b). P a \<and> Q b) (xdr_then p q)"
  using assms by (fastforce simp: faithful_on_def xdr_then_def split: option.splits)

lemma faithful_then [faithful_intros]: "faithful p \<Longrightarrow> faithful q \<Longrightarrow> faithful (xdr_then p q)"
  using faithful_then_on[of "\<lambda>_. True" p "\<lambda>_. True" q] by (simp add: faithful_on_def)

lemma faithful_union [faithful_intros]:
  assumes "faithful (x_int x)" "faithful (x_string x)" "faithful p"
  shows "faithful (xdr_union x p)"
  using assms
  by (fastforce simp: faithful_on_def xdr_union_def xdr_then_def split: option.splits xdr_result.splits if_splits)

lemmas xdr_result_procs =
  xdr_driver_init_res_def xdr_driver_shutdown_res_def xdr_driver_get_rm_version_res_def
  xdr_driver_get_cuda_version_res_def xdr_driver_get_device_count_res_def xdr_driver_get_device_res_def
  xdr_driver_get_device_minor_res_def xdr_driver_get_device_busid_res_def xdr_driver_get_device_uuid_res_def
  xdr_driver_get_device_arch_res_def xdr_driver_get_device_model_res_def xdr_driver_get_device_brand_res_def
  xdr_driver_get_device_mig_mode_res_def xdr_driver_get_device_max_mig_device_count_res_def
  xdr_driver_get_device_mig_device_res_def xdr_driver_get_device_gpu_instance_id_res_def
  xdr_driver_get_device_compute_instance_id_res_def xdr_nvcgo_init_res_def xdr_nvcgo_shutdown_res_def
  xdr_nvcgo_get_device_cgroup_version_res_def xdr_nvcgo_find_device_cgroup_path_res_def
  xdr_nvcgo_setup_device_cgroup_res_def

lemmas xdr_argument_procs =
  xdr_driver_get_device_1_argument_def xdr_driver_get_device_minor_1_argument_def
  xdr_driver_get_device_busid_1_argument_def xdr_driver_get_device_uuid_1_argument_def
  xdr_driver_get_device_arch_1_argument_def xdr_driver_get_device_model_1_argument_def
  xdr_driver_get_device_brand_1_argument_def xdr_driver_get_device_mig_mode_1_argument_def
  xdr_driver_get_device_max_mig_device_count_1_argument_def xdr_driver_get_device_mig_device_1_argument_def
  xdr_driver_get_device_gpu_instance_id_1_argument_def
  xdr_driver_get_device_compute_instance_id_1_argument_def xdr_nvcgo_get_device_cgroup_version_1_argument_def
  xdr_nvcgo_find_device_cgroup_path_1_argument_def xdr_nvcgo_setup_device_cgroup_1_argument_def


text \<open>
  The contract of the RPC library: numbers are always encoded, and what is
  encoded is decoded.  An unsigned long travels in 32 bits, so this is asked of
  the smaller values only.
\<close>

definition encodes :: "'a xdrproc \<Rightarrow> bool" where
  "encodes p \<longleftrightarrow> (\<forall>v. xdr_put p v \<noteq> None)"

locale rpc_library =
  fixes x :: xdr_lib
  assumes int_faithful [faithful_intros]: "faithful (x_int x)" and int_encodes: "encodes (x_int x)"
    and u_int_faithful [faithful_intros]: "faithful (x_u_int x)" and u_int_encodes: "encodes (x_u_int x)"
    and int64_faithful [faithful_intros]: "faithful (x_int64 x)" and int64_encodes: "encodes (x_int64 x)"
    and u_long_faithful: "faithful_on (\<lambda>v. v < 2 ^ 32) (x_u_long x)"
    and string_faithful [faithful_intros]: "faithful (x_string x)"
begin

lemma ptr_faithful [faithful_intros]: "faithful (xdr_ptr_t x)"
  unfolding xdr_ptr_t_def by (rule int64_faithful)

lemma structs_faithful [faithful_intros]:
  "faithful (xdr_driver_cuda_version x)" "faithful (xdr_driver_device_arch x)" "faithful (xdr_driver_device_mig_mode x)"
  unfolding xdr_driver_cuda_version_def xdr_driver_device_arch_def xdr_driver_device_mig_mode_def
  by (rule faithful_intros)+

lemma results_faithful [faithful_intros]:
  "faithful (xdr_driver_init_res x)"
  "faithful (xdr_driver_shutdown_res x)"
  "faithful (xdr_driver_get_rm_version_res x)"
  "faithful (xdr_driver_get_cuda_version_res x)"
  "faithful (xdr_driver_get_device_count_res x)"
  "faithful (xdr_driver_get_device_res x)"
  "faithful (xdr_driver_get_device_minor_res x)"
  "faithful (xdr_driver_get_device_busid_res x)"
  "faithful (xdr_driver_get_device_uuid_res x)"
  "faithful (xdr_driver_get_device_arch_res x)"
  "faithful (xdr_driver_get_device_model_res x)"
  "faithful (xdr_driver_get_device_brand_res x)"
  "faithful (xdr_driver_get_device_mig_mode_res x)"
  "faithful (xdr_driver_get_device_max_mig_device_count_res x)"
  "faithful (xdr_driver_get_device_mig_device_res x)"
  "faithful (xdr_driver_get_device_gpu_instance_id_res x)"
  "faithful (xdr_driver_get_device_compute_instance_id_res x)"
  "faithful (xdr_nvcgo_init_res x)"
  "faithful (xdr_nvcgo_shutdown_res x)"
  "faithful (xdr_nvcgo_get_device_cgroup_version_res x)"
  "faithful (xdr_nvcgo_find_device_cgroup_path_res x)"
  "faithful (xdr_nvcgo_setup_device_cgroup_res x)"
  unfolding xdr_result_procs by (rule faithful_intros)+

lemma arguments_faithful [faithful_intros]:
  "faithful (xdr_driver_get_device_1_argument x)"
  "faithful (xdr_driver_get_device_minor_1_argument x)"
  "faithful (xdr_driver_get_device_busid_1_argument x)"
  "faithful (xdr_driver_get_device_uuid_1_argument x)"
  "faithful (xdr_driver_get_device_arch_1_argument x)"
  "faithful (xdr_driver_get_device_model_1_argument x)"
  "faithful (xdr_driver_get_device_brand_1_argument x)"
  "faithful (xdr_driver_get_device_mig_mode_1_argument x)"
  "faithful (xdr_driver_get_device_max_mig_device_count_1_argument x)"
  "faithful (xdr_driver_get_device_mig_device_1_argument x)"
  "faithful (xdr_driver_get_device_gpu_instance_id_1_argument x)"
  "faithful (xdr_driver_get_device_compute_instance_id_1_argument x)"
  "faithful (xdr_nvcgo_get_device_cgroup_version_1_argument x)"
  "faithful (xdr_nvcgo_find_device_cgroup_path_1_argument x)"
  unfolding xdr_argument_procs by (rule faithful_intros)+

lemma setup_argument_faithful:
  "faithful_on (\<lambda>(c, vers, path, num). num < 2 ^ 32) (xdr_nvcgo_setup_device_cgroup_1_argument x)"
  using faithful_then_on[OF ptr_faithful faithful_then_on[OF int_faithful faithful_then_on[OF string_faithful u_long_faithful]]]
  by (simp add: xdr_nvcgo_setup_device_cgroup_1_argument_def)

lemma encodes_then: "encodes p \<Longrightarrow> encodes q \<Longrightarrow> encodes (xdr_then p q)"
  by (auto simp: encodes_def xdr_then_def simp del: not_None_eq split: option.split)

lemma ptr_encodes: "encodes (xdr_ptr_t x)"
  unfolding xdr_ptr_t_def by (rule int64_encodes)

lemma arguments_encode:
  "encodes (xdr_driver_get_device_1_argument x)"
  "encodes (xdr_driver_get_device_minor_1_argument x)"
  "encodes (xdr_driver_get_device_busid_1_argument x)"
  "encodes (xdr_driver_get_device_uuid_1_argument x)"
  "encodes (xdr_driver_get_device_arch_1_argument x)"
  "encodes (xdr_driver_get_device_model_1_argument x)"
  "encodes (xdr_driver_get_device_brand_1_argument x)"
  "encodes (xdr_driver_get_device_mig_mode_1_argument x)"
  "encodes (xdr_driver_get_device_max_mig_device_count_1_argument x)"
  "encodes (xdr_driver_get_device_mig_device_1_argument x)"
  "encodes (xdr_driver_get_device_gpu_instance_id_1_argument x)"
  "encodes (xdr_driver_get_device_compute_instance_id_1_argument x)"
  unfolding xdr_argument_procs by (rule ptr_encodes u_int_encodes encodes_then)+

end

subsection \<open>The standard representation\<close>

text \<open>
  RFC 4506, the representation the library implements: numbers with the most
  significant byte first, strings with their length before them.
\<close>

fun be :: "nat \<Rightarrow> nat \<Rightarrow> string" where
  "be 0 n = []"
| "be (Suc k) n = be k (n div 256) @ [char_of (n mod 256)]"

definition be_value :: "string \<Rightarrow> nat" where
  "be_value s = foldl (\<lambda>a c. 256 * a + of_char c) 0 s"

lemma length_be [simp]: "length (be k n) = k"
  by (induction k arbitrary: n) simp_all

lemma be_value_be: "be_value (be k n) = n mod 256 ^ k"
proof (induction k arbitrary: n)
  case (Suc k)
  have "be_value (be (Suc k) n) = 256 * (n div 256 mod 256 ^ k) + n mod 256"
    using Suc[of "n div 256"] by (simp add: be_value_def)
  also have "\<dots> = n mod 256 ^ Suc k"
    by (simp add: mod_mult2_eq)
  finally show ?case .
qed (simp add: be_value_def)

definition rfc_word :: "nat \<Rightarrow> 'a::len word xdrproc" where
  "rfc_word k =
     \<lparr>xdr_put = (\<lambda>w. if unat w < 256 ^ k then Some (be k (unat w)) else None),
      xdr_get = (\<lambda>s. if length s < k then None else Some (of_nat (be_value (take k s)), drop k s))\<rparr>"

lemma rfc_word_faithful: "faithful (rfc_word k)"
  by (auto simp: faithful_on_def rfc_word_def be_value_be split: if_splits)

lemma rfc_word_encodes: "LENGTH('a::len) \<le> 8 * k \<Longrightarrow> encodes (rfc_word k :: 'a word xdrproc)"
proof -
  assume le: "LENGTH('a) \<le> 8 * k"
  have "unat (w :: 'a word) < 256 ^ k" for w
  proof -
    have "unat w < 2 ^ LENGTH('a)" by (rule unsigned_less)
    also have "\<dots> \<le> 2 ^ (8 * k)" using le by simp
    also have "\<dots> = (256 ^ k :: nat)" by (simp add: power_mult)
    finally show ?thesis .
  qed
  then show ?thesis by (simp add: encodes_def rfc_word_def)
qed

text \<open>A string: its length, its bytes, and zero bytes up to a multiple of four.\<close>

definition padded :: "nat \<Rightarrow> nat" where "padded n = 4 * ((n + 3) div 4)"

definition rfc_string :: "string option xdrproc" where
  "rfc_string =
     \<lparr>xdr_put = (\<lambda>v. case v of
        None \<Rightarrow> None
      | Some s \<Rightarrow>
          if length s < 2 ^ 32
          then Some (be 4 (length s) @ s @ replicate (padded (length s) - length s) CHR 0x00) else None),
      xdr_get = (\<lambda>s. let n = be_value (take 4 s) in
        if length s < 4 + padded n then None else Some (Some (take n (drop 4 s)), drop (4 + padded n) s))\<rparr>"

lemma padded_le: "n \<le> padded n"
  by (simp add: padded_def)

lemma rfc_string_faithful: "faithful rfc_string"
  unfolding faithful_on_def
proof (intro allI impI)
  fix v s r assume "xdr_put rfc_string v = Some s"
  then obtain t where v: "v = Some t" and len: "length t < 2 ^ 32"
    and s: "s = be 4 (length t) @ t @ replicate (padded (length t) - length t) CHR 0x00"
    by (auto simp: rfc_string_def split: if_splits option.splits)
  have "be_value (take 4 (s @ r)) = length t"
    using len by (simp add: s be_value_be)
  then show "xdr_get rfc_string (s @ r) = Some (v, r)"
    using padded_le[of "length t"] by (simp add: rfc_string_def Let_def s v)
qed

definition rfc4506 :: xdr_lib where
  "rfc4506 = \<lparr>x_int = rfc_word 4, x_u_int = rfc_word 4, x_int64 = rfc_word 8, x_u_long = rfc_word 4, x_string = rfc_string\<rparr>"

lemma faithful_weaken: "faithful p \<Longrightarrow> faithful_on P p"
  by (simp add: faithful_on_def)

interpretation rfc: rpc_library rfc4506
  by unfold_locales
    (simp_all add: rfc4506_def rfc_word_faithful rfc_word_encodes rfc_string_faithful faithful_weaken[OF rfc_word_faithful])

end
