(* ===== verification/Stubs.thy ===== *)
theory Stubs
  imports Xdr
begin

text \<open>
  The two sides of a remote call, nvc_svc.c and nvc_clt.c: the dispatch routine
  of a service, which decodes the arguments, runs the handler and encodes its
  result, and the function a client calls.  What the client's transport does with
  a request is the parameter \<open>clnt\<close>; connected to the dispatch routine it makes a
  remote call the same as running the handler.
\<close>

subsection \<open>What a handler filled in\<close>

text \<open>
  A handler leaves a \<open>reply\<close>; these are the members of the result it stands for.
  The structure is cleared before it is filled in, so a string that is not is null.
\<close>

definition uint_of :: "int list \<times> string list \<Rightarrow> uint32" where
  "uint_of r = word_of_int (int_of r)"

definition ptr_of :: "int list \<times> string list \<Rightarrow> ptr_t" where
  "ptr_of r = word_of_int (int_of r)"

definition pair_of :: "int list \<times> string list \<Rightarrow> uint32 \<times> uint32" where
  "pair_of r = (uint_of r, case fst r of _ # i # _ \<Rightarrow> word_of_int i | _ \<Rightarrow> 0)"

definition mode_of :: "int list \<times> string list \<Rightarrow> driver_device_mig_mode" where
  "mode_of r = (uint_of r, case fst r of _ # i # j # _ \<Rightarrow> (word_of_int i, word_of_int j) | _ \<Rightarrow> (0, 0))"

definition text_in :: "int list \<times> string list \<Rightarrow> string option" where
  "text_in r = (case snd r of [] \<Rightarrow> None | s # _ \<Rightarrow> Some s)"

definition of_reply :: "(int list \<times> string list \<Rightarrow> 'a) \<Rightarrow> reply \<Rightarrow> 'a xdr_result" where
  "of_reply f r =
     (case r of
        Value is ss \<Rightarrow> Success (f (is, ss))
      | Fault code msg \<Rightarrow> if (word_of_int code :: int32) = 0 then Success (f ([], [])) else Failure (word_of_int code) (Some msg)
      | NoReply _ \<Rightarrow> Success (f ([], [])))"

definition fill :: "(int list \<times> string list \<Rightarrow> 'a) \<Rightarrow> reply io \<Rightarrow> 'a xdr_result io" where
  "fill f h = bindS h (\<lambda>r. ret (of_reply f r))"

subsection \<open>The service\<close>

text \<open>
  What the handlers of the driver service find in memory: the structure behind
  the pointer a request carries, the address of deviceHandles, and the variables
  of the MIG mode before they are set.
\<close>

record service_data =
  svc_at :: "ptr_t \<Rightarrow> driver"
  svc_table :: int
  svc_junk :: "int \<times> int"

definition text_of :: "string option \<Rightarrow> string" where
  "text_of s = (case s of None \<Rightarrow> [] | Some t \<Rightarrow> t)"

datatype svc_outcome = Answered string | ProcUnavail | GarbageArgs | SystemErr | Unanswered nat

text \<open>The functions whose names begin with an underscore: from the argument structure to the handler.\<close>

definition local_driver_init_1 :: "service_data \<Rightarrow> ptr_t \<Rightarrow> driver_init_res io" where
  "local_driver_init_1 sd = (\<lambda>arg1. fill (\<lambda>_. ()) (driver_init_1_svc (svc_at sd arg1)))"

definition local_driver_shutdown_1 :: "service_data \<Rightarrow> ptr_t \<Rightarrow> driver_shutdown_res io" where
  "local_driver_shutdown_1 sd = (\<lambda>arg1. fill (\<lambda>_. ()) (driver_shutdown_1_svc (svc_at sd arg1)))"

definition local_driver_get_rm_version_1 :: "service_data \<Rightarrow> ptr_t \<Rightarrow> driver_get_rm_version_res io" where
  "local_driver_get_rm_version_1 sd = (\<lambda>_. fill text_in driver_get_rm_version_1_svc)"

definition local_driver_get_cuda_version_1 :: "service_data \<Rightarrow> ptr_t \<Rightarrow> driver_get_cuda_version_res io" where
  "local_driver_get_cuda_version_1 sd = (\<lambda>_. fill pair_of driver_get_cuda_version_1_svc)"

definition local_driver_get_device_count_1 :: "service_data \<Rightarrow> ptr_t \<Rightarrow> driver_get_device_count_res io" where
  "local_driver_get_device_count_1 sd = (\<lambda>_. fill uint_of driver_get_device_count_1_svc)"

definition local_driver_get_device_1 :: "service_data \<Rightarrow> driver_get_device_1_argument \<Rightarrow> driver_get_device_res io" where
  "local_driver_get_device_1 sd = (\<lambda>(arg1, arg2). fill ptr_of (driver_get_device_1_svc (svc_table sd) (uint arg2)))"

definition local_driver_get_device_minor_1 :: "service_data \<Rightarrow> driver_get_device_minor_1_argument \<Rightarrow> driver_get_device_minor_res io" where
  "local_driver_get_device_minor_1 sd = (\<lambda>(arg1, arg2). fill uint_of (driver_get_device_minor_1_svc (sint arg2)))"

definition local_driver_get_device_busid_1 :: "service_data \<Rightarrow> driver_get_device_busid_1_argument \<Rightarrow> driver_get_device_busid_res io" where
  "local_driver_get_device_busid_1 sd = (\<lambda>(arg1, arg2). fill text_in (driver_get_device_busid_1_svc (sint arg2)))"

definition local_driver_get_device_uuid_1 :: "service_data \<Rightarrow> driver_get_device_uuid_1_argument \<Rightarrow> driver_get_device_uuid_res io" where
  "local_driver_get_device_uuid_1 sd = (\<lambda>(arg1, arg2). fill text_in (driver_get_device_uuid_1_svc (sint arg2)))"

definition local_driver_get_device_arch_1 :: "service_data \<Rightarrow> driver_get_device_arch_1_argument \<Rightarrow> driver_get_device_arch_res io" where
  "local_driver_get_device_arch_1 sd = (\<lambda>(arg1, arg2). fill pair_of (driver_get_device_arch_1_svc (sint arg2)))"

definition local_driver_get_device_model_1 :: "service_data \<Rightarrow> driver_get_device_model_1_argument \<Rightarrow> driver_get_device_model_res io" where
  "local_driver_get_device_model_1 sd = (\<lambda>(arg1, arg2). fill text_in (driver_get_device_model_1_svc (sint arg2)))"

definition local_driver_get_device_brand_1 :: "service_data \<Rightarrow> driver_get_device_brand_1_argument \<Rightarrow> driver_get_device_brand_res io" where
  "local_driver_get_device_brand_1 sd = (\<lambda>(arg1, arg2). fill text_in (driver_get_device_brand_1_svc (sint arg2)))"

definition local_driver_get_device_mig_mode_1 :: "service_data \<Rightarrow> driver_get_device_mig_mode_1_argument \<Rightarrow> driver_get_device_mig_mode_res io" where
  "local_driver_get_device_mig_mode_1 sd = (\<lambda>(arg1, arg2). fill mode_of (driver_get_device_mig_mode_1_svc (svc_junk sd) (sint arg2)))"

definition local_driver_get_device_max_mig_device_count_1 :: "service_data \<Rightarrow> driver_get_device_max_mig_device_count_1_argument \<Rightarrow> driver_get_device_max_mig_device_count_res io" where
  "local_driver_get_device_max_mig_device_count_1 sd = (\<lambda>(arg1, arg2). fill uint_of (driver_get_device_max_mig_device_count_1_svc (sint arg2)))"

definition local_driver_get_device_mig_device_1 :: "service_data \<Rightarrow> driver_get_device_mig_device_1_argument \<Rightarrow> driver_get_device_mig_device_res io" where
  "local_driver_get_device_mig_device_1 sd = (\<lambda>(arg1, arg2, arg3). fill ptr_of (driver_get_device_mig_device_1_svc (sint arg2) (uint arg3)))"

definition local_driver_get_device_gpu_instance_id_1 :: "service_data \<Rightarrow> driver_get_device_gpu_instance_id_1_argument \<Rightarrow> driver_get_device_gpu_instance_id_res io" where
  "local_driver_get_device_gpu_instance_id_1 sd = (\<lambda>(arg1, arg2). fill uint_of (driver_get_device_gpu_instance_id_1_svc (sint arg2)))"

definition local_driver_get_device_compute_instance_id_1 :: "service_data \<Rightarrow> driver_get_device_compute_instance_id_1_argument \<Rightarrow> driver_get_device_compute_instance_id_res io" where
  "local_driver_get_device_compute_instance_id_1 sd = (\<lambda>(arg1, arg2). fill uint_of (driver_get_device_compute_instance_id_1_svc (sint arg2)))"

definition local_nvcgo_init_1 :: "ptr_t \<Rightarrow> nvcgo_init_res io" where
  "local_nvcgo_init_1 = (\<lambda>_. fill (\<lambda>_. ()) nvcgo_init_1_svc)"

definition local_nvcgo_shutdown_1 :: "ptr_t \<Rightarrow> nvcgo_shutdown_res io" where
  "local_nvcgo_shutdown_1 = (\<lambda>_. fill (\<lambda>_. ()) nvcgo_shutdown_1_svc)"

definition local_nvcgo_get_device_cgroup_version_1 :: "nvcgo_get_device_cgroup_version_1_argument \<Rightarrow> nvcgo_get_device_cgroup_version_res io" where
  "local_nvcgo_get_device_cgroup_version_1 = (\<lambda>(arg1, arg2, arg3). fill uint_of (nvcgo_get_device_cgroup_version_1_svc (text_of arg2) (sint arg3)))"

definition local_nvcgo_find_device_cgroup_path_1 :: "nvcgo_find_device_cgroup_path_1_argument \<Rightarrow> nvcgo_find_device_cgroup_path_res io" where
  "local_nvcgo_find_device_cgroup_path_1 = (\<lambda>(arg1, arg2, arg3, arg4, arg5). fill text_in (nvcgo_find_device_cgroup_path_1_svc (sint arg2) (text_of arg3) (sint arg4) (sint arg5)))"

definition local_nvcgo_setup_device_cgroup_1 :: "nvcgo_setup_device_cgroup_1_argument \<Rightarrow> nvcgo_setup_device_cgroup_res io" where
  "local_nvcgo_setup_device_cgroup_1 = (\<lambda>(arg1, arg2, arg3, arg4). fill (\<lambda>_. ()) (nvcgo_setup_device_cgroup_1_svc (sint arg2) (text_of arg3) arg4))"

text \<open>The end of a dispatch routine: the arguments, the handler, the reply.\<close>

definition serve :: "'a xdrproc \<Rightarrow> 'b xdrproc \<Rightarrow> ('a \<Rightarrow> 'b io) \<Rightarrow> string \<Rightarrow> svc_outcome io" where
  "serve xdr_argument xdr_result local req =
     (case xdr_get xdr_argument req of
        None \<Rightarrow> ret GarbageArgs
      | Some (arg, _) \<Rightarrow>
          bindS (local arg) (\<lambda>res. ret (case xdr_put xdr_result res of None \<Rightarrow> SystemErr | Some s \<Rightarrow> Answered s)))"

abbreviation (input) NULLPROC :: nat where "NULLPROC \<equiv> 0"
abbreviation (input) DRIVER_INIT :: nat where "DRIVER_INIT \<equiv> 1"
abbreviation (input) DRIVER_SHUTDOWN :: nat where "DRIVER_SHUTDOWN \<equiv> 2"
abbreviation (input) DRIVER_GET_RM_VERSION :: nat where "DRIVER_GET_RM_VERSION \<equiv> 3"
abbreviation (input) DRIVER_GET_CUDA_VERSION :: nat where "DRIVER_GET_CUDA_VERSION \<equiv> 4"
abbreviation (input) DRIVER_GET_DEVICE_COUNT :: nat where "DRIVER_GET_DEVICE_COUNT \<equiv> 5"
abbreviation (input) DRIVER_GET_DEVICE :: nat where "DRIVER_GET_DEVICE \<equiv> 6"
abbreviation (input) DRIVER_GET_DEVICE_MINOR :: nat where "DRIVER_GET_DEVICE_MINOR \<equiv> 7"
abbreviation (input) DRIVER_GET_DEVICE_BUSID :: nat where "DRIVER_GET_DEVICE_BUSID \<equiv> 8"
abbreviation (input) DRIVER_GET_DEVICE_UUID :: nat where "DRIVER_GET_DEVICE_UUID \<equiv> 9"
abbreviation (input) DRIVER_GET_DEVICE_ARCH :: nat where "DRIVER_GET_DEVICE_ARCH \<equiv> 10"
abbreviation (input) DRIVER_GET_DEVICE_MODEL :: nat where "DRIVER_GET_DEVICE_MODEL \<equiv> 11"
abbreviation (input) DRIVER_GET_DEVICE_BRAND :: nat where "DRIVER_GET_DEVICE_BRAND \<equiv> 12"
abbreviation (input) DRIVER_GET_DEVICE_MIG_MODE :: nat where "DRIVER_GET_DEVICE_MIG_MODE \<equiv> 13"
abbreviation (input) DRIVER_GET_DEVICE_MAX_MIG_DEVICE_COUNT :: nat where "DRIVER_GET_DEVICE_MAX_MIG_DEVICE_COUNT \<equiv> 14"
abbreviation (input) DRIVER_GET_DEVICE_MIG_DEVICE :: nat where "DRIVER_GET_DEVICE_MIG_DEVICE \<equiv> 15"
abbreviation (input) DRIVER_GET_DEVICE_GPU_INSTANCE_ID :: nat where "DRIVER_GET_DEVICE_GPU_INSTANCE_ID \<equiv> 16"
abbreviation (input) DRIVER_GET_DEVICE_COMPUTE_INSTANCE_ID :: nat where "DRIVER_GET_DEVICE_COMPUTE_INSTANCE_ID \<equiv> 17"
abbreviation (input) NVCGO_INIT :: nat where "NVCGO_INIT \<equiv> 1"
abbreviation (input) NVCGO_SHUTDOWN :: nat where "NVCGO_SHUTDOWN \<equiv> 2"
abbreviation (input) NVCGO_GET_DEVICE_CGROUP_VERSION :: nat where "NVCGO_GET_DEVICE_CGROUP_VERSION \<equiv> 3"
abbreviation (input) NVCGO_FIND_DEVICE_CGROUP_PATH :: nat where "NVCGO_FIND_DEVICE_CGROUP_PATH \<equiv> 4"
abbreviation (input) NVCGO_SETUP_DEVICE_CGROUP :: nat where "NVCGO_SETUP_DEVICE_CGROUP \<equiv> 5"

definition driver_program_1 :: "xdr_lib \<Rightarrow> service_data \<Rightarrow> nat \<Rightarrow> string \<Rightarrow> svc_outcome io" where
  "driver_program_1 x sd rq_proc req =
     (if rq_proc = NULLPROC then ret (Answered [])
      else if rq_proc = DRIVER_INIT then
        serve (xdr_ptr_t x) (xdr_driver_init_res x) (local_driver_init_1 sd) req
      else if rq_proc = DRIVER_SHUTDOWN then
        serve (xdr_ptr_t x) (xdr_driver_shutdown_res x) (local_driver_shutdown_1 sd) req
      else if rq_proc = DRIVER_GET_RM_VERSION then
        serve (xdr_ptr_t x) (xdr_driver_get_rm_version_res x) (local_driver_get_rm_version_1 sd) req
      else if rq_proc = DRIVER_GET_CUDA_VERSION then
        serve (xdr_ptr_t x) (xdr_driver_get_cuda_version_res x) (local_driver_get_cuda_version_1 sd) req
      else if rq_proc = DRIVER_GET_DEVICE_COUNT then
        serve (xdr_ptr_t x) (xdr_driver_get_device_count_res x) (local_driver_get_device_count_1 sd) req
      else if rq_proc = DRIVER_GET_DEVICE then
        serve (xdr_driver_get_device_1_argument x) (xdr_driver_get_device_res x) (local_driver_get_device_1 sd) req
      else if rq_proc = DRIVER_GET_DEVICE_MINOR then
        serve (xdr_driver_get_device_minor_1_argument x) (xdr_driver_get_device_minor_res x) (local_driver_get_device_minor_1 sd) req
      else if rq_proc = DRIVER_GET_DEVICE_BUSID then
        serve (xdr_driver_get_device_busid_1_argument x) (xdr_driver_get_device_busid_res x) (local_driver_get_device_busid_1 sd) req
      else if rq_proc = DRIVER_GET_DEVICE_UUID then
        serve (xdr_driver_get_device_uuid_1_argument x) (xdr_driver_get_device_uuid_res x) (local_driver_get_device_uuid_1 sd) req
      else if rq_proc = DRIVER_GET_DEVICE_ARCH then
        serve (xdr_driver_get_device_arch_1_argument x) (xdr_driver_get_device_arch_res x) (local_driver_get_device_arch_1 sd) req
      else if rq_proc = DRIVER_GET_DEVICE_MODEL then
        serve (xdr_driver_get_device_model_1_argument x) (xdr_driver_get_device_model_res x) (local_driver_get_device_model_1 sd) req
      else if rq_proc = DRIVER_GET_DEVICE_BRAND then
        serve (xdr_driver_get_device_brand_1_argument x) (xdr_driver_get_device_brand_res x) (local_driver_get_device_brand_1 sd) req
      else if rq_proc = DRIVER_GET_DEVICE_MIG_MODE then
        serve (xdr_driver_get_device_mig_mode_1_argument x) (xdr_driver_get_device_mig_mode_res x) (local_driver_get_device_mig_mode_1 sd) req
      else if rq_proc = DRIVER_GET_DEVICE_MAX_MIG_DEVICE_COUNT then
        serve (xdr_driver_get_device_max_mig_device_count_1_argument x) (xdr_driver_get_device_max_mig_device_count_res x) (local_driver_get_device_max_mig_device_count_1 sd) req
      else if rq_proc = DRIVER_GET_DEVICE_MIG_DEVICE then
        serve (xdr_driver_get_device_mig_device_1_argument x) (xdr_driver_get_device_mig_device_res x) (local_driver_get_device_mig_device_1 sd) req
      else if rq_proc = DRIVER_GET_DEVICE_GPU_INSTANCE_ID then
        serve (xdr_driver_get_device_gpu_instance_id_1_argument x) (xdr_driver_get_device_gpu_instance_id_res x) (local_driver_get_device_gpu_instance_id_1 sd) req
      else if rq_proc = DRIVER_GET_DEVICE_COMPUTE_INSTANCE_ID then
        serve (xdr_driver_get_device_compute_instance_id_1_argument x) (xdr_driver_get_device_compute_instance_id_res x) (local_driver_get_device_compute_instance_id_1 sd) req
      else ret ProcUnavail)"

definition nvcgo_program_1 :: "xdr_lib \<Rightarrow> nat \<Rightarrow> string \<Rightarrow> svc_outcome io" where
  "nvcgo_program_1 x rq_proc req =
     (if rq_proc = NULLPROC then ret (Answered [])
      else if rq_proc = NVCGO_INIT then
        serve (xdr_ptr_t x) (xdr_nvcgo_init_res x) local_nvcgo_init_1 req
      else if rq_proc = NVCGO_SHUTDOWN then
        serve (xdr_ptr_t x) (xdr_nvcgo_shutdown_res x) local_nvcgo_shutdown_1 req
      else if rq_proc = NVCGO_GET_DEVICE_CGROUP_VERSION then
        serve (xdr_nvcgo_get_device_cgroup_version_1_argument x) (xdr_nvcgo_get_device_cgroup_version_res x) local_nvcgo_get_device_cgroup_version_1 req
      else if rq_proc = NVCGO_FIND_DEVICE_CGROUP_PATH then
        serve (xdr_nvcgo_find_device_cgroup_path_1_argument x) (xdr_nvcgo_find_device_cgroup_path_res x) local_nvcgo_find_device_cgroup_path_1 req
      else if rq_proc = NVCGO_SETUP_DEVICE_CGROUP then
        serve (xdr_nvcgo_setup_device_cgroup_1_argument x) (xdr_nvcgo_setup_device_cgroup_res x) local_nvcgo_setup_device_cgroup_1 req
      else ret ProcUnavail)"

subsection \<open>The client\<close>

type_synonym client = "nat \<Rightarrow> string \<Rightarrow> svc_outcome io"

text \<open>The values of enum clnt_stat.\<close>

abbreviation (input) RPC_CANTENCODEARGS :: nat where "RPC_CANTENCODEARGS \<equiv> 1"
abbreviation (input) RPC_CANTDECODERES :: nat where "RPC_CANTDECODERES \<equiv> 2"
abbreviation (input) RPC_PROCUNAVAIL :: nat where "RPC_PROCUNAVAIL \<equiv> 10"
abbreviation (input) RPC_CANTDECODEARGS :: nat where "RPC_CANTDECODEARGS \<equiv> 11"
abbreviation (input) RPC_SYSTEMERROR :: nat where "RPC_SYSTEMERROR \<equiv> 12"

definition clnt_call :: "client \<Rightarrow> nat \<Rightarrow> 'a xdrproc \<Rightarrow> 'a \<Rightarrow> 'b xdrproc \<Rightarrow> (nat + 'b) io" where
  "clnt_call clnt proc xdr_arg arg xdr_res =
     (case xdr_put xdr_arg arg of
        None \<Rightarrow> ret (Inl RPC_CANTENCODEARGS)
      | Some req \<Rightarrow>
          bindS (clnt proc req) (\<lambda>out. ret (case out of
            Answered s \<Rightarrow> (case xdr_get xdr_res s of None \<Rightarrow> Inl RPC_CANTDECODERES | Some (res, _) \<Rightarrow> Inr res)
          | ProcUnavail \<Rightarrow> Inl RPC_PROCUNAVAIL
          | GarbageArgs \<Rightarrow> Inl RPC_CANTDECODEARGS
          | SystemErr \<Rightarrow> Inl RPC_SYSTEMERROR
          | Unanswered st \<Rightarrow> Inl st)))"

definition driver_init_1 :: "xdr_lib \<Rightarrow> ptr_t \<Rightarrow> client \<Rightarrow> (nat + driver_init_res) io" where
  "driver_init_1 x arg1 clnt = clnt_call clnt DRIVER_INIT (xdr_ptr_t x) arg1 (xdr_driver_init_res x)"

definition driver_shutdown_1 :: "xdr_lib \<Rightarrow> ptr_t \<Rightarrow> client \<Rightarrow> (nat + driver_shutdown_res) io" where
  "driver_shutdown_1 x arg1 clnt = clnt_call clnt DRIVER_SHUTDOWN (xdr_ptr_t x) arg1 (xdr_driver_shutdown_res x)"

definition driver_get_rm_version_1 :: "xdr_lib \<Rightarrow> ptr_t \<Rightarrow> client \<Rightarrow> (nat + driver_get_rm_version_res) io" where
  "driver_get_rm_version_1 x arg1 clnt = clnt_call clnt DRIVER_GET_RM_VERSION (xdr_ptr_t x) arg1 (xdr_driver_get_rm_version_res x)"

definition driver_get_cuda_version_1 :: "xdr_lib \<Rightarrow> ptr_t \<Rightarrow> client \<Rightarrow> (nat + driver_get_cuda_version_res) io" where
  "driver_get_cuda_version_1 x arg1 clnt = clnt_call clnt DRIVER_GET_CUDA_VERSION (xdr_ptr_t x) arg1 (xdr_driver_get_cuda_version_res x)"

definition driver_get_device_count_1 :: "xdr_lib \<Rightarrow> ptr_t \<Rightarrow> client \<Rightarrow> (nat + driver_get_device_count_res) io" where
  "driver_get_device_count_1 x arg1 clnt = clnt_call clnt DRIVER_GET_DEVICE_COUNT (xdr_ptr_t x) arg1 (xdr_driver_get_device_count_res x)"

definition driver_get_device_1 :: "xdr_lib \<Rightarrow> ptr_t \<Rightarrow> uint32 \<Rightarrow> client \<Rightarrow> (nat + driver_get_device_res) io" where
  "driver_get_device_1 x arg1 arg2 clnt = clnt_call clnt DRIVER_GET_DEVICE (xdr_driver_get_device_1_argument x) (arg1, arg2) (xdr_driver_get_device_res x)"

definition driver_get_device_minor_1 :: "xdr_lib \<Rightarrow> ptr_t \<Rightarrow> ptr_t \<Rightarrow> client \<Rightarrow> (nat + driver_get_device_minor_res) io" where
  "driver_get_device_minor_1 x arg1 arg2 clnt = clnt_call clnt DRIVER_GET_DEVICE_MINOR (xdr_driver_get_device_minor_1_argument x) (arg1, arg2) (xdr_driver_get_device_minor_res x)"

definition driver_get_device_busid_1 :: "xdr_lib \<Rightarrow> ptr_t \<Rightarrow> ptr_t \<Rightarrow> client \<Rightarrow> (nat + driver_get_device_busid_res) io" where
  "driver_get_device_busid_1 x arg1 arg2 clnt = clnt_call clnt DRIVER_GET_DEVICE_BUSID (xdr_driver_get_device_busid_1_argument x) (arg1, arg2) (xdr_driver_get_device_busid_res x)"

definition driver_get_device_uuid_1 :: "xdr_lib \<Rightarrow> ptr_t \<Rightarrow> ptr_t \<Rightarrow> client \<Rightarrow> (nat + driver_get_device_uuid_res) io" where
  "driver_get_device_uuid_1 x arg1 arg2 clnt = clnt_call clnt DRIVER_GET_DEVICE_UUID (xdr_driver_get_device_uuid_1_argument x) (arg1, arg2) (xdr_driver_get_device_uuid_res x)"

definition driver_get_device_arch_1 :: "xdr_lib \<Rightarrow> ptr_t \<Rightarrow> ptr_t \<Rightarrow> client \<Rightarrow> (nat + driver_get_device_arch_res) io" where
  "driver_get_device_arch_1 x arg1 arg2 clnt = clnt_call clnt DRIVER_GET_DEVICE_ARCH (xdr_driver_get_device_arch_1_argument x) (arg1, arg2) (xdr_driver_get_device_arch_res x)"

definition driver_get_device_model_1 :: "xdr_lib \<Rightarrow> ptr_t \<Rightarrow> ptr_t \<Rightarrow> client \<Rightarrow> (nat + driver_get_device_model_res) io" where
  "driver_get_device_model_1 x arg1 arg2 clnt = clnt_call clnt DRIVER_GET_DEVICE_MODEL (xdr_driver_get_device_model_1_argument x) (arg1, arg2) (xdr_driver_get_device_model_res x)"

definition driver_get_device_brand_1 :: "xdr_lib \<Rightarrow> ptr_t \<Rightarrow> ptr_t \<Rightarrow> client \<Rightarrow> (nat + driver_get_device_brand_res) io" where
  "driver_get_device_brand_1 x arg1 arg2 clnt = clnt_call clnt DRIVER_GET_DEVICE_BRAND (xdr_driver_get_device_brand_1_argument x) (arg1, arg2) (xdr_driver_get_device_brand_res x)"

definition driver_get_device_mig_mode_1 :: "xdr_lib \<Rightarrow> ptr_t \<Rightarrow> ptr_t \<Rightarrow> client \<Rightarrow> (nat + driver_get_device_mig_mode_res) io" where
  "driver_get_device_mig_mode_1 x arg1 arg2 clnt = clnt_call clnt DRIVER_GET_DEVICE_MIG_MODE (xdr_driver_get_device_mig_mode_1_argument x) (arg1, arg2) (xdr_driver_get_device_mig_mode_res x)"

definition driver_get_device_max_mig_device_count_1 :: "xdr_lib \<Rightarrow> ptr_t \<Rightarrow> ptr_t \<Rightarrow> client \<Rightarrow> (nat + driver_get_device_max_mig_device_count_res) io" where
  "driver_get_device_max_mig_device_count_1 x arg1 arg2 clnt = clnt_call clnt DRIVER_GET_DEVICE_MAX_MIG_DEVICE_COUNT (xdr_driver_get_device_max_mig_device_count_1_argument x) (arg1, arg2) (xdr_driver_get_device_max_mig_device_count_res x)"

definition driver_get_device_mig_device_1 :: "xdr_lib \<Rightarrow> ptr_t \<Rightarrow> ptr_t \<Rightarrow> uint32 \<Rightarrow> client \<Rightarrow> (nat + driver_get_device_mig_device_res) io" where
  "driver_get_device_mig_device_1 x arg1 arg2 arg3 clnt = clnt_call clnt DRIVER_GET_DEVICE_MIG_DEVICE (xdr_driver_get_device_mig_device_1_argument x) (arg1, arg2, arg3) (xdr_driver_get_device_mig_device_res x)"

definition driver_get_device_gpu_instance_id_1 :: "xdr_lib \<Rightarrow> ptr_t \<Rightarrow> ptr_t \<Rightarrow> client \<Rightarrow> (nat + driver_get_device_gpu_instance_id_res) io" where
  "driver_get_device_gpu_instance_id_1 x arg1 arg2 clnt = clnt_call clnt DRIVER_GET_DEVICE_GPU_INSTANCE_ID (xdr_driver_get_device_gpu_instance_id_1_argument x) (arg1, arg2) (xdr_driver_get_device_gpu_instance_id_res x)"

definition driver_get_device_compute_instance_id_1 :: "xdr_lib \<Rightarrow> ptr_t \<Rightarrow> ptr_t \<Rightarrow> client \<Rightarrow> (nat + driver_get_device_compute_instance_id_res) io" where
  "driver_get_device_compute_instance_id_1 x arg1 arg2 clnt = clnt_call clnt DRIVER_GET_DEVICE_COMPUTE_INSTANCE_ID (xdr_driver_get_device_compute_instance_id_1_argument x) (arg1, arg2) (xdr_driver_get_device_compute_instance_id_res x)"

definition nvcgo_init_1 :: "xdr_lib \<Rightarrow> ptr_t \<Rightarrow> client \<Rightarrow> (nat + nvcgo_init_res) io" where
  "nvcgo_init_1 x arg1 clnt = clnt_call clnt NVCGO_INIT (xdr_ptr_t x) arg1 (xdr_nvcgo_init_res x)"

definition nvcgo_shutdown_1 :: "xdr_lib \<Rightarrow> ptr_t \<Rightarrow> client \<Rightarrow> (nat + nvcgo_shutdown_res) io" where
  "nvcgo_shutdown_1 x arg1 clnt = clnt_call clnt NVCGO_SHUTDOWN (xdr_ptr_t x) arg1 (xdr_nvcgo_shutdown_res x)"

definition nvcgo_get_device_cgroup_version_1 :: "xdr_lib \<Rightarrow> ptr_t \<Rightarrow> string option \<Rightarrow> int32 \<Rightarrow> client \<Rightarrow> (nat + nvcgo_get_device_cgroup_version_res) io" where
  "nvcgo_get_device_cgroup_version_1 x arg1 arg2 arg3 clnt = clnt_call clnt NVCGO_GET_DEVICE_CGROUP_VERSION (xdr_nvcgo_get_device_cgroup_version_1_argument x) (arg1, arg2, arg3) (xdr_nvcgo_get_device_cgroup_version_res x)"

definition nvcgo_find_device_cgroup_path_1 :: "xdr_lib \<Rightarrow> ptr_t \<Rightarrow> int32 \<Rightarrow> string option \<Rightarrow> int32 \<Rightarrow> int32 \<Rightarrow> client \<Rightarrow> (nat + nvcgo_find_device_cgroup_path_res) io" where
  "nvcgo_find_device_cgroup_path_1 x arg1 arg2 arg3 arg4 arg5 clnt = clnt_call clnt NVCGO_FIND_DEVICE_CGROUP_PATH (xdr_nvcgo_find_device_cgroup_path_1_argument x) (arg1, arg2, arg3, arg4, arg5) (xdr_nvcgo_find_device_cgroup_path_res x)"

definition nvcgo_setup_device_cgroup_1 :: "xdr_lib \<Rightarrow> ptr_t \<Rightarrow> int32 \<Rightarrow> string option \<Rightarrow> uint64 \<Rightarrow> client \<Rightarrow> (nat + nvcgo_setup_device_cgroup_res) io" where
  "nvcgo_setup_device_cgroup_1 x arg1 arg2 arg3 arg4 clnt = clnt_call clnt NVCGO_SETUP_DEVICE_CGROUP (xdr_nvcgo_setup_device_cgroup_1_argument x) (arg1, arg2, arg3, arg4) (xdr_nvcgo_setup_device_cgroup_res x)"

subsection \<open>A call reaches its handler\<close>

text \<open>The result of the handler, unless it cannot be encoded.\<close>

definition reaches :: "'a xdr_result xdrproc \<Rightarrow> (int list \<times> string list \<Rightarrow> 'a) \<Rightarrow> reply io \<Rightarrow> (nat + 'a xdr_result) io" where
  "reaches xdr_res f h =
     bindS h (\<lambda>r. ret (if xdr_put xdr_res (of_reply f r) = None then Inl RPC_SYSTEMERROR else Inr (of_reply f r)))"

definition sent :: "'a xdrproc \<Rightarrow> 'a \<Rightarrow> (nat + 'b) io \<Rightarrow> (nat + 'b) io" where
  "sent xdr_arg arg m = (if xdr_put xdr_arg arg = None then ret (Inl RPC_CANTENCODEARGS) else m)"

lemma bindS_ret_ret: "bindS (bindS m (\<lambda>a. ret (f a))) (\<lambda>b. ret (g b)) = bindS m (\<lambda>a. ret (g (f a)))"
  by (intro ext) (simp add: bindS_def ret_def split: prod.split)

lemma clnt_call_reaches:
  assumes clnt: "\<And>req. clnt proc req = serve xdr_arg xdr_res local req"
    and arg: "faithful_on P xdr_arg" "P arg" and res: "faithful xdr_res"
    and run: "local arg = fill f h"
  shows "clnt_call clnt proc xdr_arg arg xdr_res = sent xdr_arg arg (reaches xdr_res f h)"
proof (cases "xdr_put xdr_arg arg")
  case (Some req)
  have get: "xdr_get xdr_arg req = Some (arg, [])"
    using arg Some unfolding faithful_on_def by (metis append_Nil2)
  have "xdr_get xdr_res s = Some (v, [])" if "xdr_put xdr_res v = Some s" for v s
    using res that unfolding faithful_on_def by (metis append_Nil2)
  then have answer: "(case (case xdr_put xdr_res v of None \<Rightarrow> SystemErr | Some s \<Rightarrow> Answered s) of
       Answered s \<Rightarrow> (case xdr_get xdr_res s of None \<Rightarrow> Inl RPC_CANTDECODERES | Some (res, _) \<Rightarrow> Inr res)
     | ProcUnavail \<Rightarrow> Inl RPC_PROCUNAVAIL | GarbageArgs \<Rightarrow> Inl RPC_CANTDECODEARGS
     | SystemErr \<Rightarrow> Inl RPC_SYSTEMERROR | Unanswered st \<Rightarrow> Inl st) =
     (if xdr_put xdr_res v = None then Inl RPC_SYSTEMERROR else Inr v)" for v
    by (cases "xdr_put xdr_res v") simp_all
  show ?thesis
    using get by (simp add: clnt_call_def sent_def reaches_def serve_def clnt run fill_def bindS_ret_ret Some answer)
qed (simp add: clnt_call_def sent_def)

lemma driver_call_reaches:
  assumes "\<And>req. clnt proc req = serve xdr_arg xdr_res local req"
    and "faithful xdr_arg" and "encodes xdr_arg" and "faithful xdr_res" and "local arg = fill f h"
  shows "clnt_call clnt proc xdr_arg arg xdr_res = reaches xdr_res f h"
  using clnt_call_reaches[of clnt proc xdr_arg xdr_res local "\<lambda>_. True" arg f h, OF assms(1,2) TrueI assms(4,5)]
    assms(3) by (simp add: encodes_def sent_def del: not_None_eq)

lemmas driver_stubs =
  driver_init_1_def driver_shutdown_1_def driver_get_rm_version_1_def driver_get_cuda_version_1_def
  driver_get_device_count_1_def driver_get_device_1_def driver_get_device_minor_1_def
  driver_get_device_busid_1_def driver_get_device_uuid_1_def driver_get_device_arch_1_def
  driver_get_device_model_1_def driver_get_device_brand_1_def driver_get_device_mig_mode_1_def
  driver_get_device_max_mig_device_count_1_def driver_get_device_mig_device_1_def
  driver_get_device_gpu_instance_id_1_def driver_get_device_compute_instance_id_1_def

lemmas nvcgo_stubs =
  nvcgo_init_1_def nvcgo_shutdown_1_def nvcgo_get_device_cgroup_version_1_def
  nvcgo_find_device_cgroup_path_1_def nvcgo_setup_device_cgroup_1_def

lemmas driver_locals =
  local_driver_init_1_def local_driver_shutdown_1_def local_driver_get_rm_version_1_def
  local_driver_get_cuda_version_1_def local_driver_get_device_count_1_def local_driver_get_device_1_def
  local_driver_get_device_minor_1_def local_driver_get_device_busid_1_def local_driver_get_device_uuid_1_def
  local_driver_get_device_arch_1_def local_driver_get_device_model_1_def local_driver_get_device_brand_1_def
  local_driver_get_device_mig_mode_1_def local_driver_get_device_max_mig_device_count_1_def
  local_driver_get_device_mig_device_1_def local_driver_get_device_gpu_instance_id_1_def
  local_driver_get_device_compute_instance_id_1_def

lemmas nvcgo_locals =
  local_nvcgo_init_1_def local_nvcgo_shutdown_1_def local_nvcgo_get_device_cgroup_version_1_def
  local_nvcgo_find_device_cgroup_path_1_def local_nvcgo_setup_device_cgroup_1_def


text \<open>C10: A remote call of the driver service is the call of its handler: for each of the seventeen procedures, what
  the client receives when its requests go to the dispatch routine is what the handler of that name fills in when it
  is run on the same arguments, with the same calls of the system; only a result that cannot be encoded becomes the
  status RPC_SYSTEMERROR.\<close>

theorem driver_calls_transparent:
  assumes "rpc_library x"
  shows "driver_init_1 x c (driver_program_1 x sd) =
       reaches (xdr_driver_init_res x) (\<lambda>_. ()) (driver_init_1_svc (svc_at sd c)) \<and>
     driver_shutdown_1 x c (driver_program_1 x sd) =
       reaches (xdr_driver_shutdown_res x) (\<lambda>_. ()) (driver_shutdown_1_svc (svc_at sd c)) \<and>
     driver_get_rm_version_1 x c (driver_program_1 x sd) =
       reaches (xdr_driver_get_rm_version_res x) text_in driver_get_rm_version_1_svc \<and>
     driver_get_cuda_version_1 x c (driver_program_1 x sd) =
       reaches (xdr_driver_get_cuda_version_res x) pair_of driver_get_cuda_version_1_svc \<and>
     driver_get_device_count_1 x c (driver_program_1 x sd) =
       reaches (xdr_driver_get_device_count_res x) uint_of driver_get_device_count_1_svc \<and>
     driver_get_device_1 x c idx (driver_program_1 x sd) =
       reaches (xdr_driver_get_device_res x) ptr_of (driver_get_device_1_svc (svc_table sd) (uint idx)) \<and>
     driver_get_device_minor_1 x c dev (driver_program_1 x sd) =
       reaches (xdr_driver_get_device_minor_res x) uint_of (driver_get_device_minor_1_svc (sint dev)) \<and>
     driver_get_device_busid_1 x c dev (driver_program_1 x sd) =
       reaches (xdr_driver_get_device_busid_res x) text_in (driver_get_device_busid_1_svc (sint dev)) \<and>
     driver_get_device_uuid_1 x c dev (driver_program_1 x sd) =
       reaches (xdr_driver_get_device_uuid_res x) text_in (driver_get_device_uuid_1_svc (sint dev)) \<and>
     driver_get_device_arch_1 x c dev (driver_program_1 x sd) =
       reaches (xdr_driver_get_device_arch_res x) pair_of (driver_get_device_arch_1_svc (sint dev)) \<and>
     driver_get_device_model_1 x c dev (driver_program_1 x sd) =
       reaches (xdr_driver_get_device_model_res x) text_in (driver_get_device_model_1_svc (sint dev)) \<and>
     driver_get_device_brand_1 x c dev (driver_program_1 x sd) =
       reaches (xdr_driver_get_device_brand_res x) text_in (driver_get_device_brand_1_svc (sint dev)) \<and>
     driver_get_device_mig_mode_1 x c dev (driver_program_1 x sd) =
       reaches (xdr_driver_get_device_mig_mode_res x) mode_of (driver_get_device_mig_mode_1_svc (svc_junk sd) (sint dev)) \<and>
     driver_get_device_max_mig_device_count_1 x c dev (driver_program_1 x sd) =
       reaches (xdr_driver_get_device_max_mig_device_count_res x) uint_of (driver_get_device_max_mig_device_count_1_svc (sint dev)) \<and>
     driver_get_device_mig_device_1 x c dev idx (driver_program_1 x sd) =
       reaches (xdr_driver_get_device_mig_device_res x) ptr_of (driver_get_device_mig_device_1_svc (sint dev) (uint idx)) \<and>
     driver_get_device_gpu_instance_id_1 x c dev (driver_program_1 x sd) =
       reaches (xdr_driver_get_device_gpu_instance_id_res x) uint_of (driver_get_device_gpu_instance_id_1_svc (sint dev)) \<and>
     driver_get_device_compute_instance_id_1 x c dev (driver_program_1 x sd) =
       reaches (xdr_driver_get_device_compute_instance_id_res x) uint_of (driver_get_device_compute_instance_id_1_svc (sint dev))"
  unfolding driver_stubs
  by (intro conjI; rule driver_call_reaches,
      simp add: driver_program_1_def,
      rule rpc_library.ptr_faithful[OF assms] rpc_library.arguments_faithful[OF assms],
      rule rpc_library.ptr_encodes[OF assms] rpc_library.arguments_encode[OF assms],
      rule rpc_library.results_faithful[OF assms],
      simp add: driver_locals)

text \<open>A service whose table of devices is at the address 4096.\<close>

definition one_service :: service_data where
  "one_service = \<lparr>svc_at = (\<lambda>_. \<lparr>drv_rpc = rpc_null, drv_initialized = False, drv_root = ''/'',
     drv_nvml_path = SONAME_LIBNVML, drv_uid = 0, drv_gid = 0\<rparr>), svc_table = 4096, svc_junk = (0, 0)\<rparr>"

theorem driver_calls_transparent_witness:
  "driver_get_device_1 rfc4506 1 3 (driver_program_1 rfc4506 one_service) =
     reaches (xdr_driver_get_device_res rfc4506) ptr_of (driver_get_device_1_svc 4096 3)"
  using driver_calls_transparent[OF rfc.rpc_library_axioms, of 1 one_service 3 0] by (simp add: one_service_def)

text \<open>C15: The same for the service of the Go library: each of its five calls runs the handler of that name on the
  arguments that were sent, unless a string cannot be encoded, when nothing is sent.  A device number travels as an
  unsigned long of 32 bits, so for the setup of the cgroup this holds below that bound.\<close>

theorem nvcgo_calls_transparent:
  assumes "rpc_library x" and "num < 2 ^ 32"
  shows "nvcgo_init_1 x c (nvcgo_program_1 x) =
       sent (xdr_ptr_t x) c (reaches (xdr_nvcgo_init_res x) (\<lambda>_. ()) nvcgo_init_1_svc) \<and>
     nvcgo_shutdown_1 x c (nvcgo_program_1 x) =
       sent (xdr_ptr_t x) c (reaches (xdr_nvcgo_shutdown_res x) (\<lambda>_. ()) nvcgo_shutdown_1_svc) \<and>
     nvcgo_get_device_cgroup_version_1 x c (Some path) pid (nvcgo_program_1 x) =
       sent (xdr_nvcgo_get_device_cgroup_version_1_argument x) (c, (Some path), pid)
         (reaches (xdr_nvcgo_get_device_cgroup_version_res x) uint_of (nvcgo_get_device_cgroup_version_1_svc path (sint pid))) \<and>
     nvcgo_find_device_cgroup_path_1 x c vers (Some path) pid pid' (nvcgo_program_1 x) =
       sent (xdr_nvcgo_find_device_cgroup_path_1_argument x) (c, vers, (Some path), pid, pid')
         (reaches (xdr_nvcgo_find_device_cgroup_path_res x) text_in (nvcgo_find_device_cgroup_path_1_svc (sint vers) path (sint pid) (sint pid'))) \<and>
     nvcgo_setup_device_cgroup_1 x c vers (Some path) num (nvcgo_program_1 x) =
       sent (xdr_nvcgo_setup_device_cgroup_1_argument x) (c, vers, (Some path), num)
         (reaches (xdr_nvcgo_setup_device_cgroup_res x) (\<lambda>_. ()) (nvcgo_setup_device_cgroup_1_svc (sint vers) path num))"
  unfolding nvcgo_stubs
  by (intro conjI;
      ((rule clnt_call_reaches[where P = "\<lambda>_. True"], simp add: nvcgo_program_1_def,
       rule rpc_library.ptr_faithful[OF assms(1)] rpc_library.arguments_faithful[OF assms(1)], rule TrueI,
       rule rpc_library.results_faithful[OF assms(1)], simp add: nvcgo_locals text_of_def)
      | (rule clnt_call_reaches[OF _ rpc_library.setup_argument_faithful[OF assms(1)]],
         simp add: nvcgo_program_1_def, insert assms(2), simp, rule rpc_library.results_faithful[OF assms(1)],
         simp add: nvcgo_locals text_of_def)))

theorem nvcgo_calls_transparent_witness:
  "nvcgo_setup_device_cgroup_1 rfc4506 1 2 (Some ''/cg'') 49920 (nvcgo_program_1 rfc4506) =
     sent (xdr_nvcgo_setup_device_cgroup_1_argument rfc4506) (1, 2, Some ''/cg'', 49920)
       (reaches (xdr_nvcgo_setup_device_cgroup_res rfc4506) (\<lambda>_. ()) (nvcgo_setup_device_cgroup_1_svc 2 ''/cg'' 49920))"
  using nvcgo_calls_transparent[OF rfc.rpc_library_axioms, of 49920 1 "''/cg''" 0 2] by simp

end
