(* ===== verification/PciLink.thy ===== *)
theory PciLink
  imports Pci
begin

text \<open>
  The rest of modprobe-utils/pci-sysfs.c, with the register numbers of pci-sysfs.h:
  writing the configuration space, the search for the PCI Express capability, the
  link of a bridge and the wait for it.  Nothing in the container library calls
  these functions.
\<close>

type_synonym uint8 = "8 word"

abbreviation (input) O_WRONLY :: nat where "O_WRONLY \<equiv> 1"
abbreviation (input) ENXIO :: nat where "ENXIO \<equiv> 6"
abbreviation (input) ETIME :: nat where "ETIME \<equiv> 62"

subsection \<open>Writing the configuration space\<close>

text \<open>The loop of writes: how much was written, and the error.\<close>

function write_cfg_loop :: "fd \<Rightarrow> string \<Rightarrow> (nat \<times> nat) io" where
  "write_cfg_loop fd data =
     (if data = [] then ret (0, 0)
      else bindS (call_int (C_write fd data)) (\<lambda>r. case r of
        Inl e \<Rightarrow> ret (0, e)
      | Inr b \<Rightarrow>
          (let n = min (nat b) (length data) in
           if n = 0 then ret (0, 0)
           else bindS (write_cfg_loop fd (drop n data)) (\<lambda>(k, e). ret (n + k, e)))))"
  by pat_completeness auto
termination
  by (relation "measure (\<lambda>(_, s). length s)") auto

declare write_cfg_loop.simps [simp del]

definition pci_sysfs_write_cfg ::
  "uint32 \<Rightarrow> uint16 \<Rightarrow> uint16 \<Rightarrow> uint16 \<Rightarrow> nat \<Rightarrow> string \<Rightarrow> (nat \<times> nat) io" where
  "pci_sysfs_write_cfg domain bus device func off data =
     bindS (call_int (C_open (take 254 (SYS_BUS_PCI_DEVICES @ ''/'' @ pci_name domain bus device func @ ''/config'')) O_WRONLY))
       (\<lambda>f. case f of
         Inl e \<Rightarrow> ret (0, e)
       | Inr fd \<Rightarrow>
           bindS (if off \<noteq> 0 then call_unit (C_lseek fd off) else ret (Inr ())) (\<lambda>s. case s of
             Inl e \<Rightarrow> bindS (call_unit (C_close fd)) (\<lambda>c. ret (0, case c of Inl e' \<Rightarrow> e' | Inr _ \<Rightarrow> e))
           | Inr _ \<Rightarrow> lastly (write_cfg_loop fd data) (call_void (C_close fd))))"

definition pci_rescan :: "uint32 \<Rightarrow> uint8 \<Rightarrow> uint8 \<Rightarrow> uint8 \<Rightarrow> nat io" where
  "pci_rescan domain bus slot func =
     (let node = (if domain OR ucast bus OR ucast slot OR ucast func = 0 then ''/sys/bus/pci/rescan''
                  else take 254 (SYS_BUS_PCI_DEVICES @ ''/'' @ pci_name domain (ucast bus) (ucast slot) (ucast func) @ ''/rescan'')) in
      bindS (call_int (C_open node O_WRONLY)) (\<lambda>f. case f of
        Inl e \<Rightarrow> ret e
      | Inr fd \<Rightarrow>
          bindS (lastly (call_int (C_write fd (''1'' @ [CHR 0x0A]))) (call_void (C_close fd))) (\<lambda>cnt.
            ret (if cnt = Inr 2 then 0 else EIO))))"

subsection \<open>The bridge above a device\<close>

record pci_info_t =
  pci_domain :: uint32
  pci_bus :: uint32
  pci_dev :: uint32
  pci_ftn :: uint32

text \<open>The error, and the numbers of the bridge as far as its name was scanned.\<close>

definition pci_find_parent_bridge :: "pci_info_t \<Rightarrow> (nat \<times> uint32 list) io" where
  "pci_find_parent_bridge gpu =
     bindS (call_str (C_lib ''realpath'' [] [take 254 (SYS_BUS_PCI_DEVICES @ ''/'' @
       (hex_pad 4 (unat (pci_domain gpu)) @ '':'' @ hex_pad 2 (unat (pci_bus gpu)) @ '':'' @
        hex_pad 2 (unat (pci_dev gpu)) @ ''.'' @ dec (unat (pci_ftn gpu))) @ ''/..'')])) (\<lambda>r. ret (case r of
       Inl e \<Rightarrow> (e, [])
     | Inr bridge_path \<Rightarrow>
         if CHR ''/'' \<notin> set bridge_path then (ENOENT, [])
         else
         (let vs = scan_pci_name (rev (takeWhile (\<lambda>c. c \<noteq> CHR ''/'') (rev bridge_path)))
          in (if length vs \<noteq> 4 then ENOENT else 0, vs))))"

subsection \<open>The PCI Express capability\<close>

text \<open>BAIL_ON_IO_ERR: a short transfer is an error too.\<close>

definition io_error :: "nat \<Rightarrow> nat \<Rightarrow> nat \<Rightarrow> nat option" where
  "io_error want err cnt = (if err \<noteq> 0 \<or> cnt < want then Some (if err = 0 then EIO else err) else None)"

definition read_reg :: "uint32 \<Rightarrow> uint8 \<Rightarrow> uint8 \<Rightarrow> uint8 \<Rightarrow> nat \<Rightarrow> nat \<Rightarrow> (nat + string) io" where
  "read_reg domain bus device ftn off n =
     bindS (pci_sysfs_read_cfg domain (ucast bus) (ucast device) (ucast ftn) off n) (\<lambda>(data, err).
       ret (case io_error n err (length data) of Some e \<Rightarrow> Inl e | None \<Rightarrow> Inr data))"

definition byte_at :: "string \<Rightarrow> uint8" where
  "byte_at data = word_of_nat (ord (data ! 0))"

text \<open>
  The walk along the list of capabilities, at most \<open>ttl\<close> of them: the error and
  the offset of the capability, which is \<open>caps\<close> when none was found.
\<close>

fun caps_loop :: "(nat \<Rightarrow> (nat + string) io) \<Rightarrow> nat \<Rightarrow> uint8 \<Rightarrow> nat \<Rightarrow> uint8 \<Rightarrow> (nat \<times> uint8) io" where
  "caps_loop rd 0 off err caps = ret (err, caps)"
| "caps_loop rd (Suc ttl) off err caps =
     bindS (rd (unat off)) (\<lambda>r. case r of
       Inl e \<Rightarrow> ret (e, caps)
     | Inr data \<Rightarrow>
         if byte_at data < 64 \<or> byte_at data = 0xff then ret (0, caps)
         else
         (let off = byte_at data AND NOT 3 in
          bindS (rd (unat off)) (\<lambda>r. case r of
            Inl e \<Rightarrow> ret (e, caps)
          | Inr cap_id \<Rightarrow>
              if byte_at cap_id = 0x10 then ret (0, off)
              else if byte_at cap_id = 0xff then ret (0, caps)
              else caps_loop rd ttl (off + 1) 0 caps)))"

definition pci_find_pcie_caps :: "uint32 \<Rightarrow> uint8 \<Rightarrow> uint8 \<Rightarrow> uint8 \<Rightarrow> uint8 \<Rightarrow> (nat \<times> uint8) io" where
  "pci_find_pcie_caps domain bus device ftn caps =
     caps_loop (\<lambda>off. read_reg domain bus device ftn off 1) 20 0x34 ENXIO caps"

subsection \<open>The link\<close>

abbreviation (input) PCI_EXP_LNKCAP :: nat where "PCI_EXP_LNKCAP \<equiv> 12"
abbreviation (input) PCI_EXP_LNKCTL :: nat where "PCI_EXP_LNKCTL \<equiv> 16"
abbreviation (input) PCI_EXP_LNKSTA :: nat where "PCI_EXP_LNKSTA \<equiv> 18"

text \<open>The time of day in microseconds.\<close>

abbreviation (input) "C_time \<equiv> C_lib ''gettimeofday'' [] []"

definition time_of :: "reply \<Rightarrow> int" where
  "time_of r = (case r of Value (sec # usec # _) _ \<Rightarrow> 1000000 * sec + usec | _ \<Rightarrow> 0)"

definition gettimeofday :: "int io" where
  "gettimeofday = bindS (call_reply C_time) (\<lambda>r. ret (time_of r))"

definition timed_out :: "int \<Rightarrow> int \<Rightarrow> bool" where
  "timed_out start now \<longleftrightarrow> (now - start) div 1000000 > 0 \<or> (now - start) mod 1000000 \<ge> 200000"

text \<open>The wait for the link, with fuel: \<open>None\<close> when it is used up.\<close>

fun link_wait :: "(nat + string) io \<Rightarrow> int \<Rightarrow> nat \<Rightarrow> nat option io" where
  "link_wait rd start 0 = ret None"
| "link_wait rd start (Suc fuel) =
     bindS rd (\<lambda>r. case r of
       Inl e \<Rightarrow> ret (Some e)
     | Inr reg \<Rightarrow>
         if config16 reg 0 AND 0x2000 \<noteq> 0 then ret (Some 0)
         else bindS gettimeofday (\<lambda>now. if timed_out start now then ret (Some ETIME) else link_wait rd start fuel))"

definition le16 :: "uint16 \<Rightarrow> string" where
  "le16 w = [char_of (unat (w AND 0xff)), char_of (unat (drop_bit 8 w))]"

definition config32 :: "string \<Rightarrow> uint32" where
  "config32 s = ucast (config16 s 0) + push_bit 16 (ucast (config16 s 2))"

text \<open>After the link is enabled: the wait for it, or a delay when the bridge does not report it.\<close>

definition link_settle :: "(nat \<Rightarrow> nat \<Rightarrow> (nat + string) io) \<Rightarrow> nat \<Rightarrow> nat \<Rightarrow> nat option io" where
  "link_settle rd caps fuel =
     bindS (rd (caps + PCI_EXP_LNKCAP) 4) (\<lambda>r. case r of
       Inl e \<Rightarrow> ret (Some e)
     | Inr cap_reg \<Rightarrow>
         bindS (if config32 cap_reg AND 0x00100000 \<noteq> 0
                then bindS gettimeofday (\<lambda>start. link_wait (rd (caps + PCI_EXP_LNKSTA) 2) start fuel)
                else bindS (call_void (C_lib ''nanosleep'' [30000000] [])) (\<lambda>_. ret (Some 0))) (\<lambda>w.
           if w = Some 0 then bindS (call_void (C_lib ''nanosleep'' [100000000] [])) (\<lambda>_. ret (Some 0)) else ret w))"

definition pci_bridge_link_set_enable ::
  "nat \<Rightarrow> uint32 \<Rightarrow> uint8 \<Rightarrow> uint8 \<Rightarrow> uint8 \<Rightarrow> bool \<Rightarrow> nat option io" where
  "pci_bridge_link_set_enable fuel domain bus device ftn enable =
     bindS (pci_find_pcie_caps domain bus device ftn 0) (\<lambda>(err, pcie_caps).
     if err \<noteq> 0 then ret (Some err)
     else
     let rd = read_reg domain bus device ftn; lnkctl = unat pcie_caps + PCI_EXP_LNKCTL in
     bindS (rd lnkctl 2) (\<lambda>r. case r of
       Inl e \<Rightarrow> ret (Some e)
     | Inr data \<Rightarrow>
         let reg = (if enable then config16 data 0 AND NOT 0x0010 else config16 data 0 OR 0x0010) in
         bindS (pci_sysfs_write_cfg domain (ucast bus) (ucast device) (ucast ftn) lnkctl (le16 reg)) (\<lambda>(cnt, err).
         case io_error 2 err cnt of
           Some e \<Rightarrow> ret (Some e)
         | None \<Rightarrow> if enable then link_settle rd (unat pcie_caps) fuel else ret (Some 0))))"

subsection \<open>Where the capability is\<close>

definition capability_offset :: "uint8 \<Rightarrow> bool" where
  "capability_offset off \<longleftrightarrow> 64 \<le> off \<and> off AND 3 = 0"

lemma clear_low_mask: "(w :: 'a::len word) AND NOT (mask n) = push_bit n (drop_bit n w)"
  by (rule bit_word_eqI) (auto simp: bit_and_iff bit_not_iff bit_mask_iff bit_push_bit_iff bit_drop_bit_eq)

lemma clear_low_bits:
  fixes w :: uint8
  assumes "64 \<le> w" shows "capability_offset (w AND NOT 3)"
proof -
  have eq: "w AND NOT 3 = push_bit 2 (drop_bit 2 w)"
    using clear_low_mask[of w 2] by (simp add: mask_eq_exp_minus_1)
  have "unat (drop_bit 2 w) = unat w div 4" unfolding unat_drop_bit_eq by (simp add: drop_bit_eq_div)
  moreover have "unat w < 256" using unsigned_less[of w] by simp
  ultimately have "unat (w AND NOT 3) = 4 * (unat w div 4)"
    unfolding eq by (simp add: push_bit_eq_mult unat_word_ariths)
  moreover have "64 \<le> unat w" using assms by (simp add: word_le_nat_alt)
  ultimately have "64 \<le> w AND NOT 3" by (simp add: word_le_nat_alt)
  then show ?thesis by (simp add: capability_offset_def and.assoc)
qed

lemma caps_loop_offset:
  "snd (fst (caps_loop rd ttl off err caps os tr)) = caps \<or> capability_offset (snd (fst (caps_loop rd ttl off err caps os tr)))"
proof (induction ttl arbitrary: off err tr)
  case (Suc ttl)
  show ?case
    by (auto simp: fst_bindS Let_def Suc not_less intro!: clear_low_bits[simplified] split: sum.splits)
qed simp

text \<open>The offset of the PCI Express capability that pci_find_pcie_caps stores is above the standard header and a
  multiple of four, or it is the value the variable had before, whatever the configuration space of the device holds
  (a list that is cyclic or points into the header included).\<close>

theorem pcie_caps_offset:
  "snd (fst (pci_find_pcie_caps domain bus device ftn caps os tr)) \<in> insert caps {off. capability_offset off}"
  using caps_loop_offset unfolding pci_find_pcie_caps_def by blast

text \<open>Whether something was found is not told: the end of the list is no error.\<close>

lemma pcie_caps_missing:
  assumes "read_reg domain bus device ftn 52 1 os tr = (Inr data, es)" and "byte_at data < 64"
  shows "pci_find_pcie_caps domain bus device ftn caps os tr = ((0, caps), es)"
  using assms by (simp add: pci_find_pcie_caps_def caps_loop.simps(2)[of _ 19, simplified] bindS_def)

subsection \<open>The wait ends\<close>

definition ticks :: "trace \<Rightarrow> int" where
  "ticks es = int (length (filter (\<lambda>e. fst e = C_time) es))"

definition clock :: "os \<Rightarrow> bool" where
  "clock os \<longleftrightarrow> (\<forall>tr es. time_of (os_reply os tr C_time) + ticks es \<le> time_of (os_reply os (tr @ es) C_time))"

lemma ticks_append [simp]: "ticks (a @ b) = ticks a + ticks b"
  by (simp add: ticks_def)

lemma ticks_none: "emits (\<lambda>e. fst e \<noteq> C_time) m \<Longrightarrow> ticks (snd (m os tr)) = 0"
  unfolding ticks_def using emits_events[of "\<lambda>e. fst e \<noteq> C_time" m os tr] by (cases "m os tr") (simp add: filter_empty_conv)

lemma timed_out_after: "start + 200000 \<le> now \<Longrightarrow> timed_out start now"
  unfolding timed_out_def by (cases "now - start < 1000000") (auto simp: pos_imp_zdiv_pos_iff)

lemma gettimeofday_run [simp]:
  "gettimeofday os tr = (time_of (os_reply os tr C_time), [(C_time, RReply (os_reply os tr C_time))])"
  by (simp add: gettimeofday_def call_reply_def bindS_def Let_def)

lemma link_wait_ends:
  assumes rd: "emits (\<lambda>e. fst e \<noteq> C_time) rd" and "clock os"
    and "time_of (os_reply os tr0 C_time) = start"
    and "0 < fuel" "200000 < int fuel + ticks es"
  shows "fst (link_wait rd start fuel os (tr0 @ es)) \<noteq> None"
  using assms(4,5)
proof (induction fuel arbitrary: es)
  case (Suc fuel)
  let ?es = "es @ snd (rd os (tr0 @ es))"
  have "start + ticks ?es \<le> time_of (os_reply os (tr0 @ ?es) C_time)"
    using assms(2) unfolding clock_def assms(3)[symmetric] by blast
  then have t: "start + ticks es \<le> time_of (os_reply os (tr0 @ ?es) C_time)"
    unfolding ticks_append ticks_none[OF rd] by simp
  show ?case
  proof (cases "200000 \<le> ticks es")
    case True
    with t have "timed_out start (time_of (os_reply os (tr0 @ ?es) C_time))" by (intro timed_out_after) linarith
    then show ?thesis
      by (cases "fst (rd os (tr0 @ es))") (simp_all add: fst_bindS)
  next
    case False
    then have f: "0 < fuel" using Suc.prems by auto
    have "fst (link_wait rd start fuel os (tr0 @ ?es @ [(C_time, a)])) \<noteq> None" for a
      by (rule Suc.IH[OF f]) (use Suc.prems ticks_none[OF rd, of os "tr0 @ es"] in \<open>simp add: ticks_def\<close>)
    then show ?thesis
      by (cases "fst (rd os (tr0 @ es))") (simp_all add: fst_bindS)
  qed
qed simp

lemma read_cfg_loop_no_clock: "emits (\<lambda>e. fst e \<noteq> C_time) (read_cfg_loop fd len)"
proof (induction fd len rule: read_cfg_loop.induct)
  case (1 fd len)
  show ?case
    by (subst read_cfg_loop.simps) (intro emits_intros 1; simp)
qed

lemma read_reg_no_clock: "emits (\<lambda>e. fst e \<noteq> C_time) (read_reg d b v f off n)"
  unfolding read_reg_def pci_sysfs_read_cfg_def call_void_def
  by (intro emits_intros read_cfg_loop_no_clock; simp)

lemma link_settle_ends:
  assumes "clock os" and "200000 < fuel"
  shows "fst (link_settle (read_reg d b v f) caps fuel os tr) \<noteq> None"
proof -
  let ?r = "read_reg d b v f (caps + PCI_EXP_LNKCAP) 4 os tr"
  have "fst (link_wait (read_reg d b v f (caps + PCI_EXP_LNKSTA) 2) (time_of (os_reply os (tr @ snd ?r) C_time)) fuel os
    ((tr @ snd ?r) @ [(C_time, RReply (os_reply os (tr @ snd ?r) C_time))])) \<noteq> None"
    by (rule link_wait_ends[OF read_reg_no_clock assms(1) refl]) (use assms(2) in \<open>simp_all add: ticks_def\<close>)
  then show ?thesis
    unfolding link_settle_def by (cases "fst ?r") (simp_all add: fst_bindS)
qed

text \<open>Enabling the link of a bridge ends: when every call of gettimeofday reads a later microsecond, the wait for the
  link is over after at most 200001 rounds, whatever the bridge reports, and the function returns.\<close>

theorem bridge_link_ends:
  assumes "clock os" and "200000 < fuel"
  shows "fst (pci_bridge_link_set_enable fuel domain bus device ftn enable os tr) \<noteq> None"
  unfolding pci_bridge_link_set_enable_def
  using link_settle_ends[OF assms]
  by (auto simp: fst_bindS Let_def simp del: not_None_eq split: sum.splits option.splits prod.splits)

definition ticking :: os where
  "ticking = calm\<lparr>os_reply := (\<lambda>tr c. Value [0, ticks tr] [])\<rparr>"

theorem bridge_link_ends_witness:
  "fst (pci_bridge_link_set_enable 200001 0 1 0 0 True ticking []) \<noteq> None"
proof -
  have "clock ticking" by (simp add: clock_def ticking_def time_of_def)
  then show ?thesis by (rule bridge_link_ends) simp
qed

end
