(* ===== verification/Elftool.thy ===== *)
theory Elftool
  imports Info
begin

text \<open>
  elftool.c beyond opening and closing: the tests whether a library depends on
  another and whether it was built for a version of the kernel.  What libelf
  reads from the open file is a parameter, an \<open>elf_file\<close>: the index of the
  section of the section names, the sections in the order of elf_nextscn, the
  strings of the string tables, and the code and text of the last error of the
  library.  Each question libelf may leave unanswered is an option.  The tests take
  the two members of \<open>struct elftool\<close> that they read, the file and its path.
\<close>

unbundle bit_operations_syntax

subsection \<open>What libelf answers\<close>

text \<open>A header of a section, what elf_getdata yields for it, and the entries gelf_getdyn reads there.\<close>

record elf_section =
  sh_name :: nat
  sh_type :: uint32
  sh_link :: nat
  sh_entsize :: nat
  sec_data :: "string option"
  sec_dyn :: "int \<Rightarrow> (int \<times> nat) option"

record elf_file =
  elf_shstrndx :: "nat option"
  elf_scns :: "elf_section option list"
  elf_strptr :: "nat \<Rightarrow> nat \<Rightarrow> string option"
  elf_errno :: int
  elf_errmsg :: "int \<Rightarrow> string option"

record elftool =
  et_fd :: int
  et_elf :: "elf_file option"
  et_path :: "path option"

definition elftool_init :: elftool where
  "elftool_init = \<lparr>et_fd = -1, et_elf = None, et_path = None\<rparr>"

definition error_set_elf :: "elf_file \<Rightarrow> string \<Rightarrow> error" where
  "error_set_elf elf text = (let errcode = elf_errno elf in error_vset errcode (elf_errmsg elf errcode) text)"

abbreviation (input) SHT_DYNAMIC :: uint32 where "SHT_DYNAMIC \<equiv> 6"
abbreviation (input) SHT_NOTE :: uint32 where "SHT_NOTE \<equiv> 7"
abbreviation (input) DT_NEEDED :: int where "DT_NEEDED \<equiv> 1"
abbreviation (input) ELF_NOTE_GNU :: string where "ELF_NOTE_GNU \<equiv> [CHR ''G'', CHR ''N'', CHR ''U'', CHR 0x00]"

subsection \<open>Sections\<close>

definition section_error :: "elf_file \<Rightarrow> path \<Rightarrow> error" where
  "section_error elf path = error_set_elf elf (''elf section read error: '' @ path)"

definition data_error :: "elf_file \<Rightarrow> path \<Rightarrow> error" where
  "data_error elf path = error_set_elf elf (''elf data read error: '' @ path)"

fun scan_sections :: "elf_file \<Rightarrow> path \<Rightarrow> nat \<Rightarrow> uint32 \<Rightarrow> string option \<Rightarrow> elf_section option list \<Rightarrow> elf_section res" where
  "scan_sections elf path shstrndx type name [] =
     Inl (error_setx (''elf section 0x'' @ hex (unat type) @ '' missing: '' @ path))"
| "scan_sections elf path shstrndx type name (None # scns) = Inl (section_error elf path)"
| "scan_sections elf path shstrndx type name (Some shdr # scns) =
     (case elf_strptr elf shstrndx (sh_name shdr) of
        None \<Rightarrow> Inl (section_error elf path)
      | Some shname \<Rightarrow>
          if sh_type shdr = type \<and> name = None then Inr shdr
          else if sh_type shdr = type \<and> str_equal shname (the name) then Inr shdr
          else scan_sections elf path shstrndx type name scns)"

definition lookup_section :: "elf_file \<Rightarrow> path \<Rightarrow> uint32 \<Rightarrow> string option \<Rightarrow> elf_section res" where
  "lookup_section elf path type name =
     (case elf_shstrndx elf of
        None \<Rightarrow> Inl (section_error elf path)
      | Some shstrndx \<Rightarrow> scan_sections elf path shstrndx type name (elf_scns elf))"

subsection \<open>Dependencies\<close>

text \<open>gelf_getdyn takes an int, the loop counts in size_t: an index past the range of int wraps.\<close>

definition dyn_at :: "elf_section \<Rightarrow> nat \<Rightarrow> (int \<times> nat) option" where
  "dyn_at shdr i = sec_dyn shdr (sint (word_of_nat i :: 32 word))"

text \<open>The entries \<open>i\<close>, \<open>i + 1\<close> and so on, \<open>n\<close> of them.\<close>

fun scan_dynamic :: "elf_file \<Rightarrow> path \<Rightarrow> elf_section \<Rightarrow> string \<Rightarrow> nat \<Rightarrow> nat \<Rightarrow> bool res" where
  "scan_dynamic elf path shdr lib i 0 = Inr False"
| "scan_dynamic elf path shdr lib i (Suc n) =
     (case dyn_at shdr i of
        None \<Rightarrow> Inl (data_error elf path)
      | Some (tag, ptr) \<Rightarrow>
          if tag = DT_NEEDED then
            (case elf_strptr elf (sh_link shdr) ptr of
               None \<Rightarrow> Inl (data_error elf path)
             | Some dep \<Rightarrow> if str_has_prefix dep lib then Inr True else scan_dynamic elf path shdr lib (i + 1) n)
          else scan_dynamic elf path shdr lib (i + 1) n)"

text \<open>A section whose entries have no size is divided by: the process ends by the signal 8, \<open>SIGFPE\<close>.\<close>

definition elftool_has_dependency :: "elf_file \<Rightarrow> path \<Rightarrow> string \<Rightarrow> bool res" where
  "elftool_has_dependency elf path lib =
     (case lookup_section elf path SHT_DYNAMIC None of
        Inl e \<Rightarrow> Inl e
      | Inr shdr \<Rightarrow>
          (case sec_data shdr of
             None \<Rightarrow> Inl (data_error elf path)
           | Some data \<Rightarrow>
               if sh_entsize shdr = 0 then Inl (killed 8)
               else scan_dynamic elf path shdr lib 0 (length data div sh_entsize shdr)))"

subsection \<open>The version of the kernel\<close>

text \<open>
  The note: its header holds the sizes of the name and of the descriptor and the
  type, four bytes each.  The sizes are added as values of type size_t and a note
  that is shorter than they say is no note.
\<close>

definition note_matches :: "string \<Rightarrow> uint32 \<Rightarrow> uint32 \<Rightarrow> uint32 \<Rightarrow> bool" where
  "note_matches data a b c =
     (if length data \<le> 12 then False
      else (let namesz = unat (the (u32_at data 0)); descsz = unat (the (u32_at data 4)); n_type = the (u32_at data 8) in
        if length data < 12 + namesz + descsz then False
        else if n_type \<noteq> 1 \<or> namesz \<noteq> 4 \<or> descsz < 16 then False
        else if take namesz (drop 12 data) \<noteq> ELF_NOTE_GNU then False
        else u32_at data (12 + namesz) = Some 0 \<and> u32_at data (16 + namesz) = Some a \<and>
          u32_at data (20 + namesz) = Some b \<and> u32_at data (24 + namesz) = Some c))"

definition elftool_has_abi :: "elf_file \<Rightarrow> path \<Rightarrow> uint32 \<Rightarrow> uint32 \<Rightarrow> uint32 \<Rightarrow> bool res" where
  "elftool_has_abi elf path a b c =
     (case lookup_section elf path SHT_NOTE (Some ''.note.ABI-tag'') of
        Inl e \<Rightarrow> Inl e
      | Inr shdr \<Rightarrow>
          (case sec_data shdr of
             None \<Rightarrow> Inl (data_error elf path)
           | Some data \<Rightarrow> Inr (note_matches data a b c)))"

subsection \<open>What the tests find\<close>

text \<open>The section looked for, and the sections before it: readable, and not it.\<close>

definition section_is :: "uint32 \<Rightarrow> string option \<Rightarrow> (nat \<Rightarrow> string option) \<Rightarrow> elf_section \<Rightarrow> bool" where
  "section_is type name names s \<longleftrightarrow> sh_type s = type \<and> (name = None \<or> names (sh_name s) = name)"

definition section_before :: "uint32 \<Rightarrow> string option \<Rightarrow> (nat \<Rightarrow> string option) \<Rightarrow> elf_section option \<Rightarrow> bool" where
  "section_before type name names os \<longleftrightarrow>
     (case os of None \<Rightarrow> False | Some s \<Rightarrow> names (sh_name s) \<noteq> None \<and> \<not> section_is type name names s)"

lemma first_Cons:
  "(\<exists>pre post. x # xs = pre @ y # post \<and> list_all P pre \<and> Q) \<longleftrightarrow>
     (x = y \<and> Q) \<or> (P x \<and> (\<exists>pre post. xs = pre @ y # post \<and> list_all P pre \<and> Q))"
proof
  assume "(x = y \<and> Q) \<or> (P x \<and> (\<exists>pre post. xs = pre @ y # post \<and> list_all P pre \<and> Q))"
  then show "\<exists>pre post. x # xs = pre @ y # post \<and> list_all P pre \<and> Q"
  proof (elim disjE conjE exE)
    assume "x = y" Q
    then show ?thesis by (intro exI[of _ "[]"] exI[of _ xs]) simp
  next
    fix pre post
    assume "P x" "xs = pre @ y # post" "list_all P pre" Q
    then show ?thesis by (intro exI[of _ "x # pre"] exI[of _ post]) simp
  qed
qed (auto simp: Cons_eq_append_conv)

lemma scan_sections_iff:
  "scan_sections elf path idx type name scns = Inr s \<longleftrightarrow>
     (\<exists>pre post. scns = pre @ Some s # post \<and> list_all (section_before type name (elf_strptr elf idx)) pre \<and>
        section_is type name (elf_strptr elf idx) s \<and> elf_strptr elf idx (sh_name s) \<noteq> None)"
proof (induction scns)
  case (Cons os scns)
  note step = first_Cons[of os scns "Some s" "section_before type name (elf_strptr elf idx)"]
  show ?case
  proof (cases os)
    case None
    then show ?thesis unfolding step by (simp add: section_before_def)
  next
    case h: (Some h)
    show ?thesis
    proof (cases "elf_strptr elf idx (sh_name h)")
      case None
      with h show ?thesis unfolding step by (auto simp: section_before_def)
    next
      case (Some shname)
      then have run: "scan_sections elf path idx type name (Some h # scns) =
        (if section_is type name (elf_strptr elf idx) h then Inr h else scan_sections elf path idx type name scns)"
        by (cases name) (simp_all add: section_is_def str_equal_def)
      have "section_before type name (elf_strptr elf idx) (Some h) \<longleftrightarrow> \<not> section_is type name (elf_strptr elf idx) h"
        using Some by (simp add: section_before_def)
      with Some Cons.IH show ?thesis unfolding step unfolding h run by (cases "h = s") auto
    qed
  qed
qed simp

lemma unat_less_32: "unat (w :: uint32) < 2 ^ 32"
  using unsigned_less[of w] by simp

lemma byte_split:
  fixes a b c d :: nat
  assumes "a < 256" "b < 256" "c < 256" "d < 256"
  defines "n \<equiv> a + 256 * (b + 256 * (c + 256 * d))"
  shows "n mod 256 = a" "n div 256 mod 256 = b" "n div 65536 mod 256 = c" "n div 16777216 mod 256 = d"
proof -
  have q: "n div 65536 = n div 256 div 256" "n div 16777216 = n div 256 div 256 div 256"
    by (simp_all add: div_mult2_eq[symmetric])
  have r: "(x + 256 * y) div 256 = y" "(x + 256 * y) mod 256 = x" if "x < 256" for x y :: nat
    using that by simp_all
  have "n div 256 = b + 256 * (c + 256 * d)" "(b + 256 * (c + 256 * d)) div 256 = c + 256 * d"
    "(c + 256 * d) div 256 = d"
    unfolding n_def using assms(1-3) by (simp_all only: r)
  with assms(1-4) show "n mod 256 = a" "n div 256 mod 256 = b" "n div 65536 mod 256 = c" "n div 16777216 mod 256 = d"
    unfolding q by (simp_all only: n_def r mod_less)
qed

lemma u32_at_bytes:
  assumes "u32_at data i = Some w"
  shows "take 4 (drop i data) = le32 (unat w)"
proof -
  from assms have len: "i + 4 \<le> length data" and
    w: "w = word_of_nat (ord (data ! i) + 256 * ord (data ! (i + 1)) + 65536 * ord (data ! (i + 2)) +
      16777216 * ord (data ! (i + 3)))"
    by (auto simp: u32_at_def split: if_splits)
  let ?b = "\<lambda>j. ord (data ! (i + j))"
  have b: "?b j < 256" for j by (simp add: ord_def)
  let ?n = "?b 0 + 256 * ?b 1 + 65536 * ?b 2 + 16777216 * ?b 3"
  have "?n < 2 ^ 32" using b[of 0] b[of 1] b[of 2] b[of 3] by simp
  moreover have "w = word_of_nat ?n" using w by simp
  ultimately have n: "unat w = ?n" by (simp only: unat_word_small)
  have d: "?n mod 256 = ?b 0" "?n div 256 mod 256 = ?b 1" "?n div 65536 mod 256 = ?b 2" "?n div 16777216 mod 256 = ?b 3"
    using byte_split[OF b[of 0] b[of 1] b[of 2] b[of 3]] by (simp_all add: algebra_simps)
  have "take 4 (drop i data) = map (\<lambda>j. data ! (i + j)) [0, 1, 2, 3]"
    using len by (auto simp: list_eq_iff_nth_eq nth_Cons' eval_nat_numeral less_Suc_eq)
  then show ?thesis unfolding n le32_def d by (simp add: ord_def)
qed

text \<open>The bytes of a note for a version \<open>a.b.c\<close>, whose descriptor has \<open>k\<close> more bytes than the version takes.\<close>

definition encode_note :: "uint32 \<Rightarrow> uint32 \<Rightarrow> uint32 \<Rightarrow> nat \<Rightarrow> string \<Rightarrow> string" where
  "encode_note a b c k rest =
     le32 4 @ le32 (16 + k) @ le32 1 @ ELF_NOTE_GNU @ le32 0 @ le32 (unat a) @ le32 (unat b) @ le32 (unat c) @ rest"

lemma u32_at_eq_iff: "u32_at data i = Some w \<longleftrightarrow> take 4 (drop i data) = le32 (unat w)"
proof
  assume t: "take 4 (drop i data) = le32 (unat w)"
  from arg_cong[OF t, of length] have i: "i + 4 \<le> length data" by simp
  have "data = take i data @ le32 (unat w) @ drop (i + 4) data"
    unfolding t[symmetric] by (metis add.commute append_take_drop_id drop_drop)
  then show "u32_at data i = Some w"
    using u32_at_le32[of "unat w" "take i data" "drop (i + 4) data"] i unat_less_32[of w] by simp
qed (rule u32_at_bytes)

lemma take4_le32 [simp]: "take 4 (le32 n @ xs) = le32 n" "drop 4 (le32 n @ xs) = xs"
  by simp_all

lemma note_matches_encode:
  assumes "k < 2 ^ 32 - 16" "k \<le> length rest"
  shows "note_matches (encode_note a b c k rest) a b c"
proof -
  let ?d = "encode_note a b c k rest"
  have len: "length ?d = 32 + length rest" by (simp add: encode_note_def)
  have h: "u32_at ?d 0 = Some 4" "u32_at ?d 4 = Some (word_of_nat (16 + k))" "u32_at ?d 8 = Some 1"
    using u32_at_le32[of 4 "[]"] u32_at_le32[of "16 + k" "le32 4"] u32_at_le32[of 1 "le32 4 @ le32 (16 + k)"] assms
    by (simp_all add: encode_note_def)
  have v: "u32_at ?d 16 = Some 0" "u32_at ?d 20 = Some a" "u32_at ?d 24 = Some b" "u32_at ?d 28 = Some c"
    by (simp_all add: u32_at_eq_iff encode_note_def le32_def)
  have g: "take 4 (drop 12 ?d) = ELF_NOTE_GNU" by (simp add: encode_note_def le32_def)
  have "unat (word_of_nat (16 + k) :: uint32) = 16 + k" using assms by (simp only: unat_word_small)
  with h v g len assms show ?thesis by (simp add: note_matches_def Let_def)
qed

lemma note_matches_decode:
  assumes "note_matches data a b c"
  shows "\<exists>k rest. data = encode_note a b c k rest \<and> k < 2 ^ 32 - 16 \<and> k \<le> length rest"
proof -
  have chop: "drop i data = take 4 (drop i data) @ drop (i + 4) data" for i
    by (metis add.commute append_take_drop_id drop_drop)
  obtain n d t where h: "u32_at data 0 = Some n" "u32_at data 4 = Some d" "u32_at data 8 = Some t"
    using assms by (auto simp: note_matches_def u32_at_def split: if_splits)
  with assms have m: "unat n = 4" "16 \<le> unat d" "t = 1" "28 + (unat d - 16) \<le> length data - 4"
    "take 4 (drop 12 data) = ELF_NOTE_GNU" "u32_at data 16 = Some 0" "u32_at data 20 = Some a" "u32_at data 24 = Some b"
    "u32_at data 28 = Some c"
    by (auto simp: note_matches_def Let_def split: if_splits)
  from h m have "data = encode_note a b c (unat d - 16) (drop 32 data)"
    using chop[of 0] chop[of 4] chop[of 8] chop[of 12] chop[of 16] chop[of 20] chop[of 24] chop[of 28]
    by (simp add: encode_note_def u32_at_eq_iff)
  moreover have "unat d < 2 ^ 32" using unat_less_32 .
  ultimately show ?thesis using m by (intro exI[of _ "unat d - 16"] exI[of _ "drop 32 data"]) auto
qed

lemma lookup_section_iff:
  "lookup_section elf path type name = Inr s \<longleftrightarrow>
     (\<exists>idx pre post. elf_shstrndx elf = Some idx \<and> elf_scns elf = pre @ Some s # post \<and>
        list_all (section_before type name (elf_strptr elf idx)) pre \<and>
        section_is type name (elf_strptr elf idx) s \<and> elf_strptr elf idx (sh_name s) \<noteq> None)"
  by (simp add: lookup_section_def scan_sections_iff split: option.split)

text \<open>An entry libelf can read, and one that names a library with the prefix \<open>lib\<close>.\<close>

definition entry_read :: "elf_file \<Rightarrow> elf_section \<Rightarrow> nat \<Rightarrow> bool" where
  "entry_read elf s i \<longleftrightarrow>
     (case dyn_at s i of None \<Rightarrow> False | Some (tag, ptr) \<Rightarrow> tag \<noteq> DT_NEEDED \<or> elf_strptr elf (sh_link s) ptr \<noteq> None)"

definition entry_needs :: "elf_file \<Rightarrow> elf_section \<Rightarrow> string \<Rightarrow> nat \<Rightarrow> bool" where
  "entry_needs elf s lib i \<longleftrightarrow>
     (\<exists>ptr dep. dyn_at s i = Some (DT_NEEDED, ptr) \<and> elf_strptr elf (sh_link s) ptr = Some dep \<and> prefix lib dep)"

lemma scan_dynamic_step:
  "scan_dynamic elf path s lib i (Suc n) =
     (if entry_needs elf s lib i then Inr True
      else if entry_read elf s i then scan_dynamic elf path s lib (i + 1) n else Inl (data_error elf path))"
  by (auto simp: entry_needs_def entry_read_def split: option.split)

lemma scan_dynamic_True:
  "scan_dynamic elf path s lib i n = Inr True \<longleftrightarrow>
     (\<exists>j. i \<le> j \<and> j < i + n \<and> entry_needs elf s lib j \<and> list_all (entry_read elf s) [i..<j])"
proof (induction n arbitrary: i)
  case (Suc n)
  have "(\<exists>j. i \<le> j \<and> j < i + Suc n \<and> entry_needs elf s lib j \<and> list_all (entry_read elf s) [i..<j]) \<longleftrightarrow>
    entry_needs elf s lib i \<or>
    entry_read elf s i \<and> (\<exists>j. i + 1 \<le> j \<and> j < i + 1 + n \<and> entry_needs elf s lib j \<and> list_all (entry_read elf s) [i + 1..<j])"
    (is "?l \<longleftrightarrow> ?r")
  proof
    assume ?l
    then obtain j where j: "i \<le> j" "j < i + Suc n" "entry_needs elf s lib j" "list_all (entry_read elf s) [i..<j]" by blast
    then show ?r by (cases "i = j") (auto simp: upt_conv_Cons)
  next
    assume ?r
    then show ?l
    proof (elim disjE conjE exE)
      fix j
      assume "entry_read elf s i" "i + 1 \<le> j" "j < i + 1 + n" "entry_needs elf s lib j" "list_all (entry_read elf s) [i + 1..<j]"
      then show ?l by (intro exI[of _ j]) (simp add: upt_conv_Cons)
    qed (auto intro!: exI[of _ i])
  qed
  then show ?case unfolding Suc.IH[symmetric] by (simp add: scan_dynamic_step del: scan_dynamic.simps)
qed simp

lemma scan_dynamic_False:
  "scan_dynamic elf path s lib i n = Inr False \<longleftrightarrow>
     list_all (\<lambda>j. entry_read elf s j \<and> \<not> entry_needs elf s lib j) [i..<i + n]"
  by (induction n arbitrary: i) (simp_all add: scan_dynamic_step upt_conv_Cons del: scan_dynamic.simps(2) upt_Suc)

subsection \<open>Properties\<close>

text \<open>C28: a library has the tested kernel version exactly if the first note section named .note.ABI-tag, behind
  sections that are readable, holds a GNU note for Linux with that version, complete in the section: every shorter,
  truncated or differently named note is rejected, none is read past its end.\<close>

theorem elftool_has_abi_iff:
  "elftool_has_abi elf path a b c = Inr True \<longleftrightarrow>
     (\<exists>idx pre s post k rest. elf_shstrndx elf = Some idx \<and> elf_scns elf = pre @ Some s # post \<and>
        list_all (section_before SHT_NOTE (Some ''.note.ABI-tag'') (elf_strptr elf idx)) pre \<and>
        sh_type s = SHT_NOTE \<and> elf_strptr elf idx (sh_name s) = Some ''.note.ABI-tag'' \<and>
        sec_data s = Some (encode_note a b c k rest) \<and> k < 2 ^ 32 - 16 \<and> k \<le> length rest)"
proof -
  have "elftool_has_abi elf path a b c = Inr True \<longleftrightarrow>
      (\<exists>s data. lookup_section elf path SHT_NOTE (Some ''.note.ABI-tag'') = Inr s \<and> sec_data s = Some data \<and> note_matches data a b c)"
    by (auto simp: elftool_has_abi_def split: sum.split option.split)
  also have "\<dots> \<longleftrightarrow> (\<exists>s k rest. lookup_section elf path SHT_NOTE (Some ''.note.ABI-tag'') = Inr s \<and>
      sec_data s = Some (encode_note a b c k rest) \<and> k < 2 ^ 32 - 16 \<and> k \<le> length rest)"
    using note_matches_encode note_matches_decode by metis
  finally show ?thesis unfolding lookup_section_iff section_is_def by (auto; blast)
qed

text \<open>C0: the test for a dependency answers yes exactly if one of the entries the section of dynamic entries has
  room for names a library with the prefix, and every entry before it is readable.\<close>

theorem elftool_has_dependency_iff:
  "elftool_has_dependency elf path lib = Inr True \<longleftrightarrow>
     (\<exists>s data j. lookup_section elf path SHT_DYNAMIC None = Inr s \<and> sec_data s = Some data \<and>
        j < length data div sh_entsize s \<and> entry_needs elf s lib j \<and> list_all (entry_read elf s) [0..<j])"
  by (auto simp: elftool_has_dependency_def scan_dynamic_True split: sum.split option.split)

lemma elftool_has_dependency_False:
  "elftool_has_dependency elf path lib = Inr False \<longleftrightarrow>
     (\<exists>s data. lookup_section elf path SHT_DYNAMIC None = Inr s \<and> sec_data s = Some data \<and> sh_entsize s \<noteq> 0 \<and>
        list_all (\<lambda>j. entry_read elf s j \<and> \<not> entry_needs elf s lib j) [0..<length data div sh_entsize s])"
  by (auto simp: elftool_has_dependency_def scan_dynamic_False split: sum.split option.split)

text \<open>A library has one version.\<close>

lemma elftool_has_abi_unique:
  assumes "elftool_has_abi elf path a b c = Inr True" "elftool_has_abi elf path a' b' c' = Inr True"
  shows "a = a' \<and> b = b' \<and> c = c'"
  using assms by (auto simp: elftool_has_abi_def note_matches_def Let_def split: sum.splits option.splits if_splits)

end
