(* ===== verification/Spec2Isabelle.thy ===== *)
theory Spec2Isabelle
  imports Program Stubs PciLink Elftool
begin

text \<open>
  A verification development for libxdxgpu-container, the library and command line
  tool that make the devices and the driver of a GPU available inside a container.

  \<^bold>\<open>The program.\<close>  The command line tool (cli/) has three commands, \<open>configure\<close>, \<open>list\<close> and
  \<open>info\<close>.  Each limits its capabilities and opens the library (nvc.c).  Opening it loads
  the kernel modules in a child process and starts two service processes that it calls
  over sockets (rpc.c): the driver service (driver.c), which changes its root and drops
  its privileges before it loads the management library, and the Go service (nvcgo.c),
  which edits device cgroups (cgroup.c).  The library then looks up the container
  (nvc_container.c), the files of the driver (nvc_info.c, ldcache.c) and the devices,
  checks what the container requires (cli/dsl.c), mounts what was selected below the root
  of the container (nvc_mount.c), and runs ldconfig in a confined child (nvc_ldcache.c).
  Every path in a container is hostile; utils.c resolves it below the root.

  \<^bold>\<open>The shape of the model.\<close>  Sys is the boundary of the program: each call of the kernel
  or of a linked library is a \<open>call\<close>, answered by an environment \<open>os\<close> that is a function of
  the events so far, so nothing is assumed about the answers, their order or what other
  processes do between two calls.  A function of the source is a function in the type
  \<open>'a io\<close>, which threads the environment and yields its result and its events; \<open>'a ioE\<close> adds
  the error of error_generic.c.  Early returns, \<open>goto fail\<close> and cleanup are \<open>bindE\<close>, \<open>onfail\<close>
  and \<open>lastly\<close>.  A dereference of a null pointer ends a run with \<open>null_deref\<close>, and the end of
  a process with \<open>exited\<close>.  Pure functions of the source are functions of HOL; integers
  are words where the width shows.

  \<^bold>\<open>The theories.\<close>
  \<^item> Prelude, CString: names for types, generic lemmas, the C string library.
  \<^item> Sys, XFuncs: the boundary, errors (error_generic.c, error.c) and the wrappers of xfuncs.h.
  \<^item> Monitor, Lookups: two calculi.  \<open>emits\<close> and \<open>safe\<close> carry a predicate or an automaton
    over the events of a run through the combinators; \<open>gives\<close> bounds results; a lookup only
    observes.
  \<^item> StrUtils, PathUtils, FileUtils, Perm: the four parts of utils.c.
  \<^item> Options: options.c and options.h.  Dsl: cli/dsl.c.
  \<^item> NvcTypes: the structures of nvc.h and nvc_internal.h, device numbers, scanf.
  \<^item> Devices: the selection of devices in cli/common.c.
  \<^item> DeviceCgroup, CgroupLegacy, Cgroup: cgroup.h as a locale, cgroup_legacy.c and cgroup.c.
  \<^item> Rpc, Driver: rpc.c, driver.c and nvcgo.c, services with their clients and handlers.
  \<^item> Xdr, Stubs: nvc_rpc.h and nvc_xdr.c, nvc_svc.c and nvc_clt.c, the remote calls.
  \<^item> Pci, PciLink, Modprobe: the bundled utilities of nvidia-modprobe.
  \<^item> Container, Libraries, Ldcache, Info, Dxcore: nvc_container.c, the two halves of
    nvc_info.c, ldcache.c, dxcore.c.
  \<^item> Mount, MountSpec, MountOps: nvc_mount.c, its primitives, what they guarantee, its
    operations.
  \<^item> Elftool: elftool.c and error_set_elf, the tests on the ELF file of a library.
  \<^item> Log: the log file of utils.c.  Ldconfig: nvc_ldcache.c.  Nvc: nvc.c.
  \<^item> Cli, Commands: the parsers and the three commands of cli/.
  \<^item> Requirements: what spans them, the order of the stages of the configure command.
  \<^item> LibNvc: cli/libnvc.c, binding the functions of this library or of an older one.
  \<^item> Program: cli/main.c, the tables of options, the choice of the command and main.

  \<^bold>\<open>The interfaces.\<close>  \<open>device_cgroup\<close> (DeviceCgroup) bounds the calls of the three cgroup
  operations and holds for the legacy and the Go implementation; container creation and
  mounts rest on it.  \<open>service\<close> (Driver) is a process with a client and holds for the
  driver and the Go service; Nvc rests on it.  \<open>mounter\<close> (MountSpec) is a primitive that
  injects one thing below the root of a container or leaves nothing mounted, and holds
  for seven of them.  \<open>bounded_add\<close> (NvcTypes) is a collection with a capacity, and holds for
  the two device lists.  \<open>rpc_library\<close> (Xdr) is what the RPC library promises of the basic
  types, and holds for the representation of RFC 4506.

  \<^bold>\<open>What is proved.\<close>
  \<^item> Confinement: a resolved path lies below its root and nothing above the root is
    opened; symbolic links are followed as a lexical specification says; resolution ends
    and leaves one descriptor; ldconfig runs only after the root, the resources, the
    privileges and the system calls are given up; the management library is loaded only
    after the root and the privileges are.
  \<^item> Mounts: each primitive mounts below the root or leaves nothing; an injection that
    fails is rolled back; each operation returns to the namespace of the library.
  \<^item> Order: the program, from main to its end, touches a container only when the command
    line asks for configure and every requirement it states was satisfied for every visible
    device; creating a container context only observes; the log is written only while it
    is open.
  \<^item> The library: an invariant of its state, kept by opening and closing; closing it waits
    for the services it started and closes the log; the functions an older library lacks are never needed.
  \<^item> Remote calls: through encoding, dispatch and decoding, a call of a client is the run
    of the handler of that name.
  \<^item> Requirements: evaluation is that of a disjunctive normal form, comparison of versions is
    that of a linear order; no rule can be false on what the library now reports.
  \<^item> Lookups: the reader of ld.so.cache refines a specification on the list of its
    entries; the device information lists the nodes of the devices; cgroup lines are
    found where the format of proc puts them; PCI devices are counted exactly.
  \<^item> Kernel utilities: device nodes are made with the type, number, mode and owner asked for,
    or the failure is reported; device numbers agree with those of the C library below a
    bound.
  \<^item> ELF files: the test of the kernel version accepts exactly the complete GNU notes of that
    version, the test of a dependency the libraries that name one.
  \<^item> Options, arrays, identifiers, capabilities: each operation on every branch; every option
    of the command line is known to its parser.

  \<^bold>\<open>Loops.\<close>  A loop over a list is structural recursion; a loop over text or a buffer has a
  measure.  The loop of do_path_resolve is bounded by the links it may follow and the
  components left, the walk along PCI capabilities by its counter.  Only the wait for the
  link of a bridge has fuel, since it depends on a clock; 200001 rounds are shown to be
  enough when the clock advances.

  \<^bold>\<open>Not modelled.\<close>
  \<^item> The Go library (nvcgo/), the management library and its header nvml.h, libcap, libdxcore
    and the kernel are answered by the environment; libelf and argp are parameters, the file
    as libelf reads it and the callbacks argp makes.  libcap has hypotheses where a property
    needs its results.
  \<^item> The lines the library logs, but for the output of ldconfig; the definitions of debug.h,
    for debugging builds; freeing memory.
  \<^item> The library of version 0 that cli/libnvc.c may load: its functions are parameters of the
    wrappers, and the commands are modelled on the library they are linked with.
  \<^item> The help texts of the options.
  \<^item> A residual error message that a call leaves behind when it succeeds.
  \<^item> Tests, packaging and build files.  Architecture-dependent values are those of x86_64.
\<close>

end
